(* ===== verification/Prelude.thy ===== *)
theory Prelude
  imports Main "HOL-Library.Word" "HOL-Library.Char_ord" "HOL-Library.List_Lexorder"
    "HOL-Library.Product_Lexorder"
begin

text \<open>
  What the component theories share.  Go values first: byte strings, 64-bit words, errors as
  values of a sum type, the checks of Go's index and slice expressions.  Then the key-value
  store under every keeper, as a finite map that is iterated in ascending key order, with the
  interface \<open>kv_store\<close> the keepers rely on; a store with a secondary index (\<open>indexed_store\<close>);
  and the interface \<open>gated_machine\<close> of message handlers that only an authority may use.
  The collections \<open>go_defs\<close> and \<open>res_simps\<close> carry the unfolding and the inversion of handlers.
\<close>

named_theorems go_defs "definitions of the model that a proof may unfold freely"
named_theorems res_simps "inversion of successful and failing computations"

section \<open>Go values\<close>

text \<open>Go strings and byte slices are byte sequences: \<open>len\<close> counts bytes, comparison is bytewise.\<close>

type_synonym bytes = string
type_synonym u64 = "64 word"
type_synonym u32 = "32 word"

definition MaxUint64 :: int where
  "MaxUint64 = 2 ^ 64 - 1"

text \<open>\<open>uint64(len(s))\<close>.  A Go length is at most \<open>2 ^ 63 - 1\<close>, so no length is truncated.\<close>

definition len64 :: "'a list \<Rightarrow> u64" where
  "len64 xs = of_nat (length xs)"

definition go_sized :: "'a list \<Rightarrow> bool" where
  "go_sized xs \<longleftrightarrow> length xs < 2 ^ 63"

lemma unat_len64: "go_sized xs \<Longrightarrow> unat (len64 xs) = length xs"
  by (simp add: go_sized_def len64_def unat_of_nat take_bit_nat_eq_self_iff)

lemma len64_le_iff: "go_sized xs \<Longrightarrow> len64 xs \<le> w \<longleftrightarrow> length xs \<le> unat w"
  by (simp add: word_le_nat_alt unat_len64)

lemma len64_eq_0_iff: "go_sized xs \<Longrightarrow> len64 xs = 0 \<longleftrightarrow> xs = []"
  by (metis length_0_conv unat_len64 unat_eq_zero)

lemma unat_succ:
  fixes w :: u64
  assumes "w \<noteq> - 1"
  shows "unat (w + 1) = Suc (unat w)"
proof -
  have "w + 1 \<noteq> 0"
    using assms by (metis add.commute add.right_inverse add_left_imp_eq)
  then show ?thesis
    using unat_minus_one [of "w + 1"] by (simp add: unat_gt_0 Suc_pred')
qed

lemma word_less_succ: "(w :: u64) \<noteq> - 1 \<Longrightarrow> w < w + 1"
  by (simp add: word_less_nat_alt unat_succ)

lemma unat_succ_le: "unat ((w :: u64) + 1) \<le> Suc (unat w)"
  by (cases "w = - 1") (simp_all add: unat_succ)

section \<open>Errors as values\<close>

text \<open>
  A registered module error (\<open>errorsmod.Register(codespace, code, _)\<close>; wrapping keeps the code),
  a sentinel error of the SDK by its Go name, an error made on the spot by \<open>errors.New\<close> or
  \<open>fmt.Errorf\<close>, a gRPC status, an error reported by code outside the repository, and a panic.
\<close>

datatype go_error =
    Registered string nat
  | SdkErr string
  | Plain string
  | Status string
  | External string
  | GoPanic string

type_synonym 'a result = "go_error + 'a"

fun bindr :: "'a result \<Rightarrow> ('a \<Rightarrow> 'b result) \<Rightarrow> 'b result" where
  "bindr (Inl e) f = Inl e"
| "bindr (Inr x) f = f x"

text \<open>
  \<open>if !ok { return err }\<close>, and \<open>if err != nil { return Wrap(E, err) }\<close>, which a panic of the
  call passes by.
\<close>

definition ensure :: "bool \<Rightarrow> go_error \<Rightarrow> unit result" where
  "ensure ok e = (if ok then Inr () else Inl e)"

definition wrap_as :: "go_error \<Rightarrow> 'a result \<Rightarrow> 'a result" where
  "wrap_as e r =
     (case r of Inl e0 \<Rightarrow> (case e0 of GoPanic s \<Rightarrow> Inl (GoPanic s) | _ \<Rightarrow> Inl e) | Inr x \<Rightarrow> Inr x)"

text \<open>A deferred \<open>recover\<close>: a panic of the body becomes the given error.\<close>

definition recover_as :: "go_error \<Rightarrow> 'a result \<Rightarrow> 'a result" where
  "recover_as e r = (case r of Inl (GoPanic _) \<Rightarrow> Inl e | _ \<Rightarrow> r)"

fun is_panic :: "'a result \<Rightarrow> bool" where
  "is_panic (Inl (GoPanic _)) = True"
| "is_panic _ = False"

text \<open>\<open>panic(err)\<close> on an error result.\<close>

definition must :: "'a result \<Rightarrow> 'a result" where
  "must r = (case r of Inl _ \<Rightarrow> Inl (GoPanic ''err'') | Inr x \<Rightarrow> Inr x)"

lemma bindr_Inr_iff [res_simps, simp]:
  "bindr r f = Inr y \<longleftrightarrow> (\<exists>x. r = Inr x \<and> f x = Inr y)"
  by (cases r) auto

lemma bindr_Inl_iff [res_simps]:
  "bindr r f = Inl e \<longleftrightarrow> r = Inl e \<or> (\<exists>x. r = Inr x \<and> f x = Inl e)"
  by (cases r) auto

lemma ensure_Inr_iff [res_simps, simp]: "ensure ok e = Inr u \<longleftrightarrow> ok"
  by (cases u) (simp add: ensure_def)

lemma ensure_Inl_iff [res_simps, simp]: "ensure ok e = Inl e' \<longleftrightarrow> \<not> ok \<and> e' = e"
  by (auto simp: ensure_def)

lemma ensure_True [simp]: "ensure True e = Inr ()"
  by (simp add: ensure_def)

lemma ensure_False [simp]: "ensure False e = Inl e"
  by (simp add: ensure_def)

lemma wrap_as_Inr_iff [res_simps, simp]: "wrap_as e r = Inr x \<longleftrightarrow> r = Inr x"
  by (auto simp: wrap_as_def split: sum.splits go_error.splits)

lemma wrap_as_Inr [simp]: "wrap_as e (Inr x) = Inr x"
  by simp

lemma wrap_as_Inl_iff [res_simps]:
  "wrap_as e r = Inl e' \<longleftrightarrow> (\<exists>e0. r = Inl e0 \<and> e' = (if is_panic r then e0 else e))"
  by (auto simp: wrap_as_def split: sum.splits go_error.splits)

lemma recover_as_Inr_iff [res_simps, simp]: "recover_as e r = Inr x \<longleftrightarrow> r = Inr x"
  by (auto simp: recover_as_def split: sum.splits go_error.splits)

lemma must_Inr_iff [res_simps, simp]: "must r = Inr x \<longleftrightarrow> r = Inr x"
  by (auto simp: must_def split: sum.splits)

lemma must_Inr [simp]: "must (Inr x) = Inr x"
  by simp

lemma if_Inl_else_Inr [res_simps]:
  "((if c then Inl e else r) = Inr x) \<longleftrightarrow> \<not> c \<and> r = Inr x"
  by auto

lemma recover_as_not_panic: "\<not> is_panic (Inl e :: 'a result) \<Longrightarrow> \<not> is_panic (recover_as e (r :: 'a result))"
  by (cases r) (auto simp: recover_as_def split: go_error.splits)

lemma bindr_not_panic:
  "\<not> is_panic r \<Longrightarrow> (\<And>x. r = Inr x \<Longrightarrow> \<not> is_panic (f x)) \<Longrightarrow> \<not> is_panic (bindr r f)"
  by (cases r) (auto elim: is_panic.elims)

lemma is_panic_bindr: "is_panic (bindr r f) \<longleftrightarrow> is_panic r \<or> (\<exists>x. r = Inr x \<and> is_panic (f x))"
proof (cases r)
  case (Inl e)
  then show ?thesis by (cases e) simp_all
qed simp

lemma is_panic_ensure: "is_panic (ensure ok e) \<longleftrightarrow> \<not> ok \<and> is_panic (Inl e :: unit result)"
  by (simp add: ensure_def)

lemma is_panic_Inr [simp]: "\<not> is_panic (Inr x)"
  by simp

lemma ensure_not_panic: "\<not> is_panic (Inl e :: unit result) \<Longrightarrow> \<not> is_panic (ensure ok e)"
  by (simp add: ensure_def)

lemma wrap_as_not_panic:
  "\<not> is_panic (Inl e :: 'a result) \<Longrightarrow> \<not> is_panic (r :: 'a result) \<Longrightarrow> \<not> is_panic (wrap_as e r)"
  by (cases r) (auto simp: wrap_as_def split: go_error.splits)

text \<open>Running a fallible body over a list, stopping at the first error.\<close>

fun for_each :: "'a list \<Rightarrow> ('a \<Rightarrow> unit result) \<Rightarrow> unit result" where
  "for_each [] f = Inr ()"
| "for_each (x # xs) f = bindr (f x) (\<lambda>_. for_each xs f)"

fun fold_each :: "('a \<Rightarrow> 's \<Rightarrow> 's result) \<Rightarrow> 'a list \<Rightarrow> 's \<Rightarrow> 's result" where
  "fold_each f [] s = Inr s"
| "fold_each f (x # xs) s = bindr (f x s) (fold_each f xs)"

fun map_each :: "('a \<Rightarrow> 'b result) \<Rightarrow> 'a list \<Rightarrow> 'b list result" where
  "map_each f [] = Inr []"
| "map_each f (x # xs) = bindr (f x) (\<lambda>y. bindr (map_each f xs) (\<lambda>ys. Inr (y # ys)))"

lemma for_each_Inr_iff [res_simps, simp]:
  "for_each xs f = Inr u \<longleftrightarrow> (\<forall>x \<in> set xs. f x = Inr ())"
  by (induction xs) auto

lemma for_each_not_panic: "(\<And>x. x \<in> set xs \<Longrightarrow> \<not> is_panic (f x)) \<Longrightarrow> \<not> is_panic (for_each xs f)"
  by (induction xs) (simp_all add: bindr_not_panic)

lemma map_each_Inr_iff:
  "map_each f xs = Inr ys \<longleftrightarrow> list_all2 (\<lambda>x y. f x = Inr y) xs ys"
  by (induction xs arbitrary: ys) (auto simp: list_all2_Cons1)

lemma map_each_length: "map_each f xs = Inr ys \<Longrightarrow> length ys = length xs"
  by (auto simp: map_each_Inr_iff dest: list_all2_lengthD)

lemma fold_each_append:
  "fold_each f (xs @ ys) s = bindr (fold_each f xs s) (fold_each f ys)"
proof (induction xs arbitrary: s)
  case (Cons x xs)
  then show ?case by (cases "f x s") auto
qed simp

text \<open>An invariant that every successful body keeps holds after the loop.\<close>

lemma fold_each_invariant:
  assumes "fold_each f xs s = Inr t" and "P s"
    and "\<And>x s t. x \<in> set xs \<Longrightarrow> f x s = Inr t \<Longrightarrow> P s \<Longrightarrow> P t"
  shows "P t"
  using assms by (induction xs arbitrary: s) auto

section \<open>Index and slice expressions\<close>

text \<open>\<open>xs[i]\<close> and \<open>xs[lo:hi]\<close> with Go's bounds checks; out of range is a run-time panic.\<close>

definition go_index :: "'a list \<Rightarrow> nat \<Rightarrow> 'a result" where
  "go_index xs i = (if i < length xs then Inr (xs ! i) else Inl (GoPanic ''index out of range''))"

definition go_slice :: "'a list \<Rightarrow> nat \<Rightarrow> nat \<Rightarrow> 'a list result" where
  "go_slice xs lo hi =
     (if lo \<le> hi \<and> hi \<le> length xs then Inr (take (hi - lo) (drop lo xs))
      else Inl (GoPanic ''slice bounds out of range''))"

lemma go_index_Inr [simp]: "i < length xs \<Longrightarrow> go_index xs i = Inr (xs ! i)"
  by (simp add: go_index_def)

lemma go_slice_Inr [simp]:
  "lo \<le> hi \<Longrightarrow> hi \<le> length xs \<Longrightarrow> go_slice xs lo hi = Inr (take (hi - lo) (drop lo xs))"
  by (simp add: go_slice_def)

lemma go_index_Inr_iff: "go_index xs i = Inr x \<longleftrightarrow> i < length xs \<and> x = xs ! i"
  by (auto simp: go_index_def)

lemma go_slice_Inr_iff:
  "go_slice xs lo hi = Inr ys \<longleftrightarrow> lo \<le> hi \<and> hi \<le> length xs \<and> ys = take (hi - lo) (drop lo xs)"
  by (auto simp: go_slice_def)

section \<open>The key-value store\<close>

text \<open>
  A keeper's collection: the entries in ascending key order, which is the order a walk visits
  them in.  Encoding and I/O errors of the underlying store are not represented.
\<close>

type_synonym ('k, 'v) kv = "('k \<times> 'v) list"

definition kv_wf :: "('k :: linorder, 'v) kv \<Rightarrow> bool" where
  "kv_wf s \<longleftrightarrow> sorted_wrt (<) (map fst s)"

definition kv_get :: "('k, 'v) kv \<Rightarrow> 'k \<Rightarrow> 'v option" where
  "kv_get s k = map_of s k"

fun kv_set :: "'k :: linorder \<Rightarrow> 'v \<Rightarrow> ('k, 'v) kv \<Rightarrow> ('k, 'v) kv" where
  "kv_set k v [] = [(k, v)]"
| "kv_set k v (e # s) =
     (if fst e < k then e # kv_set k v s
      else if fst e = k then (k, v) # s
      else (k, v) # e # s)"

definition kv_del :: "'k \<Rightarrow> ('k, 'v) kv \<Rightarrow> ('k, 'v) kv" where
  "kv_del k s = filter (\<lambda>e. fst e \<noteq> k) s"

definition kv_has :: "('k, 'v) kv \<Rightarrow> 'k \<Rightarrow> bool" where
  "kv_has s k \<longleftrightarrow> kv_get s k \<noteq> None"

lemma kv_get_Nil [simp]: "kv_get [] k = None"
  by (simp add: kv_get_def)

lemma kv_get_Cons: "kv_get ((a, b) # s) k = (if k = a then Some b else kv_get s k)"
  by (simp add: kv_get_def)

lemma kv_get_set [simp]: "kv_get (kv_set k v s) j = (if j = k then Some v else kv_get s j)"
  by (induction s) (auto simp: kv_get_def)

lemma kv_get_del [simp]: "kv_get (kv_del k s) j = (if j = k then None else kv_get s j)"
  by (induction s) (auto simp: kv_get_def kv_del_def)

lemma kv_has_set [simp]: "kv_has (kv_set k v s) j \<longleftrightarrow> j = k \<or> kv_has s j"
  by (simp add: kv_has_def)

lemma kv_has_del [simp]: "kv_has (kv_del k s) j \<longleftrightarrow> j \<noteq> k \<and> kv_has s j"
  by (simp add: kv_has_def)

lemma kv_wf_Nil [simp]: "kv_wf []"
  by (simp add: kv_wf_def)

lemma kv_set_keys: "fst ` set (kv_set k v s) \<subseteq> insert k (fst ` set s)"
  by (induction s) auto

lemma kv_wf_set [simp]: "kv_wf s \<Longrightarrow> kv_wf (kv_set k v s)"
proof (induction s)
  case (Cons e s)
  show ?case
  proof (cases "fst e < k")
    case True
    have "x \<in> fst ` set (kv_set k v s) \<Longrightarrow> fst e < x" for x
      using kv_set_keys [of k v s] Cons.prems True by (force simp: kv_wf_def)
    then show ?thesis
      using Cons True by (auto simp: kv_wf_def)
  next
    case False
    then show ?thesis
      using Cons.prems by (auto simp: kv_wf_def)
  qed
qed (simp add: kv_wf_def)

lemma kv_wf_del [simp]: "kv_wf s \<Longrightarrow> kv_wf (kv_del k s)"
  by (simp add: kv_wf_def kv_del_def sorted_wrt_map sorted_wrt_filter)

lemma kv_get_Some_in_set: "kv_get s k = Some v \<Longrightarrow> (k, v) \<in> set s"
  by (simp add: kv_get_def map_of_SomeD)

lemma kv_in_set_iff: "kv_wf s \<Longrightarrow> (k, v) \<in> set s \<longleftrightarrow> kv_get s k = Some v"
  by (simp add: kv_get_def kv_wf_def strict_sorted_iff map_of_eq_Some_iff)

text \<open>A store is determined by its lookups, so two stores with the same content walk alike.\<close>

lemma kv_ext:
  assumes "kv_wf s" and "kv_wf t" and "\<And>k. kv_get s k = kv_get t k"
  shows "s = t"
proof -
  have same: "set s = set t"
    using kv_in_set_iff [OF assms(1)] kv_in_set_iff [OF assms(2)] assms(3) by auto
  have "inj_on fst (set s)"
    using assms(1) by (simp add: kv_wf_def strict_sorted_iff distinct_map)
  then show ?thesis
    using assms(1,2) same
    by (intro map_sorted_distinct_set_unique [of fst]) (simp_all add: kv_wf_def strict_sorted_iff)
qed

section \<open>Interfaces\<close>

text \<open>What a keeper relies on when it reads, writes and deletes entries of a collection.\<close>

locale kv_store =
  fixes get :: "'s \<Rightarrow> 'k \<Rightarrow> 'v option"
    and put :: "'k \<Rightarrow> 'v \<Rightarrow> 's \<Rightarrow> 's"
    and del :: "'k \<Rightarrow> 's \<Rightarrow> 's"
    and wf :: "'s \<Rightarrow> bool"
  assumes get_put: "get (put k v s) j = (if j = k then Some v else get s j)"
    and get_del: "get (del k s) j = (if j = k then None else get s j)"
    and wf_put: "wf s \<Longrightarrow> wf (put k v s)"
    and wf_del: "wf s \<Longrightarrow> wf (del k s)"
begin

lemma put_keeps_others: "j \<noteq> k \<Longrightarrow> get (put k v s) j = get s j"
  by (simp add: get_put)

lemma del_keeps_others: "j \<noteq> k \<Longrightarrow> get (del k s) j = get s j"
  by (simp add: get_del)

lemma finite_dom_put: "finite {j. get s j \<noteq> None} \<Longrightarrow> finite {j. get (put k v s) j \<noteq> None}"
  by (rule finite_subset [of _ "insert k {j. get s j \<noteq> None}"]) (auto simp: get_put)

lemma get_del_put: "get s k = None \<Longrightarrow> get (del k (put k v s)) = get s"
  by (rule ext) (simp add: get_put get_del)

end

interpretation kv: kv_store kv_get kv_set kv_del kv_wf
  by unfold_locales simp_all

text \<open>
  A collection with a unique secondary index: the index maps a name to the key of the one entry
  that carries that name.
\<close>

definition index_ok :: "('n \<Rightarrow> 'k option) \<Rightarrow> ('k \<Rightarrow> 'v option) \<Rightarrow> ('v \<Rightarrow> 'n) \<Rightarrow> bool" where
  "index_ok idx prim nm \<longleftrightarrow> (\<forall>n k. idx n = Some k \<longleftrightarrow> (\<exists>v. prim k = Some v \<and> nm v = n))"

lemma index_okD: "index_ok idx prim nm \<Longrightarrow> idx n = Some k \<Longrightarrow> \<exists>v. prim k = Some v \<and> nm v = n"
  by (auto simp: index_ok_def)

lemma index_ok_lookup: "index_ok idx prim nm \<Longrightarrow> prim k = Some v \<Longrightarrow> idx (nm v) = Some k"
  by (auto simp: index_ok_def)

locale indexed_store =
  prim: kv_store pget pput pdel pwf + idx: kv_store iget iput idel iwf
  for pget :: "'p \<Rightarrow> 'k \<Rightarrow> 'v option" and pput and pdel and pwf
    and iget :: "'i \<Rightarrow> 'n \<Rightarrow> 'k option" and iput and idel and iwf +
  fixes name_of :: "'v \<Rightarrow> 'n"
begin

lemma index_insert:
  assumes "index_ok (iget i) (pget p) name_of" and "iget i (name_of v) = None" and "pget p k = None"
  shows "index_ok (iget (iput (name_of v) k i)) (pget (pput k v p)) name_of"
  using assms unfolding index_ok_def by (simp add: prim.get_put idx.get_put) (metis option.distinct(1))

lemma index_replace:
  assumes "index_ok (iget i) (pget p) name_of" and "pget p k = Some v0" and "name_of v = name_of v0"
  shows "index_ok (iget i) (pget (pput k v p)) name_of"
  using assms unfolding index_ok_def by (auto simp: prim.get_put)

lemma index_delete:
  assumes "index_ok (iget i) (pget p) name_of" and "pget p k = Some v"
  shows "index_ok (iget (idel (name_of v) i)) (pget (pdel k p)) name_of"
  using assms unfolding index_ok_def
  by (simp add: prim.get_del idx.get_del) (metis option.inject)

lemma name_unique:
  assumes "index_ok (iget i) (pget p) name_of"
    and "pget p k = Some v" and "pget p l = Some w" and "name_of v = name_of w"
  shows "k = l"
  using index_ok_lookup [OF assms(1,2)] index_ok_lookup [OF assms(1,3)] assms(4) by simp

end

text \<open>
  Message delivery: a message whose handler fails leaves the state as it was, since the
  transaction's writes are dropped.
\<close>

definition deliver :: "('m \<Rightarrow> 's \<Rightarrow> 's result) \<Rightarrow> 'm \<Rightarrow> 's \<Rightarrow> 's" where
  "deliver step m s = (case step m s of Inl _ \<Rightarrow> s | Inr t \<Rightarrow> t)"

definition run_msgs :: "('m \<Rightarrow> 's \<Rightarrow> 's result) \<Rightarrow> 'm list \<Rightarrow> 's \<Rightarrow> 's" where
  "run_msgs step ms s = fold (deliver step) ms s"

lemma run_msgs_Nil [simp]: "run_msgs step [] s = s"
  by (simp add: run_msgs_def)

lemma run_msgs_Cons [simp]: "run_msgs step (m # ms) s = run_msgs step ms (deliver step m s)"
  by (simp add: run_msgs_def)

lemma run_msgs_append: "run_msgs step (ms @ ns) s = run_msgs step ns (run_msgs step ms s)"
  by (simp add: run_msgs_def)

text \<open>Handlers that keep an invariant keep it over every sequence of messages.\<close>

locale invariant_machine =
  fixes step :: "'m \<Rightarrow> 's \<Rightarrow> 's result" and inv :: "'s \<Rightarrow> bool"
  assumes step_keeps: "step m s = Inr t \<Longrightarrow> inv s \<Longrightarrow> inv t"
begin

lemma deliver_keeps: "inv s \<Longrightarrow> inv (deliver step m s)"
  by (auto simp: deliver_def step_keeps split: sum.split)

lemma run_keeps: "inv s \<Longrightarrow> inv (run_msgs step ms s)"
  by (induction ms arbitrary: s) (simp_all add: deliver_keeps)

end

text \<open>
  Handlers that may change a part of the state (the view) only for an allowed message: if the
  view differs after a run, one of the messages was allowed where it was delivered.
\<close>

locale gated_machine =
  fixes step :: "'m \<Rightarrow> 's \<Rightarrow> 's result"
    and allowed :: "'s \<Rightarrow> 'm \<Rightarrow> bool"
    and view :: "'s \<Rightarrow> 'v"
  assumes guarded: "step m s = Inr t \<Longrightarrow> \<not> allowed s m \<Longrightarrow> view t = view s"
begin

lemma deliver_guarded: "\<not> allowed s m \<Longrightarrow> view (deliver step m s) = view s"
  by (auto simp: deliver_def guarded split: sum.split)

lemma run_guarded:
  "view (run_msgs step ms s) \<noteq> view s \<Longrightarrow>
     \<exists>ms1 m ms2. ms = ms1 @ m # ms2 \<and> allowed (run_msgs step ms1 s) m
       \<and> view (run_msgs step ms1 s) = view s"
proof (induction ms arbitrary: s)
  case (Cons m ms)
  show ?case
  proof (cases "allowed s m")
    case True
    then show ?thesis
      by (intro exI [of _ "[]"]) simp
  next
    case False
    then have same: "view (deliver step m s) = view s"
      by (rule deliver_guarded)
    with Cons.prems have "view (run_msgs step ms (deliver step m s)) \<noteq> view (deliver step m s)"
      by simp
    from Cons.IH [OF this] obtain ms1 m' ms2
      where "ms = ms1 @ m' # ms2" "allowed (run_msgs step ms1 (deliver step m s)) m'"
        "view (run_msgs step ms1 (deliver step m s)) = view (deliver step m s)"
      by blast
    then show ?thesis
      using same by (intro exI [of _ "m # ms1"]) simp
  qed
qed simp

lemma run_changed_by_allowed:
  "view (run_msgs step ms s) \<noteq> view s \<Longrightarrow> \<exists>m \<in> set ms. \<exists>s'. allowed s' m"
  by (drule run_guarded) force

end

text \<open>
  Handlers that keep an invariant as long as a counter of the state has not reached its limit,
  and that advance the counter by at most one.
\<close>

locale counter_machine =
  fixes step :: "'m \<Rightarrow> 's \<Rightarrow> 's result" and inv :: "'s \<Rightarrow> bool"
    and rank :: "'s \<Rightarrow> nat" and limit :: nat
  assumes step_keeps: "step m s = Inr t \<Longrightarrow> inv s \<Longrightarrow> rank s < limit \<Longrightarrow> inv t \<and> rank t \<le> Suc (rank s)"
begin

lemma deliver_keeps:
  "inv s \<Longrightarrow> rank s < limit \<Longrightarrow> inv (deliver step m s) \<and> rank (deliver step m s) \<le> Suc (rank s)"
  by (auto simp: deliver_def dest: step_keeps split: sum.split)

lemma run_keeps: "inv s \<Longrightarrow> rank s + length ms \<le> limit \<Longrightarrow> inv (run_msgs step ms s)"
proof (induction ms arbitrary: s)
  case (Cons m ms)
  then have "inv (deliver step m s) \<and> rank (deliver step m s) \<le> Suc (rank s)"
    by (intro deliver_keeps) simp_all
  then show ?case
    using Cons by simp
qed simp

end

end
