(* ===== verification/Go_Std.thy ===== *)
theory Go_Std
  imports Prelude
begin

text \<open>
  The parts of Go's standard library that the modules compute with: numerals of \<open>math/big\<close>
  (\<open>big.Int.SetString\<close>), and the byte-string functions of \<open>strings\<close> (\<open>HasPrefix\<close>,
  \<open>Contains\<close>, \<open>Index\<close>, \<open>TrimSpace\<close>, \<open>EqualFold\<close> against an ASCII word).
\<close>

section \<open>Integers from text\<close>

definition digit_val :: "char \<Rightarrow> nat option" where
  "digit_val c =
     (let n = of_char c in
      if 48 \<le> n \<and> n \<le> 57 then Some (n - 48)
      else if 97 \<le> n \<and> n \<le> 122 then Some (n - 87)
      else if 65 \<le> n \<and> n \<le> 90 then Some (n - 55)
      else None)"

fun digits_val :: "nat \<Rightarrow> string \<Rightarrow> nat \<Rightarrow> nat option" where
  "digits_val b [] acc = Some acc"
| "digits_val b (c # cs) acc =
     (case digit_val c of
        None \<Rightarrow> None
      | Some d \<Rightarrow> if d < b then digits_val b cs (acc * b + d) else None)"

text \<open>
  \<open>new(big.Int).SetString(s, base)\<close> for a base from 2 to 36: an optional sign and at least one
  digit, nothing else (the underscores and prefixes of base 0 do not apply).
\<close>

definition natural_val :: "nat \<Rightarrow> string \<Rightarrow> nat option" where
  "natural_val b s = (if s = [] then None else digits_val b s 0)"

definition SetString :: "string \<Rightarrow> nat \<Rightarrow> int option" where
  "SetString s b =
     (case s of
        [] \<Rightarrow> None
      | c # cs \<Rightarrow>
          if c = CHR ''-'' then map_option (\<lambda>n. - int n) (natural_val b cs)
          else if c = CHR ''+'' then map_option int (natural_val b cs)
          else map_option int (natural_val b s))"

text \<open>The decimal text of a natural number (\<open>big.Int.String\<close> of a non-negative value).\<close>

definition digit_char :: "nat \<Rightarrow> char" where
  "digit_char d = char_of (48 + d)"

fun decimal :: "nat \<Rightarrow> string" where
  "decimal n = (if n < 10 then [digit_char n] else decimal (n div 10) @ [digit_char (n mod 10)])"

definition big_String :: "int \<Rightarrow> string" where
  "big_String i = (if i < 0 then CHR ''-'' # decimal (nat (- i)) else decimal (nat i))"

section \<open>Byte strings\<close>

definition HasPrefix :: "string \<Rightarrow> string \<Rightarrow> bool" where
  "HasPrefix s p \<longleftrightarrow> take (length p) s = p"

definition HasSuffix :: "string \<Rightarrow> string \<Rightarrow> bool" where
  "HasSuffix s p \<longleftrightarrow> HasPrefix (rev s) (rev p)"

text \<open>\<open>strings.Index\<close> (\<open>None\<close> for \<open>-1\<close>) and \<open>strings.Contains\<close>.\<close>

fun Index :: "string \<Rightarrow> string \<Rightarrow> nat option" where
  "Index [] p = (if p = [] then Some 0 else None)"
| "Index (c # s) p = (if HasPrefix (c # s) p then Some 0 else map_option Suc (Index s p))"

definition Contains :: "string \<Rightarrow> string \<Rightarrow> bool" where
  "Contains s p \<longleftrightarrow> Index s p \<noteq> None"

text \<open>The UTF-8 encodings of the code points with the White Space property (\<open>unicode.IsSpace\<close>).\<close>

definition space_seqs :: "string list" where
  "space_seqs =
     [[CHR 0x09], [CHR 0x0A], [CHR 0x0B], [CHR 0x0C], [CHR 0x0D], [CHR 0x20],
      [CHR 0xC2, CHR 0x85], [CHR 0xC2, CHR 0xA0], [CHR 0xE1, CHR 0x9A, CHR 0x80],
      [CHR 0xE2, CHR 0x80, CHR 0x80], [CHR 0xE2, CHR 0x80, CHR 0x81],
      [CHR 0xE2, CHR 0x80, CHR 0x82], [CHR 0xE2, CHR 0x80, CHR 0x83],
      [CHR 0xE2, CHR 0x80, CHR 0x84], [CHR 0xE2, CHR 0x80, CHR 0x85],
      [CHR 0xE2, CHR 0x80, CHR 0x86], [CHR 0xE2, CHR 0x80, CHR 0x87],
      [CHR 0xE2, CHR 0x80, CHR 0x88], [CHR 0xE2, CHR 0x80, CHR 0x89],
      [CHR 0xE2, CHR 0x80, CHR 0x8A], [CHR 0xE2, CHR 0x80, CHR 0xA8],
      [CHR 0xE2, CHR 0x80, CHR 0xA9], [CHR 0xE2, CHR 0x80, CHR 0xAF],
      [CHR 0xE2, CHR 0x81, CHR 0x9F], [CHR 0xE3, CHR 0x80, CHR 0x80]]"

definition leading_space :: "string \<Rightarrow> string option" where
  "leading_space s = find (HasPrefix s) space_seqs"

definition trailing_space :: "string \<Rightarrow> string option" where
  "trailing_space s = find (HasSuffix s) space_seqs"

lemma space_seqs_nonempty: "p \<in> set space_seqs \<Longrightarrow> p \<noteq> []"
  by (auto simp: space_seqs_def)

lemma leading_space_Some:
  "leading_space s = Some p \<Longrightarrow> p \<noteq> [] \<and> HasPrefix s p"
  unfolding leading_space_def find_Some_iff by (metis nth_mem space_seqs_nonempty)

lemma trailing_space_Some:
  "trailing_space s = Some p \<Longrightarrow> p \<noteq> [] \<and> HasSuffix s p"
  unfolding trailing_space_def find_Some_iff by (metis nth_mem space_seqs_nonempty)

lemma HasPrefix_length: "HasPrefix s p \<Longrightarrow> length p \<le> length s"
  by (metis HasPrefix_def length_take min.cobounded2 min.commute)

lemma HasSuffix_length: "HasSuffix s p \<Longrightarrow> length p \<le> length s"
  using HasPrefix_length [of "rev s" "rev p"] by (simp add: HasSuffix_def)

function TrimLeftSpace :: "string \<Rightarrow> string" where
  "TrimLeftSpace s =
     (case leading_space s of None \<Rightarrow> s | Some p \<Rightarrow> TrimLeftSpace (drop (length p) s))"
  by pat_completeness auto
termination
proof (relation "measure length")
  fix s p
  assume "leading_space s = Some p"
  then show "(drop (length p) s, s) \<in> measure length"
    using leading_space_Some [of s p] HasPrefix_length [of s p] by (cases p) auto
qed simp

function TrimRightSpace :: "string \<Rightarrow> string" where
  "TrimRightSpace s =
     (case trailing_space s of
        None \<Rightarrow> s
      | Some p \<Rightarrow> TrimRightSpace (take (length s - length p) s))"
  by pat_completeness auto
termination
proof (relation "measure length")
  fix s p
  assume "trailing_space s = Some p"
  then show "(take (length s - length p) s, s) \<in> measure length"
    using trailing_space_Some [of s p] HasSuffix_length [of s p] by (cases p) auto
qed simp

declare TrimLeftSpace.simps [simp del] TrimRightSpace.simps [simp del] decimal.simps [simp del]

definition TrimSpace :: "string \<Rightarrow> string" where
  "TrimSpace s = TrimRightSpace (TrimLeftSpace s)"

text \<open>ASCII lower case; \<open>EqualFold\<close> against a word whose letters fold only within ASCII.\<close>

definition ascii_lower :: "char \<Rightarrow> char" where
  "ascii_lower c = (let n = of_char c :: nat in if 65 \<le> n \<and> n \<le> 90 then char_of (n + 32) else c)"

definition EqualFold :: "string \<Rightarrow> string \<Rightarrow> bool" where
  "EqualFold s t \<longleftrightarrow> map ascii_lower s = map ascii_lower t"

section \<open>Facts\<close>

lemma TrimLeftSpace_length: "length (TrimLeftSpace s) \<le> length s"
proof (induction s rule: TrimLeftSpace.induct)
  case (1 s)
  then show ?case
    by (subst TrimLeftSpace.simps) (fastforce split: option.splits)
qed

lemma TrimRightSpace_length: "length (TrimRightSpace s) \<le> length s"
proof (induction s rule: TrimRightSpace.induct)
  case (1 s)
  then show ?case
    by (subst TrimRightSpace.simps) (fastforce split: option.splits)
qed

lemma TrimSpace_length: "length (TrimSpace s) \<le> length s"
  unfolding TrimSpace_def by (meson TrimLeftSpace_length TrimRightSpace_length le_trans)

lemma TrimSpace_trimmed: "leading_space s = None \<Longrightarrow> trailing_space s = None \<Longrightarrow> TrimSpace s = s"
  unfolding TrimSpace_def by (subst TrimLeftSpace.simps, simp, subst TrimRightSpace.simps, simp)

lemmas space_simps = leading_space_def trailing_space_def space_seqs_def
  HasPrefix_def HasSuffix_def

lemma digit_val_digit_char: "d < 10 \<Longrightarrow> digit_val (digit_char d) = Some d"
  by (simp add: digit_val_def digit_char_def of_char_of)

lemma digits_val_append:
  "digits_val b (s @ t) acc = (case digits_val b s acc of None \<Rightarrow> None | Some v \<Rightarrow> digits_val b t v)"
  by (induction s arbitrary: acc) (auto split: option.split)

lemma decimal_nonempty: "decimal n \<noteq> []"
  by (subst decimal.simps) simp

lemma digits_val_decimal: "digits_val 10 (decimal n) 0 = Some n"
proof (induction n rule: decimal.induct)
  case (1 n)
  then show ?case
    by (subst decimal.simps) (simp add: digits_val_append digit_val_digit_char)
qed

lemma decimal_no_sign: "hd (decimal n) \<noteq> CHR ''-'' \<and> hd (decimal n) \<noteq> CHR ''+''"
proof (induction n rule: decimal.induct)
  case (1 n)
  have "digit_char d \<noteq> CHR ''-'' \<and> digit_char d \<noteq> CHR ''+''" if "d < 10" for d
    using digit_val_digit_char [OF that] by (auto simp: digit_val_def)
  then show ?case
    using 1 by (subst (1 2) decimal.simps) (auto simp: hd_append decimal_nonempty)
qed

text \<open>Printing an integer in decimal and reading it back gives the integer.\<close>

lemma SetString_big_String: "SetString (big_String i) 10 = Some i"
proof (cases "i < 0")
  case True
  then show ?thesis
    by (simp add: SetString_def big_String_def natural_val_def decimal_nonempty digits_val_decimal)
next
  case False
  obtain c cs where c: "decimal (nat i) = c # cs"
    using decimal_nonempty by (metis neq_Nil_conv)
  then have "c \<noteq> CHR ''-''" "c \<noteq> CHR ''+''"
    using decimal_no_sign [of "nat i"] by auto
  then show ?thesis
    using False c digits_val_decimal [of "nat i"]
    by (simp add: SetString_def big_String_def natural_val_def)
qed

end
