(* ===== verification/Zk_Types.thy ===== *)
theory Zk_Types
  imports Go_Std
begin

text \<open>
  \<open>x/zk/types\<close>: the module's errors, its parameters with their validation and the upload gas
  schedule, the verification keys and their structural validation, the stateless checks of the
  messages and of the genesis state.  The parsers of the proof systems (circom2gnark, gnark,
  barretenberg) and the SDK's address codec are not part of the repository: they are the fields
  of the record \<open>vkey_ext\<close>, an argument of the definitions that call them.
\<close>

section \<open>Errors (errors.go)\<close>

definition ErrEncodingElement :: go_error where "ErrEncodingElement = Registered ''zk'' 1100"
definition ErrCalculatingPoseidon :: go_error where "ErrCalculatingPoseidon = Registered ''zk'' 1101"
definition ErrInvalidAuthority :: go_error where "ErrInvalidAuthority = Registered ''zk'' 1102"
definition ErrVKeyExists :: go_error where "ErrVKeyExists = Registered ''zk'' 1103"
definition ErrVKeyNotFound :: go_error where "ErrVKeyNotFound = Registered ''zk'' 1104"
definition ErrInvalidVKey :: go_error where "ErrInvalidVKey = Registered ''zk'' 1105"
definition ErrIncreaseSequenceID :: go_error where "ErrIncreaseSequenceID = Registered ''zk'' 1106"
definition ErrInvalidRequest :: go_error where "ErrInvalidRequest = Registered ''zk'' 1107"
definition ErrVKeyTooLarge :: go_error where "ErrVKeyTooLarge = Registered ''zk'' 1108"
definition ErrInvalidParams :: go_error where "ErrInvalidParams = Registered ''zk'' 1109"
definition ErrProofTooLarge :: go_error where "ErrProofTooLarge = Registered ''zk'' 1110"
definition ErrPublicInputsTooLarge :: go_error where "ErrPublicInputsTooLarge = Registered ''zk'' 1111"

lemmas zk_error_defs = ErrEncodingElement_def ErrCalculatingPoseidon_def ErrInvalidAuthority_def
  ErrVKeyExists_def ErrVKeyNotFound_def ErrInvalidVKey_def ErrIncreaseSequenceID_def
  ErrInvalidRequest_def ErrVKeyTooLarge_def ErrInvalidParams_def ErrProofTooLarge_def
  ErrPublicInputsTooLarge_def

section \<open>Parameters (params.go)\<close>

record Params =
  MaxVkeySizeBytes :: u64
  UploadChunkSize :: u64
  UploadChunkGas :: u64
  MaxGroth16ProofSizeBytes :: u64
  MaxGroth16PublicInputSizeBytes :: u64
  MaxUltraHonkProofSizeBytes :: u64
  MaxUltraHonkPublicInputSizeBytes :: u64
  MaxGnarkProofSizeBytes :: u64
  MaxGnarkPublicInputSizeBytes :: u64

definition DefaultMaxVKeySizeBytes :: u64 where "DefaultMaxVKeySizeBytes = 256 * 1024"
definition DefaultUploadChunkSize :: u64 where "DefaultUploadChunkSize = 20"
definition DefaultUploadChunkGas :: u64 where "DefaultUploadChunkGas = 10000"
definition DefaultMaxGroth16ProofSizeBytes :: u64 where "DefaultMaxGroth16ProofSizeBytes = 4 * 1024"
definition DefaultMaxGroth16PublicInputSizeBytes :: u64 where
  "DefaultMaxGroth16PublicInputSizeBytes = 30 * 1024"
definition DefaultMaxUltraHonkProofSizeBytes :: u64 where
  "DefaultMaxUltraHonkProofSizeBytes = 20 * 1024"
definition DefaultMaxUltraHonkPublicInputSizeBytes :: u64 where
  "DefaultMaxUltraHonkPublicInputSizeBytes = 10 * 1024"
definition DefaultMaxGnarkProofSizeBytes :: u64 where "DefaultMaxGnarkProofSizeBytes = 4 * 1024"
definition DefaultMaxGnarkPublicInputSizeBytes :: u64 where
  "DefaultMaxGnarkPublicInputSizeBytes = 10 * 1024"
definition MinProofOrInputSizeBytes :: u64 where "MinProofOrInputSizeBytes = 1"
definition MaxAllowedProofOrInputSizeBytes :: u64 where "MaxAllowedProofOrInputSizeBytes = 524288"
definition MaxAllowedVKeySizeBytes :: u64 where "MaxAllowedVKeySizeBytes = 1048576"

lemmas zk_const_defs = DefaultMaxVKeySizeBytes_def DefaultUploadChunkSize_def
  DefaultUploadChunkGas_def DefaultMaxGroth16ProofSizeBytes_def
  DefaultMaxGroth16PublicInputSizeBytes_def DefaultMaxUltraHonkProofSizeBytes_def
  DefaultMaxUltraHonkPublicInputSizeBytes_def DefaultMaxGnarkProofSizeBytes_def
  DefaultMaxGnarkPublicInputSizeBytes_def MinProofOrInputSizeBytes_def
  MaxAllowedProofOrInputSizeBytes_def MaxAllowedVKeySizeBytes_def

definition NewParams :: "u64 \<Rightarrow> u64 \<Rightarrow> u64 \<Rightarrow> Params" where
  "NewParams maxSize chunkSize chunkGas =
     \<lparr> MaxVkeySizeBytes = maxSize, UploadChunkSize = chunkSize, UploadChunkGas = chunkGas,
       MaxGroth16ProofSizeBytes = DefaultMaxGroth16ProofSizeBytes,
       MaxGroth16PublicInputSizeBytes = DefaultMaxGroth16PublicInputSizeBytes,
       MaxUltraHonkProofSizeBytes = DefaultMaxUltraHonkProofSizeBytes,
       MaxUltraHonkPublicInputSizeBytes = DefaultMaxUltraHonkPublicInputSizeBytes,
       MaxGnarkProofSizeBytes = DefaultMaxGnarkProofSizeBytes,
       MaxGnarkPublicInputSizeBytes = DefaultMaxGnarkPublicInputSizeBytes \<rparr>"

definition DefaultParams :: Params where
  "DefaultParams = NewParams DefaultMaxVKeySizeBytes DefaultUploadChunkSize DefaultUploadChunkGas"

text \<open>The zero value \<open>Params{}\<close>.\<close>

definition ZeroParams :: Params where
  "ZeroParams =
     \<lparr> MaxVkeySizeBytes = 0, UploadChunkSize = 0, UploadChunkGas = 0,
       MaxGroth16ProofSizeBytes = 0, MaxGroth16PublicInputSizeBytes = 0,
       MaxUltraHonkProofSizeBytes = 0, MaxUltraHonkPublicInputSizeBytes = 0,
       MaxGnarkProofSizeBytes = 0, MaxGnarkPublicInputSizeBytes = 0 \<rparr>"

definition or_default :: "u64 \<Rightarrow> u64 \<Rightarrow> u64" where
  "or_default d x = (if x = 0 then d else x)"

definition WithMaxLimitDefaults :: "Params \<Rightarrow> Params" where
  "WithMaxLimitDefaults p = p
     \<lparr> MaxGroth16ProofSizeBytes :=
         or_default DefaultMaxGroth16ProofSizeBytes (MaxGroth16ProofSizeBytes p),
       MaxGroth16PublicInputSizeBytes :=
         or_default DefaultMaxGroth16PublicInputSizeBytes (MaxGroth16PublicInputSizeBytes p),
       MaxUltraHonkProofSizeBytes :=
         or_default DefaultMaxUltraHonkProofSizeBytes (MaxUltraHonkProofSizeBytes p),
       MaxUltraHonkPublicInputSizeBytes :=
         or_default DefaultMaxUltraHonkPublicInputSizeBytes (MaxUltraHonkPublicInputSizeBytes p),
       MaxGnarkProofSizeBytes :=
         or_default DefaultMaxGnarkProofSizeBytes (MaxGnarkProofSizeBytes p),
       MaxGnarkPublicInputSizeBytes :=
         or_default DefaultMaxGnarkPublicInputSizeBytes (MaxGnarkPublicInputSizeBytes p) \<rparr>"

definition check_size_limit :: "u64 \<Rightarrow> unit result" where
  "check_size_limit x =
     bindr (ensure (\<not> x < MinProofOrInputSizeBytes) ErrInvalidParams) (\<lambda>_.
     ensure (\<not> x > MaxAllowedProofOrInputSizeBytes) ErrInvalidParams)"

definition Validate_Params :: "Params \<Rightarrow> unit result" where
  "Validate_Params p =
     bindr (ensure (MaxVkeySizeBytes p \<noteq> 0) ErrInvalidParams) (\<lambda>_.
     bindr (ensure (UploadChunkSize p \<noteq> 0) ErrInvalidParams) (\<lambda>_.
     bindr (ensure (UploadChunkGas p \<noteq> 0) ErrInvalidParams) (\<lambda>_.
     bindr (check_size_limit (MaxGroth16ProofSizeBytes p)) (\<lambda>_.
     bindr (check_size_limit (MaxGroth16PublicInputSizeBytes p)) (\<lambda>_.
     bindr (check_size_limit (MaxUltraHonkProofSizeBytes p)) (\<lambda>_.
     bindr (check_size_limit (MaxUltraHonkPublicInputSizeBytes p)) (\<lambda>_.
     bindr (ensure (\<not> MaxVkeySizeBytes p > MaxAllowedVKeySizeBytes) ErrInvalidParams) (\<lambda>_.
     bindr (check_size_limit (MaxGnarkProofSizeBytes p)) (\<lambda>_.
     check_size_limit (MaxGnarkPublicInputSizeBytes p))))))))))"

text \<open>The machine arithmetic of the source: every operation is on \<open>uint64\<close> and wraps.\<close>

definition GasCostForSize :: "Params \<Rightarrow> u64 \<Rightarrow> u64 result" where
  "GasCostForSize p sz =
     bindr (Validate_Params p) (\<lambda>_.
     bindr (ensure (sz \<noteq> 0) ErrInvalidVKey) (\<lambda>_.
     bindr (ensure (\<not> sz > MaxVkeySizeBytes p) ErrVKeyTooLarge) (\<lambda>_.
     let chunks = (sz + UploadChunkSize p - 1) div UploadChunkSize p;
         cost = chunks * UploadChunkGas p
     in if chunks \<noteq> 0 \<and> cost div chunks \<noteq> UploadChunkGas p then Inl ErrInvalidParams
        else Inr cost)))"

section \<open>Verification keys (vkey.go)\<close>

datatype ProofSystem =
    PROOF_SYSTEM_UNSPECIFIED
  | PROOF_SYSTEM_GROTH16
  | PROOF_SYSTEM_ULTRA_HONK_ZK
  | PROOF_SYSTEM_GROTH16_GNARK
  | PROOF_SYSTEM_other int

record VKey =
  vk_KeyBytes :: bytes
  vk_Name :: string
  vk_Description :: string
  vk_CircuitHash :: string
  vk_Authority :: string
  vk_ProofSystem :: ProofSystem

text \<open>The fields of circom2gnark's key that the validation reads.\<close>

record CircomVerificationKey =
  cvk_Protocol :: string
  cvk_NPublic :: int
  cvk_VkAlpha1 :: "string list"
  cvk_VkBeta2 :: "string list list"
  cvk_VkGamma2 :: "string list list"
  cvk_VkDelta2 :: "string list list"
  cvk_IC :: "string list list"

text \<open>
  Code outside the repository: \<open>sdk.AccAddressFromBech32\<close>, circom2gnark's JSON parser, gnark's
  \<open>VerifyingKey.ReadFrom\<close> (whether it accepts the bytes), barretenberg's key validation.
\<close>

record vkey_ext =
  AccAddressFromBech32 :: "string \<Rightarrow> bytes result"
  UnmarshalCircomVerificationKeyJSON :: "bytes \<Rightarrow> CircomVerificationKey result"
  gnark_ReadVerifyingKey :: "bytes \<Rightarrow> unit result"
  bb_ValidateVerificationKeyBytes :: "bytes \<Rightarrow> u64 \<Rightarrow> unit result"

definition bn254FieldPrime :: int where
  "bn254FieldPrime =
     21888242871839275222246405745257275088696311157297823662689037894645226208583"

definition checkBN254FieldCoord :: "string \<Rightarrow> unit result" where
  "checkBN254FieldCoord coord =
     (case SetString coord 10 of
        None \<Rightarrow> Inl (Plain ''not a valid integer'')
      | Some n \<Rightarrow>
          if n < 0 then Inl (Plain ''coordinate is negative'')
          else if n \<ge> bn254FieldPrime then Inl (Plain ''coordinate is >= BN254 field prime'')
          else Inr ())"

definition ValidateVKeyByteSize :: "bytes \<Rightarrow> u64 \<Rightarrow> unit result" where
  "ValidateVKeyByteSize data maxSizeBytes =
     ensure (\<not> (maxSizeBytes > 0 \<and> len64 data > maxSizeBytes)) ErrVKeyTooLarge"

text \<open>
  The loops over the first two rows run while \<open>i < 2\<close> and \<open>i < len(rows)\<close>: over \<open>take 2 rows\<close>.
\<close>

definition check_g2_shape :: "string list list \<Rightarrow> unit result" where
  "check_g2_shape rows =
     bindr (ensure (\<not> length rows < 2) (Plain ''expected at least 2 rows for G2 point'')) (\<lambda>_.
     for_each (take 2 rows) (\<lambda>row. ensure (length row = 2) (Plain ''row should have 2 columns'')))"

definition check_g2_coords :: "string list list \<Rightarrow> unit result" where
  "check_g2_coords rows = for_each (take 2 rows) (\<lambda>row. for_each row checkBN254FieldCoord)"

text \<open>\<open>for j, coord := range p[:2]\<close>: the slice expression panics on a shorter point.\<close>

definition check_g1_coords :: "string list \<Rightarrow> unit result" where
  "check_g1_coords p = bindr (go_slice p 0 2) (\<lambda>cs. for_each cs checkBN254FieldCoord)"

definition validateCircomVerificationKey :: "CircomVerificationKey \<Rightarrow> unit result" where
  "validateCircomVerificationKey vk =
     bindr (ensure (cvk_Protocol vk = ''groth16'') (Plain ''unsupported protocol'')) (\<lambda>_.
     bindr (ensure (\<not> cvk_NPublic vk \<le> 0) (Plain ''invalid nPublic'')) (\<lambda>_.
     bindr (ensure (\<not> length (cvk_VkAlpha1 vk) < 2) (Plain ''invalid VkAlpha1'')) (\<lambda>_.
     bindr (check_g2_shape (cvk_VkBeta2 vk)) (\<lambda>_.
     bindr (check_g2_shape (cvk_VkGamma2 vk)) (\<lambda>_.
     bindr (check_g2_shape (cvk_VkDelta2 vk)) (\<lambda>_.
     bindr (ensure (int (length (cvk_IC vk)) = cvk_NPublic vk + 1) (Plain ''invalid IC length'')) (\<lambda>_.
     bindr (for_each (cvk_IC vk) (\<lambda>p. ensure (\<not> length p < 2) (Plain ''invalid IC''))) (\<lambda>_.
     bindr (check_g1_coords (cvk_VkAlpha1 vk)) (\<lambda>_.
     bindr (check_g2_coords (cvk_VkBeta2 vk)) (\<lambda>_.
     bindr (check_g2_coords (cvk_VkGamma2 vk)) (\<lambda>_.
     bindr (check_g2_coords (cvk_VkDelta2 vk)) (\<lambda>_.
     for_each (cvk_IC vk) check_g1_coords))))))))))))"

definition ValidateVKeyBytes :: "vkey_ext \<Rightarrow> bytes \<Rightarrow> u64 \<Rightarrow> unit result" where
  "ValidateVKeyBytes x data maxDecodedSize =
     bindr (ValidateVKeyByteSize data maxDecodedSize) (\<lambda>_.
     bindr (wrap_as ErrInvalidVKey (UnmarshalCircomVerificationKeyJSON x data)) (\<lambda>vk.
     wrap_as ErrInvalidVKey (validateCircomVerificationKey vk)))"

definition ValidateGnarkVKeyBytes :: "vkey_ext \<Rightarrow> bytes \<Rightarrow> u64 \<Rightarrow> unit result" where
  "ValidateGnarkVKeyBytes x data maxSizeBytes =
     bindr (ValidateVKeyByteSize data maxSizeBytes) (\<lambda>_.
     wrap_as ErrInvalidVKey (gnark_ReadVerifyingKey x data))"

definition default_proof_system :: "ProofSystem \<Rightarrow> ProofSystem" where
  "default_proof_system ps = (if ps = PROOF_SYSTEM_UNSPECIFIED then PROOF_SYSTEM_GROTH16 else ps)"

definition ValidateVKeyForProofSystem :: "vkey_ext \<Rightarrow> bytes \<Rightarrow> u64 \<Rightarrow> ProofSystem \<Rightarrow> unit result" where
  "ValidateVKeyForProofSystem x vkeyBytes maxSizeBytes proofSystem =
     (case default_proof_system proofSystem of
        PROOF_SYSTEM_ULTRA_HONK_ZK \<Rightarrow> bb_ValidateVerificationKeyBytes x vkeyBytes maxSizeBytes
      | PROOF_SYSTEM_GROTH16 \<Rightarrow> ValidateVKeyBytes x vkeyBytes maxSizeBytes
      | PROOF_SYSTEM_GROTH16_GNARK \<Rightarrow> ValidateGnarkVKeyBytes x vkeyBytes maxSizeBytes
      | _ \<Rightarrow> Inl (Plain ''proof_system must be groth16, gnark or ultrahonk''))"

definition UnmarshalVKey :: "vkey_ext \<Rightarrow> VKey \<Rightarrow> CircomVerificationKey result" where
  "UnmarshalVKey x vkey =
     (if vk_KeyBytes vkey = [] then Inl (Plain ''empty key_bytes'')
      else UnmarshalCircomVerificationKeyJSON x (vk_KeyBytes vkey))"

definition NewVKeyFromBytes :: "vkey_ext \<Rightarrow> bytes \<Rightarrow> string \<Rightarrow> string \<Rightarrow> VKey result" where
  "NewVKeyFromBytes x keyBytes nm description =
     bindr (ValidateVKeyBytes x keyBytes 0) (\<lambda>_.
     Inr \<lparr> vk_KeyBytes = keyBytes, vk_Name = nm, vk_Description = description,
           vk_CircuitHash = [], vk_Authority = [], vk_ProofSystem = PROOF_SYSTEM_UNSPECIFIED \<rparr>)"

section \<open>Stateless message checks (msgs.go)\<close>

record MsgAddVKey =
  add_Authority :: string
  add_Name :: string
  add_Description :: string
  add_VkeyBytes :: bytes
  add_ProofSystem :: ProofSystem

record MsgUpdateVKey =
  upd_Authority :: string
  upd_Name :: string
  upd_Description :: string
  upd_VkeyBytes :: bytes
  upd_ProofSystem :: ProofSystem

record MsgRemoveVKey =
  rem_Authority :: string
  rem_Name :: string

record MsgUpdateParams =
  par_Authority :: string
  par_Params :: Params

definition MaxVKeyNameLen :: nat where "MaxVKeyNameLen = 128"
definition MaxVKeyDescLen :: nat where "MaxVKeyDescLen = 1024"

definition supported_proof_system :: "ProofSystem \<Rightarrow> bool" where
  "supported_proof_system ps \<longleftrightarrow>
     \<not> (ps \<noteq> PROOF_SYSTEM_UNSPECIFIED \<and> ps \<noteq> PROOF_SYSTEM_GROTH16
        \<and> ps \<noteq> PROOF_SYSTEM_GROTH16_GNARK \<and> ps \<noteq> PROOF_SYSTEM_ULTRA_HONK_ZK)"

definition ValidateBasic_MsgAddVKey :: "vkey_ext \<Rightarrow> MsgAddVKey \<Rightarrow> unit result" where
  "ValidateBasic_MsgAddVKey x m =
     bindr (wrap_as (Plain ''invalid authority address'') (AccAddressFromBech32 x (add_Authority m))) (\<lambda>_.
     bindr (ensure (add_Name m \<noteq> []) (Plain ''name cannot be empty'')) (\<lambda>_.
     bindr (ensure (\<not> length (add_Name m) > MaxVKeyNameLen) (Plain ''name length exceeds maximum'')) (\<lambda>_.
     bindr (ensure (\<not> length (add_Description m) > MaxVKeyDescLen) (Plain ''description length exceeds maximum'')) (\<lambda>_.
     bindr (ensure (length (add_VkeyBytes m) \<noteq> 0) (Plain ''vkey_bytes cannot be empty'')) (\<lambda>_.
     bindr (ensure (supported_proof_system (add_ProofSystem m)) (Plain ''unsupported proof_system'')) (\<lambda>_.
     ValidateVKeyForProofSystem x (add_VkeyBytes m) MaxAllowedVKeySizeBytes (add_ProofSystem m)))))))"

definition ValidateBasic_MsgUpdateVKey :: "vkey_ext \<Rightarrow> MsgUpdateVKey \<Rightarrow> unit result" where
  "ValidateBasic_MsgUpdateVKey x m =
     bindr (wrap_as (Plain ''invalid authority address'') (AccAddressFromBech32 x (upd_Authority m))) (\<lambda>_.
     bindr (ensure (upd_Name m \<noteq> []) (Plain ''name cannot be empty'')) (\<lambda>_.
     bindr (ensure (\<not> length (upd_Name m) > MaxVKeyNameLen) (Plain ''name length exceeds maximum'')) (\<lambda>_.
     bindr (ensure (\<not> length (upd_Description m) > MaxVKeyDescLen) (Plain ''description length exceeds maximum'')) (\<lambda>_.
     bindr (ensure (length (upd_VkeyBytes m) \<noteq> 0) (Plain ''vkey_bytes cannot be empty'')) (\<lambda>_.
     bindr (ensure (supported_proof_system (upd_ProofSystem m)) (Plain ''unsupported proof_system'')) (\<lambda>_.
     ValidateVKeyForProofSystem x (upd_VkeyBytes m) MaxAllowedVKeySizeBytes (upd_ProofSystem m)))))))"

definition ValidateBasic_MsgRemoveVKey :: "vkey_ext \<Rightarrow> MsgRemoveVKey \<Rightarrow> unit result" where
  "ValidateBasic_MsgRemoveVKey x m =
     bindr (wrap_as (Plain ''invalid authority address'') (AccAddressFromBech32 x (rem_Authority m))) (\<lambda>_.
     ensure (rem_Name m \<noteq> []) (Plain ''name cannot be empty''))"

definition ValidateBasic_MsgUpdateParams :: "vkey_ext \<Rightarrow> MsgUpdateParams \<Rightarrow> unit result" where
  "ValidateBasic_MsgUpdateParams x m =
     bindr (wrap_as (Plain ''invalid authority address'') (AccAddressFromBech32 x (par_Authority m))) (\<lambda>_.
     Validate_Params (WithMaxLimitDefaults (par_Params m)))"

section \<open>Genesis (genesis.go)\<close>

record GenesisState =
  gs_Vkeys :: "(u64 \<times> VKey) list"
  gs_Params :: Params

definition NewGenesisState :: "(u64 \<times> VKey) list \<Rightarrow> Params \<Rightarrow> GenesisState" where
  "NewGenesisState vkeys params = \<lparr> gs_Vkeys = vkeys, gs_Params = params \<rparr>"

definition genesis_params :: "GenesisState \<Rightarrow> Params" where
  "genesis_params gs =
     WithMaxLimitDefaults (if gs_Params gs = ZeroParams then DefaultParams else gs_Params gs)"

fun validate_genesis_vkeys ::
  "vkey_ext \<Rightarrow> Params \<Rightarrow> u64 set \<Rightarrow> string set \<Rightarrow> (u64 \<times> VKey) list \<Rightarrow> unit result" where
  "validate_genesis_vkeys x params seenIDs seenNames [] = Inr ()"
| "validate_genesis_vkeys x params seenIDs seenNames ((i, vk) # rest) =
     bindr (ensure (i \<notin> seenIDs) (Plain ''duplicate vkey ID'')) (\<lambda>_.
     bindr (ensure (vk_Name vk \<notin> seenNames) (Plain ''duplicate vkey name'')) (\<lambda>_.
     bindr (ensure (vk_Name vk \<noteq> []) (Plain ''vkey has empty name'')) (\<lambda>_.
     bindr (ensure (length (vk_KeyBytes vk) \<noteq> 0) (Plain ''vkey has empty key_bytes'')) (\<lambda>_.
     bindr (wrap_as (Plain ''vkey has invalid key_bytes'')
              (ValidateVKeyForProofSystem x (vk_KeyBytes vk) (MaxVkeySizeBytes params) (vk_ProofSystem vk))) (\<lambda>_.
     validate_genesis_vkeys x params (insert i seenIDs) (insert (vk_Name vk) seenNames) rest)))))"

definition Validate_GenesisState :: "vkey_ext \<Rightarrow> GenesisState \<Rightarrow> unit result" where
  "Validate_GenesisState x gs =
     (let params = genesis_params gs in
      bindr (Validate_Params params) (\<lambda>_.
      validate_genesis_vkeys x params {} {} (gs_Vkeys gs)))"

section \<open>Parameters: what validation and the gas schedule guarantee\<close>

definition size_limit_ok :: "u64 \<Rightarrow> bool" where
  "size_limit_ok x \<longleftrightarrow> 1 \<le> unat x \<and> unat x \<le> 524288"

definition params_ok :: "Params \<Rightarrow> bool" where
  "params_ok p \<longleftrightarrow>
     0 < unat (MaxVkeySizeBytes p) \<and> unat (MaxVkeySizeBytes p) \<le> 2 ^ 20
     \<and> 0 < unat (UploadChunkSize p) \<and> 0 < unat (UploadChunkGas p)
     \<and> size_limit_ok (MaxGroth16ProofSizeBytes p) \<and> size_limit_ok (MaxGroth16PublicInputSizeBytes p)
     \<and> size_limit_ok (MaxUltraHonkProofSizeBytes p) \<and> size_limit_ok (MaxUltraHonkPublicInputSizeBytes p)
     \<and> size_limit_ok (MaxGnarkProofSizeBytes p) \<and> size_limit_ok (MaxGnarkPublicInputSizeBytes p)"

lemma check_size_limit_iff: "check_size_limit x = Inr u \<longleftrightarrow> size_limit_ok x"
  by (simp add: check_size_limit_def size_limit_ok_def zk_const_defs word_less_nat_alt not_less
      Suc_le_eq)

lemma Validate_Params_iff: "Validate_Params p = Inr u \<longleftrightarrow> params_ok p"
  by (auto simp: Validate_Params_def params_ok_def check_size_limit_iff zk_const_defs
      word_less_nat_alt not_less unat_gt_0)

lemma Validate_Params_error: "Validate_Params p = Inl e \<Longrightarrow> e = ErrInvalidParams"
  by (auto simp: Validate_Params_def check_size_limit_def bindr_Inl_iff)

lemma DefaultParams_ok: "params_ok DefaultParams"
  by (simp add: params_ok_def DefaultParams_def NewParams_def size_limit_ok_def zk_const_defs)

lemma WithMaxLimitDefaults_idem: "WithMaxLimitDefaults (WithMaxLimitDefaults p) = WithMaxLimitDefaults p"
  by (simp add: WithMaxLimitDefaults_def or_default_def zk_const_defs)

lemma size_limit_ok_nonzero: "size_limit_ok x \<Longrightarrow> or_default d x = x"
  by (auto simp: size_limit_ok_def or_default_def)

lemma WithMaxLimitDefaults_valid: "params_ok p \<Longrightarrow> WithMaxLimitDefaults p = p"
  by (simp add: params_ok_def WithMaxLimitDefaults_def size_limit_ok_nonzero)

text \<open>Word arithmetic of the gas schedule, read as natural numbers.\<close>

lemma mult_overflow_check:
  fixes c g :: u64
  assumes "c \<noteq> 0"
  shows "(c * g) div c = g \<longleftrightarrow> unat c * unat g < 2 ^ 64"
proof
  assume *: "(c * g) div c = g"
  have "unat g = unat (c * g) div unat c"
    using arg_cong [OF *, of unat] by (simp only: unat_div)
  then have "unat c * unat g \<le> unat (c * g)"
    by (simp only: times_div_less_eq_dividend)
  also have "\<dots> < 2 ^ 64"
    using unsigned_less [of "c * g", where ?'a = nat] by simp
  finally show "unat c * unat g < 2 ^ 64" .
next
  assume "unat c * unat g < 2 ^ 64"
  then have "unat (c * g) = unat c * unat g"
    using unat_mult_lem [of c g] by simp
  then show "(c * g) div c = g"
    unfolding word_unat_eq_iff unat_div using assms 
    by (simp only: nonzero_mult_div_cancel_left unat_0_iff not_False_eq_True)
qed

lemma ceil_div_word:
  fixes a c :: u64
  assumes "a \<noteq> 0" and "unat a + unat c \<le> 2 ^ 64"
  shows "unat ((a + c - 1) div c) = (unat a + unat c - 1) div unat c"
proof -
  have a1: "unat (a - 1) = unat a - 1"
    using assms(1) by (rule unat_minus_one)
  have pos: "0 < unat a"
    using assms(1) by (simp add: unat_gt_0)
  have "unat (a - 1) + unat c < 2 ^ LENGTH(64)"
    using assms(2) pos a1 by simp
  then have "unat ((a - 1) + c) = unat (a - 1) + unat c"
    using unat_add_lem [of "a - 1" c] by simp
  then have "unat (a + c - 1) = unat a + unat c - 1"
    using a1 pos by (simp add: algebra_simps)
  then show ?thesis
    by (simp add: unat_div)
qed

text \<open>
  On valid parameters whose chunk size leaves room for the rounding, the gas of an upload is the
  number of started chunks times the gas per chunk, and the only failure is a product that does
  not fit 64 bits.
\<close>

lemma GasCostForSize_value:
  assumes "params_ok p" and "sz \<noteq> 0" and "sz \<le> MaxVkeySizeBytes p"
    and "unat sz + unat (UploadChunkSize p) \<le> 2 ^ 64"
  shows "GasCostForSize p sz =
    (let n = (unat sz + unat (UploadChunkSize p) - 1) div unat (UploadChunkSize p)
             * unat (UploadChunkGas p)
     in if n < 2 ^ 64 then Inr (of_nat n) else Inl ErrInvalidParams)"
proof -
  define c where "c = (sz + UploadChunkSize p - 1) div UploadChunkSize p"
  have uc: "unat c = (unat sz + unat (UploadChunkSize p) - 1) div unat (UploadChunkSize p)"
    unfolding c_def using assms(2,4) by (rule ceil_div_word)
  have "0 < unat sz" "0 < unat (UploadChunkSize p)"
    using assms(1,2) by (simp_all add: unat_gt_0 params_ok_def)
  then have "0 < unat c"
    unfolding uc by (simp add: div_greater_zero_iff)
  then have c0: "c \<noteq> 0"
    by (simp add: unat_gt_0)
  have "Validate_Params p = Inr ()"
    using assms(1) by (simp add: Validate_Params_iff)
  then have "GasCostForSize p sz =
      (if (c * UploadChunkGas p) div c \<noteq> UploadChunkGas p then Inl ErrInvalidParams
       else Inr (c * UploadChunkGas p))"
    using assms(2,3) c0 unfolding GasCostForSize_def Let_def c_def [symmetric]
    by (simp add: not_less)
  also have "\<dots> = (if unat c * unat (UploadChunkGas p) < 2 ^ 64
      then Inr (c * UploadChunkGas p) else Inl ErrInvalidParams)"
    using mult_overflow_check [OF c0, of "UploadChunkGas p"] by simp
  also have "c * UploadChunkGas p = of_nat (unat c * unat (UploadChunkGas p))"
    by simp
  finally show ?thesis
    by (simp only: Let_def uc)
qed

section \<open>Verification keys: what validation guarantees\<close>

definition field_coord :: "string \<Rightarrow> bool" where
  "field_coord s \<longleftrightarrow>
     (case SetString s 10 of None \<Rightarrow> False | Some n \<Rightarrow> 0 \<le> n \<and> n < bn254FieldPrime)"

definition g1_ok :: "string list \<Rightarrow> bool" where
  "g1_ok p \<longleftrightarrow> 2 \<le> length p \<and> list_all field_coord (take 2 p)"

definition g2_ok :: "string list list \<Rightarrow> bool" where
  "g2_ok rows \<longleftrightarrow>
     2 \<le> length rows \<and> list_all (\<lambda>row. length row = 2 \<and> list_all field_coord row) (take 2 rows)"

definition circom_ok :: "CircomVerificationKey \<Rightarrow> bool" where
  "circom_ok vk \<longleftrightarrow>
     cvk_Protocol vk = ''groth16'' \<and> 0 < cvk_NPublic vk
     \<and> g1_ok (cvk_VkAlpha1 vk) \<and> g2_ok (cvk_VkBeta2 vk) \<and> g2_ok (cvk_VkGamma2 vk)
     \<and> g2_ok (cvk_VkDelta2 vk)
     \<and> int (length (cvk_IC vk)) = cvk_NPublic vk + 1 \<and> list_all g1_ok (cvk_IC vk)"

lemma checkBN254FieldCoord_iff: "checkBN254FieldCoord s = Inr u \<longleftrightarrow> field_coord s"
  by (auto simp: checkBN254FieldCoord_def field_coord_def split: option.splits)

lemma checkBN254FieldCoord_not_panic: "\<not> is_panic (checkBN254FieldCoord s)"
  by (auto simp: checkBN254FieldCoord_def split: option.splits)

lemma check_g1_iff: "\<not> length p < 2 \<and> check_g1_coords p = Inr u \<longleftrightarrow> g1_ok p"
  by (auto simp: check_g1_coords_def g1_ok_def go_slice_def checkBN254FieldCoord_iff list_all_iff)

lemma check_g2_iff: "check_g2_shape r = Inr u \<and> check_g2_coords r = Inr v \<longleftrightarrow> g2_ok r"
  by (auto simp: check_g2_shape_def check_g2_coords_def g2_ok_def checkBN254FieldCoord_iff list_all_iff)

lemma validateCircomVerificationKey_iff: "validateCircomVerificationKey vk = Inr u \<longleftrightarrow> circom_ok vk"
proof -
  have "validateCircomVerificationKey vk = Inr u \<longleftrightarrow>
      cvk_Protocol vk = ''groth16'' \<and> 0 < cvk_NPublic vk
      \<and> (\<not> length (cvk_VkAlpha1 vk) < 2 \<and> check_g1_coords (cvk_VkAlpha1 vk) = Inr ())
      \<and> (check_g2_shape (cvk_VkBeta2 vk) = Inr () \<and> check_g2_coords (cvk_VkBeta2 vk) = Inr ())
      \<and> (check_g2_shape (cvk_VkGamma2 vk) = Inr () \<and> check_g2_coords (cvk_VkGamma2 vk) = Inr ())
      \<and> (check_g2_shape (cvk_VkDelta2 vk) = Inr () \<and> check_g2_coords (cvk_VkDelta2 vk) = Inr ())
      \<and> int (length (cvk_IC vk)) = cvk_NPublic vk + 1
      \<and> (\<forall>p \<in> set (cvk_IC vk). \<not> length p < 2 \<and> check_g1_coords p = Inr ())"
    unfolding validateCircomVerificationKey_def by (auto simp: not_le)
  then show ?thesis
    unfolding check_g1_iff check_g2_iff circom_ok_def list_all_iff .
qed

lemma check_g1_coords_not_panic: "\<not> length p < 2 \<Longrightarrow> \<not> is_panic (check_g1_coords p)"
  by (simp add: check_g1_coords_def for_each_not_panic checkBN254FieldCoord_not_panic)

lemma check_g2_not_panic:
  "\<not> is_panic (check_g2_shape r)" "\<not> is_panic (check_g2_coords r)"
  unfolding check_g2_shape_def check_g2_coords_def
  by (simp_all add: bindr_not_panic for_each_not_panic ensure_not_panic checkBN254FieldCoord_not_panic)

text \<open>The slice expressions \<open>[:2]\<close> are only reached on points that the length checks admitted.\<close>

lemma validateCircomVerificationKey_not_panic: "\<not> is_panic (validateCircomVerificationKey vk)"
  unfolding validateCircomVerificationKey_def
  by (intro bindr_not_panic ensure_not_panic check_g2_not_panic for_each_not_panic
      check_g1_coords_not_panic) auto

lemma ValidateVKeyBytes_iff:
  "ValidateVKeyBytes x data m = Inr u \<longleftrightarrow>
     (m = 0 \<or> len64 data \<le> m)
     \<and> (\<exists>vk. UnmarshalCircomVerificationKeyJSON x data = Inr vk \<and> circom_ok vk)"
  by (auto simp: ValidateVKeyBytes_def ValidateVKeyByteSize_def validateCircomVerificationKey_iff
      not_less word_neq_0_conv)

lemma ValidateVKeyForProofSystem_groth16:
  "default_proof_system ps = PROOF_SYSTEM_GROTH16 \<Longrightarrow>
     ValidateVKeyForProofSystem x b m ps = ValidateVKeyBytes x b m"
  by (simp add: ValidateVKeyForProofSystem_def)

lemma default_proof_system_idem [simp]:
  "default_proof_system (default_proof_system ps) = default_proof_system ps"
  by (simp add: default_proof_system_def)

lemma ValidateVKeyForProofSystem_default:
  "ValidateVKeyForProofSystem x b m (default_proof_system ps) = ValidateVKeyForProofSystem x b m ps"
  by (simp add: ValidateVKeyForProofSystem_def)

section \<open>Genesis: what validation guarantees\<close>

definition genesis_vkey_ok :: "vkey_ext \<Rightarrow> Params \<Rightarrow> VKey \<Rightarrow> bool" where
  "genesis_vkey_ok x params vk \<longleftrightarrow>
     vk_Name vk \<noteq> [] \<and> vk_KeyBytes vk \<noteq> []
     \<and> ValidateVKeyForProofSystem x (vk_KeyBytes vk) (MaxVkeySizeBytes params) (vk_ProofSystem vk) = Inr ()"

lemma validate_genesis_vkeys_iff:
  "validate_genesis_vkeys x params ids names vks = Inr u \<longleftrightarrow>
     distinct (map fst vks) \<and> set (map fst vks) \<inter> ids = {}
     \<and> distinct (map (vk_Name \<circ> snd) vks) \<and> set (map (vk_Name \<circ> snd) vks) \<inter> names = {}
     \<and> list_all (genesis_vkey_ok x params \<circ> snd) vks"
  by (induction x params ids names vks rule: validate_genesis_vkeys.induct)
    (auto simp: genesis_vkey_ok_def)

lemma Validate_GenesisState_iff:
  "Validate_GenesisState x gs = Inr u \<longleftrightarrow>
     params_ok (genesis_params gs)
     \<and> distinct (map fst (gs_Vkeys gs)) \<and> distinct (map (vk_Name \<circ> snd) (gs_Vkeys gs))
     \<and> list_all (genesis_vkey_ok x (genesis_params gs) \<circ> snd) (gs_Vkeys gs)"
  by (simp add: Validate_GenesisState_def Let_def Validate_Params_iff validate_genesis_vkeys_iff)

end
