(* ===== verification/Zk_Keeper.thy ===== *)
theory Zk_Keeper
  imports Zk_Types
begin

text \<open>
  \<open>x/zk/keeper\<close> and \<open>x/zk/migrations\<close>: the stored verification keys with their name index and
  id sequence, the keeper's operations, the message server, genesis import and export, the store
  migrations.  The state is the record of the keeper's collections; a gas
  meter is a value threaded through \<open>ConsumeGas\<close>, which is an argument because the meter is the
  SDK's.
\<close>

section \<open>State and environment\<close>

record zk_state =
  VKeys :: "(u64, VKey) kv"
  NextVKeyID :: u64
  VKeyNameIndex :: "(string, u64) kv"
  zk_Params :: "Params option"

record zk_env =
  ze_authority :: string
  ze_ext :: vkey_ext

text \<open>\<open>NewKeeper\<close>: an empty authority is replaced by the address of the gov module account.\<close>

definition NewKeeper :: "vkey_ext \<Rightarrow> string \<Rightarrow> string \<Rightarrow> zk_env" where
  "NewKeeper x gov_address authority =
     \<lparr> ze_authority = (if authority = [] then gov_address else authority), ze_ext = x \<rparr>"

text \<open>The state of a chain that never ran the module; \<open>start\<close> is the sequence's default start.\<close>

definition zk_empty :: "u64 \<Rightarrow> zk_state" where
  "zk_empty start = \<lparr> VKeys = [], NextVKeyID = start, VKeyNameIndex = [], zk_Params = None \<rparr>"

section \<open>Keeper (keeper.go)\<close>

definition GetParams :: "zk_state \<Rightarrow> Params" where
  "GetParams st =
     (case zk_Params st of None \<Rightarrow> DefaultParams | Some p \<Rightarrow> WithMaxLimitDefaults p)"

definition SetParams :: "Params \<Rightarrow> zk_state \<Rightarrow> zk_state result" where
  "SetParams params st =
     (let p = WithMaxLimitDefaults params in
      bindr (Validate_Params p) (\<lambda>_. Inr (st\<lparr> zk_Params := Some p \<rparr>)))"

definition ensureVKeySize :: "Params \<Rightarrow> bytes \<Rightarrow> u64 result" where
  "ensureVKeySize params keyBytes = GasCostForSize params (len64 keyBytes)"

definition GetVKeyByID :: "zk_state \<Rightarrow> u64 \<Rightarrow> VKey result" where
  "GetVKeyByID st i =
     (case kv_get (VKeys st) i of None \<Rightarrow> Inl ErrVKeyNotFound | Some vk \<Rightarrow> Inr vk)"

definition GetVKeyByName :: "zk_state \<Rightarrow> string \<Rightarrow> VKey result" where
  "GetVKeyByName st nm =
     (case kv_get (VKeyNameIndex st) nm of
        None \<Rightarrow> Inl ErrVKeyNotFound
      | Some i \<Rightarrow> GetVKeyByID st i)"

definition GetCircomVKeyByName :: "vkey_ext \<Rightarrow> zk_state \<Rightarrow> string \<Rightarrow> CircomVerificationKey result" where
  "GetCircomVKeyByName x st nm = bindr (GetVKeyByName st nm) (UnmarshalVKey x)"

definition GetCircomVKeyByID :: "vkey_ext \<Rightarrow> zk_state \<Rightarrow> u64 \<Rightarrow> CircomVerificationKey result" where
  "GetCircomVKeyByID x st i = bindr (GetVKeyByID st i) (UnmarshalVKey x)"

text \<open>\<open>collections.Sequence.Next\<close>: the current value, and the counter one further.\<close>

definition Sequence_Next :: "zk_state \<Rightarrow> u64 \<times> zk_state" where
  "Sequence_Next st = (NextVKeyID st, st\<lparr> NextVKeyID := NextVKeyID st + 1 \<rparr>)"

definition AddVKey ::
  "zk_env \<Rightarrow> ('g \<Rightarrow> u64 \<Rightarrow> 'g result) \<Rightarrow> string \<Rightarrow> string \<Rightarrow> bytes \<Rightarrow> string \<Rightarrow> ProofSystem
     \<Rightarrow> 'g \<Rightarrow> zk_state \<Rightarrow> (u64 \<times> 'g \<times> zk_state) result" where
  "AddVKey env ConsumeGas authority nm keyBytes description proofSystem0 g st =
     (let proofSystem = default_proof_system proofSystem0; params = GetParams st in
      bindr (ensure (\<not> kv_has (VKeyNameIndex st) nm) ErrVKeyExists) (\<lambda>_.
      bindr (ensureVKeySize params keyBytes) (\<lambda>gasCost.
      bindr (ConsumeGas g gasCost) (\<lambda>g'.
      bindr (wrap_as ErrInvalidVKey
               (ValidateVKeyForProofSystem (ze_ext env) keyBytes (MaxVkeySizeBytes params) proofSystem)) (\<lambda>_.
      let (i, st1) = Sequence_Next st;
          vkey = \<lparr> vk_KeyBytes = keyBytes, vk_Name = nm, vk_Description = description,
                   vk_CircuitHash = [], vk_Authority = authority, vk_ProofSystem = proofSystem \<rparr>
      in Inr (i, g', st1\<lparr> VKeys := kv_set i vkey (VKeys st1),
                          VKeyNameIndex := kv_set nm i (VKeyNameIndex st1) \<rparr>))))))"

text \<open>The stored entry of a name and the authority that may change it.\<close>

definition stored_vkey :: "zk_state \<Rightarrow> string \<Rightarrow> (u64 \<times> VKey) result" where
  "stored_vkey st nm =
     (case kv_get (VKeyNameIndex st) nm of
        None \<Rightarrow> Inl ErrVKeyNotFound
      | Some i \<Rightarrow>
          (case kv_get (VKeys st) i of None \<Rightarrow> Inl ErrVKeyNotFound | Some vk \<Rightarrow> Inr (i, vk)))"

definition stored_authority :: "zk_env \<Rightarrow> VKey \<Rightarrow> string" where
  "stored_authority env vk = (if vk_Authority vk = [] then ze_authority env else vk_Authority vk)"

definition UpdateVKey ::
  "zk_env \<Rightarrow> ('g \<Rightarrow> u64 \<Rightarrow> 'g result) \<Rightarrow> string \<Rightarrow> string \<Rightarrow> bytes \<Rightarrow> string \<Rightarrow> ProofSystem
     \<Rightarrow> 'g \<Rightarrow> zk_state \<Rightarrow> ('g \<times> zk_state) result" where
  "UpdateVKey env ConsumeGas authority nm keyBytes description proofSystem0 g st =
     (let proofSystem = default_proof_system proofSystem0 in
      bindr (stored_vkey st nm) (\<lambda>(i, storedVKey).
      let storedAuthority = stored_authority env storedVKey in
      bindr (ensure (storedAuthority = authority) ErrInvalidAuthority) (\<lambda>_.
      let params = GetParams st in
      bindr (ensureVKeySize params keyBytes) (\<lambda>gasCost.
      bindr (ConsumeGas g gasCost) (\<lambda>g'.
      bindr (wrap_as ErrInvalidVKey
               (ValidateVKeyForProofSystem (ze_ext env) keyBytes (MaxVkeySizeBytes params) proofSystem)) (\<lambda>_.
      let updatedVKey =
            \<lparr> vk_KeyBytes = keyBytes, vk_Name = nm, vk_Description = description,
              vk_CircuitHash = [], vk_Authority = storedAuthority, vk_ProofSystem = proofSystem \<rparr>
      in Inr (g', st\<lparr> VKeys := kv_set i updatedVKey (VKeys st) \<rparr>)))))))"

definition RemoveVKey :: "zk_env \<Rightarrow> string \<Rightarrow> string \<Rightarrow> zk_state \<Rightarrow> zk_state result" where
  "RemoveVKey env authority nm st =
     bindr (stored_vkey st nm) (\<lambda>(i, storedVKey).
     bindr (ensure (stored_authority env storedVKey = authority) ErrInvalidAuthority) (\<lambda>_.
     Inr (st\<lparr> VKeys := kv_del i (VKeys st), VKeyNameIndex := kv_del nm (VKeyNameIndex st) \<rparr>)))"

definition ListVKeys :: "zk_state \<Rightarrow> VKey list" where
  "ListVKeys st = map snd (VKeys st)"

definition HasVKey :: "zk_state \<Rightarrow> string \<Rightarrow> bool" where
  "HasVKey st nm = kv_has (VKeyNameIndex st) nm"

text \<open>\<open>IterateVKeys\<close>: a walk in id order that the callback may stop or fail.\<close>

fun walk :: "('k \<Rightarrow> 'v \<Rightarrow> 's \<Rightarrow> (bool \<times> 's) result) \<Rightarrow> ('k \<times> 'v) list \<Rightarrow> 's \<Rightarrow> 's result" where
  "walk cb [] s = Inr s"
| "walk cb ((k, v) # es) s =
     bindr (cb k v s) (\<lambda>(stop, s'). if stop then Inr s' else walk cb es s')"

definition IterateVKeys :: "zk_state \<Rightarrow> (u64 \<Rightarrow> VKey \<Rightarrow> 's \<Rightarrow> (bool \<times> 's) result) \<Rightarrow> 's \<Rightarrow> 's result" where
  "IterateVKeys st cb s = walk cb (VKeys st) s"

section \<open>Genesis import and export (keeper.go)\<close>

definition import_vkey :: "zk_env \<Rightarrow> Params \<Rightarrow> u64 \<times> VKey \<Rightarrow> zk_state \<Rightarrow> zk_state result" where
  "import_vkey env params e st =
     (let (i, vkey0) = e in
      bindr (must (ValidateVKeyBytes (ze_ext env) (vk_KeyBytes vkey0) (MaxVkeySizeBytes params))) (\<lambda>_.
      let vkey = vkey0\<lparr> vk_Authority := stored_authority env vkey0 \<rparr>;
          st1 = st\<lparr> VKeys := kv_set i vkey (VKeys st),
                    VKeyNameIndex := kv_set (vk_Name vkey) i (VKeyNameIndex st) \<rparr>
      in Inr (if i \<ge> NextVKeyID st1 then st1\<lparr> NextVKeyID := i + 1 \<rparr> else st1)))"

definition InitGenesis :: "zk_env \<Rightarrow> GenesisState \<Rightarrow> zk_state \<Rightarrow> zk_state result" where
  "InitGenesis env gs st =
     (let params = genesis_params gs in
      bindr (must (Validate_Params params)) (\<lambda>_.
      bindr (must (SetParams params st)) (\<lambda>st1.
      fold_each (import_vkey env params) (gs_Vkeys gs) st1)))"

definition ExportGenesis :: "zk_state \<Rightarrow> GenesisState result" where
  "ExportGenesis st =
     bindr (map_each (\<lambda>vkey.
              case kv_get (VKeyNameIndex st) (vk_Name vkey) of
                None \<Rightarrow> Inl (GoPanic ''not found'')
              | Some i \<Rightarrow> Inr (i, vkey)) (ListVKeys st)) (\<lambda>vkeysWithID.
     Inr \<lparr> gs_Vkeys = vkeysWithID, gs_Params = GetParams st \<rparr>)"

section \<open>Message server (msg_server.go)\<close>

type_synonym event = "string \<times> (string \<times> string) list"

definition msg_AddVKey ::
  "zk_env \<Rightarrow> ('g \<Rightarrow> u64 \<Rightarrow> 'g result) \<Rightarrow> MsgAddVKey \<Rightarrow> 'g \<Rightarrow> zk_state
     \<Rightarrow> (u64 \<times> event list \<times> 'g \<times> zk_state) result" where
  "msg_AddVKey env ConsumeGas msg g st =
     bindr (ValidateBasic_MsgAddVKey (ze_ext env) msg) (\<lambda>_.
     bindr (AddVKey env ConsumeGas (add_Authority msg) (add_Name msg) (add_VkeyBytes msg)
              (add_Description msg) (add_ProofSystem msg) g st) (\<lambda>(i, g', st').
     Inr (i, [(''add_vkey'', [(''vkey_id'', decimal (unat i)), (''vkey_name'', add_Name msg),
                              (''authority'', add_Authority msg)])], g', st')))"

definition msg_UpdateVKey ::
  "zk_env \<Rightarrow> ('g \<Rightarrow> u64 \<Rightarrow> 'g result) \<Rightarrow> MsgUpdateVKey \<Rightarrow> 'g \<Rightarrow> zk_state
     \<Rightarrow> (event list \<times> 'g \<times> zk_state) result" where
  "msg_UpdateVKey env ConsumeGas msg g st =
     bindr (ValidateBasic_MsgUpdateVKey (ze_ext env) msg) (\<lambda>_.
     bindr (UpdateVKey env ConsumeGas (upd_Authority msg) (upd_Name msg) (upd_VkeyBytes msg)
              (upd_Description msg) (upd_ProofSystem msg) g st) (\<lambda>(g', st').
     Inr ([(''update_vkey'', [(''vkey_name'', upd_Name msg), (''authority'', upd_Authority msg)])],
          g', st')))"

definition msg_RemoveVKey ::
  "zk_env \<Rightarrow> MsgRemoveVKey \<Rightarrow> zk_state \<Rightarrow> (event list \<times> zk_state) result" where
  "msg_RemoveVKey env msg st =
     bindr (RemoveVKey env (rem_Authority msg) (rem_Name msg) st) (\<lambda>st'.
     Inr ([(''remove_vkey'', [(''vkey_name'', rem_Name msg), (''authority'', rem_Authority msg)])], st'))"

definition msg_UpdateParams :: "zk_env \<Rightarrow> MsgUpdateParams \<Rightarrow> zk_state \<Rightarrow> zk_state result" where
  "msg_UpdateParams env msg st =
     bindr (ensure (par_Authority msg = ze_authority env) ErrInvalidAuthority) (\<lambda>_.
     SetParams (par_Params msg) st)"

text \<open>The messages of the module, delivered with the gas meter of their transaction.\<close>

datatype zk_msg =
    AddVKeyMsg MsgAddVKey
  | UpdateVKeyMsg MsgUpdateVKey
  | RemoveVKeyMsg MsgRemoveVKey
  | UpdateParamsMsg MsgUpdateParams

fun zk_signer :: "zk_msg \<Rightarrow> string" where
  "zk_signer (AddVKeyMsg m) = add_Authority m"
| "zk_signer (UpdateVKeyMsg m) = upd_Authority m"
| "zk_signer (RemoveVKeyMsg m) = rem_Authority m"
| "zk_signer (UpdateParamsMsg m) = par_Authority m"

fun zk_step :: "zk_env \<Rightarrow> ('g \<Rightarrow> u64 \<Rightarrow> 'g result) \<Rightarrow> 'g \<times> zk_msg \<Rightarrow> zk_state \<Rightarrow> zk_state result" where
  "zk_step env cg (g, AddVKeyMsg m) st = bindr (msg_AddVKey env cg m g st) (\<lambda>(_, _, _, st'). Inr st')"
| "zk_step env cg (g, UpdateVKeyMsg m) st = bindr (msg_UpdateVKey env cg m g st) (\<lambda>(_, _, st'). Inr st')"
| "zk_step env cg (g, RemoveVKeyMsg m) st = bindr (msg_RemoveVKey env m st) (\<lambda>(_, st'). Inr st')"
| "zk_step env cg (g, UpdateParamsMsg m) st = msg_UpdateParams env m st"

section \<open>Migrations (migrations/v2, migrations/v3)\<close>

text \<open>\<open>defaults\<close> is the key list of \<open>DefaultGenesisState\<close>.\<close>

definition MigrateStore_v2 :: "(u64 \<times> VKey) list \<Rightarrow> zk_state \<Rightarrow> zk_state" where
  "MigrateStore_v2 defaults st =
     (case find (\<lambda>e. fst e = 1) defaults of
        None \<Rightarrow> st
      | Some (_, vk) \<Rightarrow>
          if length (vk_KeyBytes vk) \<noteq> 0 then st\<lparr> VKeys := kv_set 1 vk (VKeys st) \<rparr> else st)"

definition MigrateStore_v3 :: "zk_state \<Rightarrow> zk_state" where
  "MigrateStore_v3 st =
     (case zk_Params st of
        None \<Rightarrow> st
      | Some p \<Rightarrow>
          st\<lparr> zk_Params := Some (p
            \<lparr> MaxGroth16ProofSizeBytes :=
                or_default DefaultMaxGroth16ProofSizeBytes (MaxGroth16ProofSizeBytes p),
              MaxGroth16PublicInputSizeBytes :=
                or_default DefaultMaxGroth16PublicInputSizeBytes (MaxGroth16PublicInputSizeBytes p),
              MaxUltraHonkProofSizeBytes :=
                or_default DefaultMaxUltraHonkProofSizeBytes (MaxUltraHonkProofSizeBytes p),
              MaxUltraHonkPublicInputSizeBytes :=
                or_default DefaultMaxUltraHonkPublicInputSizeBytes (MaxUltraHonkPublicInputSizeBytes p) \<rparr>) \<rparr>)"

section \<open>The state invariant\<close>

text \<open>
  The name index and the key store agree, every id lies below the sequence, stored parameters
  validate once backfilled, and every stored key passed the validation of its proof system under
  some admissible size limit.
\<close>

definition vkey_valid :: "vkey_ext \<Rightarrow> VKey \<Rightarrow> bool" where
  "vkey_valid x vk \<longleftrightarrow>
     (\<exists>m. m \<noteq> 0 \<and> m \<le> MaxAllowedVKeySizeBytes
        \<and> ValidateVKeyForProofSystem x (vk_KeyBytes vk) m (vk_ProofSystem vk) = Inr ())"

definition zk_inv :: "zk_env \<Rightarrow> zk_state \<Rightarrow> bool" where
  "zk_inv env st \<longleftrightarrow>
     kv_wf (VKeys st) \<and> kv_wf (VKeyNameIndex st)
     \<and> index_ok (kv_get (VKeyNameIndex st)) (kv_get (VKeys st)) vk_Name
     \<and> (\<forall>i vk. kv_get (VKeys st) i = Some vk \<longrightarrow> i < NextVKeyID st \<and> vkey_valid (ze_ext env) vk)
     \<and> (\<forall>p. zk_Params st = Some p \<longrightarrow> params_ok (WithMaxLimitDefaults p))"

interpretation zk_index: indexed_store
  kv_get kv_set kv_del "kv_wf :: (u64, VKey) kv \<Rightarrow> bool"
  kv_get kv_set kv_del "kv_wf :: (string, u64) kv \<Rightarrow> bool" vk_Name
  by unfold_locales

lemma GetParams_ok: "zk_inv env st \<Longrightarrow> params_ok (GetParams st)"
  by (auto simp: GetParams_def zk_inv_def DefaultParams_ok split: option.split)

lemma zk_empty_inv: "zk_inv env (zk_empty start)"
  by (simp add: zk_inv_def zk_empty_def index_ok_def)

lemma SetParams_Inr_iff:
  "SetParams p st = Inr st' \<longleftrightarrow>
     params_ok (WithMaxLimitDefaults p) \<and> st' = st\<lparr> zk_Params := Some (WithMaxLimitDefaults p) \<rparr>"
  by (auto simp: SetParams_def Let_def Validate_Params_iff)

lemma SetParams_inv: "SetParams p st = Inr st' \<Longrightarrow> zk_inv env st \<Longrightarrow> zk_inv env st'"
  by (auto simp: SetParams_Inr_iff zk_inv_def WithMaxLimitDefaults_idem)

lemma stored_vkey_Inr_iff:
  "stored_vkey st nm = Inr (i, vk) \<longleftrightarrow>
     kv_get (VKeyNameIndex st) nm = Some i \<and> kv_get (VKeys st) i = Some vk"
  by (auto simp: stored_vkey_def split: option.splits)

lemma stored_vkey_name:
  "zk_inv env st \<Longrightarrow> stored_vkey st nm = Inr (i, vk) \<Longrightarrow> vk_Name vk = nm"
  using index_okD by (fastforce simp: stored_vkey_Inr_iff zk_inv_def)

text \<open>Inversion of the operations: what a successful call checked and what it wrote.\<close>

lemma AddVKey_InrD:
  assumes "AddVKey env cg a nm kb d ps g st = Inr (i, g', st')"
  defines "vk \<equiv> \<lparr> vk_KeyBytes = kb, vk_Name = nm, vk_Description = d, vk_CircuitHash = [],
                  vk_Authority = a, vk_ProofSystem = default_proof_system ps \<rparr>"
  shows "kv_get (VKeyNameIndex st) nm = None" and "i = NextVKeyID st"
    and "\<exists>c. ensureVKeySize (GetParams st) kb = Inr c \<and> cg g c = Inr g'"
    and "ValidateVKeyForProofSystem (ze_ext env) kb (MaxVkeySizeBytes (GetParams st)) ps = Inr ()"
    and "st' = st\<lparr> VKeys := kv_set i vk (VKeys st), NextVKeyID := i + 1,
                   VKeyNameIndex := kv_set nm i (VKeyNameIndex st) \<rparr>"
  using assms
  by (auto simp: AddVKey_def Let_def Sequence_Next_def kv_has_def ValidateVKeyForProofSystem_default)

lemma UpdateVKey_InrD:
  assumes "UpdateVKey env cg a nm kb d ps g st = Inr (g', st')"
  obtains i vk where "stored_vkey st nm = Inr (i, vk)" and "stored_authority env vk = a"
    and "\<exists>c. ensureVKeySize (GetParams st) kb = Inr c \<and> cg g c = Inr g'"
    and "ValidateVKeyForProofSystem (ze_ext env) kb (MaxVkeySizeBytes (GetParams st)) ps = Inr ()"
    and "st' = st\<lparr> VKeys := kv_set i \<lparr> vk_KeyBytes = kb, vk_Name = nm, vk_Description = d,
           vk_CircuitHash = [], vk_Authority = a, vk_ProofSystem = default_proof_system ps \<rparr> (VKeys st) \<rparr>"
  using assms
  by (auto simp: UpdateVKey_def Let_def ValidateVKeyForProofSystem_default split: prod.splits)

lemma RemoveVKey_InrD:
  assumes "RemoveVKey env a nm st = Inr st'"
  obtains i vk where "stored_vkey st nm = Inr (i, vk)" and "stored_authority env vk = a"
    and "st' = st\<lparr> VKeys := kv_del i (VKeys st), VKeyNameIndex := kv_del nm (VKeyNameIndex st) \<rparr>"
  using assms by (auto simp: RemoveVKey_def split: prod.splits)

lemma vkey_validI:
  assumes "zk_inv env st"
    and "ValidateVKeyForProofSystem x kb (MaxVkeySizeBytes (GetParams st)) ps = Inr ()"
    and "vk_KeyBytes vk = kb" and "vk_ProofSystem vk = default_proof_system ps"
  shows "vkey_valid x vk"
proof -
  have "params_ok (GetParams st)"
    using assms(1) by (rule GetParams_ok)
  then show ?thesis
    using assms(2-4) unfolding vkey_valid_def
    by (intro exI [of _ "MaxVkeySizeBytes (GetParams st)"])
      (simp add: params_ok_def unat_gt_0 zk_const_defs word_le_nat_alt ValidateVKeyForProofSystem_default)
qed

text \<open>Each operation keeps the invariant; an upload needs an id that has a successor.\<close>

lemma AddVKey_inv:
  assumes "AddVKey env cg a nm kb d ps g st = Inr (i, g', st')" and "zk_inv env st"
    and "NextVKeyID st \<noteq> - 1"
  shows "zk_inv env st'"
proof -
  note D = AddVKey_InrD [OF assms(1)]
  define vk where "vk = \<lparr> vk_KeyBytes = kb, vk_Name = nm, vk_Description = d, vk_CircuitHash = [],
                  vk_Authority = a, vk_ProofSystem = default_proof_system ps \<rparr>"
  have next_: "NextVKeyID st < NextVKeyID st + 1"
    using assms(3) by (rule word_less_succ)
  have free: "kv_get (VKeys st) i = None"
    using assms(2) D(2) by (cases "kv_get (VKeys st) i") (auto simp: zk_inv_def)
  have "index_ok (kv_get (kv_set (vk_Name vk) i (VKeyNameIndex st))) (kv_get (kv_set i vk (VKeys st))) vk_Name"
    using assms(2) D(1) free by (intro zk_index.index_insert) (auto simp: zk_inv_def vk_def)
  moreover have "vkey_valid (ze_ext env) vk"
    using assms(2) D(4) by (rule vkey_validI) (simp_all add: vk_def)
  moreover have "j < NextVKeyID st + 1" if "kv_get (VKeys st) j = Some w" for j w
    using assms(2) that next_ less_trans unfolding zk_inv_def by blast
  ultimately show ?thesis
    using assms(2) next_ D(2) unfolding D(5) vk_def [symmetric]
    by (auto simp: zk_inv_def vk_def split: if_splits)
qed

lemma UpdateVKey_inv:
  assumes "UpdateVKey env cg a nm kb d ps g st = Inr (g', st')" and "zk_inv env st"
  shows "zk_inv env st'"
proof -
  from assms(1) obtain i vk where D: "stored_vkey st nm = Inr (i, vk)"
    "ValidateVKeyForProofSystem (ze_ext env) kb (MaxVkeySizeBytes (GetParams st)) ps = Inr ()"
    "st' = st\<lparr> VKeys := kv_set i \<lparr> vk_KeyBytes = kb, vk_Name = nm, vk_Description = d,
       vk_CircuitHash = [], vk_Authority = a, vk_ProofSystem = default_proof_system ps \<rparr> (VKeys st) \<rparr>"
    by (rule UpdateVKey_InrD)
  define w where "w = \<lparr> vk_KeyBytes = kb, vk_Name = nm, vk_Description = d,
    vk_CircuitHash = [], vk_Authority = a, vk_ProofSystem = default_proof_system ps \<rparr>"
  have "vk_Name w = vk_Name vk"
    using stored_vkey_name [OF assms(2) D(1)] by (simp add: w_def)
  then have "index_ok (kv_get (VKeyNameIndex st)) (kv_get (kv_set i w (VKeys st))) vk_Name"
    using assms(2) D(1) by (intro zk_index.index_replace) (auto simp: zk_inv_def stored_vkey_Inr_iff)
  moreover have "vkey_valid (ze_ext env) w"
    using assms(2) D(2) by (rule vkey_validI) (simp_all add: w_def)
  ultimately show ?thesis
    using assms(2) D(1) unfolding D(3) w_def [symmetric]
    by (auto simp: zk_inv_def stored_vkey_Inr_iff split: if_splits)
qed

lemma RemoveVKey_inv:
  assumes "RemoveVKey env a nm st = Inr st'" and "zk_inv env st"
  shows "zk_inv env st'"
proof -
  from assms(1) obtain i vk where D: "stored_vkey st nm = Inr (i, vk)"
    "st' = st\<lparr> VKeys := kv_del i (VKeys st), VKeyNameIndex := kv_del nm (VKeyNameIndex st) \<rparr>"
    by (rule RemoveVKey_InrD)
  have "index_ok (kv_get (kv_del (vk_Name vk) (VKeyNameIndex st))) (kv_get (kv_del i (VKeys st))) vk_Name"
    using assms(2) D(1) by (intro zk_index.index_delete) (auto simp: zk_inv_def stored_vkey_Inr_iff)
  then show ?thesis
    using assms(2) stored_vkey_name [OF assms(2) D(1)] unfolding D(2)
    by (auto simp: zk_inv_def split: if_splits)
qed

text \<open>The cases of a delivered message, as the keeper calls behind it.\<close>

lemma zk_step_cases:
  assumes "zk_step env cg (g, m) st = Inr st'"
  obtains (Add) a nm kb d ps i g' where "AddVKey env cg a nm kb d ps g st = Inr (i, g', st')"
      and "a = zk_signer m"
    | (Update) a nm kb d ps g' where "UpdateVKey env cg a nm kb d ps g st = Inr (g', st')"
      and "a = zk_signer m"
    | (Remove) nm where "RemoveVKey env (zk_signer m) nm st = Inr st'"
    | (Params) p where "zk_signer m = ze_authority env" and "SetParams p st = Inr st'"
  using assms
proof (cases m)
  case (AddVKeyMsg x1)
  then show ?thesis using assms Add by (auto simp: msg_AddVKey_def)
next
  case (UpdateVKeyMsg x2)
  then show ?thesis using assms Update by (auto simp: msg_UpdateVKey_def)
next
  case (RemoveVKeyMsg x3)
  then show ?thesis using assms Remove by (auto simp: msg_RemoveVKey_def)
next
  case (UpdateParamsMsg x4)
  then show ?thesis using assms Params by (auto simp: msg_UpdateParams_def)
qed

lemma zk_step_next:
  assumes "zk_step env cg (g, m) st = Inr st'"
  shows "NextVKeyID st' = NextVKeyID st \<or> NextVKeyID st' = NextVKeyID st + 1"
  using assms
proof (cases rule: zk_step_cases)
  case Add
  then show ?thesis using AddVKey_InrD(2,5) [OF Add(1)] by simp
next
  case Update
  then show ?thesis by (auto elim!: UpdateVKey_InrD)
next
  case Remove
  then show ?thesis by (auto elim!: RemoveVKey_InrD)
next
  case Params
  then show ?thesis by (auto simp: SetParams_Inr_iff)
qed

lemma zk_step_inv:
  assumes "zk_step env cg (g, m) st = Inr st'" and "zk_inv env st" and "NextVKeyID st \<noteq> - 1"
  shows "zk_inv env st'"
  using assms(1)
proof (cases rule: zk_step_cases)
  case Add
  then show ?thesis using AddVKey_inv [OF Add(1) assms(2,3)] by simp
next
  case Update
  then show ?thesis using UpdateVKey_inv [OF Update(1) assms(2)] by simp
next
  case Remove
  then show ?thesis using RemoveVKey_inv [OF Remove assms(2)] by simp
next
  case Params
  then show ?thesis using SetParams_inv [OF Params(2) assms(2)] by simp
qed

lemma unat_minus_one_word: "unat (- 1 :: u64) = 2 ^ 64 - 1"
  by (simp add: unsigned_minus_1_eq_mask mask_eq_exp_minus_1)

interpretation zk_machine: counter_machine
  "zk_step env cg" "zk_inv env" "\<lambda>st. unat (NextVKeyID st)" "2 ^ 64 - 1" for env cg
proof
  fix m :: "'a \<times> zk_msg" and s t
  assume "zk_step env cg m s = Inr t" "zk_inv env s" "unat (NextVKeyID s) < 2 ^ 64 - 1"
  moreover obtain g m' where "m = (g, m')"
    by (cases m)
  moreover have "NextVKeyID s \<noteq> - 1"
    using \<open>unat (NextVKeyID s) < 2 ^ 64 - 1\<close> unat_minus_one_word by auto
  ultimately show "zk_inv env t \<and> unat (NextVKeyID t) \<le> Suc (unat (NextVKeyID s))"
    using zk_step_inv zk_step_next unat_succ_le by (metis le_SucI order_refl)
qed

section \<open>Who may change what\<close>

lemma AddVKey_keeps_others:
  assumes "AddVKey env cg a nm kb d ps g st = Inr (i, g', st')" and "zk_inv env st"
    and "stored_vkey st n = Inr e"
  shows "stored_vkey st' n = Inr e"
proof -
  note D = AddVKey_InrD [OF assms(1)]
  obtain j vk where e: "e = (j, vk)"
    by (cases e)
  have "n \<noteq> nm"
    using assms(3) D(1) by (auto simp: e stored_vkey_Inr_iff)
  moreover have "j \<noteq> i"
    using assms(2,3) D(2) by (auto simp: e stored_vkey_Inr_iff zk_inv_def)
  ultimately show ?thesis
    using assms(3) by (simp add: e stored_vkey_Inr_iff D(5))
qed

lemma UpdateVKey_keeps_others:
  assumes "UpdateVKey env cg a nm kb d ps g st = Inr (g', st')" and "zk_inv env st"
    and "stored_vkey st n = Inr (i, vk)" and "stored_authority env vk \<noteq> a"
  shows "stored_vkey st' n = Inr (i, vk)"
proof -
  from assms(1) obtain j w where D: "stored_vkey st nm = Inr (j, w)" "stored_authority env w = a"
    "st' = st\<lparr> VKeys := kv_set j \<lparr> vk_KeyBytes = kb, vk_Name = nm, vk_Description = d,
       vk_CircuitHash = [], vk_Authority = a, vk_ProofSystem = default_proof_system ps \<rparr> (VKeys st) \<rparr>"
    by (rule UpdateVKey_InrD)
  have "i \<noteq> j"
    using D(1,2) assms(3,4) by (auto simp: stored_vkey_Inr_iff)
  then show ?thesis
    using assms(3) by (simp add: stored_vkey_Inr_iff D(3))
qed

lemma RemoveVKey_keeps_others:
  assumes "RemoveVKey env a nm st = Inr st'" and "zk_inv env st"
    and "stored_vkey st n = Inr (i, vk)" and "stored_authority env vk \<noteq> a"
  shows "stored_vkey st' n = Inr (i, vk)"
proof -
  from assms(1) obtain j w where D: "stored_vkey st nm = Inr (j, w)" "stored_authority env w = a"
    "st' = st\<lparr> VKeys := kv_del j (VKeys st), VKeyNameIndex := kv_del nm (VKeyNameIndex st) \<rparr>"
    by (rule RemoveVKey_InrD)
  have "i \<noteq> j" "n \<noteq> nm"
    using D(1,2) assms(3,4) by (auto simp: stored_vkey_Inr_iff)
  then show ?thesis
    using assms(3) by (simp add: stored_vkey_Inr_iff D(3))
qed

text \<open>
  The messages that may touch the entry of a name: any message in a state outside the invariant,
  a message on an unbound name, and a message of the entry's authority.
\<close>

definition name_gate :: "zk_env \<Rightarrow> string \<Rightarrow> zk_state \<Rightarrow> 'g \<times> zk_msg \<Rightarrow> bool" where
  "name_gate env n st gm \<longleftrightarrow>
     \<not> zk_inv env st
     \<or> (case stored_vkey st n of
          Inl _ \<Rightarrow> True
        | Inr (_, vk) \<Rightarrow> zk_signer (snd gm) = stored_authority env vk)"

interpretation zk_name_gate: gated_machine
  "zk_step env cg" "name_gate env n" "\<lambda>st. stored_vkey st n" for env cg n
proof
  fix gm :: "'a \<times> zk_msg" and s t
  assume step: "zk_step env cg gm s = Inr t" and "\<not> name_gate env n s gm"
  then obtain i vk where inv: "zk_inv env s" and e: "stored_vkey s n = Inr (i, vk)"
    and a: "zk_signer (snd gm) \<noteq> stored_authority env vk"
    by (auto simp: name_gate_def split: sum.splits)
  obtain g m where gm: "gm = (g, m)"
    by (cases gm)
  from step [unfolded gm] show "stored_vkey t n = stored_vkey s n"
  proof (cases rule: zk_step_cases)
    case Add
    then show ?thesis using AddVKey_keeps_others [OF Add(1) inv e] e by simp
  next
    case Update
    then show ?thesis using UpdateVKey_keeps_others [OF Update(1) inv e] e a gm by simp
  next
    case Remove
    then show ?thesis using RemoveVKey_keeps_others [OF Remove inv e] e a gm by simp
  next
    case Params
    then show ?thesis by (auto simp: SetParams_Inr_iff stored_vkey_def split: option.split)
  qed
qed

interpretation zk_params_gate: gated_machine
  "zk_step env cg" "\<lambda>_ gm. zk_signer (snd gm) = ze_authority env" zk_Params for env cg
proof
  fix gm :: "'a \<times> zk_msg" and s t
  assume step: "zk_step env cg gm s = Inr t" and a: "zk_signer (snd gm) \<noteq> ze_authority env"
  obtain g m where gm: "gm = (g, m)"
    by (cases gm)
  from step [unfolded gm] show "zk_Params t = zk_Params s"
  proof (cases rule: zk_step_cases)
    case Add
    then show ?thesis using AddVKey_InrD(5) [OF Add(1)] by simp
  next
    case Update
    then show ?thesis by (auto elim!: UpdateVKey_InrD)
  next
    case Remove
    then show ?thesis by (auto elim!: RemoveVKey_InrD)
  next
    case Params
    then show ?thesis using a gm by simp
  qed
qed

text \<open>An id below the sequence that carries no key stays without one.\<close>

definition retired :: "zk_env \<Rightarrow> u64 \<Rightarrow> zk_state \<Rightarrow> bool" where
  "retired env i st \<longleftrightarrow> zk_inv env st \<and> i < NextVKeyID st \<and> kv_get (VKeys st) i = None"

lemma zk_step_retired:
  assumes "zk_step env cg (g, m) st = Inr st'" and "retired env i st" and "NextVKeyID st \<noteq> - 1"
  shows "retired env i st'"
proof -
  have "zk_inv env st'"
    using zk_step_inv [OF assms(1)] assms(2,3) by (simp add: retired_def)
  moreover have "i < NextVKeyID st'"
    using zk_step_next [OF assms(1)] assms(2) word_less_succ [OF assms(3)]
    unfolding retired_def by (auto intro: less_trans)
  moreover have "kv_get (VKeys st') i = None"
    using assms(1)
  proof (cases rule: zk_step_cases)
    case Add
    then show ?thesis
      using AddVKey_InrD(2,5) [OF Add(1)] assms(2) by (auto simp: retired_def)
  next
    case Update
    then show ?thesis
      using assms(2) by (auto elim!: UpdateVKey_InrD simp: retired_def stored_vkey_Inr_iff)
  next
    case Remove
    then show ?thesis
      using assms(2) by (auto elim!: RemoveVKey_InrD simp: retired_def)
  next
    case Params
    then show ?thesis
      using assms(2) by (auto simp: SetParams_Inr_iff retired_def)
  qed
  ultimately show ?thesis
    by (simp add: retired_def)
qed

interpretation zk_retired: counter_machine
  "zk_step env cg" "retired env i" "\<lambda>st. unat (NextVKeyID st)" "2 ^ 64 - 1" for env cg i
proof
  fix m :: "'a \<times> zk_msg" and s t
  assume *: "zk_step env cg m s = Inr t" "retired env i s" "unat (NextVKeyID s) < 2 ^ 64 - 1"
  obtain g m' where m: "m = (g, m')"
    by (cases m)
  have "NextVKeyID s \<noteq> - 1"
    using *(3) unat_minus_one_word by auto
  then show "retired env i t \<and> unat (NextVKeyID t) \<le> Suc (unat (NextVKeyID s))"
    using zk_step_retired [OF *(1) [unfolded m] *(2)] zk_step_next [OF *(1) [unfolded m]]
      unat_succ_le [of "NextVKeyID s"] by auto
qed

section \<open>Genesis import and export\<close>

definition filled :: "zk_env \<Rightarrow> VKey \<Rightarrow> VKey" where
  "filled env vk = vk\<lparr> vk_Authority := stored_authority env vk \<rparr>"

text \<open>An imported entry is admissible when it is circom-valid under the size limit, which is all the
  import checks, and valid for its proof system under some admissible limit.\<close>

definition importable :: "zk_env \<Rightarrow> Params \<Rightarrow> u64 \<times> VKey \<Rightarrow> bool" where
  "importable env params e \<longleftrightarrow>
     fst e \<noteq> - 1
     \<and> ValidateVKeyBytes (ze_ext env) (vk_KeyBytes (snd e)) (MaxVkeySizeBytes params) = Inr ()
     \<and> vkey_valid (ze_ext env) (snd e)"

lemma import_vkey_step:
  assumes "importable env params (i, vk)"
  shows "import_vkey env params (i, vk) st = Inr (st
    \<lparr> VKeys := kv_set i (filled env vk) (VKeys st),
      NextVKeyID := (if i \<ge> NextVKeyID st then i + 1 else NextVKeyID st),
      VKeyNameIndex := kv_set (vk_Name vk) i (VKeyNameIndex st) \<rparr>)"
  using assms by (simp add: import_vkey_def importable_def Let_def filled_def)

lemma import_vkey_inv:
  assumes "zk_inv env st" and "params_ok params" and "importable env params (i, vk)"
    and "kv_get (VKeys st) i = None" and "kv_get (VKeyNameIndex st) (vk_Name vk) = None"
    and "import_vkey env params (i, vk) st = Inr st'"
  shows "zk_inv env st'"
proof -
  have st': "st' = st
    \<lparr> VKeys := kv_set i (filled env vk) (VKeys st),
      NextVKeyID := (if i \<ge> NextVKeyID st then i + 1 else NextVKeyID st),
      VKeyNameIndex := kv_set (vk_Name vk) i (VKeyNameIndex st) \<rparr>"
    using import_vkey_step [OF assms(3)] assms(6) by simp
  have nm: "vk_Name (filled env vk) = vk_Name vk"
    by (simp add: filled_def)
  have "index_ok (kv_get (kv_set (vk_Name (filled env vk)) i (VKeyNameIndex st)))
          (kv_get (kv_set i (filled env vk) (VKeys st))) vk_Name"
    using assms(1,4,5) by (intro zk_index.index_insert) (auto simp: zk_inv_def nm)
  moreover have "vkey_valid (ze_ext env) (filled env vk)"
    using assms(3) by (simp add: importable_def vkey_valid_def filled_def)
  moreover have "i < i + 1"
    using assms(3) by (intro word_less_succ) (simp add: importable_def)
  moreover have "j < i + 1" if "kv_get (VKeys st) j = Some w" "NextVKeyID st \<le> i" for j w
    using assms(1) that \<open>i < i + 1\<close> unfolding zk_inv_def by (meson less_le_trans less_trans)
  ultimately show ?thesis
    using assms(1) unfolding st' nm by (auto simp: zk_inv_def)
qed

lemma import_fold:
  assumes "zk_inv env st" and "params_ok params" and "list_all (importable env params) vks"
    and "distinct (map fst vks)" and "distinct (map (vk_Name \<circ> snd) vks)"
    and "\<And>i vk. (i, vk) \<in> set vks \<Longrightarrow>
           kv_get (VKeys st) i = None \<and> kv_get (VKeyNameIndex st) (vk_Name vk) = None"
  shows "\<exists>st'. fold_each (import_vkey env params) vks st = Inr st' \<and> zk_inv env st'
    \<and> zk_Params st' = zk_Params st
    \<and> kv_get (VKeys st') = (\<lambda>i. case map_of vks i of
          Some vk \<Rightarrow> Some (filled env vk) | None \<Rightarrow> kv_get (VKeys st) i)"
  using assms
proof (induction vks arbitrary: st)
  case (Cons e vks)
  obtain i vk where e: "e = (i, vk)"
    by (cases e)
  have imp: "importable env params (i, vk)"
    using Cons.prems(3) e by simp
  obtain st1 where st1: "import_vkey env params (i, vk) st = Inr st1"
    "st1 = st
    \<lparr> VKeys := kv_set i (filled env vk) (VKeys st),
      NextVKeyID := (if i \<ge> NextVKeyID st then i + 1 else NextVKeyID st),
      VKeyNameIndex := kv_set (vk_Name vk) i (VKeyNameIndex st) \<rparr>"
    using import_vkey_step [OF imp] by blast
  have fresh: "kv_get (VKeys st) i = None" "kv_get (VKeyNameIndex st) (vk_Name vk) = None"
    using Cons.prems(6) e by auto
  have inv1: "zk_inv env st1"
    using import_vkey_inv [OF Cons.prems(1,2) imp fresh st1(1)] .
  have "kv_get (VKeys st1) j = None \<and> kv_get (VKeyNameIndex st1) (vk_Name w) = None"
    if "(j, w) \<in> set vks" for j w
    using Cons.prems(4,5,6) that unfolding e st1(2) by force
  from Cons.IH [OF inv1 Cons.prems(2) _ _ _ this] Cons.prems(3,4,5) obtain st' where
    "fold_each (import_vkey env params) vks st1 = Inr st'" "zk_inv env st'"
    "zk_Params st' = zk_Params st1"
    "kv_get (VKeys st') = (\<lambda>i. case map_of vks i of
          Some vk \<Rightarrow> Some (filled env vk) | None \<Rightarrow> kv_get (VKeys st1) i)"
    by auto
  moreover have "map_of vks i = None"
    using Cons.prems(4) e by (auto simp: map_of_eq_None_iff)
  ultimately show ?case
    using st1 e by (intro exI [of _ st']) (auto split: option.split)
qed simp

lemma genesis_params_idem: "WithMaxLimitDefaults (genesis_params gs) = genesis_params gs"
  by (simp add: genesis_params_def WithMaxLimitDefaults_idem)

lemma InitGenesis_ok:
  assumes "params_ok (genesis_params gs)"
    and "list_all (importable env (genesis_params gs)) (gs_Vkeys gs)"
    and "distinct (map fst (gs_Vkeys gs))" and "distinct (map (vk_Name \<circ> snd) (gs_Vkeys gs))"
  shows "\<exists>st'. InitGenesis env gs (zk_empty start) = Inr st' \<and> zk_inv env st'
    \<and> GetParams st' = genesis_params gs
    \<and> kv_get (VKeys st') = (\<lambda>i. map_option (filled env) (map_of (gs_Vkeys gs) i))"
proof -
  define st1 where "st1 = (zk_empty start)\<lparr> zk_Params := Some (genesis_params gs) \<rparr>"
  have set: "SetParams (genesis_params gs) (zk_empty start) = Inr st1"
    using assms(1) by (simp add: SetParams_Inr_iff genesis_params_idem st1_def)
  have inv1: "zk_inv env st1"
    using set zk_empty_inv by (rule SetParams_inv)
  have "kv_get (VKeys st1) i = None \<and> kv_get (VKeyNameIndex st1) (vk_Name vk) = None"
    if "(i, vk) \<in> set (gs_Vkeys gs)" for i vk
    by (simp add: st1_def zk_empty_def)
  from import_fold [OF inv1 assms this] obtain st' where
    "fold_each (import_vkey env (genesis_params gs)) (gs_Vkeys gs) st1 = Inr st'" "zk_inv env st'"
    "zk_Params st' = zk_Params st1"
    "kv_get (VKeys st') = (\<lambda>i. case map_of (gs_Vkeys gs) i of
          Some vk \<Rightarrow> Some (filled env vk) | None \<Rightarrow> kv_get (VKeys st1) i)"
    by blast
  then show ?thesis
    using set assms(1)
    by (intro exI [of _ st'])
      (auto simp: InitGenesis_def Let_def Validate_Params_iff GetParams_def st1_def zk_empty_def
        genesis_params_idem fun_eq_iff split: option.split)
qed

text \<open>Under the invariant the export lists the store as it is.\<close>

lemma ExportGenesis_ok:
  assumes "zk_inv env st"
  shows "ExportGenesis st = Inr \<lparr> gs_Vkeys = VKeys st, gs_Params = GetParams st \<rparr>"
proof -
  have "kv_get (VKeyNameIndex st) (vk_Name (snd e)) = Some (fst e)" if "e \<in> set (VKeys st)" for e
    using assms that kv_in_set_iff [of "VKeys st" "fst e" "snd e"]
    by (intro index_ok_lookup [of _ "kv_get (VKeys st)"]) (auto simp: zk_inv_def)
  then have "map_each (\<lambda>vkey. case kv_get (VKeyNameIndex st) (vk_Name vkey) of
      None \<Rightarrow> Inl (GoPanic ''not found'') | Some i \<Rightarrow> Inr (i, vkey)) (map snd (VKeys st)) = Inr (VKeys st)"
    by (simp add: map_each_Inr_iff list_all2_map1 list_all2_same)
  then show ?thesis
    by (simp add: ExportGenesis_def ListVKeys_def)
qed

lemma zk_inv_index_eq:
  assumes "zk_inv env st" and "zk_inv env st'" and "VKeys st = VKeys st'"
  shows "VKeyNameIndex st = VKeyNameIndex st'"
proof (rule kv_ext)
  fix n
  have "kv_get (VKeyNameIndex st) n = Some i \<longleftrightarrow> kv_get (VKeyNameIndex st') n = Some i" for i
    using assms unfolding zk_inv_def index_ok_def by simp
  then show "kv_get (VKeyNameIndex st) n = kv_get (VKeyNameIndex st') n"
    by (metis option.exhaust)
qed (use assms in \<open>simp_all add: zk_inv_def\<close>)

lemma zk_inv_distinct:
  assumes "zk_inv env st"
  shows "distinct (map fst (VKeys st))" and "distinct (map (vk_Name \<circ> snd) (VKeys st))"
proof -
  show d: "distinct (map fst (VKeys st))"
    using assms by (simp add: zk_inv_def kv_wf_def strict_sorted_iff)
  have "inj_on (vk_Name \<circ> snd) (set (VKeys st))"
  proof (rule inj_onI, clarsimp)
    fix i v j w
    assume "(i, v) \<in> set (VKeys st)" "(j, w) \<in> set (VKeys st)" "vk_Name v = vk_Name w"
    then show "i = j \<and> v = w"
      using assms zk_index.name_unique [of "VKeyNameIndex st" "VKeys st" i v j w]
      by (auto simp: zk_inv_def kv_in_set_iff)
  qed
  then show "distinct (map (vk_Name \<circ> snd) (VKeys st))"
    using d by (simp add: distinct_map)
qed

lemma import_vkey_panics:
  assumes "ValidateVKeyBytes (ze_ext env) (vk_KeyBytes (snd e)) (MaxVkeySizeBytes params) \<noteq> Inr ()"
  shows "is_panic (import_vkey env params e st)"
  using assms
  by (cases "ValidateVKeyBytes (ze_ext env) (vk_KeyBytes (snd e)) (MaxVkeySizeBytes params)")
    (auto simp: import_vkey_def must_def Let_def split: prod.split)

lemma import_vkey_Inl: "import_vkey env params e st = Inl err \<Longrightarrow> is_panic (Inl err :: zk_state result)"
  by (auto simp: import_vkey_def must_def Let_def bindr_Inl_iff split: prod.splits sum.splits)

lemma import_fold_panics:
  assumes "e \<in> set vks"
    and "ValidateVKeyBytes (ze_ext env) (vk_KeyBytes (snd e)) (MaxVkeySizeBytes params) \<noteq> Inr ()"
  shows "is_panic (fold_each (import_vkey env params) vks st)"
  using assms
proof (induction vks arbitrary: st)
  case (Cons f vks)
  show ?case
  proof (cases "import_vkey env params f st")
    case (Inl err)
    then show ?thesis using import_vkey_Inl [OF Inl] by simp
  next
    case (Inr st1)
    then have "e \<noteq> f"
      using import_vkey_panics [OF Cons.prems(2), of st] by auto
    then show ?thesis using Cons Inr by simp
  qed
qed simp

end
