(* ===== verification/Zk_Query.thy ===== *)
theory Zk_Query
  imports Zk_Keeper
begin

text \<open>
  \<open>x/zk/keeper\<close>: proof verification (\<open>Verify\<close>, \<open>VerifyGnark\<close>) and the query server.  A prover
  library is a record of functions that may fail or panic; a deferred \<open>recover\<close> of the source is
  \<open>recover_as\<close>.
\<close>

section \<open>Proof verification (keeper.go)\<close>

record ('pf, 'gp) circom_ext =
  UnmarshalCircomProofJSON :: "bytes \<Rightarrow> 'pf result"
  ConvertCircomToGnark :: "CircomVerificationKey \<Rightarrow> 'pf \<Rightarrow> string list \<Rightarrow> 'gp result"
  VerifyProof :: "'gp \<Rightarrow> bool result"

record ('vk, 'pf, 'wit) gnark_ext =
  gn_ReadVerifyingKey :: "bytes \<Rightarrow> 'vk result"
  gn_ReadProof :: "bytes \<Rightarrow> 'pf result"
  gn_NewWitness :: "'wit result"
  gn_UnmarshalWitness :: "'wit \<Rightarrow> bytes \<Rightarrow> 'wit result"
  gn_Verify :: "'pf \<Rightarrow> 'vk \<Rightarrow> 'wit \<Rightarrow> unit result"

text \<open>\<open>bb_soft\<close>: whether an error is one of the three barretenberg errors that mean "not verified".\<close>

record ('vk, 'pf, 'ver) bb_ext =
  FieldElementSize :: nat
  bb_ParseVerificationKey :: "bytes \<Rightarrow> 'vk result"
  bb_ParseProof :: "bytes \<Rightarrow> 'pf result"
  bb_NewVerifier :: "'vk \<Rightarrow> 'ver result"
  bb_VerifyWithBytes :: "'ver \<Rightarrow> 'pf \<Rightarrow> bytes list \<Rightarrow> bool result"
  bb_soft :: "go_error \<Rightarrow> bool"

definition bn254ScalarPrime :: int where
  "bn254ScalarPrime =
     21888242871839275222246405745257275088548364400416034343698204186575808495617"

text \<open>The value of a public input, read in base 16 after \<open>0x\<close> or \<open>0X\<close> and in base 10 otherwise.\<close>

definition input_value :: "string \<Rightarrow> int option" where
  "input_value inp =
     (if HasPrefix inp ''0x'' \<or> HasPrefix inp ''0X'' then SetString (drop 2 inp) 16
      else SetString inp 10)"

definition validatePublicInputsInScalarField :: "string list \<Rightarrow> unit result" where
  "validatePublicInputsInScalarField inputs =
     for_each inputs (\<lambda>inp.
       case input_value inp of
         None \<Rightarrow> Inl ErrInvalidRequest
       | Some v \<Rightarrow> ensure (\<not> (v < 0 \<or> v \<ge> bn254ScalarPrime)) ErrInvalidRequest)"

definition Verify ::
  "('pf, 'gp) circom_ext \<Rightarrow> 'pf \<Rightarrow> CircomVerificationKey \<Rightarrow> string list \<Rightarrow> bool result" where
  "Verify x pr vkey inputs =
     bindr (validatePublicInputsInScalarField inputs) (\<lambda>_.
     recover_as ErrInvalidRequest
       (bindr (ConvertCircomToGnark x vkey pr inputs) (VerifyProof x)))"

definition VerifyGnark :: "('vk, 'pf, 'wit) gnark_ext \<Rightarrow> bytes \<Rightarrow> bytes \<Rightarrow> bytes \<Rightarrow> bool result" where
  "VerifyGnark x proofBytes vkeyBytes publicInputsBytes =
     recover_as ErrInvalidRequest
       (bindr (wrap_as ErrInvalidVKey (gn_ReadVerifyingKey x vkeyBytes)) (\<lambda>vk.
        bindr (wrap_as ErrInvalidRequest (gn_ReadProof x proofBytes)) (\<lambda>pr.
        bindr (wrap_as ErrInvalidRequest (gn_NewWitness x)) (\<lambda>w0.
        bindr (wrap_as ErrInvalidRequest (gn_UnmarshalWitness x w0 publicInputsBytes)) (\<lambda>w.
        case gn_Verify x pr vk w of
          Inl e \<Rightarrow> (case e of GoPanic s \<Rightarrow> Inl (GoPanic s) | _ \<Rightarrow> Inr False)
        | Inr _ \<Rightarrow> Inr True)))))"

section \<open>Query server (query_server.go)\<close>

record QueryVerifyRequest =
  qv_Proof :: bytes
  qv_PublicInputs :: "string list"
  qv_VkeyName :: string
  qv_VkeyId :: u64

record QueryVerifyRawRequest =
  qr_Proof :: bytes
  qr_PublicInputs :: bytes
  qr_VkeyName :: string
  qr_VkeyId :: u64

text \<open>The running \<open>uint64\<close> total of the input lengths with the wrap-around test of the loop.\<close>

fun public_inputs_size :: "string list \<Rightarrow> u64 \<Rightarrow> u64 result" where
  "public_inputs_size [] acc = Inr acc"
| "public_inputs_size (inp # inps) acc =
     (if acc + len64 inp < acc then Inl ErrPublicInputsTooLarge
      else public_inputs_size inps (acc + len64 inp))"

definition ProofVerify ::
  "zk_env \<Rightarrow> ('pf, 'gp) circom_ext \<Rightarrow> zk_state \<Rightarrow> QueryVerifyRequest option \<Rightarrow> bool result" where
  "ProofVerify env x st oreq =
     (case oreq of None \<Rightarrow> Inl ErrInvalidRequest | Some req \<Rightarrow>
      bindr (ensure (length (qv_Proof req) \<noteq> 0) ErrInvalidRequest) (\<lambda>_.
      bindr (ensure (\<not> (qv_VkeyName req = [] \<and> qv_VkeyId req = 0)) ErrInvalidRequest) (\<lambda>_.
      let params = GetParams st in
      bindr (ensure (\<not> len64 (qv_Proof req) > MaxGroth16ProofSizeBytes params) ErrProofTooLarge) (\<lambda>_.
      bindr (public_inputs_size (qv_PublicInputs req) 0) (\<lambda>total.
      bindr (ensure (\<not> total > MaxGroth16PublicInputSizeBytes params) ErrPublicInputsTooLarge) (\<lambda>_.
      bindr (UnmarshalCircomProofJSON x (qv_Proof req)) (\<lambda>snarkProof.
      bindr (if qv_VkeyName req \<noteq> []
             then wrap_as ErrVKeyNotFound (GetCircomVKeyByName (ze_ext env) st (qv_VkeyName req))
             else if qv_VkeyId req \<noteq> 0
             then wrap_as ErrVKeyNotFound (GetCircomVKeyByID (ze_ext env) st (qv_VkeyId req))
             else Inl ErrInvalidRequest) (\<lambda>snarkVk.
      bindr (validatePublicInputsInScalarField (qv_PublicInputs req)) (\<lambda>_.
      Verify x snarkProof snarkVk (qv_PublicInputs req))))))))))"

definition resolve_vkey :: "zk_state \<Rightarrow> QueryVerifyRawRequest \<Rightarrow> VKey result" where
  "resolve_vkey st req =
     (if qr_VkeyName req \<noteq> [] then GetVKeyByName st (qr_VkeyName req)
      else if qr_VkeyId req \<noteq> 0 then GetVKeyByID st (qr_VkeyId req)
      else Inl ErrInvalidRequest)"

definition input_chunks :: "nat \<Rightarrow> bytes \<Rightarrow> bytes list result" where
  "input_chunks n publicInputs =
     map_each (\<lambda>i. go_slice publicInputs (i * n) (i * n + n)) [0..<length publicInputs div n]"

text \<open>The branches on the error of \<open>VerifyWithBytes\<close>.\<close>

definition bb_outcome :: "('vk, 'pf, 'ver) bb_ext \<Rightarrow> bool result \<Rightarrow> bool result" where
  "bb_outcome x r =
     (case r of
        Inl e \<Rightarrow> if is_panic r then r else if bb_soft x e then Inr False else Inl ErrInvalidRequest
      | Inr verified \<Rightarrow> Inr verified)"

definition ProofVerifyUltraHonk ::
  "('vk, 'pf, 'ver) bb_ext \<Rightarrow> zk_state \<Rightarrow> QueryVerifyRawRequest option \<Rightarrow> bool result" where
  "ProofVerifyUltraHonk x st oreq =
     (case oreq of None \<Rightarrow> Inl ErrInvalidRequest | Some req \<Rightarrow>
      bindr (ensure (length (qr_Proof req) \<noteq> 0) ErrInvalidRequest) (\<lambda>_.
      let params = GetParams st in
      bindr (ensure (\<not> len64 (qr_Proof req) > MaxUltraHonkProofSizeBytes params) ErrProofTooLarge) (\<lambda>_.
      bindr (ensure (\<not> len64 (qr_PublicInputs req) > MaxUltraHonkPublicInputSizeBytes params)
               ErrPublicInputsTooLarge) (\<lambda>_.
      bindr (resolve_vkey st req) (\<lambda>vkey.
      bindr (ensure (vk_ProofSystem vkey = PROOF_SYSTEM_ULTRA_HONK_ZK) ErrInvalidRequest) (\<lambda>_.
      bindr (ensure (length (qr_PublicInputs req) mod FieldElementSize x = 0) ErrInvalidRequest) (\<lambda>_.
      bindr (input_chunks (FieldElementSize x) (qr_PublicInputs req)) (\<lambda>chunks.
      recover_as (Status ''Internal'')
        (bindr (wrap_as ErrInvalidVKey (bb_ParseVerificationKey x (vk_KeyBytes vkey))) (\<lambda>vk.
         bindr (wrap_as ErrInvalidRequest (bb_ParseProof x (qr_Proof req))) (\<lambda>bproof.
         bindr (bb_NewVerifier x vk) (\<lambda>verifier.
         bb_outcome x (bb_VerifyWithBytes x verifier bproof chunks)))))))))))))"

definition ProofVerifyGnark ::
  "('vk, 'pf, 'wit) gnark_ext \<Rightarrow> zk_state \<Rightarrow> QueryVerifyRawRequest option \<Rightarrow> bool result" where
  "ProofVerifyGnark x st oreq =
     (case oreq of None \<Rightarrow> Inl ErrInvalidRequest | Some req \<Rightarrow>
      bindr (ensure (length (qr_Proof req) \<noteq> 0) ErrInvalidRequest) (\<lambda>_.
      let params = GetParams st in
      bindr (ensure (\<not> len64 (qr_Proof req) > MaxGnarkProofSizeBytes params) ErrProofTooLarge) (\<lambda>_.
      bindr (ensure (\<not> len64 (qr_PublicInputs req) > MaxGnarkPublicInputSizeBytes params)
               ErrPublicInputsTooLarge) (\<lambda>_.
      bindr (resolve_vkey st req) (\<lambda>vkey.
      bindr (ensure (vk_ProofSystem vkey = PROOF_SYSTEM_GROTH16_GNARK) ErrInvalidRequest) (\<lambda>_.
      VerifyGnark x (qr_Proof req) (vk_KeyBytes vkey) (qr_PublicInputs req)))))))"

definition query_VKey :: "zk_state \<Rightarrow> u64 option \<Rightarrow> VKey result" where
  "query_VKey st oreq =
     (case oreq of None \<Rightarrow> Inl ErrInvalidRequest | Some i \<Rightarrow> GetVKeyByID st i)"

definition query_VKeyByName :: "zk_state \<Rightarrow> string option \<Rightarrow> (VKey \<times> u64) result" where
  "query_VKeyByName st oreq =
     (case oreq of None \<Rightarrow> Inl ErrInvalidRequest | Some nm \<Rightarrow>
      if nm = [] then Inl ErrInvalidRequest
      else case kv_get (VKeyNameIndex st) nm of
             None \<Rightarrow> Inl ErrVKeyNotFound
           | Some i \<Rightarrow> bindr (GetVKeyByID st i) (\<lambda>vk. Inr (vk, i)))"

text \<open>\<open>query.CollectionPaginate\<close> is the SDK's: an argument.\<close>

definition query_VKeys ::
  "((u64, VKey) kv \<Rightarrow> 'page \<Rightarrow> ((u64 \<times> VKey) list \<times> 'resp) result) \<Rightarrow> zk_state \<Rightarrow> 'page option
     \<Rightarrow> ((u64 \<times> VKey) list \<times> 'resp) result" where
  "query_VKeys CollectionPaginate st oreq =
     (case oreq of None \<Rightarrow> Inl ErrInvalidRequest | Some page \<Rightarrow> CollectionPaginate (VKeys st) page)"

definition query_HasVKey :: "zk_state \<Rightarrow> string option \<Rightarrow> (bool \<times> u64) result" where
  "query_HasVKey st oreq =
     (case oreq of None \<Rightarrow> Inl ErrInvalidRequest | Some nm \<Rightarrow>
      if nm = [] then Inl ErrInvalidRequest
      else case kv_get (VKeyNameIndex st) nm of None \<Rightarrow> Inr (False, 0) | Some i \<Rightarrow> Inr (True, i))"

definition query_NextVKeyID :: "zk_state \<Rightarrow> unit option \<Rightarrow> u64 result" where
  "query_NextVKeyID st oreq =
     (case oreq of None \<Rightarrow> Inl ErrInvalidRequest | Some _ \<Rightarrow> Inr (NextVKeyID st))"

definition query_Params :: "zk_state \<Rightarrow> Params" where
  "query_Params st = GetParams st"

section \<open>Facts\<close>

definition canonical_input :: "string \<Rightarrow> bool" where
  "canonical_input inp \<longleftrightarrow>
     (case input_value inp of None \<Rightarrow> False | Some v \<Rightarrow> 0 \<le> v \<and> v < bn254ScalarPrime)"

lemma validatePublicInputs_iff:
  "validatePublicInputsInScalarField inputs = Inr u \<longleftrightarrow> list_all canonical_input inputs"
  by (auto simp: validatePublicInputsInScalarField_def canonical_input_def list_all_iff
      split: option.splits)

lemma validatePublicInputs_error:
  "validatePublicInputsInScalarField inputs = Inl e \<Longrightarrow> e = ErrInvalidRequest"
  unfolding validatePublicInputsInScalarField_def
  by (induction inputs) (auto simp: bindr_Inl_iff split: option.splits)

lemma validatePublicInputs_cases:
  "validatePublicInputsInScalarField inputs =
     (if list_all canonical_input inputs then Inr () else Inl ErrInvalidRequest)"
proof (cases "validatePublicInputsInScalarField inputs")
  case (Inl e)
  then show ?thesis
    using validatePublicInputs_error [OF Inl] validatePublicInputs_iff [of inputs "()"] by auto
next
  case (Inr u)
  then show ?thesis
    using validatePublicInputs_iff [of inputs u] by simp
qed

lemma Verify_not_panic: "\<not> is_panic (Verify x pr vk inputs)"
  unfolding Verify_def validatePublicInputs_cases
  by (simp add: zk_error_defs recover_as_not_panic)

lemma VerifyGnark_not_panic: "\<not> is_panic (VerifyGnark x p v w)"
  unfolding VerifyGnark_def by (rule recover_as_not_panic) (simp add: zk_error_defs)

lemma public_inputs_size_sum:
  assumes "list_all go_sized inps" and "unat acc + sum_list (map length inps) < 2 ^ 64"
  shows "public_inputs_size inps acc = Inr (of_nat (unat acc + sum_list (map length inps)))"
  using assms
proof (induction inps arbitrary: acc)
  case (Cons inp inps)
  have "unat (acc + len64 inp) = unat acc + length inp"
    using Cons.prems unat_len64 [of inp] unat_add_lem [of acc "len64 inp"] by simp
  then show ?case
    using Cons by (simp add: word_less_nat_alt add.assoc) (simp add: len64_def)
qed simp

text \<open>Whatever the lengths are, an accepted total is the true sum: the wrap test is exact.\<close>

lemma public_inputs_size_exact:
  assumes "list_all go_sized inps" and "public_inputs_size inps acc = Inr tot"
  shows "unat tot = unat acc + sum_list (map length inps)"
  using assms
proof (induction inps arbitrary: acc)
  case (Cons inp inps)
  have "\<not> acc + len64 inp < acc"
    using Cons.prems(2) by (auto split: if_splits)
  then have "unat (acc + len64 inp) = unat acc + unat (len64 inp)"
    by (simp add: not_less unat_plus_simple [symmetric])
  then show ?case
    using Cons unat_len64 [of inp] by (auto split: if_splits)
qed simp

lemma bb_outcome_True_iff [simp]: "bb_outcome x r = Inr True \<longleftrightarrow> r = Inr True"
  by (auto simp: bb_outcome_def split: sum.splits)

lemma input_chunks_ok:
  assumes "length bs mod n = 0"
  shows "input_chunks n bs = Inr (map (\<lambda>i. take n (drop (i * n) bs)) [0..<length bs div n])"
proof -
  have "i * n + n \<le> length bs" if "i < length bs div n" for i
  proof -
    have "Suc i * n \<le> (length bs div n) * n"
      using that by (intro mult_right_mono) auto
    then show ?thesis
      using assms by (simp add: add.commute minus_mod_eq_div_mult [symmetric])
  qed
  then show ?thesis
    unfolding input_chunks_def map_each_Inr_iff
    by (auto simp: list_all2_conv_all_nth)
qed

lemma concat_chunks:
  "m * n \<le> length bs \<Longrightarrow> concat (map (\<lambda>i. take n (drop (i * n) bs)) [0..<m]) = take (m * n) bs"
proof (induction m)
  case (Suc m)
  then show ?case
    by (simp add: take_add add.commute [of n])
qed simp

lemma GetCircomVKeyByName_Inr_iff:
  "GetCircomVKeyByName x st nm = Inr cvk \<longleftrightarrow>
     (\<exists>vk. GetVKeyByName st nm = Inr vk \<and> vk_KeyBytes vk \<noteq> []
        \<and> UnmarshalCircomVerificationKeyJSON x (vk_KeyBytes vk) = Inr cvk)"
  by (auto simp: GetCircomVKeyByName_def UnmarshalVKey_def split: if_splits)

end
