(* ===== verification/Zk_Props.thy ===== *)
theory Zk_Props
  imports Zk_Query
begin

text \<open>
  The properties of \<open>x/zk\<close>: the state invariant over message sequences, who may change a key or
  the parameters, the life of ids, the round trips of uploads and of genesis files, the gas
  schedule, and what an accepted proof guarantees.  The definitions named \<open>demo_*\<close> are the small
  concrete environment in which the properties are instantiated.
\<close>

section \<open>A concrete environment\<close>

definition demo_circom :: CircomVerificationKey where
  "demo_circom =
     \<lparr> cvk_Protocol = ''groth16'', cvk_NPublic = 1, cvk_VkAlpha1 = [''1'', ''2''],
       cvk_VkBeta2 = [[''1'', ''2''], [''3'', ''4'']], cvk_VkGamma2 = [[''1'', ''2''], [''3'', ''4'']],
       cvk_VkDelta2 = [[''1'', ''2''], [''3'', ''4'']], cvk_IC = [[''1'', ''2''], [''3'', ''4'']] \<rparr>"

definition demo_ext :: vkey_ext where
  "demo_ext =
     \<lparr> AccAddressFromBech32 = (\<lambda>s. if s = [] then Inl (External ''empty address'') else Inr s),
       UnmarshalCircomVerificationKeyJSON =
         (\<lambda>b. if b = ''circom'' then Inr demo_circom else Inl (External ''json'')),
       gnark_ReadVerifyingKey = (\<lambda>b. if b = ''gnark'' then Inr () else Inl (External ''eof'')),
       bb_ValidateVerificationKeyBytes = (\<lambda>b m. if b = ''honk'' then Inr () else Inl (External ''bb'')) \<rparr>"

definition demo_env :: zk_env where
  "demo_env = \<lparr> ze_authority = ''gov'', ze_ext = demo_ext \<rparr>"

definition demo_gas :: "nat \<Rightarrow> u64 \<Rightarrow> nat result" where
  "demo_gas g c = (if g + unat c \<le> 1000000 then Inr (g + unat c) else Inl (GoPanic ''out of gas''))"

definition demo_key :: "bytes \<Rightarrow> string \<Rightarrow> ProofSystem \<Rightarrow> VKey" where
  "demo_key b a ps = \<lparr> vk_KeyBytes = b, vk_Name = ''k'', vk_Description = [], vk_CircuitHash = [],
     vk_Authority = a, vk_ProofSystem = ps \<rparr>"

definition demo_state :: "VKey \<Rightarrow> zk_state" where
  "demo_state vk = \<lparr> VKeys = [(1, vk)], NextVKeyID = 2, VKeyNameIndex = [(''k'', 1)], zk_Params = None \<rparr>"

definition demo_prover :: "(nat, nat) circom_ext" where
  "demo_prover =
     \<lparr> UnmarshalCircomProofJSON = (\<lambda>b. Inr (length b)),
       ConvertCircomToGnark = (\<lambda>vk n inps. Inr (n + length inps)),
       VerifyProof = (\<lambda>n. if n = 0 then Inl (GoPanic ''nil'') else Inr True) \<rparr>"

definition demo_bb :: "(nat, nat, nat) bb_ext" where
  "demo_bb =
     \<lparr> FieldElementSize = 2, bb_ParseVerificationKey = (\<lambda>b. Inr (length b)),
       bb_ParseProof = (\<lambda>b. Inr (length b)), bb_NewVerifier = (\<lambda>vk. Inr vk),
       bb_VerifyWithBytes = (\<lambda>v p cs. Inr (length cs = 2)), bb_soft = (\<lambda>e. False) \<rparr>"

definition demo_honk_req :: QueryVerifyRawRequest where
  "demo_honk_req =
     \<lparr> qr_Proof = ''proof'', qr_PublicInputs = ''abcd'', qr_VkeyName = ''k'', qr_VkeyId = 0 \<rparr>"

lemmas demo_defs = demo_circom_def demo_ext_def demo_env_def demo_gas_def demo_key_def demo_state_def

lemma demo_circom_ok: "circom_ok demo_circom"
  by (simp add: demo_circom_def circom_ok_def g1_ok_def g2_ok_def field_coord_def SetString_def
      natural_val_def digit_val_def bn254FieldPrime_def)

lemma demo_circom_valid:
  "m = 0 \<or> 6 \<le> m \<Longrightarrow> ValidateVKeyBytes demo_ext ''circom'' m = Inr ()"
  using demo_circom_ok by (auto simp: ValidateVKeyBytes_iff demo_ext_def len64_def)

lemma demo_state_inv:
  assumes "vk_Name vk = ''k''" and "vkey_valid (ze_ext env) vk"
  shows "zk_inv env (demo_state vk)"
  using assms by (simp add: zk_inv_def demo_state_def kv_wf_def index_ok_def kv_get_def word_less_nat_alt)

lemma demo_groth16_inv: "zk_inv demo_env (demo_state (demo_key ''circom'' a PROOF_SYSTEM_GROTH16))"
  by (rule demo_state_inv)
    (auto simp: demo_key_def demo_env_def vkey_valid_def ValidateVKeyForProofSystem_def
      default_proof_system_def zk_const_defs word_le_nat_alt demo_circom_valid intro!: exI [of _ 1048576])

lemma demo_honk_inv: "zk_inv demo_env (demo_state (demo_key ''honk'' a PROOF_SYSTEM_ULTRA_HONK_ZK))"
  by (rule demo_state_inv)
    (auto simp: demo_key_def demo_env_def vkey_valid_def ValidateVKeyForProofSystem_def
      default_proof_system_def zk_const_defs word_le_nat_alt demo_ext_def intro!: exI [of _ 1048576])

section \<open>Message sequences\<close>

text \<open>C1: Every sequence of \<open>AddVKey\<close>, \<open>UpdateVKey\<close>, \<open>RemoveVKey\<close> and \<open>UpdateParams\<close> messages,
  failing ones included, keeps the module's invariant: the name index and the key store agree in
  both directions, every id is below the sequence, every stored key passed the validation of its
  proof system, and the effective parameters are valid.  The bound says that the sequence counter
  does not pass \<open>2 ^ 64 - 1\<close>.\<close>

theorem zk_invariant_reachable:
  fixes ms :: "('g \<times> zk_msg) list"
  assumes "zk_inv env st" and "unat (NextVKeyID st) + length ms \<le> 2 ^ 64 - 1"
  shows "zk_inv env (run_msgs (zk_step env cg) ms st)"
  using assms by (rule zk_machine.run_keeps)

theorem zk_invariant_reachable_witness:
  "zk_inv demo_env (run_msgs (zk_step demo_env demo_gas)
     [(0, RemoveVKeyMsg \<lparr> rem_Authority = ''alice'', rem_Name = ''k'' \<rparr>)]
     (demo_state (demo_key ''circom'' ''alice'' PROOF_SYSTEM_GROTH16)))"
  by (rule zk_invariant_reachable [OF demo_groth16_inv]) (simp add: demo_state_def)

text \<open>C2: A stored key belongs to its authority (the recorded one, or the module's for an entry
  without one): if the entry of a name is different, or gone, after any sequence of messages, one
  of the messages was signed by that authority.\<close>

theorem vkey_change_needs_authority:
  fixes ms :: "('g \<times> zk_msg) list"
  assumes "zk_inv env st" and "unat (NextVKeyID st) + length ms \<le> 2 ^ 64 - 1"
    and "stored_vkey st n = Inr (i, vk)"
    and "stored_vkey (run_msgs (zk_step env cg) ms st) n \<noteq> Inr (i, vk)"
  shows "\<exists>gm \<in> set ms. zk_signer (snd gm) = stored_authority env vk"
proof -
  obtain ms1 gm ms2 where ms: "ms = ms1 @ gm # ms2"
    and gate: "name_gate env n (run_msgs (zk_step env cg) ms1 st) gm"
    and same: "stored_vkey (run_msgs (zk_step env cg) ms1 st) n = stored_vkey st n"
    using zk_name_gate.run_guarded [of env cg ms st n] assms(3,4) by auto
  have "zk_inv env (run_msgs (zk_step env cg) ms1 st)"
    using assms(1,2) ms by (intro zk_machine.run_keeps) simp_all
  then show ?thesis
    using gate same assms(3) ms by (auto simp: name_gate_def)
qed

theorem vkey_change_needs_authority_witness:
  "\<exists>gm \<in> set [(0 :: nat, RemoveVKeyMsg \<lparr> rem_Authority = ''alice'', rem_Name = ''k'' \<rparr>)].
     zk_signer (snd gm) = stored_authority demo_env (demo_key ''circom'' ''alice'' PROOF_SYSTEM_GROTH16)"
  by (rule vkey_change_needs_authority
      [where st = "demo_state (demo_key ''circom'' ''alice'' PROOF_SYSTEM_GROTH16)" and n = "''k''"
         and i = 1 and cg = demo_gas, OF demo_groth16_inv])
    (simp_all add: demo_state_def demo_key_def stored_vkey_def kv_get_def deliver_def
      msg_RemoveVKey_def RemoveVKey_def stored_authority_def kv_del_def)

text \<open>The parameters change only by a message of the module authority, and in every state that
  messages reach the effective parameters lie in their bounds: key size from 1 byte to 1 MiB,
  positive chunk size and chunk gas, every proof and input limit from 1 byte to 512 KiB.\<close>

theorem zk_params_governed:
  fixes ms :: "('g \<times> zk_msg) list"
  assumes "zk_inv env st" and "unat (NextVKeyID st) + length ms \<le> 2 ^ 64 - 1"
  shows "params_ok (GetParams (run_msgs (zk_step env cg) ms st))
    \<and> (zk_Params (run_msgs (zk_step env cg) ms st) = zk_Params st
       \<or> (\<exists>gm \<in> set ms. zk_signer (snd gm) = ze_authority env))"
proof
  show "params_ok (GetParams (run_msgs (zk_step env cg) ms st))"
    using zk_machine.run_keeps [OF assms] by (rule GetParams_ok)
  show "zk_Params (run_msgs (zk_step env cg) ms st) = zk_Params st
       \<or> (\<exists>gm \<in> set ms. zk_signer (snd gm) = ze_authority env)"
    using zk_params_gate.run_changed_by_allowed [of env cg ms st] by blast
qed

theorem zk_params_governed_witness:
  "params_ok (GetParams (run_msgs (zk_step demo_env demo_gas)
      [(0, UpdateParamsMsg \<lparr> par_Authority = ''gov'', par_Params = NewParams 100 7 3 \<rparr>)]
      (demo_state (demo_key ''circom'' [] PROOF_SYSTEM_GROTH16))))
    \<and> (zk_Params (run_msgs (zk_step demo_env demo_gas)
        [(0, UpdateParamsMsg \<lparr> par_Authority = ''gov'', par_Params = NewParams 100 7 3 \<rparr>)]
        (demo_state (demo_key ''circom'' [] PROOF_SYSTEM_GROTH16)))
       = zk_Params (demo_state (demo_key ''circom'' [] PROOF_SYSTEM_GROTH16))
       \<or> (\<exists>gm \<in> set [(0 :: nat, UpdateParamsMsg \<lparr> par_Authority = ''gov'', par_Params = NewParams 100 7 3 \<rparr>)].
            zk_signer (snd gm) = ze_authority demo_env))"
  by (rule zk_params_governed [OF demo_groth16_inv]) (simp add: demo_state_def)

text \<open>C3: The id of a removed key is never given to another key, whatever messages follow, so a
  client that refers to a key by id never reaches a different circuit.\<close>

theorem removed_id_never_reused:
  fixes ms :: "('g \<times> zk_msg) list"
  assumes "zk_inv env st" and "stored_vkey st nm = Inr (i, vk)"
    and "RemoveVKey env a nm st = Inr st'"
    and "unat (NextVKeyID st) + length ms \<le> 2 ^ 64 - 1"
  shows "GetVKeyByID (run_msgs (zk_step env cg) ms st') i = Inl ErrVKeyNotFound"
proof -
  have "retired env i st'" "NextVKeyID st' = NextVKeyID st"
    using assms(1,2) RemoveVKey_inv [OF assms(3,1)]
    by (auto intro: RemoveVKey_InrD [OF assms(3)] simp: retired_def stored_vkey_Inr_iff zk_inv_def)
  then have "retired env i (run_msgs (zk_step env cg) ms st')"
    using assms(4) by (intro zk_retired.run_keeps) simp_all
  then show ?thesis
    by (simp add: retired_def GetVKeyByID_def)
qed

theorem removed_id_never_reused_witness:
  "GetVKeyByID (run_msgs (zk_step demo_env demo_gas)
     [(0, AddVKeyMsg \<lparr> add_Authority = ''bob'', add_Name = ''k'', add_Description = [],
            add_VkeyBytes = ''circom'', add_ProofSystem = PROOF_SYSTEM_UNSPECIFIED \<rparr>)]
     \<lparr> VKeys = [], NextVKeyID = 2, VKeyNameIndex = [], zk_Params = None \<rparr>) 1 = Inl ErrVKeyNotFound"
  by (rule removed_id_never_reused
      [where st = "demo_state (demo_key ''circom'' ''alice'' PROOF_SYSTEM_GROTH16)" and nm = "''k''"
         and vk = "demo_key ''circom'' ''alice'' PROOF_SYSTEM_GROTH16" and a = "''alice''",
       OF demo_groth16_inv])
    (simp_all add: demo_state_def demo_key_def stored_vkey_def kv_get_def RemoveVKey_def
      stored_authority_def kv_del_def)

section \<open>Uploads\<close>

text \<open>An upload is found again by name and by the id it returned, with the content, the uploader
  as authority and an unspecified proof system read as Groth16; it took the id the sequence stood
  at, which no key had, and it leaves the lookup of every other name as it was.\<close>

theorem AddVKey_roundtrip:
  assumes "AddVKey env cg a nm kb d ps g st = Inr (i, g', st')" and "zk_inv env st"
  shows "GetVKeyByName st' nm = GetVKeyByID st' i
    \<and> GetVKeyByID st' i = Inr \<lparr> vk_KeyBytes = kb, vk_Name = nm, vk_Description = d, vk_CircuitHash = [],
         vk_Authority = a, vk_ProofSystem = default_proof_system ps \<rparr>
    \<and> GetVKeyByID st i = Inl ErrVKeyNotFound \<and> \<not> HasVKey st nm \<and> HasVKey st' nm
    \<and> (\<forall>n. n \<noteq> nm \<longrightarrow> GetVKeyByName st' n = GetVKeyByName st n)"
proof -
  note D = AddVKey_InrD [OF assms(1)]
  have old: "j \<noteq> i" if "kv_get (VKeyNameIndex st) n = Some j" for n j
    using assms(2) D(2) that by (fastforce simp: zk_inv_def dest: index_okD)
  have "GetVKeyByName st' n = GetVKeyByName st n" if "n \<noteq> nm" for n
    using old that by (simp add: GetVKeyByName_def GetVKeyByID_def D(5) split: option.split)
  moreover have "kv_get (VKeys st) i = None"
    using assms(2) D(2) by (cases "kv_get (VKeys st) i") (auto simp: zk_inv_def)
  ultimately show ?thesis
    using D(1) by (simp add: GetVKeyByName_def GetVKeyByID_def HasVKey_def kv_has_def D(5))
qed

lemma demo_upload:
  "AddVKey demo_env demo_gas ''alice'' ''k'' ''circom'' [] PROOF_SYSTEM_UNSPECIFIED 0 (zk_empty 1) =
     Inr (1, 10000, demo_state (demo_key ''circom'' ''alice'' PROOF_SYSTEM_GROTH16))"
  by (simp add: AddVKey_def zk_empty_def kv_has_def GetParams_def ensureVKeySize_def
      GasCostForSize_def DefaultParams_def NewParams_def Validate_Params_def check_size_limit_def
      zk_const_defs len64_def demo_gas_def ValidateVKeyForProofSystem_def default_proof_system_def
      demo_env_def demo_circom_valid Sequence_Next_def demo_state_def demo_key_def)

theorem AddVKey_roundtrip_witness:
  "GetVKeyByName (demo_state (demo_key ''circom'' ''alice'' PROOF_SYSTEM_GROTH16)) ''k'' =
     Inr (demo_key ''circom'' ''alice'' PROOF_SYSTEM_GROTH16)"
  using AddVKey_roundtrip [OF demo_upload zk_empty_inv]
  by (simp add: demo_key_def default_proof_system_def)

text \<open>The gas of an upload on valid parameters is the number of started chunks times the gas per
  chunk, in exact arithmetic; the call fails exactly when that product does not fit 64 bits.  The
  rounding \<open>size + chunk - 1\<close> must not wrap, which a chunk size below \<open>2 ^ 64 - 2 ^ 20\<close> ensures.\<close>

theorem GasCostForSize_exact:
  assumes "Validate_Params p = Inr ()" and "0 < unat sz" and "sz \<le> MaxVkeySizeBytes p"
    and "unat (UploadChunkSize p) \<le> 2 ^ 64 - 2 ^ 20"
  shows "GasCostForSize p sz =
    (let n = (unat sz + unat (UploadChunkSize p) - 1) div unat (UploadChunkSize p)
             * unat (UploadChunkGas p)
     in if n < 2 ^ 64 then Inr (of_nat n) else Inl ErrInvalidParams)"
proof (rule GasCostForSize_value)
  show p: "params_ok p"
    using assms(1) by (simp only: Validate_Params_iff)
  show "sz \<noteq> 0"
    using assms(2) unfolding unat_gt_0 .
  have "unat sz \<le> 2 ^ 20"
    using p assms(3) unfolding params_ok_def word_le_nat_alt by (meson le_trans)
  then show "unat sz + unat (UploadChunkSize p) \<le> 2 ^ 64"
    using assms(4) by simp
qed (rule assms(3))

theorem GasCostForSize_exact_witness:
  "GasCostForSize DefaultParams 41 = Inr 30000"
  using GasCostForSize_exact [of DefaultParams 41]
  by (simp add: Validate_Params_iff DefaultParams_ok)
    (simp add: DefaultParams_def NewParams_def zk_const_defs)

text \<open>With a chunk size that makes the rounding wrap, which \<open>Validate\<close> does not exclude, the
  upload is free: at chunk size \<open>2 ^ 64 - 1\<close> every key of at least two bytes costs no gas.\<close>

theorem GasCostForSize_wraps_to_zero:
  assumes "Validate_Params p = Inr ()" and "UploadChunkSize p = - 1"
    and "2 \<le> sz" and "sz \<le> MaxVkeySizeBytes p"
  shows "GasCostForSize p sz = Inr 0"
proof -
  have sz: "2 \<le> unat sz"
    using assms(3) by (simp add: word_le_nat_alt)
  have "unat sz \<le> 2 ^ 20"
    using assms(1,4) unfolding Validate_Params_iff params_ok_def word_le_nat_alt by (meson le_trans)
  then have "unat (sz - 2) < unat (- 1 :: u64)"
    unfolding unat_minus_one_word using sz unat_sub [OF assms(3)] by simp
  then have "unat ((sz - 2) div (- 1)) = 0"
    unfolding unat_div by simp
  then have chunks: "(sz + UploadChunkSize p - 1) div UploadChunkSize p = 0"
    unfolding assms(2) by (simp add: algebra_simps unat_0_iff)
  show ?thesis
    unfolding GasCostForSize_def chunks using assms(1,4) sz by (auto simp: not_less)
qed

theorem GasCostForSize_wraps_to_zero_witness:
  "GasCostForSize (NewParams 1048576 (- 1) 10000) 1000000 = Inr 0"
  by (rule GasCostForSize_wraps_to_zero)
    (simp_all add: NewParams_def Validate_Params_iff params_ok_def size_limit_ok_def zk_const_defs
      unat_minus_one_word word_le_nat_alt)

section \<open>Keys and proofs\<close>

text \<open>The structural validation of a circom key accepts exactly the Groth16 keys with at least one
  public input, \<open>nPublic + 1\<close> IC points, G1 points of at least two coordinates, G2 points of at
  least two rows of two columns, all used coordinates being decimal numbers below the BN254 field
  prime; and its slice expressions never go out of range.\<close>

theorem validateCircomVerificationKey_exact:
  "(validateCircomVerificationKey vk = Inr () \<longleftrightarrow> circom_ok vk)
   \<and> \<not> is_panic (validateCircomVerificationKey vk)"
  by (simp add: validateCircomVerificationKey_iff validateCircomVerificationKey_not_panic)

text \<open>C5: \<open>Verify\<close> rejects every list of public inputs that has a non-canonical element (not a number,
  negative, or not below the BN254 scalar prime) whatever the proof library would say, and never
  panics, whatever the library does.  So two accepted spellings of one input that agree modulo the
  prime are the same number, and \<open>p + x\<close> cannot stand for \<open>x\<close>.\<close>

theorem Verify_canonical_inputs:
  "(\<not> list_all canonical_input inputs \<longrightarrow> Verify x pr vk inputs = Inl ErrInvalidRequest)
   \<and> \<not> is_panic (Verify x pr vk inputs)
   \<and> (\<forall>a b v w. canonical_input a \<and> canonical_input b \<and> input_value a = Some v \<and> input_value b = Some w
        \<and> v mod bn254ScalarPrime = w mod bn254ScalarPrime \<longrightarrow> v = w)"
proof (intro conjI allI impI)
  show "Verify x pr vk inputs = Inl ErrInvalidRequest" if "\<not> list_all canonical_input inputs"
    using that by (simp add: Verify_def validatePublicInputs_cases)
  show "\<not> is_panic (Verify x pr vk inputs)"
    by (rule Verify_not_panic)
  show "v = w" if "canonical_input a \<and> canonical_input b \<and> input_value a = Some v
      \<and> input_value b = Some w \<and> v mod bn254ScalarPrime = w mod bn254ScalarPrime" for a b v w
    using that by (auto simp: canonical_input_def)
qed

theorem Verify_canonical_inputs_witness:
  "Verify demo_prover 3 demo_circom [''12'', ''-1''] = Inl ErrInvalidRequest
   \<and> Verify demo_prover 3 demo_circom [''12'', ''0xff''] = Inr True"
proof
  have "\<not> list_all canonical_input [''12'', ''-1'']"
    by (simp add: canonical_input_def input_value_def HasPrefix_def SetString_def natural_val_def
        digit_val_def)
  then show "Verify demo_prover 3 demo_circom [''12'', ''-1''] = Inl ErrInvalidRequest"
    using Verify_canonical_inputs [of "[''12'', ''-1'']" demo_prover 3 demo_circom] by blast
  show "Verify demo_prover 3 demo_circom [''12'', ''0xff''] = Inr True"
    by (simp add: Verify_def validatePublicInputs_cases canonical_input_def input_value_def
        HasPrefix_def SetString_def natural_val_def digit_val_def bn254ScalarPrime_def
        demo_prover_def recover_as_def)
qed

text \<open>C4: A positive answer of the \<open>ProofVerify\<close> query means: a non-empty proof and public inputs
  within the governed size limits (the total is the true sum of the lengths, so no wrap hides an
  oversized request), a stored key found by the given name, or by id when the name is empty, whose
  bytes parse as a circom key, canonical inputs, and a library that accepted this proof for this
  key and these inputs.\<close>

theorem ProofVerify_sound:
  assumes "ProofVerify env x st (Some req) = Inr True"
    and "go_sized (qv_Proof req)" and "list_all go_sized (qv_PublicInputs req)"
  shows "qv_Proof req \<noteq> [] \<and> length (qv_Proof req) \<le> unat (MaxGroth16ProofSizeBytes (GetParams st))
    \<and> sum_list (map length (qv_PublicInputs req)) \<le> unat (MaxGroth16PublicInputSizeBytes (GetParams st))
    \<and> list_all canonical_input (qv_PublicInputs req)
    \<and> (\<exists>vk cvk pr gp.
         (if qv_VkeyName req \<noteq> [] then GetVKeyByName st (qv_VkeyName req) = Inr vk
          else GetVKeyByID st (qv_VkeyId req) = Inr vk)
         \<and> vk_KeyBytes vk \<noteq> []
         \<and> UnmarshalCircomVerificationKeyJSON (ze_ext env) (vk_KeyBytes vk) = Inr cvk
         \<and> UnmarshalCircomProofJSON x (qv_Proof req) = Inr pr
         \<and> ConvertCircomToGnark x cvk pr (qv_PublicInputs req) = Inr gp \<and> VerifyProof x gp = Inr True)"
proof -
  obtain tot pr cvk where run: "length (qv_Proof req) \<noteq> 0"
    "\<not> len64 (qv_Proof req) > MaxGroth16ProofSizeBytes (GetParams st)"
    "public_inputs_size (qv_PublicInputs req) 0 = Inr tot"
    "\<not> tot > MaxGroth16PublicInputSizeBytes (GetParams st)"
    "UnmarshalCircomProofJSON x (qv_Proof req) = Inr pr"
    "(if qv_VkeyName req \<noteq> [] then GetCircomVKeyByName (ze_ext env) st (qv_VkeyName req)
      else GetCircomVKeyByID (ze_ext env) st (qv_VkeyId req)) = Inr cvk"
    "Verify x pr cvk (qv_PublicInputs req) = Inr True"
    using assms(1) by (auto simp: ProofVerify_def Let_def split: if_splits)
  have "list_all canonical_input (qv_PublicInputs req)"
    "\<exists>gp. ConvertCircomToGnark x cvk pr (qv_PublicInputs req) = Inr gp \<and> VerifyProof x gp = Inr True"
    using run(7) by (auto simp: Verify_def validatePublicInputs_iff)
  moreover have "length (qv_Proof req) \<le> unat (MaxGroth16ProofSizeBytes (GetParams st))"
    using run(2) assms(2) by (simp add: not_less len64_le_iff)
  moreover have "sum_list (map length (qv_PublicInputs req)) = unat tot"
    using public_inputs_size_exact [OF assms(3) run(3)] by simp
  moreover have "\<exists>vk. (if qv_VkeyName req \<noteq> [] then GetVKeyByName st (qv_VkeyName req) = Inr vk
          else GetVKeyByID st (qv_VkeyId req) = Inr vk)
         \<and> vk_KeyBytes vk \<noteq> []
         \<and> UnmarshalCircomVerificationKeyJSON (ze_ext env) (vk_KeyBytes vk) = Inr cvk"
    using run(6)
    by (auto simp: GetCircomVKeyByName_def GetCircomVKeyByID_def UnmarshalVKey_def split: if_splits)
  ultimately show ?thesis
    using run(1,4,5) by (auto simp: not_less word_le_nat_alt)
qed

theorem ProofVerify_sound_witness:
  "length ''proof'' \<le> unat (MaxGroth16ProofSizeBytes (GetParams
      (demo_state (demo_key ''circom'' ''alice'' PROOF_SYSTEM_GROTH16))))
   \<and> list_all canonical_input [''7'']"
  using ProofVerify_sound [of demo_env demo_prover
      "demo_state (demo_key ''circom'' ''alice'' PROOF_SYSTEM_GROTH16)"
      "\<lparr> qv_Proof = ''proof'', qv_PublicInputs = [''7''], qv_VkeyName = ''k'', qv_VkeyId = 0 \<rparr>"]
  by (simp add: ProofVerify_def Let_def demo_state_def demo_key_def GetParams_def DefaultParams_def
      NewParams_def zk_const_defs len64_def GetCircomVKeyByName_def GetVKeyByName_def GetVKeyByID_def
      kv_get_def UnmarshalVKey_def demo_env_def demo_ext_def demo_prover_def Verify_def
      validatePublicInputs_cases canonical_input_def input_value_def HasPrefix_def SetString_def
      natural_val_def digit_val_def bn254ScalarPrime_def recover_as_def go_sized_def)

text \<open>C6: A positive answer of \<open>ProofVerifyUltraHonk\<close> means that the key is an UltraHonk key and that
  the library accepted the proof on chunks of one field element each whose concatenation is
  exactly the submitted public-input bytes; no byte is dropped and no slice is out of range.\<close>

theorem ProofVerifyUltraHonk_sound:
  assumes "ProofVerifyUltraHonk x st (Some req) = Inr True" and "0 < FieldElementSize x"
  shows "\<exists>vkey vk pf ver chunks.
    resolve_vkey st req = Inr vkey \<and> vk_ProofSystem vkey = PROOF_SYSTEM_ULTRA_HONK_ZK
    \<and> bb_ParseVerificationKey x (vk_KeyBytes vkey) = Inr vk \<and> bb_ParseProof x (qr_Proof req) = Inr pf
    \<and> bb_NewVerifier x vk = Inr ver \<and> bb_VerifyWithBytes x ver pf chunks = Inr True
    \<and> concat chunks = qr_PublicInputs req \<and> list_all (\<lambda>c. length c = FieldElementSize x) chunks"
proof -
  define n bs where "n = FieldElementSize x" and "bs = qr_PublicInputs req"
  define chunks where "chunks = map (\<lambda>i. take n (drop (i * n) bs)) [0..<length bs div n]"
  have len: "length bs mod n = 0"
    using assms(1) by (auto simp: ProofVerifyUltraHonk_def Let_def n_def bs_def)
  have ic: "input_chunks n bs = Inr chunks"
    unfolding chunks_def using len by (rule input_chunks_ok)
  have mult: "(length bs div n) * n = length bs"
    using len by (simp add: minus_mod_eq_div_mult [symmetric])
  then have cc: "concat chunks = bs"
    unfolding chunks_def using concat_chunks [of "length bs div n" n bs] by simp
  have lens: "list_all (\<lambda>c. length c = n) chunks"
  proof -
    have "n \<le> length bs - i * n" if "i < length bs div n" for i
    proof -
      have "Suc i * n \<le> (length bs div n) * n"
        using that by (intro mult_right_mono) auto
      then show ?thesis
        using mult by simp
    qed
    then show ?thesis
      by (auto simp: chunks_def list_all_iff)
  qed
  obtain vkey vk pf ver where "resolve_vkey st req = Inr vkey"
    "vk_ProofSystem vkey = PROOF_SYSTEM_ULTRA_HONK_ZK"
    "bb_ParseVerificationKey x (vk_KeyBytes vkey) = Inr vk" "bb_ParseProof x (qr_Proof req) = Inr pf"
    "bb_NewVerifier x vk = Inr ver" "bb_VerifyWithBytes x ver pf chunks = Inr True"
    using assms(1) ic
    by (auto simp: ProofVerifyUltraHonk_def Let_def n_def bs_def)
  then show ?thesis
    using cc lens unfolding n_def bs_def by blast
qed

theorem ProofVerifyUltraHonk_sound_witness:
  "\<exists>vkey vk pf ver chunks.
    resolve_vkey (demo_state (demo_key ''honk'' ''alice'' PROOF_SYSTEM_ULTRA_HONK_ZK)) demo_honk_req = Inr vkey
    \<and> vk_ProofSystem vkey = PROOF_SYSTEM_ULTRA_HONK_ZK
    \<and> bb_ParseVerificationKey demo_bb (vk_KeyBytes vkey) = Inr vk
    \<and> bb_ParseProof demo_bb (qr_Proof demo_honk_req) = Inr pf
    \<and> bb_NewVerifier demo_bb vk = Inr ver \<and> bb_VerifyWithBytes demo_bb ver pf chunks = Inr True
    \<and> concat chunks = qr_PublicInputs demo_honk_req
    \<and> list_all (\<lambda>c. length c = FieldElementSize demo_bb) chunks"
  by (rule ProofVerifyUltraHonk_sound)
    (simp_all add: ProofVerifyUltraHonk_def Let_def demo_honk_req_def demo_bb_def demo_state_def
      demo_key_def GetParams_def DefaultParams_def NewParams_def zk_const_defs len64_def
      resolve_vkey_def GetVKeyByName_def GetVKeyByID_def kv_get_def input_chunks_def upt_rec
      recover_as_def bb_outcome_def)

section \<open>Genesis and migrations\<close>

text \<open>The import of an exported file stops at the first key the circom check refuses.\<close>

lemma exported_genesis_params:
  assumes "zk_inv env st"
  shows "genesis_params \<lparr> gs_Vkeys = vks, gs_Params = GetParams st \<rparr> = GetParams st"
  using GetParams_ok [OF assms] by (auto simp: genesis_params_def WithMaxLimitDefaults_valid params_ok_def ZeroParams_def)

lemma exported_import_panics:
  assumes "zk_inv env st" and "(i, vk) \<in> set (VKeys st)"
    and "ValidateVKeyBytes (ze_ext env) (vk_KeyBytes vk) (MaxVkeySizeBytes (GetParams st)) \<noteq> Inr ()"
  shows "is_panic (InitGenesis env \<lparr> gs_Vkeys = VKeys st, gs_Params = GetParams st \<rparr> st0)"
proof -
  have "is_panic (fold_each (import_vkey env (GetParams st)) (VKeys st) s)" for s
    using assms(2,3) by (intro import_fold_panics [of "(i, vk)"]) simp_all
  then show ?thesis
    using GetParams_ok [OF assms(1)] Validate_Params_iff [of "GetParams st" "()"]
    unfolding InitGenesis_def exported_genesis_params [OF assms(1)] Let_def
    by (simp add: SetParams_def WithMaxLimitDefaults_valid must_def)
qed

lemma exported_importable:
  assumes "zk_inv env st"
    and "\<forall>(i, vk) \<in> set (VKeys st).
           ValidateVKeyBytes (ze_ext env) (vk_KeyBytes vk) (MaxVkeySizeBytes (GetParams st)) = Inr ()"
  shows "list_all (importable env (GetParams st)) (VKeys st)"
proof (unfold list_all_iff, intro ballI)
  fix e assume e: "e \<in> set (VKeys st)"
  then have "kv_get (VKeys st) (fst e) = Some (snd e)"
    using assms(1) kv_in_set_iff [of "VKeys st" "fst e" "snd e"] by (simp add: zk_inv_def)
  then have "fst e < NextVKeyID st" "vkey_valid (ze_ext env) (snd e)"
    using assms(1) by (auto simp: zk_inv_def)
  then show "importable env (GetParams st) e"
    using assms(2) e by (auto simp: importable_def)
qed

lemma groth16_valid_bytes:
  assumes "zk_inv env st" and "(i, vk) \<in> set (VKeys st)"
    and "default_proof_system (vk_ProofSystem vk) = PROOF_SYSTEM_GROTH16"
    and "m = MaxVkeySizeBytes (GetParams st)"
  shows "ValidateVKeyBytes (ze_ext env) (vk_KeyBytes vk) m = Inr () \<longleftrightarrow> len64 (vk_KeyBytes vk) \<le> m"
proof -
  have "kv_get (VKeys st) i = Some vk"
    using assms(1,2) by (simp add: zk_inv_def kv_in_set_iff)
  then have "vkey_valid (ze_ext env) vk"
    using assms(1) by (auto simp: zk_inv_def)
  moreover have "m \<noteq> 0"
    using GetParams_ok [OF assms(1)] by (auto simp: params_ok_def assms(4))
  ultimately show ?thesis
    using assms(3) by (auto simp: vkey_valid_def ValidateVKeyForProofSystem_groth16 ValidateVKeyBytes_iff)
qed

text \<open>C7: The module always exports, and importing the file into a fresh chain either restores the module
  or panics.  When every stored key passes the circom check under the current size limit, the only
  check the import makes, every key is back under its id, with an absent authority replaced by the
  module's, with the same effective parameters, the same lookups by name, and a state that satisfies
  the invariant.  When some key does not, the import panics.  A Groth16 key passes the check exactly
  when it fits the current limit, so lowering \<open>MaxVkeySizeBytes\<close> below a stored key makes the
  exported file unimportable.\<close>

theorem genesis_roundtrip:
  assumes "zk_inv env st"
  shows "\<exists>gs. ExportGenesis st = Inr gs
    \<and> (if \<forall>(i, vk) \<in> set (VKeys st).
            ValidateVKeyBytes (ze_ext env) (vk_KeyBytes vk) (MaxVkeySizeBytes (GetParams st)) = Inr ()
       then \<exists>st'. InitGenesis env gs (zk_empty start) = Inr st' \<and> zk_inv env st' \<and> GetParams st' = GetParams st
         \<and> (\<forall>i. kv_get (VKeys st') i = map_option (filled env) (kv_get (VKeys st) i))
         \<and> (\<forall>n. kv_get (VKeyNameIndex st') n = kv_get (VKeyNameIndex st) n)
       else is_panic (InitGenesis env gs (zk_empty start)))
    \<and> (\<forall>(i, vk) \<in> set (VKeys st). default_proof_system (vk_ProofSystem vk) = PROOF_SYSTEM_GROTH16 \<longrightarrow>
         (ValidateVKeyBytes (ze_ext env) (vk_KeyBytes vk) (MaxVkeySizeBytes (GetParams st)) = Inr ()
          \<longleftrightarrow> len64 (vk_KeyBytes vk) \<le> MaxVkeySizeBytes (GetParams st)))"
    (is "\<exists>gs. _ \<and> (if ?ok then ?restored gs else _) \<and> ?groth16")
proof (intro exI conjI)
  define gs where "gs = \<lparr> gs_Vkeys = VKeys st, gs_Params = GetParams st \<rparr>"
  show "ExportGenesis st = Inr gs"
    using ExportGenesis_ok [OF assms] by (simp add: gs_def)
  have restored: "?restored gs" if ok: ?ok
  proof -
    obtain st' where st': "InitGenesis env gs (zk_empty start) = Inr st'" "zk_inv env st'" "GetParams st' = GetParams st"
      "kv_get (VKeys st') = (\<lambda>i. map_option (filled env) (map_of (VKeys st) i))"
      using InitGenesis_ok [of gs env start] GetParams_ok [OF assms] zk_inv_distinct [OF assms]
        exported_importable [OF assms ok] exported_genesis_params [OF assms] by (auto simp: gs_def)
    have "kv_get (VKeyNameIndex st') n = Some i \<longleftrightarrow> kv_get (VKeyNameIndex st) n = Some i" for n i
      using assms st'(2) unfolding zk_inv_def index_ok_def st'(4) by (auto simp: filled_def kv_get_def)
    then have "kv_get (VKeyNameIndex st') n = kv_get (VKeyNameIndex st) n" for n
      by (metis option.exhaust)
    then show ?thesis
      using st' unfolding kv_get_def [symmetric] by auto
  qed
  have "is_panic (InitGenesis env gs (zk_empty start))" if "\<not> ?ok"
    using that exported_import_panics [OF assms] unfolding gs_def by blast
  then show "if ?ok then ?restored gs else is_panic (InitGenesis env gs (zk_empty start))"
    using restored by (simp only: split: if_split) blast
  show ?groth16
    using groth16_valid_bytes [OF assms _ _ refl] by blast
qed

theorem genesis_roundtrip_witness:
  "\<exists>gs st'. ExportGenesis (demo_state (demo_key ''circom'' [] PROOF_SYSTEM_GROTH16)) = Inr gs
    \<and> InitGenesis demo_env gs (zk_empty 0) = Inr st' \<and> zk_inv demo_env st'"
proof -
  let ?st = "demo_state (demo_key ''circom'' [] PROOF_SYSTEM_GROTH16)"
  have "\<forall>(i, vk) \<in> set (VKeys ?st).
      ValidateVKeyBytes (ze_ext demo_env) (vk_KeyBytes vk) (MaxVkeySizeBytes (GetParams ?st)) = Inr ()"
    using groth16_valid_bytes [OF demo_groth16_inv, of 1 "demo_key ''circom'' [] PROOF_SYSTEM_GROTH16", OF _ _ refl]
    by (simp add: demo_state_def demo_key_def default_proof_system_def GetParams_def
        DefaultParams_def NewParams_def zk_const_defs len64_def word_le_nat_alt)
  note ok = if_P [OF this]
  show ?thesis
    using genesis_roundtrip [OF demo_groth16_inv, of "[]" 0] unfolding ok by blast
qed

text \<open>A chain that holds a key whose bytes are not a circom key, as every UltraHonk or gnark key,
  exports a genesis file whose import panics on every state, although \<open>GenesisState.Validate\<close>
  checks each key against its own proof system and accepts the file when the keys fit the size
  limit.\<close>

theorem import_of_other_proof_systems_panics:
  assumes "zk_inv env st" and "(i, vk) \<in> set (VKeys st)"
    and "UnmarshalCircomVerificationKeyJSON (ze_ext env) (vk_KeyBytes vk) = Inl e"
    and "\<forall>(j, w) \<in> set (VKeys st). genesis_vkey_ok (ze_ext env) (GetParams st) w"
  shows "\<exists>gs. ExportGenesis st = Inr gs \<and> Validate_GenesisState (ze_ext env) gs = Inr ()
    \<and> is_panic (InitGenesis env gs st0)"
proof (intro exI conjI)
  show "ExportGenesis st = Inr \<lparr> gs_Vkeys = VKeys st, gs_Params = GetParams st \<rparr>"
    by (rule ExportGenesis_ok [OF assms(1)])
  show "Validate_GenesisState (ze_ext env) \<lparr> gs_Vkeys = VKeys st, gs_Params = GetParams st \<rparr> = Inr ()"
    using assms(4) GetParams_ok [OF assms(1)] zk_inv_distinct [OF assms(1)]
    unfolding Validate_GenesisState_iff exported_genesis_params [OF assms(1)] by (auto simp: list_all_iff)
  show "is_panic (InitGenesis env \<lparr> gs_Vkeys = VKeys st, gs_Params = GetParams st \<rparr> st0)"
    by (rule exported_import_panics [OF assms(1,2)]) (simp add: ValidateVKeyBytes_iff assms(3))
qed

theorem import_of_other_proof_systems_panics_witness:
  "\<exists>gs. ExportGenesis (demo_state (demo_key ''honk'' ''alice'' PROOF_SYSTEM_ULTRA_HONK_ZK)) = Inr gs
    \<and> Validate_GenesisState (ze_ext demo_env) gs = Inr () \<and> is_panic (InitGenesis demo_env gs (zk_empty 0))"
  by (rule import_of_other_proof_systems_panics
      [where i = 1 and vk = "demo_key ''honk'' ''alice'' PROOF_SYSTEM_ULTRA_HONK_ZK", OF demo_honk_inv])
    (simp_all add: demo_state_def demo_key_def demo_env_def demo_ext_def genesis_vkey_ok_def
      ValidateVKeyForProofSystem_def default_proof_system_def)

text \<open>The v3 migration changes nothing that the module reads: before and after it, on every store,
  the effective parameters and every key lookup agree.\<close>

theorem MigrateStore_v3_neutral:
  "GetParams (MigrateStore_v3 st) = GetParams st
   \<and> GetVKeyByName (MigrateStore_v3 st) n = GetVKeyByName st n
   \<and> GetVKeyByID (MigrateStore_v3 st) i = GetVKeyByID st i"
  by (auto simp: MigrateStore_v3_def GetParams_def WithMaxLimitDefaults_def or_default_def
      GetVKeyByName_def GetVKeyByID_def zk_const_defs split: option.split)

end
