(* ===== verification/Zk_Default.thy ===== *)
theory Zk_Default
  imports Zk_Keeper "HOL-Library.Multiset"
begin

text \<open>
  The default genesis of \<open>x/zk\<close> (\<open>types/genesis.go\<close>): the built-in verification key of the zk-email
  circuit, its JSON encoding, and \<open>DefaultGenesisState\<close>.  \<open>json.Marshal\<close> is modelled for the values
  that occur here: nested lists and objects whose strings need no escape, objects in the order of
  their keys.
\<close>

section \<open>JSON\<close>

datatype json = JStr string | JInt nat | JArr "json list" | JObj "(string \<times> json) list"

fun commas :: "string list \<Rightarrow> string" where
  "commas [] = []"
| "commas [s] = s"
| "commas (s # t # ss) = s @ '','' @ commas (t # ss)"

definition quoted :: "string \<Rightarrow> string" where
  "quoted s = [char_of (34 :: nat)] @ s @ [char_of (34 :: nat)]"

fun json_Marshal :: "json \<Rightarrow> bytes" where
  "json_Marshal (JStr s) = quoted s"
| "json_Marshal (JInt n) = decimal n"
| "json_Marshal (JArr xs) = ''['' @ commas (map json_Marshal xs) @ '']''"
| "json_Marshal (JObj kvs) =
     ''{'' @ commas (map (\<lambda>(k, v). quoted k @ '':'' @ json_Marshal v)
                     (sort_key fst kvs)) @ ''}''"

section \<open>The key of the zk-email circuit\<close>

definition default_vk_alpha_1 :: "string list" where
  "default_vk_alpha_1 =
     [''20491192805390485299153009773594534940189261866228447918068658471970481763042'',
      ''9383485363053290200918347156157836566562967994039712273449902621266178545958'',
      ''1'']"

definition default_vk_beta_2 :: "string list list" where
  "default_vk_beta_2 =
     [[''6375614351688725206403948262868962793625744043794305715222011528459656738731'',
       ''4252822878758300859123897981450591353533073413197771768651442665752259397132''],
      [''10505242626370262277552901082094356697409835680220590971873171140371331206856'',
       ''21847035105528745403288232691147584728191162732299865338377159692350059136679''],
      [''1'',
       ''0'']]"

definition default_vk_gamma_2 :: "string list list" where
  "default_vk_gamma_2 =
     [[''10857046999023057135944570762232829481370756359578518086990519993285655852781'',
       ''11559732032986387107991004021392285783925812861821192530917403151452391805634''],
      [''8495653923123431417604973247489272438418190587263600148770280649306958101930'',
       ''4082367875863433681332203403145435568316851327593401208105741076214120093531''],
      [''1'',
       ''0'']]"

definition default_vk_delta_2 :: "string list list" where
  "default_vk_delta_2 =
     [[''1819739333453238201544496510725110584426650825660361339309415450082603307725'',
       ''20775035824795928013263071667990434175955914722274865466696285616215973520699''],
      [''18317396706858481531184310106573079431977548131267051728328209484181782745477'',
       ''14909902456239892968167394901559968213044429746284794841933446282238646810436''],
      [''1'',
       ''0'']]"

definition default_vk_alphabeta_12 :: "string list list list" where
  "default_vk_alphabeta_12 =
     [[[''2029413683389138792403550203267699914886160938906632433982220835551125967885'',
        ''21072700047562757817161031222997517981543347628379360635925549008442030252106''],
       [''5940354580057074848093997050200682056184807770593307860589430076672439820312'',
        ''12156638873931618554171829126792193045421052652279363021382169897324752428276''],
       [''7898200236362823042373859371574133993780991612861777490112507062703164551277'',
        ''7074218545237549455313236346927434013100842096812539264420499035217050630853'']],
      [[''7077479683546002997211712695946002074877511277312570035766170199895071832130'',
        ''10093483419865920389913245021038182291233451549023025229112148274109565435465''],
       [''4595479056700221319381530156280926371456704509942304414423590385166031118820'',
        ''19831328484489333784475432780421641293929726139240675179672856274388269393268''],
       [''11934129596455521040620786944827826205713621633706285934057045369193958244500'',
        ''8037395052364110730298837004334506829870972346962140206007064471173334027475'']]]"

definition default_IC_1 :: "string list list" where
  "default_IC_1 =
     [[''15950214535785561503685901885170416089208679241613946489241078754121531345368'',
       ''6413566741484414396601460146086570277052919216702699673845046940202545452712'',
       ''1''],
      [''16863092586897262433781345351732838892413475324733242808383514398789918257821'',
       ''2562926972726649639219893647901465073299431928632439273712843001810941814953'',
       ''1''],
      [''13068025862463096060363455359016956346236100286757263148377084234631824702773'',
       ''7737164861220347728330147009122685407385475738569408313096457178276957900800'',
       ''1''],
      [''4880502924625142882637218816341390548115741496372444113090118291337749751910'',
       ''20641211449938587878773621163821960030891368876242808289954092058040062388213'',
       ''1''],
      [''3862436174048768061564857650966663195191482254865068674374262483451806389520'',
       ''12402267693937063020550836252660463530985468695168451085487700610121047810951'',
       ''1''],
      [''13259997926828616484017101986753339350308361973527940017383814849072285699811'',
       ''10368672356259218839812719891499002458185249451833161710220630391964837445352'',
       ''1''],
      [''6397992820508516842241029094898516186725279286540672554116403160914176358443'',
       ''11195708633986858615714896781442268079030446466740337173653814606879461857562'',
       ''1''],
      [''16711396487645523624974699453994048850819233871032982904645504869858729525093'',
       ''16738482245786492820552168054381022310168489767902867788923385844539016279008'',
       ''1''],
      [''18549786394029224114545421187435575957887646018397541546865376163643142068707'',
       ''20052055145772687396769805410655970206023291130121819803408317971585826442303'',
       ''1''],
      [''9488244878405253066326398911806349476402820283916955909555088408451825216566'',
       ''14755712876564758833957923354105492023651788053211248807130155088310530601959'',
       ''1''],
      [''14373538572767172871472740985216352990517175912727836245348580109076322689434'',
       ''16551701169108805146510679977707499310951563344723188459880788910250556192396'',
       ''1''],
      [''21375041240635456273133847411338529361372641157826050078444226405949823351210'',
       ''3990701785499350931201013954804244253544512156381231628411657195236539105943'',
       ''1''],
      [''5392664266481004015100790636645876890061146810321246928426924028746789521386'',
       ''10749854649104785399017162103843486127753039621788468862658123655363901077181'',
       ''1''],
      [''9200155369151155561666333315183846584563973278547039380517493788730113043689'',
       ''3681808583763093472679418746401624806120862118346819377349076446950467066385'',
       ''1''],
      [''17530250430917406008626763464663663784525511871465031036020474163808056762909'',
       ''20509651622379631442933086061646947716120671868445047203776095938670039566844'',
       ''1''],
      [''19508957406013174741442608162562832887991931528284778091889421085900689127207'',
       ''10208609206252879202046625789094819803998748253603741410278686202757540798516'',
       ''1''],
      [''21686217944728010507586740480873321410941819443803188923658980698884670361261'',
       ''20943922276768364284451796397444156387069934574573272808623624956547122936735'',
       ''1''],
      [''20232461811568906700497150211824030936112074376197218907096759717503065821357'',
       ''15956506013354668088289770379353538815817784455167435761572956382456579635066'',
       ''1''],
      [''4045620713404972029797155330214849888029242650388151636874142954100049234692'',
       ''20523594583438851187849737856155340013317630404249704360690401323665466211571'',
       ''1''],
      [''14045008891890861821934552191744592053190701283630431621962332417749403017410'',
       ''12436059612224214699934430907774865184442829101183443713965971581594652198921'',
       ''1''],
      [''3653940122287964145237348199295673459992974603920669982495236791950070527626'',
       ''2577487249519353755769349964737706597907561017441061577131545294016853399202'',
       ''1''],
      [''9768531125480921709549417643253756436957790241271268561831249334077975552931'',
       ''18721409322580688507497216887702841485607828572976338424263073805186097780618'',
       ''1''],
      [''10385995135688946227255483643120865737554264560200280417726642622746663283640'',
       ''2500538262979246644639113090101849985701865785408589115890617441332273007320'',
       ''1''],
      [''11237527922926484074571415915644558055350198320930328841917242816906729921984'',
       ''9989064688222575788989699201390210701598360614811246368037826159811238215339'',
       ''1''],
      [''13602240994466841542593822177421187494135375480904595334407188100374738023279'',
       ''7979329358377217491130521234533807294864596933062464497366381252964663511911'',
       ''1''],
      [''1711092060580308217314239791744806143435492838955938811896790605109199849707'',
       ''6124000530364770163873726114714522226327235978456519872871971819440325839389'',
       ''1''],
      [''7799884938403008152118851385637692021433934443217070047257552408445155909530'',
       ''17995166091708851447356099736619972016980612736869467487878993961727582346305'',
       ''1''],
      [''6964723158213822055903020395775887935359512418864546589372028788008830715214'',
       ''10603142758860447408212637181621006651148702133594999090457906007787862741022'',
       ''1''],
      [''21585042147643659531478438797392857942466764344251065997734451941586050937147'',
       ''19206750508334847412700376800643503145601743211616957432602097915492480948284'',
       ''1''],
      [''19410826129283908627224600179433457093859454726250815431452936037403518129037'',
       ''21285690837378097546559937683636907348481424137844375530431400728616860751434'',
       ''1'']]"

definition default_IC_2 :: "string list list" where
  "default_IC_2 =
     [[''17632290282488082803101420074418252288083457791857528886767407390256669487402'',
       ''17601828943652226539740622761647617667562548009148250169032981750111383756903'',
       ''1''],
      [''3300800043068359501168906383251622915927319213819504738248596838440868491800'',
       ''9077020854714517489632578827611903104824643714690794811715918824746980034062'',
       ''1''],
      [''11539791592063540373565051781605532819743889181048325280516095215599278415284'',
       ''10770569126750218640631965776891557069905077747951579385656724402057932910688'',
       ''1''],
      [''13724223271717932146542793560988193267634645382104140426101652902821727110537'',
       ''4856436887855555488108070477685326609666056846400527879446335244723429476079'',
       ''1''],
      [''6241507949034324079800115382174737834566930959514884141318927681662216523943'',
       ''14393199679188906744606306198503537959676457383341152874934499775533009409606'',
       ''1''],
      [''13436319270221703070116084576472516502991447365941865176279504837843783543206'',
       ''12706323356935158720751079589081494910388874407711411527357229396762505544170'',
       ''1''],
      [''13598297511625991421031161846448598192312155440397910285175739915635261376057'',
       ''4426713382064984964487484322434624939479314861306325388834933222277300696381'',
       ''1''],
      [''4886370502050706893960406806786429893151412627823242468793057403822891056317'',
       ''5238856709761889474143528825087827219557312572431139070979300944579717464738'',
       ''1''],
      [''3134243413481044152526156202217921428466884823704454191944686448110742402342'',
       ''2599539807343292984997694185916996481169822480743916477712082096077653382969'',
       ''1''],
      [''6658643794409316793705291453949445823644555496249384507873716853332934668986'',
       ''13897297086987489580876479814537425419100995423569151661399608783311218870034'',
       ''1''],
      [''7639216203502438771749587700304160576480992048622128105295591906259506421984'',
       ''17901568302074394971546943159117851358859364213472838734249317970515017712332'',
       ''1''],
      [''3820430048383362344675685907365588952781700622139282165698846294285041050009'',
       ''14350371325690709315412811076968893225853472441680688955435272779527196071480'',
       ''1''],
      [''19741056833517215091019681519161084617255186700240895847113956533982894728044'',
       ''20284194974784615257288195801961634371687421809029601211109561213653381765343'',
       ''1''],
      [''7017169041508795614997911671897895339113193275820386036139280849575223455037'',
       ''11982810763519820597490797383127300808367511979686315546850445487989939786311'',
       ''1''],
      [''12414214262317235387766149426150079811656594287116042146646069084014600463564'',
       ''4467060607047064647048017348630058323081461935891076860278872208792869989541'',
       ''1''],
      [''14854719023038286333789214372998949285345259897348664731891459878596867915238'',
       ''21701895600760900652355401503873236516153623881639962228982145813293800165201'',
       ''1''],
      [''21467378938829605952320861456896682628734522207637254136870777587403196542707'',
       ''3323265524796620136486855393056291075067202206846266874550487930548803655889'',
       ''1''],
      [''1160354600852200592162660540201026590538244527515479441048140727478123678204'',
       ''10012930608119980354319250519856965362060251050066875588508607282136339410705'',
       ''1''],
      [''3583661491681735379690040574159705160493728586284550050052447927015896894459'',
       ''6003897836691435561922619171486538258987082170798801117795921005035674695745'',
       ''1''],
      [''11095556631362669461564420426853498980513453089428341728093742633312770162365'',
       ''6794271493907316768019285494104898486495396104699623580464075592380779089476'',
       ''1''],
      [''21666696947872480725445170872389123738667879006506166192433247345022644440734'',
       ''17493522665437407217479491711496237384680993522912159838803918309801075697925'',
       ''1''],
      [''5485673981926661082743526956233627869185248827866081723720465569764609233721'',
       ''4045083751858422052100717317149711478118055660858644263502264172717098386032'',
       ''1''],
      [''12155266854873373714579469422317219181806026601525137556258438418734246988116'',
       ''11797233548915192896028636876234557620060680507586158982666928251642539305423'',
       ''1''],
      [''16583520184362063182677074368201636605199859497032982479247000667311864104375'',
       ''10506907758813719094737636583503385800753433021331248728651677214258004088559'',
       ''1''],
      [''3712508399833140998060963899280362581681022870963525242397161522990742154646'',
       ''16280723390252623514700101989253312790264168456963172502708592074310968549591'',
       ''1''],
      [''17868698875581175628137099605490246473243401999252406999511512247460002901021'',
       ''1649168920263494223861701097863895560224608849426978375751850303377673819172'',
       ''1''],
      [''6810657939168348880087204018066475625605806147563193070841516632644765868480'',
       ''17861791586059032352097327375385385624473273394109074701894471379978074040784'',
       ''1''],
      [''4620016759046441678773492701523809923461409760417558746453181041208821583418'',
       ''4612521404064736144689514026357777275115244068514713805129035664178213979554'',
       ''1''],
      [''18771002108786903247959537255031401956476977840015721421148261463190095851113'',
       ''498886275661823072287718704049949258400991209968727350252554523778105782215'',
       ''1''],
      [''15326013501770747921174775482478715930743514297654100923596902576575671816849'',
       ''2883308288996168085983065367681663502068338699538440275816275978410323328406'',
       ''1'']]"

definition default_IC_3 :: "string list list" where
  "default_IC_3 =
     [[''21581684913076799209490557818483260110296790332918771795348816669651847000679'',
       ''19255873940850804451783260286343088032937552756774189816713586265529831908504'',
       ''1''],
      [''9422261690912571173986303028522296342606395637942219379666652619903201019131'',
       ''13157297488865573001303139061647034843599036423019952497061432740799741656842'',
       ''1''],
      [''1514157775351832733851600116508176403078970867542532240445777211872550685122'',
       ''10098819081512815519980061805077722208902467184247461515351240331734854518381'',
       ''1''],
      [''11782815250364193986475389178853147568516472982130840457112491737559788955101'',
       ''3335902146830715656021749998239646474827407353582699596885331049435108953201'',
       ''1''],
      [''19715141303756368931876618652294034157902362015546362095456319804205226826133'',
       ''13940583470143867039418224929910049911006893023789574099286250232307258688711'',
       ''1''],
      [''8716744272985801264882445926416318716002742018795335350713831221043480580032'',
       ''5981267136782955250495545666218546733118820751848196041477454671263163558897'',
       ''1''],
      [''21628952821580586497929833355825274220202057128991040228930331708145040660855'',
       ''3469516323364817710854129570092268160069632978883031941255303021154065607922'',
       ''1''],
      [''17501861154724193589590506891062483213646232948920678675545153811813856128573'',
       ''20254238639286400751749247937175107725010995373011052127004348867729068873966'',
       ''1''],
      [''8442995010652504441784521577785851339669684005049314495578925421517035610011'',
       ''15627528014249992938080566822784668676708451534871137221203003405263205622292'',
       ''1''],
      [''19414400530135975385492231648570111940243147307766181195188375717332269327959'',
       ''1499364253014807765434847446251511366276069422266546393509394742672423498642'',
       ''1''],
      [''9161864863925961293845383820344598372665960579564678665694408576515214580204'',
       ''13406476698756762066901676887188803910954348623494044661390967444811064032830'',
       ''1''],
      [''7008531358837212090350935476929706988333478235531943394907033017977192860610'',
       ''7774424843983567179012169757171980747968105070613972208975551310700117771542'',
       ''1''],
      [''14578588366366136567572216886935469954382916858356947811454442710467695870366'',
       ''17231497063137231274856192560145970477655535850141461878515723965739614607035'',
       ''1''],
      [''4319881357156202808731141185602438275838823213614732720325977789014374291149'',
       ''14351127588947523773520193838214020706347297025902615585223544665583857923393'',
       ''1''],
      [''18192254486173626791927949654743431767586920040690298573321190032488684795658'',
       ''6072114391506802460909542442713589973786175258256944676453994774586144868971'',
       ''1''],
      [''3798425761531572380130880687418099092838859498323200122859781833653604156767'',
       ''7084161216630305433056954952704057959691436560540571492579268107886758282590'',
       ''1''],
      [''12221482081437000836203647300597080175031889687813472200014154223123836620199'',
       ''20968736189291315653908935342644552914098668187863638497385415943421228733058'',
       ''1''],
      [''617400237964230416228804192601882940521456716046054781850543477724806091311'',
       ''2904398655777212823206942900445971875646587821051609522215605193631325136260'',
       ''1''],
      [''2630283627321778633778673545048506457244227283376747634599863527799915022425'',
       ''940513164069974613974034762133339181649727449337769637272141800475219688707'',
       ''1''],
      [''18163405159728587410831224788431815807681099737058317492533922873291080064040'',
       ''9031215561364014341835611435935312647306825311699176403239210668640380631758'',
       ''1''],
      [''1737647792914177177630507239053383779243024285042606473063461958504284885437'',
       ''8578877333890370354788498261638161376531459669187328779551688892176587772921'',
       ''1''],
      [''12354002330358693886969982374034740922082764644395640762532220758019139198399'',
       ''19575157564538221508252074540975523997474775427079762157651825427443387741334'',
       ''1''],
      [''18032566659806712997656749275422220696173189796125826963827833268809202086322'',
       ''16946040601798695321043126656806137519263966567822907008292341347796760038300'',
       ''1''],
      [''21427739805154086213649306614743044371728499524515544239186979041239237442117'',
       ''8923985632057383012782601268197398502317544291061078307272989411673950351474'',
       ''1''],
      [''7081324789641261935825569660606618609091430934854329039157458662925381113109'',
       ''21565060637886002596108024486962876241946928759218624744800835274778545826453'',
       ''1''],
      [''9474074458682123852946953048882083153831215474062305951197139598855191369887'',
       ''17076595853287865670607387197085589417258936334498202048370392739025133484947'',
       ''1''],
      [''5281705668899767051116648812837006764258612940205033154396824669172615411374'',
       ''21610060531524118652658079655974381794228027531596545964243289489247182860243'',
       ''1''],
      [''9255585742697107898396540824748617249796675837262778594710205251423547909391'',
       ''21252311345958756529843826782458097494903171861113489067518450694281638753940'',
       ''1''],
      [''20911406283497461651801969177668183817390375840777623031021125474041622540287'',
       ''10275270587102628971535520879400364640005486064321744709600223644102588379687'',
       ''1'']]"

definition default_circom :: CircomVerificationKey where
  "default_circom =
     \<lparr> cvk_Protocol = ''groth16'', cvk_NPublic = 88, cvk_VkAlpha1 = default_vk_alpha_1,
       cvk_VkBeta2 = default_vk_beta_2, cvk_VkGamma2 = default_vk_gamma_2,
       cvk_VkDelta2 = default_vk_delta_2, cvk_IC = default_IC_1 @ default_IC_2 @ default_IC_3 \<rparr>"

definition CreateDefaultVKeyBytes :: bytes where
  "CreateDefaultVKeyBytes = json_Marshal (JObj
     [(''protocol'', JStr ''groth16''), (''curve'', JStr ''bn128''), (''nPublic'', JInt 88),
      (''vk_alpha_1'', JArr (map JStr default_vk_alpha_1)),
      (''vk_beta_2'', JArr (map (JArr \<circ> map JStr) default_vk_beta_2)),
      (''vk_gamma_2'', JArr (map (JArr \<circ> map JStr) default_vk_gamma_2)),
      (''vk_delta_2'', JArr (map (JArr \<circ> map JStr) default_vk_delta_2)),
      (''vk_alphabeta_12'', JArr (map (JArr \<circ> map (JArr \<circ> map JStr)) default_vk_alphabeta_12)),
      (''IC'', JArr (map (JArr \<circ> map JStr) (default_IC_1 @ default_IC_2 @ default_IC_3)))])"

definition default_vkey :: VKey where
  "default_vkey =
     \<lparr> vk_KeyBytes = CreateDefaultVKeyBytes, vk_Name = ''Zk Email'',
       vk_Description = ''ZK email Vkey for AA + ZK email'', vk_CircuitHash = [], vk_Authority = [],
       vk_ProofSystem = PROOF_SYSTEM_UNSPECIFIED \<rparr>"

definition DefaultGenesisState :: GenesisState where
  "DefaultGenesisState = \<lparr> gs_Vkeys = [(1, default_vkey)], gs_Params = DefaultParams \<rparr>"

section \<open>Facts\<close>

text \<open>
  A quick test that implies \<open>field_coord\<close>: at most 76 digits, or 77 digits whose first eight are
  below those of the field prime.
\<close>

definition is_digit :: "char \<Rightarrow> bool" where
  "is_digit c \<longleftrightarrow> (let n = of_char c :: nat in 48 \<le> n \<and> n \<le> 57)"

definition quick_coord :: "string \<Rightarrow> bool" where
  "quick_coord s \<longleftrightarrow>
     s \<noteq> [] \<and> list_all is_digit s
     \<and> (length s \<le> 76
        \<or> length s = 77 \<and> (case digits_val 10 (take 8 s) 0 of None \<Rightarrow> False | Some v \<Rightarrow> v < 21888242))"

lemma is_digit_val: "is_digit c \<Longrightarrow> \<exists>d < 10. digit_val c = Some d"
  by (auto simp: is_digit_def digit_val_def Let_def)

lemma digits_val_bound:
  "list_all is_digit s \<Longrightarrow> \<exists>v. digits_val 10 s acc = Some v \<and> v < (acc + 1) * 10 ^ length s"
proof (induction s arbitrary: acc)
  case (Cons c s)
  obtain d where d: "d < 10" "digit_val c = Some d"
    using Cons.prems is_digit_val by auto
  obtain v where v: "digits_val 10 s (acc * 10 + d) = Some v" "v < (acc * 10 + d + 1) * 10 ^ length s"
    using Cons by force
  have "(acc * 10 + d + 1) * 10 ^ length s \<le> (acc + 1) * 10 * 10 ^ length s"
    using d(1) by (intro mult_right_mono) auto
  with v(2) have "v < (acc + 1) * 10 * 10 ^ length s"
    by (rule less_le_trans)
  then show ?case
    using d v(1) by (simp add: algebra_simps)
qed simp

lemma SetString_digits:
  assumes "list_all is_digit s" and "s \<noteq> []" and "digits_val 10 s 0 = Some v"
  shows "SetString s 10 = Some (int v)"
proof -
  have "\<not> is_digit CHR ''-''" "\<not> is_digit CHR ''+''"
    by (simp_all add: is_digit_def)
  then show ?thesis
    using assms by (cases s) (auto simp: SetString_def natural_val_def)
qed

lemma quick_coord_ok: "quick_coord s \<Longrightarrow> field_coord s"
proof -
  assume q: "quick_coord s"
  then have s: "list_all is_digit s" "s \<noteq> []"
    by (auto simp: quick_coord_def)
  obtain v where v: "digits_val 10 s 0 = Some v" "v < 10 ^ length s"
    using digits_val_bound [OF s(1), of 0] by auto
  have "v < 21888242 * 10 ^ 69"
  proof (cases "length s \<le> 76")
    case True
    then have "(10 :: nat) ^ length s \<le> 10 ^ 76"
      by (intro power_increasing) auto
    then show ?thesis
      using v(2) by (simp add: le_less_trans less_le_trans)
  next
    case False
    then obtain h where h: "digits_val 10 (take 8 s) 0 = Some h" "h < 21888242" "length s = 77"
      using q by (auto simp: quick_coord_def split: option.splits)
    have "list_all is_digit (drop 8 s)"
      using s(1) by (auto simp: list_all_iff dest: in_set_dropD)
    then obtain w where "digits_val 10 (drop 8 s) h = Some w" "w < (h + 1) * 10 ^ 69"
      using digits_val_bound [of "drop 8 s" h] h(3) by auto
    moreover have "digits_val 10 s 0 = digits_val 10 (drop 8 s) h"
      using digits_val_append [of 10 "take 8 s" "drop 8 s" 0] h(1) by simp
    moreover have "(h + 1) * 10 ^ 69 \<le> 21888242 * (10 :: nat) ^ 69"
      using h(2) by (intro mult_right_mono) auto
    ultimately show ?thesis
      using v(1) by simp
  qed
  then have "int v < bn254FieldPrime"
    by (simp add: bn254FieldPrime_def)
  then show ?thesis
    using SetString_digits [OF s v(1)] by (simp add: field_coord_def)
qed

definition quick_g1 :: "string list \<Rightarrow> bool" where
  "quick_g1 p \<longleftrightarrow> (case p of a # b # _ \<Rightarrow> quick_coord a \<and> quick_coord b | _ \<Rightarrow> False)"

definition quick_g2 :: "string list list \<Rightarrow> bool" where
  "quick_g2 rows \<longleftrightarrow>
     (case rows of [a, b] # [c, d] # _ \<Rightarrow>
        quick_coord a \<and> quick_coord b \<and> quick_coord c \<and> quick_coord d | _ \<Rightarrow> False)"

lemma quick_g1_ok: "quick_g1 p \<Longrightarrow> g1_ok p"
  by (auto simp: quick_g1_def g1_ok_def quick_coord_ok split: list.splits)

lemma quick_g2_ok: "quick_g2 p \<Longrightarrow> g2_ok p"
  by (auto simp: quick_g2_def g2_ok_def quick_coord_ok split: list.splits)

lemma quick_list_ok: "list_all quick_g1 ps \<Longrightarrow> list_all g1_ok ps"
  by (auto simp: list_all_iff quick_g1_ok)

lemmas quick_simps = quick_g1_def quick_g2_def quick_coord_def is_digit_def digit_val_def

lemma default_alpha_ok: "g1_ok default_vk_alpha_1"
  by (rule quick_g1_ok) (simp add: quick_simps default_vk_alpha_1_def)

lemma default_beta_ok: "g2_ok default_vk_beta_2"
  by (rule quick_g2_ok) (simp add: quick_simps default_vk_beta_2_def)

lemma default_gamma_ok: "g2_ok default_vk_gamma_2"
  by (rule quick_g2_ok) (simp add: quick_simps default_vk_gamma_2_def)

lemma default_delta_ok: "g2_ok default_vk_delta_2"
  by (rule quick_g2_ok) (simp add: quick_simps default_vk_delta_2_def)

lemma default_IC_1_ok: "list_all g1_ok default_IC_1"
  by (rule quick_list_ok) (simp add: quick_simps default_IC_1_def)

lemma default_IC_2_ok: "list_all g1_ok default_IC_2"
  by (rule quick_list_ok) (simp add: quick_simps default_IC_2_def)

lemma default_IC_3_ok: "list_all g1_ok default_IC_3"
  by (rule quick_list_ok) (simp add: quick_simps default_IC_3_def)

lemma default_IC_length:
  "length default_IC_1 = 30" "length default_IC_2 = 30" "length default_IC_3 = 29"
  by (simp_all add: default_IC_1_def default_IC_2_def default_IC_3_def)

lemmas default_points_ok = default_alpha_ok default_beta_ok default_gamma_ok default_delta_ok
  default_IC_1_ok default_IC_2_ok default_IC_3_ok default_IC_length

lemma default_circom_ok: "circom_ok default_circom"
  by (simp add: circom_ok_def default_circom_def default_points_ok)

lemma commas_length: "length (commas ss) = sum_list (map length ss) + (length ss - 1)"
  by (induction ss rule: commas.induct) auto

lemma quoted_length: "length (quoted s) = length s + 2"
  by (simp add: quoted_def)

definition row_ok :: "string list \<Rightarrow> bool" where
  "row_ok r \<longleftrightarrow> length r \<le> 3 \<and> list_all (\<lambda>s. length s \<le> 77) r"

lemma row_bound: "row_ok r \<Longrightarrow> length (json_Marshal (JArr (map JStr r))) \<le> 241"
proof -
  assume r: "row_ok r"
  then have "list_all (\<lambda>s. length s \<le> 77) r"
    by (simp add: row_ok_def)
  then have "sum_list (map (\<lambda>s. length s + 2) r) \<le> 79 * length r"
    by (induction r) auto
  then show ?thesis
    using r by (simp add: row_ok_def commas_length quoted_length comp_def) linarith
qed

lemma array_bound:
  assumes "list_all (\<lambda>x. length (json_Marshal x) \<le> n) xs"
  shows "length (json_Marshal (JArr xs)) \<le> 2 + (n + 1) * length xs"
proof -
  have "sum_list (map (\<lambda>x. length (json_Marshal x)) xs) \<le> n * length xs"
    using assms by (induction xs) auto
  then show ?thesis
    by (simp add: commas_length comp_def)
qed

lemma rows_bound:
  assumes "list_all row_ok rs"
  shows "length (json_Marshal (JArr (map (JArr \<circ> map JStr) rs))) \<le> 2 + 242 * length rs"
  using array_bound [of 241 "map (JArr \<circ> map JStr) rs"] assms row_bound
  by (simp add: list_all_iff)

lemma planes_bound:
  assumes "list_all (\<lambda>rs. list_all row_ok rs \<and> length rs \<le> 3) ps"
  shows "length (json_Marshal (JArr (map (JArr \<circ> map (JArr \<circ> map JStr)) ps))) \<le> 2 + 729 * length ps"
proof -
  have "length (json_Marshal (JArr (map (JArr \<circ> map JStr) rs))) \<le> 728" if "rs \<in> set ps" for rs
    using rows_bound [of rs] assms that by (auto simp: list_all_iff)
  then show ?thesis
    using array_bound [of 728 "map (JArr \<circ> map (JArr \<circ> map JStr)) ps"] by (simp add: list_all_iff)
qed

lemma object_length:
  "length (json_Marshal (JObj kvs)) =
     2 + (sum_list (map (\<lambda>(k, v). length k + 3 + length (json_Marshal v)) kvs) + (length kvs - 1))"
proof -
  have "sum_list (map g (sort_key fst kvs)) = sum_list (map g kvs)" for g :: "string \<times> json \<Rightarrow> nat"
    by (metis mset_map mset_sort sum_mset_sum_list)
  moreover have "(\<lambda>p. length (case p of (k, v) \<Rightarrow> quoted k @ '':'' @ json_Marshal v)) =
      (\<lambda>(k, v). length k + 3 + length (json_Marshal v))"
    by (auto simp: quoted_length)
  ultimately show ?thesis
    by (simp add: commas_length comp_def)
qed

lemma default_rows_ok:
  "row_ok default_vk_alpha_1" "list_all row_ok default_vk_beta_2" "list_all row_ok default_vk_gamma_2"
  "list_all row_ok default_vk_delta_2" "list_all row_ok default_IC_1" "list_all row_ok default_IC_2"
  "list_all row_ok default_IC_3"
  "list_all (\<lambda>rs. list_all row_ok rs \<and> length rs \<le> 3) default_vk_alphabeta_12"
  by (simp_all add: row_ok_def default_vk_alpha_1_def default_vk_beta_2_def default_vk_gamma_2_def
      default_vk_delta_2_def default_IC_1_def default_IC_2_def default_IC_3_def
      default_vk_alphabeta_12_def)

lemma default_rows_length:
  "length default_vk_beta_2 = 3" "length default_vk_gamma_2 = 3" "length default_vk_delta_2 = 3"
  "length default_vk_alphabeta_12 = 2"
  by (simp_all add: default_vk_beta_2_def default_vk_gamma_2_def default_vk_delta_2_def
      default_vk_alphabeta_12_def)

lemma default_bytes_length: "0 < length CreateDefaultVKeyBytes \<and> length CreateDefaultVKeyBytes \<le> 32768"
proof -
  have ic: "list_all row_ok (default_IC_1 @ default_IC_2 @ default_IC_3)"
    "length (default_IC_1 @ default_IC_2 @ default_IC_3) = 89"
    by (simp_all add: default_rows_ok default_IC_length)
  have "length (decimal 88) \<le> 2"
    by (simp add: decimal.simps)
  then show ?thesis
    using row_bound [OF default_rows_ok(1)] rows_bound [OF default_rows_ok(2)]
      rows_bound [OF default_rows_ok(3)] rows_bound [OF default_rows_ok(4)]
      planes_bound [OF default_rows_ok(8)] rows_bound [OF ic(1)]
    unfolding CreateDefaultVKeyBytes_def object_length ic(2) default_rows_length
    by (simp del: json_Marshal.simps(3) add: quoted_length)
qed

lemma default_vkey_valid:
  assumes "UnmarshalCircomVerificationKeyJSON x CreateDefaultVKeyBytes = Inr default_circom"
    and "32768 \<le> unat m"
  shows "ValidateVKeyBytes x (vk_KeyBytes default_vkey) m = Inr ()"
    and "ValidateVKeyForProofSystem x (vk_KeyBytes default_vkey) m (vk_ProofSystem default_vkey) = Inr ()"
proof -
  have "len64 CreateDefaultVKeyBytes \<le> m"
    using default_bytes_length assms(2) by (subst len64_le_iff) (auto simp: go_sized_def)
  then show *: "ValidateVKeyBytes x (vk_KeyBytes default_vkey) m = Inr ()"
    using assms(1) default_circom_ok by (simp add: ValidateVKeyBytes_iff default_vkey_def)
  then show "ValidateVKeyForProofSystem x (vk_KeyBytes default_vkey) m (vk_ProofSystem default_vkey) = Inr ()"
    by (subst ValidateVKeyForProofSystem_groth16) (simp_all add: default_proof_system_def default_vkey_def)
qed

lemma default_genesis_params: "genesis_params DefaultGenesisState = DefaultParams"
  using DefaultParams_ok
  by (auto simp: genesis_params_def DefaultGenesisState_def WithMaxLimitDefaults_valid)

lemma default_max_size: "unat (MaxVkeySizeBytes DefaultParams) = 262144"
  by (simp add: DefaultParams_def NewParams_def zk_const_defs)

section \<open>Properties\<close>

text \<open>The built-in genesis state is valid and starts the module: all coordinates of the 88-input
  zk-email key lie in the field and its encoding fits the default size limit, so \<open>Validate\<close> accepts
  it, \<open>InitGenesis\<close> succeeds in a state that satisfies the invariant, and the key is served under
  its name, owned by the module authority.  The hypothesis says what the circom parser reads from
  the encoding.\<close>

theorem DefaultGenesisState_starts:
  assumes "UnmarshalCircomVerificationKeyJSON (ze_ext env) CreateDefaultVKeyBytes = Inr default_circom"
  shows "Validate_GenesisState (ze_ext env) DefaultGenesisState = Inr ()
    \<and> (\<exists>st. InitGenesis env DefaultGenesisState (zk_empty start) = Inr st \<and> zk_inv env st
         \<and> GetParams st = DefaultParams
         \<and> GetVKeyByName st ''Zk Email'' = Inr (default_vkey\<lparr> vk_Authority := ze_authority env \<rparr>))"
proof
  note V = default_vkey_valid [OF assms, of "MaxVkeySizeBytes DefaultParams"]
  show "Validate_GenesisState (ze_ext env) DefaultGenesisState = Inr ()"
    using V DefaultParams_ok default_max_size default_bytes_length
    unfolding Validate_GenesisState_iff default_genesis_params
    by (simp add: DefaultGenesisState_def genesis_vkey_ok_def) (auto simp: default_vkey_def)
  have max_default: "MaxVkeySizeBytes DefaultParams \<noteq> 0" "MaxVkeySizeBytes DefaultParams \<le> MaxAllowedVKeySizeBytes"
    by (simp_all add: DefaultParams_def NewParams_def zk_const_defs word_le_nat_alt)
  have "list_all (importable env DefaultParams) (gs_Vkeys DefaultGenesisState)"
    using V default_max_size max_default
    by (auto simp: importable_def DefaultGenesisState_def vkey_valid_def)
  from InitGenesis_ok [of DefaultGenesisState env start, unfolded default_genesis_params,
      OF DefaultParams_ok this]
  obtain st where st: "InitGenesis env DefaultGenesisState (zk_empty start) = Inr st" "zk_inv env st"
    "GetParams st = DefaultParams"
    "kv_get (VKeys st) = (\<lambda>i. map_option (filled env) (map_of (gs_Vkeys DefaultGenesisState) i))"
    by (auto simp: DefaultGenesisState_def)
  have k: "kv_get (VKeys st) 1 = Some (filled env default_vkey)"
    by (simp add: st(4) DefaultGenesisState_def)
  then have "kv_get (VKeyNameIndex st) ''Zk Email'' = Some 1"
    using index_ok_lookup [of _ "kv_get (VKeys st)" vk_Name 1] st(2)
    by (auto simp: zk_inv_def filled_def default_vkey_def)
  then show "\<exists>st. InitGenesis env DefaultGenesisState (zk_empty start) = Inr st \<and> zk_inv env st
      \<and> GetParams st = DefaultParams
      \<and> GetVKeyByName st ''Zk Email'' = Inr (default_vkey\<lparr> vk_Authority := ze_authority env \<rparr>)"
    using st k
    by (auto simp: GetVKeyByName_def GetVKeyByID_def filled_def stored_authority_def default_vkey_def)
qed

text \<open>The environment in which the parser reads the built-in key and nothing else.\<close>

definition only_default_ext :: vkey_ext where
  "only_default_ext =
     \<lparr> AccAddressFromBech32 = (\<lambda>s. Inr s),
       UnmarshalCircomVerificationKeyJSON =
         (\<lambda>b. if b = CreateDefaultVKeyBytes then Inr default_circom else Inl (External ''json'')),
       gnark_ReadVerifyingKey = (\<lambda>b. Inl (External ''eof'')),
       bb_ValidateVerificationKeyBytes = (\<lambda>b m. Inl (External ''bb'')) \<rparr>"

theorem DefaultGenesisState_starts_witness:
  "Validate_GenesisState only_default_ext DefaultGenesisState = Inr ()"
  using DefaultGenesisState_starts [of "\<lparr> ze_authority = ''gov'', ze_ext = only_default_ext \<rparr>" 0]
  by (simp add: only_default_ext_def)

text \<open>The v2 migration overwrites the key with id 1 by the built-in one and leaves the name index
  alone.  Where the name of the built-in key is indexed at id 1 this keeps the invariant and serves
  the new key under its name and id, with every other id as before.\<close>

theorem MigrateStore_v2_keeps_invariant:
  assumes "zk_inv env st" and "kv_get (VKeyNameIndex st) ''Zk Email'' = Some 1"
    and "UnmarshalCircomVerificationKeyJSON (ze_ext env) CreateDefaultVKeyBytes = Inr default_circom"
  shows "zk_inv env (MigrateStore_v2 (gs_Vkeys DefaultGenesisState) st)
    \<and> GetVKeyByName (MigrateStore_v2 (gs_Vkeys DefaultGenesisState) st) ''Zk Email'' = Inr default_vkey
    \<and> (\<forall>i. i \<noteq> 1 \<longrightarrow>
          GetVKeyByID (MigrateStore_v2 (gs_Vkeys DefaultGenesisState) st) i = GetVKeyByID st i)"
proof -
  have m: "MigrateStore_v2 (gs_Vkeys DefaultGenesisState) st = st\<lparr> VKeys := kv_set 1 default_vkey (VKeys st) \<rparr>"
    using default_bytes_length by (simp add: MigrateStore_v2_def DefaultGenesisState_def default_vkey_def)
  obtain v0 where v0: "kv_get (VKeys st) 1 = Some v0" "vk_Name v0 = ''Zk Email''"
    using assms(1,2) by (auto simp: zk_inv_def dest: index_okD)
  have "index_ok (kv_get (VKeyNameIndex st)) (kv_get (kv_set 1 default_vkey (VKeys st))) vk_Name"
    using assms(1) v0 by (intro zk_index.index_replace [of _ _ _ v0]) (auto simp: zk_inv_def default_vkey_def)
  moreover have "vkey_valid (ze_ext env) default_vkey"
    unfolding vkey_valid_def using default_vkey_valid(2) [OF assms(3), of MaxAllowedVKeySizeBytes]
    by (intro exI [of _ MaxAllowedVKeySizeBytes]) (simp add: MaxAllowedVKeySizeBytes_def)
  ultimately have "zk_inv env (st\<lparr> VKeys := kv_set 1 default_vkey (VKeys st) \<rparr>)"
    using assms(1) v0(1) by (auto simp: zk_inv_def split: if_splits)
  then show ?thesis
    using assms(2) by (simp add: m GetVKeyByName_def GetVKeyByID_def)
qed

theorem MigrateStore_v2_keeps_invariant_witness:
  "\<exists>st. zk_inv \<lparr> ze_authority = ''gov'', ze_ext = only_default_ext \<rparr>
     (MigrateStore_v2 (gs_Vkeys DefaultGenesisState) st) \<and> VKeys st \<noteq> []"
proof -
  define env where "env = \<lparr> ze_authority = ''gov'', ze_ext = only_default_ext \<rparr>"
  define st where "st = \<lparr> VKeys = [(1, default_vkey)], NextVKeyID = 2,
    VKeyNameIndex = [(''Zk Email'', 1)], zk_Params = None \<rparr>"
  have p: "UnmarshalCircomVerificationKeyJSON (ze_ext env) CreateDefaultVKeyBytes = Inr default_circom"
    by (simp add: env_def only_default_ext_def)
  have "vkey_valid (ze_ext env) default_vkey"
    unfolding vkey_valid_def using default_vkey_valid(2) [OF p, of MaxAllowedVKeySizeBytes]
    by (intro exI [of _ MaxAllowedVKeySizeBytes]) (simp add: MaxAllowedVKeySizeBytes_def)
  then have "zk_inv env st"
    by (auto simp: zk_inv_def st_def kv_wf_def index_ok_def kv_get_def word_less_nat_alt default_vkey_def)
  then have "zk_inv env (MigrateStore_v2 (gs_Vkeys DefaultGenesisState) st)"
    using MigrateStore_v2_keeps_invariant [of env st] p by (simp add: st_def kv_get_def)
  then show ?thesis
    unfolding env_def by (intro exI [of _ st]) (simp add: st_def)
qed

end
