(* ===== verification/Sdk.thy ===== *)
theory Sdk
  imports Go_Std
begin

text \<open>
  The parts of the Cosmos SDK that the modules compute with.  A \<open>sdkmath.Int\<close> is its integer value,
  a \<open>sdk.Coins\<close> the list of its denomination and amount pairs.  The operations on them are not part
  of the repository: they are the fields of \<open>coins_ext\<close> and \<open>bank_ext\<close>, arguments of the
  definitions that call them, and \<open>coins_laws\<close> and \<open>bank_laws\<close> state what their documentation
  promises: exact arithmetic within 256 bits, sums and differences of coin sets denomination by
  denomination, transfers that move the given amounts.
\<close>

type_synonym coin = "string \<times> int"
type_synonym coins = "coin list"
type_synonym address = bytes

section \<open>Integers and coins\<close>

text \<open>Truncated division (\<open>big.Int.Quo\<close>); the standard library's, so defined here.\<close>

definition go_quo :: "int \<Rightarrow> int \<Rightarrow> int" where
  "go_quo a b = sgn a * sgn b * (\<bar>a\<bar> div \<bar>b\<bar>)"

lemma go_quo_nonneg: "0 \<le> a \<Longrightarrow> 0 < b \<Longrightarrow> go_quo a b = a div b"
  by (cases "a = 0") (simp_all add: go_quo_def)

record coins_ext =
  ValidDenom :: "string \<Rightarrow> bool"
  NewCoin :: "string \<Rightarrow> int \<Rightarrow> coin result"
  Coins_Add :: "coins \<Rightarrow> coins \<Rightarrow> coins result"
  Coins_Sub :: "coins \<Rightarrow> coins \<Rightarrow> coins result"
  Coins_SafeSub :: "coins \<Rightarrow> coins \<Rightarrow> coins \<times> bool"
  Coins_IsZero :: "coins \<Rightarrow> bool"
  Coins_IsValid :: "coins \<Rightarrow> bool"
  Coins_IsAllPositive :: "coins \<Rightarrow> bool"
  Coins_IsAnyNegative :: "coins \<Rightarrow> bool"
  Int_Mul :: "int \<Rightarrow> int \<Rightarrow> int result"
  Int_Add :: "int \<Rightarrow> int \<Rightarrow> int result"
  Int_Quo :: "int \<Rightarrow> int \<Rightarrow> int result"
  NewIntFromBigInt :: "int \<Rightarrow> int result"

definition in_range :: "int \<Rightarrow> bool" where
  "in_range a \<longleftrightarrow> \<bar>a\<bar> < 2 ^ 256"

text \<open>The amount of a denomination in a coin list.\<close>

definition amount_of :: "coins \<Rightarrow> string \<Rightarrow> int" where
  "amount_of cs d = sum_list (map (\<lambda>c. if fst c = d then snd c else 0) cs)"

text \<open>A valid coin set: strictly ascending valid denominations with positive amounts.\<close>

definition coins_valid :: "coins_ext \<Rightarrow> coins \<Rightarrow> bool" where
  "coins_valid x cs \<longleftrightarrow>
     sorted_wrt (<) (map fst cs)
     \<and> list_all (\<lambda>(d, a). ValidDenom x d \<and> 0 < a \<and> in_range a) cs"

definition int_laws :: "coins_ext \<Rightarrow> bool" where
  "int_laws x \<longleftrightarrow>
     (\<forall>a b. in_range (a * b) \<longrightarrow> Int_Mul x a b = Inr (a * b))
     \<and> (\<forall>a b. in_range (a + b) \<longrightarrow> Int_Add x a b = Inr (a + b))
     \<and> (\<forall>a b. b \<noteq> 0 \<longrightarrow> in_range a \<longrightarrow> Int_Quo x a b = Inr (go_quo a b))
     \<and> (\<forall>a. in_range a \<longrightarrow> NewIntFromBigInt x a = Inr a)"

definition coins_laws :: "coins_ext \<Rightarrow> bool" where
  "coins_laws x \<longleftrightarrow>
     int_laws x
     \<and> (\<forall>d a. ValidDenom x d \<longrightarrow> 0 \<le> a \<longrightarrow> in_range a \<longrightarrow> NewCoin x d a = Inr (d, a))
     \<and> (\<forall>as d a. coins_valid x as \<longrightarrow> ValidDenom x d \<longrightarrow> 0 \<le> a \<longrightarrow> in_range (amount_of as d + a) \<longrightarrow>
          (\<exists>bs. Coins_Add x as [(d, a)] = Inr bs \<and> coins_valid x bs
             \<and> (\<forall>e. amount_of bs e = amount_of as e + (if e = d then a else 0))))
     \<and> (\<forall>as bs. coins_valid x as \<longrightarrow> coins_valid x bs \<longrightarrow>
          (\<forall>d. in_range (amount_of as d + amount_of bs d)) \<longrightarrow>
          (\<exists>cs. Coins_Add x as bs = Inr cs \<and> coins_valid x cs
             \<and> (\<forall>d. amount_of cs d = amount_of as d + amount_of bs d)))
     \<and> (\<forall>as bs. coins_valid x as \<longrightarrow> coins_valid x bs \<longrightarrow>
          (\<forall>d. amount_of bs d \<le> amount_of as d) \<longrightarrow>
          (\<exists>cs. Coins_Sub x as bs = Inr cs \<and> Coins_SafeSub x as bs = (cs, False) \<and> coins_valid x cs
             \<and> (\<forall>d. amount_of cs d = amount_of as d - amount_of bs d)))
     \<and> (\<forall>as. Coins_IsZero x as \<longleftrightarrow> (\<forall>c \<in> set as. snd c = 0))
     \<and> (\<forall>as. Coins_IsValid x as \<longrightarrow> list_all (in_range \<circ> snd) as \<longrightarrow> coins_valid x as)"

section \<open>The bank\<close>

text \<open>
  The bank keeper over a state of its own: transfers, the send-enabled and blocked-address checks,
  burning.  An \<open>Input\<close> or \<open>Output\<close> is an address string with coins.
\<close>

record 'b bank_ext =
  IsSendEnabledCoins :: "'b \<Rightarrow> coins \<Rightarrow> unit result"
  BlockedAddr :: "address \<Rightarrow> bool"
  SendCoinsFromAccountToModule :: "address \<Rightarrow> string \<Rightarrow> coins \<Rightarrow> 'b \<Rightarrow> 'b result"
  SendCoins :: "address \<Rightarrow> address \<Rightarrow> coins \<Rightarrow> 'b \<Rightarrow> 'b result"
  InputOutputCoins :: "string \<times> coins \<Rightarrow> (string \<times> coins) list \<Rightarrow> 'b \<Rightarrow> 'b result"
  GetBalance :: "'b \<Rightarrow> address \<Rightarrow> string \<Rightarrow> int"
  BurnCoins :: "string \<Rightarrow> coins \<Rightarrow> 'b \<Rightarrow> 'b result"
  GetModuleAddress :: "string \<Rightarrow> address"

definition moved :: "address \<Rightarrow> address \<Rightarrow> coins \<Rightarrow> address \<Rightarrow> string \<Rightarrow> int" where
  "moved src dst cs a d = (if a = dst then amount_of cs d else 0) - (if a = src then amount_of cs d else 0)"

definition bank_laws :: "'b bank_ext \<Rightarrow> bool" where
  "bank_laws k \<longleftrightarrow>
     (\<forall>src dst cs b b'. SendCoins k src dst cs b = Inr b' \<longrightarrow>
        (\<forall>a d. GetBalance k b' a d = GetBalance k b a d + moved src dst cs a d))
     \<and> (\<forall>src m cs b b'. SendCoinsFromAccountToModule k src m cs b = Inr b' \<longrightarrow>
        (\<forall>a d. GetBalance k b' a d = GetBalance k b a d + moved src (GetModuleAddress k m) cs a d))
     \<and> (\<forall>m cs b b'. BurnCoins k m cs b = Inr b' \<longrightarrow>
        (\<forall>a d. GetBalance k b' a d =
               GetBalance k b a d - (if a = GetModuleAddress k m then amount_of cs d else 0)))"

definition bank_calm :: "'b bank_ext \<Rightarrow> bool" where
  "bank_calm k \<longleftrightarrow>
     (\<forall>b cs. \<not> is_panic (IsSendEnabledCoins k b cs))
     \<and> (\<forall>src m cs b. \<not> is_panic (SendCoinsFromAccountToModule k src m cs b))
     \<and> (\<forall>src dst cs b. \<not> is_panic (SendCoins k src dst cs b))
     \<and> (\<forall>i os b. \<not> is_panic (InputOutputCoins k i os b))"

section \<open>Facts about amounts\<close>

lemma amount_of_Nil [simp]: "amount_of [] d = 0"
  by (simp add: amount_of_def)

lemma amount_of_Cons [simp]: "amount_of (c # cs) d = (if fst c = d then snd c else 0) + amount_of cs d"
  by (simp add: amount_of_def)

lemma amount_of_absent: "d \<notin> fst ` set cs \<Longrightarrow> amount_of cs d = 0"
  by (induction cs) auto

lemma amount_of_zeros: "\<forall>c \<in> set cs. snd c = 0 \<Longrightarrow> amount_of cs d = 0"
  by (induction cs) auto

lemma coins_valid_Nil [simp]: "coins_valid x []"
  by (simp add: coins_valid_def)

lemma coins_valid_Cons:
  "coins_valid x ((d, a) # cs) \<longleftrightarrow>
     coins_valid x cs \<and> ValidDenom x d \<and> 0 < a \<and> in_range a \<and> (\<forall>e \<in> fst ` set cs. d < e)"
  by (auto simp: coins_valid_def)

lemma amount_of_present: "coins_valid x cs \<Longrightarrow> (d, a) \<in> set cs \<Longrightarrow> amount_of cs d = a"
proof (induction cs)
  case (Cons c cs)
  obtain e b where c: "c = (e, b)"
    by (cases c)
  show ?case
  proof (cases "(d, a) = (e, b)")
    case True
    then have "d \<notin> fst ` set cs"
      using Cons.prems(1) by (auto simp: c coins_valid_Cons)
    then show ?thesis
      using True c by (simp add: amount_of_absent)
  next
    case False
    then have "(d, a) \<in> set cs"
      using Cons.prems(2) c by auto
    moreover from this have "e \<noteq> d"
      using Cons.prems(1) by (force simp: c coins_valid_Cons)
    ultimately show ?thesis
      using Cons by (simp add: c coins_valid_Cons)
  qed
qed simp

lemma amount_of_range: "coins_valid x cs \<Longrightarrow> 0 \<le> amount_of cs d \<and> in_range (amount_of cs d)"
proof (cases "d \<in> fst ` set cs")
  case True
  assume v: "coins_valid x cs"
  from True obtain a where a: "(d, a) \<in> set cs"
    by auto
  then show ?thesis
    using v amount_of_present [OF v a] by (force simp: coins_valid_def list_all_iff)
next
  case False
  then show ?thesis
    by (simp add: amount_of_absent in_range_def)
qed

lemma amount_of_pos_iff: "coins_valid x cs \<Longrightarrow> 0 < amount_of cs d \<longleftrightarrow> d \<in> fst ` set cs"
proof (induction cs)
  case (Cons c cs)
  obtain e b where c: "c = (e, b)"
    by (cases c)
  have "0 \<le> amount_of cs d"
    using Cons.prems amount_of_range by (auto simp: c coins_valid_Cons)
  then show ?case
    using Cons by (auto simp: c coins_valid_Cons)
qed simp

lemma coins_valid_eqI:
  assumes "coins_valid x as" and "coins_valid x bs" and "\<And>d. amount_of as d = amount_of bs d"
  shows "as = bs"
proof (rule map_sorted_distinct_set_unique [of fst])
  have dom: "fst ` set as = fst ` set bs"
    using assms amount_of_pos_iff by (metis subsetI subset_antisym)
  have "(d, a) \<in> set bs" if "(d, a) \<in> set as" "coins_valid x as" "coins_valid x bs"
    "\<And>d. amount_of as d = amount_of bs d" "fst ` set as = fst ` set bs" for as bs d a
  proof -
    from that(1,5) have "d \<in> fst ` set bs"
      by (metis fst_conv image_eqI)
    then obtain b where b: "(d, b) \<in> set bs"
      by auto
    then show ?thesis
      using amount_of_present [OF that(2,1)] amount_of_present [OF that(3) b] that(4) by simp
  qed
  from this [of _ _ as bs] this [of _ _ bs as] show "set as = set bs"
    using assms dom by auto
  show "inj_on fst (set as \<union> set bs)"
    using assms(1) \<open>set as = set bs\<close> by (simp add: coins_valid_def strict_sorted_iff distinct_map)
qed (use assms in \<open>simp_all add: coins_valid_def strict_sorted_iff\<close>)

text \<open>The laws as rules.\<close>

lemma coins_laws_Add1:
  "coins_laws x \<Longrightarrow> coins_valid x as \<Longrightarrow> ValidDenom x d \<Longrightarrow> 0 \<le> a \<Longrightarrow> in_range (amount_of as d + a) \<Longrightarrow>
     \<exists>bs. Coins_Add x as [(d, a)] = Inr bs \<and> coins_valid x bs
       \<and> (\<forall>e. amount_of bs e = amount_of as e + (if e = d then a else 0))"
  unfolding coins_laws_def by blast

lemma coins_laws_Add:
  "coins_laws x \<Longrightarrow> coins_valid x as \<Longrightarrow> coins_valid x bs \<Longrightarrow>
   (\<And>d. in_range (amount_of as d + amount_of bs d)) \<Longrightarrow>
     \<exists>cs. Coins_Add x as bs = Inr cs \<and> coins_valid x cs
       \<and> (\<forall>d. amount_of cs d = amount_of as d + amount_of bs d)"
  unfolding coins_laws_def by blast

lemma coins_laws_Sub:
  "coins_laws x \<Longrightarrow> coins_valid x as \<Longrightarrow> coins_valid x bs \<Longrightarrow> (\<And>d. amount_of bs d \<le> amount_of as d) \<Longrightarrow>
     \<exists>cs. Coins_Sub x as bs = Inr cs \<and> Coins_SafeSub x as bs = (cs, False) \<and> coins_valid x cs
       \<and> (\<forall>d. amount_of cs d = amount_of as d - amount_of bs d)"
  unfolding coins_laws_def by blast

lemma coins_laws_NewCoin:
  "coins_laws x \<Longrightarrow> ValidDenom x d \<Longrightarrow> 0 \<le> a \<Longrightarrow> in_range a \<Longrightarrow> NewCoin x d a = Inr (d, a)"
  unfolding coins_laws_def by blast

lemma coins_laws_int: "coins_laws x \<Longrightarrow> int_laws x"
  unfolding coins_laws_def by blast

lemma coins_laws_IsZero: "coins_laws x \<Longrightarrow> Coins_IsZero x as \<longleftrightarrow> (\<forall>c \<in> set as. snd c = 0)"
  unfolding coins_laws_def by blast

lemma bank_laws_Send:
  "bank_laws k \<Longrightarrow> SendCoins k src dst cs b = Inr b' \<Longrightarrow>
     GetBalance k b' a d = GetBalance k b a d + moved src dst cs a d"
  unfolding bank_laws_def by blast

lemma bank_laws_ToModule:
  "bank_laws k \<Longrightarrow> SendCoinsFromAccountToModule k src m cs b = Inr b' \<Longrightarrow>
     GetBalance k b' a d = GetBalance k b a d + moved src (GetModuleAddress k m) cs a d"
  unfolding bank_laws_def by blast

lemma bank_laws_Burn:
  "bank_laws k \<Longrightarrow> BurnCoins k m cs b = Inr b' \<Longrightarrow>
     GetBalance k b' a d =
       GetBalance k b a d - (if a = GetModuleAddress k m then amount_of cs d else 0)"
  unfolding bank_laws_def by blast

section \<open>Reference instances\<close>

text \<open>Concrete coins and a concrete bank that satisfy the laws; the properties are instantiated at them.\<close>

definition combine :: "(int \<Rightarrow> int \<Rightarrow> int) \<Rightarrow> coins \<Rightarrow> coins \<Rightarrow> coins" where
  "combine f as bs =
     filter (\<lambda>c. snd c \<noteq> 0)
       (map (\<lambda>d. (d, f (amount_of as d) (amount_of bs d)))
          (sorted_list_of_set (fst ` set as \<union> fst ` set bs)))"

definition panic_unless :: "bool \<Rightarrow> 'a \<Rightarrow> 'a result" where
  "panic_unless b v = (if b then Inr v else Inl (GoPanic ''coins''))"

definition ref_coins :: coins_ext where
  "ref_coins =
     \<lparr> ValidDenom = (\<lambda>d. d \<noteq> []),
       NewCoin = (\<lambda>d a. panic_unless (d \<noteq> [] \<and> 0 \<le> a) (d, a)),
       Coins_Add = (\<lambda>as bs. Inr (combine (+) as bs)),
       Coins_Sub = (\<lambda>as bs. panic_unless (list_all (\<lambda>c. 0 \<le> snd c) (combine (-) as bs)) (combine (-) as bs)),
       Coins_SafeSub = (\<lambda>as bs. (combine (-) as bs, \<not> list_all (\<lambda>c. 0 \<le> snd c) (combine (-) as bs))),
       Coins_IsZero = (\<lambda>as. list_all (\<lambda>c. snd c = 0) as),
       Coins_IsValid = (\<lambda>as. sorted_wrt (<) (map fst as) \<and> list_all (\<lambda>(d, a). d \<noteq> [] \<and> 0 < a) as),
       Coins_IsAllPositive = (\<lambda>as. as \<noteq> [] \<and> list_all (\<lambda>c. 0 < snd c) as),
       Coins_IsAnyNegative = (\<lambda>as. list_ex (\<lambda>c. snd c < 0) as),
       Int_Mul = (\<lambda>a b. panic_unless (\<bar>a * b\<bar> < 2 ^ 256) (a * b)),
       Int_Add = (\<lambda>a b. panic_unless (\<bar>a + b\<bar> < 2 ^ 256) (a + b)),
       Int_Quo = (\<lambda>a b. panic_unless (b \<noteq> 0) (go_quo a b)),
       NewIntFromBigInt = (\<lambda>a. panic_unless (\<bar>a\<bar> < 2 ^ 256) a) \<rparr>"

lemma combine_amount: "f 0 0 = 0 \<Longrightarrow> amount_of (combine f as bs) d = f (amount_of as d) (amount_of bs d)"
proof -
  assume f: "f 0 0 = 0"
  let ?D = "fst ` set as \<union> fst ` set bs"
  have "amount_of (filter (\<lambda>c. snd c \<noteq> 0) cs) d = amount_of cs d" for cs
    by (induction cs) auto
  moreover have "distinct ds \<Longrightarrow> amount_of (map (\<lambda>d. (d, g d)) ds) d = (if d \<in> set ds then g d else 0)"
    for ds and g :: "string \<Rightarrow> int"
    by (induction ds) (auto simp: amount_of_absent)
  ultimately show ?thesis
    using f by (auto simp: combine_def amount_of_absent)
qed

lemma combine_valid:
  assumes "\<And>d. d \<in> fst ` set as \<Longrightarrow> ValidDenom x d" and "\<And>d. d \<in> fst ` set bs \<Longrightarrow> ValidDenom x d"
    and "\<And>d. 0 \<le> f (amount_of as d) (amount_of bs d)"
    and "\<And>d. in_range (f (amount_of as d) (amount_of bs d))"
  shows "coins_valid x (combine f as bs)"
proof -
  have "sorted_wrt (<) (map fst (filter P (map (\<lambda>d. (d, g d)) ds)))" if "sorted_wrt (<) ds"
    for P :: "coin \<Rightarrow> bool" and ds and g :: "string \<Rightarrow> int"
    using that by (induction ds) auto
  then have "sorted_wrt (<) (map fst (combine f as bs))"
    unfolding combine_def by (simp add: strict_sorted_list_of_set)
  then show ?thesis
    using assms by (auto simp: coins_valid_def combine_def list_all_iff order_less_le)
qed

lemma coins_valid_denoms: "coins_valid x cs \<Longrightarrow> d \<in> fst ` set cs \<Longrightarrow> ValidDenom x d"
  by (auto simp: coins_valid_def list_all_iff)

lemma ref_coins_Add1:
  assumes "coins_valid ref_coins as" and "ValidDenom ref_coins d" and "0 \<le> a"
    and "in_range (amount_of as d + a)"
  shows "\<exists>bs. Coins_Add ref_coins as [(d, a)] = Inr bs \<and> coins_valid ref_coins bs
    \<and> (\<forall>e. amount_of bs e = amount_of as e + (if e = d then a else 0))"
proof -
  have "coins_valid ref_coins (combine (+) as [(d, a)])"
    using assms amount_of_range [OF assms(1)] coins_valid_denoms [OF assms(1)]
    by (intro combine_valid) (simp_all, metis)
  then show ?thesis
    by (auto simp: ref_coins_def combine_amount)
qed

lemma ref_coins_Add2:
  assumes "coins_valid ref_coins as" and "coins_valid ref_coins bs"
    and "\<forall>d. in_range (amount_of as d + amount_of bs d)"
  shows "\<exists>cs. Coins_Add ref_coins as bs = Inr cs \<and> coins_valid ref_coins cs
    \<and> (\<forall>d. amount_of cs d = amount_of as d + amount_of bs d)"
proof -
  have "coins_valid ref_coins (combine (+) as bs)"
    using assms(3) amount_of_range [OF assms(1)] amount_of_range [OF assms(2)]
      coins_valid_denoms [OF assms(1)] coins_valid_denoms [OF assms(2)]
    by (intro combine_valid) simp_all
  then show ?thesis
    by (auto simp: ref_coins_def combine_amount)
qed

lemma ref_coins_Sub:
  assumes "coins_valid ref_coins as" and "coins_valid ref_coins bs"
    and "\<forall>d. amount_of bs d \<le> amount_of as d"
  shows "\<exists>cs. Coins_Sub ref_coins as bs = Inr cs \<and> Coins_SafeSub ref_coins as bs = (cs, False)
    \<and> coins_valid ref_coins cs \<and> (\<forall>d. amount_of cs d = amount_of as d - amount_of bs d)"
proof -
  have "in_range (amount_of as d - amount_of bs d)" for d
    using amount_of_range [OF assms(1), of d] amount_of_range [OF assms(2), of d] assms(3)
    by (auto simp: in_range_def abs_if split: if_splits)
  then have v: "coins_valid ref_coins (combine (-) as bs)"
    using assms(3) coins_valid_denoms [OF assms(1)] coins_valid_denoms [OF assms(2)]
    by (intro combine_valid) simp_all
  then have "list_all (\<lambda>c. 0 \<le> snd c) (combine (-) as bs)"
    by (auto simp: coins_valid_def list_all_iff)
  then show ?thesis
    using v by (simp add: ref_coins_def panic_unless_def combine_amount)
qed

lemma ref_coins_laws: "coins_laws ref_coins"
proof -
  have "int_laws ref_coins"
    by (simp add: int_laws_def ref_coins_def panic_unless_def in_range_def)
  moreover have "\<forall>d a. ValidDenom ref_coins d \<longrightarrow> 0 \<le> a \<longrightarrow> in_range a \<longrightarrow> NewCoin ref_coins d a = Inr (d, a)"
    by (simp add: ref_coins_def panic_unless_def)
  moreover have "\<forall>as. Coins_IsZero ref_coins as \<longleftrightarrow> (\<forall>c \<in> set as. snd c = 0)"
    by (simp add: ref_coins_def list_all_iff)
  moreover have "\<forall>as. Coins_IsValid ref_coins as \<longrightarrow> list_all (in_range \<circ> snd) as \<longrightarrow> coins_valid ref_coins as"
    by (auto simp: coins_valid_def ref_coins_def list_all_iff)
  ultimately show ?thesis
    unfolding coins_laws_def using ref_coins_Add1 ref_coins_Add2 ref_coins_Sub by blast
qed

type_synonym ref_bank = "address \<Rightarrow> string \<Rightarrow> int"

definition ref_transfer :: "address \<Rightarrow> address \<Rightarrow> coins \<Rightarrow> ref_bank \<Rightarrow> ref_bank result" where
  "ref_transfer src dst cs b =
     (if list_all (\<lambda>(d, _). amount_of cs d \<le> b src d) cs
      then Inr (\<lambda>a d. b a d + moved src dst cs a d) else Inl (SdkErr ''ErrInsufficientFunds''))"

fun ref_outputs :: "address \<Rightarrow> (string \<times> coins) list \<Rightarrow> ref_bank \<Rightarrow> ref_bank result" where
  "ref_outputs src [] b = Inr b"
| "ref_outputs src ((a, cs) # os) b = bindr (ref_transfer src a cs b) (ref_outputs src os)"

definition ref_bank :: "ref_bank bank_ext" where
  "ref_bank =
     \<lparr> IsSendEnabledCoins = (\<lambda>b cs. Inr ()),
       BlockedAddr = (\<lambda>a. a = ''blocked''),
       SendCoinsFromAccountToModule = ref_transfer,
       SendCoins = ref_transfer,
       InputOutputCoins = (\<lambda>i os b. ref_outputs (fst i) os b),
       GetBalance = (\<lambda>b a d. b a d),
       BurnCoins = (\<lambda>m cs b. Inr (\<lambda>a d. b a d - (if a = m then amount_of cs d else 0))),
       GetModuleAddress = (\<lambda>m. m) \<rparr>"

lemma ref_bank_laws: "bank_laws ref_bank"
  by (auto simp: bank_laws_def ref_bank_def ref_transfer_def split: if_splits)

lemma ref_outputs_not_panic: "\<not> is_panic (ref_outputs src os b)"
  by (induction src os b rule: ref_outputs.induct)
    (auto simp: ref_transfer_def)

lemma ref_bank_calm: "bank_calm ref_bank"
  by (simp add: bank_calm_def ref_bank_def ref_transfer_def ref_outputs_not_panic)

end
