(* ===== verification/Xion_Platform.thy ===== *)
theory Xion_Platform
  imports Sdk
begin

text \<open>
  \<open>x/xion\<close>: transfers with a platform fee.  The state holds the platform percentage (in units of
  1/10000) and the platform minimums next to the bank's state; the operations are the message
  server's \<open>Send\<close>, \<open>MultiSend\<close>, \<open>SetPlatformPercentage\<close>, \<open>SetPlatformMinimum\<close>, and genesis.
\<close>

section \<open>Errors (types/errors.go)\<close>

definition ErrNoAllowedContracts :: go_error where "ErrNoAllowedContracts = Registered ''xion'' 2"
definition ErrNoValidAllowances :: go_error where "ErrNoValidAllowances = Registered ''xion'' 3"
definition ErrInconsistentExpiry :: go_error where "ErrInconsistentExpiry = Registered ''xion'' 4"
definition ErrMinimumNotMet :: go_error where "ErrMinimumNotMet = Registered ''xion'' 5"
definition ErrNoValidWebAuth :: go_error where "ErrNoValidWebAuth = Registered ''xion'' 6"
definition ErrWebAuthDataTooLarge :: go_error where "ErrWebAuthDataTooLarge = Registered ''xion'' 7"

lemmas xion_error_defs = ErrNoAllowedContracts_def ErrNoValidAllowances_def
  ErrInconsistentExpiry_def ErrMinimumNotMet_def ErrNoValidWebAuth_def ErrWebAuthDataTooLarge_def

section \<open>State and messages\<close>

text \<open>A missing percentage reads as zero and missing minimums as no coins.\<close>

record 'b xion_state =
  xs_percentage :: "u64 option"
  xs_minimums :: "coins option"
  xs_bank :: 'b

record 'b xion_env =
  xe_authority :: string
  xe_coins :: coins_ext
  xe_bank :: "'b bank_ext"
  xe_FromBech32 :: "string \<Rightarrow> address result"
  xe_AddrString :: "address \<Rightarrow> string"
  xe_bech32_Decode :: "string \<Rightarrow> bytes result"
  xe_ValidateInputOutputs :: "string \<times> coins \<Rightarrow> (string \<times> coins) list \<Rightarrow> unit result"

record MsgSend =
  ms_FromAddress :: string
  ms_ToAddress :: string
  ms_Amount :: coins

record MsgMultiSend =
  mm_Inputs :: "(string \<times> coins) list"
  mm_Outputs :: "(string \<times> coins) list"

record MsgSetPlatformPercentage =
  mp_Authority :: string
  mp_PlatformPercentage :: u32

record MsgSetPlatformMinimum =
  mn_Authority :: string
  mn_Minimums :: coins

section \<open>Stateless checks (types/msgs.go)\<close>

definition ErrInvalidAddress :: go_error where "ErrInvalidAddress = SdkErr ''ErrInvalidAddress''"
definition ErrInvalidCoins :: go_error where "ErrInvalidCoins = SdkErr ''ErrInvalidCoins''"

definition ValidateBasic_MsgSend :: "'b xion_env \<Rightarrow> MsgSend \<Rightarrow> unit result" where
  "ValidateBasic_MsgSend env msg =
     bindr (wrap_as ErrInvalidAddress (xe_bech32_Decode env (ms_FromAddress msg))) (\<lambda>_.
     bindr (wrap_as ErrInvalidAddress (xe_bech32_Decode env (ms_ToAddress msg))) (\<lambda>_.
     bindr (ensure (Coins_IsValid (xe_coins env) (ms_Amount msg)) ErrInvalidCoins) (\<lambda>_.
     ensure (Coins_IsAllPositive (xe_coins env) (ms_Amount msg)) ErrInvalidCoins)))"

definition ValidateBasic_MsgMultiSend :: "'b xion_env \<Rightarrow> MsgMultiSend \<Rightarrow> unit result" where
  "ValidateBasic_MsgMultiSend env msg =
     bindr (ensure (length (mm_Inputs msg) \<noteq> 0) (SdkErr ''ErrNoInputs'')) (\<lambda>_.
     bindr (ensure (length (mm_Inputs msg) = 1) (SdkErr ''ErrMultipleSenders'')) (\<lambda>_.
     bindr (ensure (length (mm_Outputs msg) \<noteq> 0) (SdkErr ''ErrNoOutputs'')) (\<lambda>_.
     bindr (go_index (mm_Inputs msg) 0) (\<lambda>inp.
     xe_ValidateInputOutputs env inp (mm_Outputs msg)))))"

definition ValidateBasic_MsgSetPlatformPercentage :: "MsgSetPlatformPercentage \<Rightarrow> unit result" where
  "ValidateBasic_MsgSetPlatformPercentage msg =
     ensure (\<not> mp_PlatformPercentage msg > 10000)
       (Plain ''unable to have a platform percentage that exceeds 100%'')"

definition ValidateBasic_MsgSetPlatformMinimum :: "'b xion_env \<Rightarrow> MsgSetPlatformMinimum \<Rightarrow> unit result" where
  "ValidateBasic_MsgSetPlatformMinimum env msg =
     bindr (wrap_as ErrInvalidAddress (xe_bech32_Decode env (mn_Authority msg))) (\<lambda>_.
     bindr (ensure (Coins_IsValid (xe_coins env) (mn_Minimums msg)) ErrInvalidCoins) (\<lambda>_.
     ensure (\<not> Coins_IsAnyNegative (xe_coins env) (mn_Minimums msg)) ErrInvalidCoins))"

section \<open>Keeper (keeper/keeper.go)\<close>

definition GetPlatformPercentage :: "'b xion_state \<Rightarrow> int" where
  "GetPlatformPercentage st = (case xs_percentage st of None \<Rightarrow> 0 | Some p \<Rightarrow> uint p)"

definition OverwritePlatformPercentage :: "u32 \<Rightarrow> 'b xion_state \<Rightarrow> 'b xion_state" where
  "OverwritePlatformPercentage p st = st\<lparr> xs_percentage := Some (ucast p) \<rparr>"

definition GetPlatformMinimums :: "'b xion_state \<Rightarrow> coins" where
  "GetPlatformMinimums st = (case xs_minimums st of None \<Rightarrow> [] | Some cs \<Rightarrow> cs)"

definition OverwritePlatformMinimum :: "coins \<Rightarrow> 'b xion_state \<Rightarrow> 'b xion_state" where
  "OverwritePlatformMinimum cs st = st\<lparr> xs_minimums := Some cs \<rparr>"

section \<open>Message server (keeper/msg_server.go)\<close>

definition add_coin :: "coins_ext \<Rightarrow> string \<Rightarrow> int \<Rightarrow> coins \<Rightarrow> coins result" where
  "add_coin x d a acc = bindr (NewCoin x d a) (\<lambda>c. Coins_Add x acc [c])"

definition platform_fee :: "coins_ext \<Rightarrow> int \<Rightarrow> int \<Rightarrow> int result" where
  "platform_fee x percentage amt =
     bindr (Int_Quo x MaxUint64 percentage) (\<lambda>maxSafeAmount.
     if amt > maxSafeAmount
     then let bigResult = amt * percentage in
          let bigResult = bigResult + (10000 - 1) in
          let bigResult = go_quo bigResult 10000 in
          NewIntFromBigInt x bigResult
     else bindr (Int_Mul x amt percentage) (\<lambda>m.
          bindr (Int_Add x m 9999) (\<lambda>s. Int_Quo x s 10000)))"

definition getPlatformCoins :: "coins_ext \<Rightarrow> coins \<Rightarrow> int \<Rightarrow> coins result" where
  "getPlatformCoins x cs percentage =
     (if percentage = 0 then fold_each (\<lambda>(d, _) acc. add_coin x d 0 acc) cs []
      else fold_each (\<lambda>(d, a) acc. bindr (platform_fee x percentage a) (\<lambda>f. add_coin x d f acc)) cs [])"

text \<open>The map \<open>minMap\<close>: a later entry of a denomination replaces an earlier one.\<close>

definition min_map :: "coins \<Rightarrow> string \<Rightarrow> int option" where
  "min_map mins = fold (\<lambda>(d, a) m. m(d \<mapsto> a)) mins Map.empty"

definition meetsConfiguredMinimums :: "coins \<Rightarrow> coins \<Rightarrow> bool" where
  "meetsConfiguredMinimums amt mins \<longleftrightarrow>
     length mins \<noteq> 0
     \<and> list_all (\<lambda>(d, a).
         case min_map mins d of None \<Rightarrow> False | Some m \<Rightarrow> \<not> (m \<noteq> 0 \<and> a < m)) amt"

abbreviation FeeCollectorName :: string where
  "FeeCollectorName \<equiv> ''fee_collector''"

text \<open>The part of \<open>Send\<close> that takes the platform fee: the coins left to send and the bank after it.\<close>

definition charge_platform ::
  "'b xion_env \<Rightarrow> address \<Rightarrow> coins \<Rightarrow> int \<Rightarrow> 'b \<Rightarrow> (coins \<times> 'b) result" where
  "charge_platform env src amt percentage b =
     (if percentage \<noteq> 0
      then bindr (getPlatformCoins (xe_coins env) amt percentage) (\<lambda>platformCoins.
           bindr (Coins_Sub (xe_coins env) amt platformCoins) (\<lambda>throughCoins.
           bindr (SendCoinsFromAccountToModule (xe_bank env) src FeeCollectorName platformCoins b) (\<lambda>b'.
           Inr (throughCoins, b'))))
      else Inr (amt, b))"

definition Send :: "'b xion_env \<Rightarrow> MsgSend \<Rightarrow> 'b xion_state \<Rightarrow> 'b xion_state result" where
  "Send env msg st =
     (let k = xe_bank env in
      bindr (IsSendEnabledCoins k (xs_bank st) (ms_Amount msg)) (\<lambda>_.
      bindr (xe_FromBech32 env (ms_FromAddress msg)) (\<lambda>src.
      bindr (xe_FromBech32 env (ms_ToAddress msg)) (\<lambda>dst.
      bindr (ensure (\<not> BlockedAddr k dst) (SdkErr ''ErrUnauthorized'')) (\<lambda>_.
      let percentage = GetPlatformPercentage st; minimums = GetPlatformMinimums st in
      bindr (ensure (meetsConfiguredMinimums (ms_Amount msg) minimums) ErrMinimumNotMet) (\<lambda>_.
      bindr (charge_platform env src (ms_Amount msg) percentage (xs_bank st)) (\<lambda>(throughCoins, b).
      bindr (SendCoins k src dst throughCoins b) (\<lambda>b'.
      Inr (st\<lparr> xs_bank := b' \<rparr>)))))))))"

text \<open>One pass of the loop over the outputs: the new outputs and the running fee total.\<close>

definition multi_output ::
  "'b xion_env \<Rightarrow> int \<Rightarrow> string \<times> coins \<Rightarrow> (string \<times> coins) list \<times> coins
     \<Rightarrow> ((string \<times> coins) list \<times> coins) result" where
  "multi_output env percentage out acc =
     (let x = xe_coins env; (outputs, totalPlatformCoins) = acc in
      bindr (wrap_as ErrInvalidAddress (xe_FromBech32 env (fst out))) (\<lambda>accAddr.
      bindr (ensure (\<not> BlockedAddr (xe_bank env) accAddr) (SdkErr ''ErrUnauthorized'')) (\<lambda>_.
      if percentage \<noteq> 0
      then bindr (getPlatformCoins x (snd out) percentage) (\<lambda>platformCoins.
           let (throughCoins, wentNegative) = Coins_SafeSub x (snd out) platformCoins in
           bindr (ensure (\<not> wentNegative) (Plain ''unable to subtract'')) (\<lambda>_.
           bindr (Coins_Add x totalPlatformCoins platformCoins) (\<lambda>tot.
           Inr (outputs @ [(xe_AddrString env accAddr, throughCoins)], tot))))
      else Inr (outputs @ [out], totalPlatformCoins))))"

definition multi_outputs ::
  "'b xion_env \<Rightarrow> int \<Rightarrow> (string \<times> coins) list \<Rightarrow> (string \<times> coins) list result" where
  "multi_outputs env percentage outs =
     bindr (fold_each (multi_output env percentage) outs ([], [])) (\<lambda>(outputs, totalPlatformCoins).
     Inr (if \<not> Coins_IsZero (xe_coins env) totalPlatformCoins
          then outputs @ [(xe_AddrString env (GetModuleAddress (xe_bank env) FeeCollectorName),
                           totalPlatformCoins)]
          else outputs))"

definition MultiSend :: "'b xion_env \<Rightarrow> MsgMultiSend \<Rightarrow> 'b xion_state \<Rightarrow> 'b xion_state result" where
  "MultiSend env msg st =
     (let k = xe_bank env in
      bindr (for_each (mm_Inputs msg) (\<lambda>i. IsSendEnabledCoins k (xs_bank st) (snd i))) (\<lambda>_.
      let percentage = GetPlatformPercentage st; minimums = GetPlatformMinimums st in
      bindr (go_index (mm_Inputs msg) 0) (\<lambda>inp.
      bindr (ensure (meetsConfiguredMinimums (snd inp) minimums) ErrMinimumNotMet) (\<lambda>_.
      bindr (multi_outputs env percentage (mm_Outputs msg)) (\<lambda>outputs.
      bindr (InputOutputCoins k inp outputs (xs_bank st)) (\<lambda>b'.
      Inr (st\<lparr> xs_bank := b' \<rparr>)))))))"

definition SetPlatformPercentage ::
  "'b xion_env \<Rightarrow> MsgSetPlatformPercentage \<Rightarrow> 'b xion_state \<Rightarrow> 'b xion_state result" where
  "SetPlatformPercentage env msg st =
     bindr (ensure (xe_authority env = mp_Authority msg) (SdkErr ''ErrInvalidSigner'')) (\<lambda>_.
     bindr (ensure (\<not> mp_PlatformPercentage msg > 10000) (SdkErr ''ErrInvalidRequest'')) (\<lambda>_.
     Inr (OverwritePlatformPercentage (mp_PlatformPercentage msg) st)))"

definition SetPlatformMinimum ::
  "'b xion_env \<Rightarrow> MsgSetPlatformMinimum \<Rightarrow> 'b xion_state \<Rightarrow> 'b xion_state result" where
  "SetPlatformMinimum env msg st =
     bindr (ensure (xe_authority env = mn_Authority msg) (SdkErr ''ErrInvalidSigner'')) (\<lambda>_.
     Inr (OverwritePlatformMinimum (mn_Minimums msg) st))"

datatype xion_msg =
    SendMsg MsgSend
  | MultiSendMsg MsgMultiSend
  | SetPercentageMsg MsgSetPlatformPercentage
  | SetMinimumMsg MsgSetPlatformMinimum

fun xion_step :: "'b xion_env \<Rightarrow> xion_msg \<Rightarrow> 'b xion_state \<Rightarrow> 'b xion_state result" where
  "xion_step env (SendMsg m) st = Send env m st"
| "xion_step env (MultiSendMsg m) st = MultiSend env m st"
| "xion_step env (SetPercentageMsg m) st = SetPlatformPercentage env m st"
| "xion_step env (SetMinimumMsg m) st = SetPlatformMinimum env m st"

section \<open>Genesis (keeper/genesis.go, types/genesis.go)\<close>

record xion_genesis =
  xg_PlatformPercentage :: u32
  xg_PlatformMinimums :: coins

definition xion_NewGenesisState :: "u32 \<Rightarrow> coins \<Rightarrow> xion_genesis" where
  "xion_NewGenesisState p m = \<lparr> xg_PlatformPercentage = p, xg_PlatformMinimums = m \<rparr>"

definition xion_DefaultGenesisState :: xion_genesis where
  "xion_DefaultGenesisState = xion_NewGenesisState 0 []"

definition xion_ValidateGenesis :: "xion_genesis \<Rightarrow> unit result" where
  "xion_ValidateGenesis gs =
     ensure (\<not> xg_PlatformPercentage gs > 10000)
       (Plain ''unable to set platform percentage to greater than 100%'')"

definition xion_InitGenesis :: "xion_genesis \<Rightarrow> 'b xion_state \<Rightarrow> 'b xion_state" where
  "xion_InitGenesis gs st =
     OverwritePlatformMinimum (xg_PlatformMinimums gs)
       (OverwritePlatformPercentage (xg_PlatformPercentage gs) st)"

text \<open>\<open>uint32(k.GetPlatformPercentage(ctx).Uint64())\<close> keeps the low 32 bits.\<close>

definition xion_ExportGenesis :: "'b xion_state \<Rightarrow> xion_genesis" where
  "xion_ExportGenesis st =
     xion_NewGenesisState (word_of_int (GetPlatformPercentage st)) (GetPlatformMinimums st)"

section \<open>The fee of an amount\<close>

definition ceil_fee :: "int \<Rightarrow> int \<Rightarrow> int" where
  "ceil_fee p a = (a * p + 9999) div 10000"

lemma ceil_fee_zero [simp]: "ceil_fee p 0 = 0" "ceil_fee 0 a = 0"
  by (simp_all add: ceil_fee_def)

lemma ceil_fee_nonneg: "0 \<le> a \<Longrightarrow> 0 \<le> p \<Longrightarrow> 0 \<le> ceil_fee p a"
  unfolding ceil_fee_def using mult_nonneg_nonneg [of a p] by linarith

lemma ceil_fee_le:
  assumes "0 \<le> a" and "p \<le> 10000"
  shows "ceil_fee p a \<le> a"
proof -
  have "a * p \<le> a * 10000"
    using assms by (intro mult_left_mono) auto
  then have "(a * p + 9999) div 10000 \<le> (a * 10000 + 9999) div 10000"
    by (intro zdiv_mono1) auto
  then show ?thesis
    by (simp add: ceil_fee_def)
qed

lemma ceil_fee_pos: "0 < a \<Longrightarrow> 0 < p \<Longrightarrow> 0 < ceil_fee p a"
  unfolding ceil_fee_def using mult_pos_pos [of a p] by linarith

lemma ceil_fee_split: "ceil_fee p (a + b) \<le> ceil_fee p a + ceil_fee p b"
  unfolding ceil_fee_def by (simp add: distrib_right)

lemma platform_fee_exact:
  assumes "int_laws x" and "0 < p" and "p \<le> 10000" and "0 \<le> a" and "in_range a"
  shows "platform_fee x p a = Inr (ceil_fee p a)"
proof -
  have quo: "Int_Quo x MaxUint64 p = Inr (MaxUint64 div p)"
    using assms(1,2) by (simp add: int_laws_def in_range_def MaxUint64_def go_quo_nonneg)
  have prod: "0 \<le> a * p"
    using assms by simp
  have fee: "go_quo (a * p + 9999) 10000 = ceil_fee p a"
    using prod by (simp add: go_quo_nonneg ceil_fee_def)
  show ?thesis
  proof (cases "a > MaxUint64 div p")
    case True
    have "in_range (ceil_fee p a)"
      using ceil_fee_le [OF assms(4,3)] ceil_fee_nonneg [of a p] assms by (simp add: in_range_def)
    then have "NewIntFromBigInt x (ceil_fee p a) = Inr (ceil_fee p a)"
      using assms(1) by (simp add: int_laws_def)
    then show ?thesis
      using True fee by (simp add: platform_fee_def quo Let_def)
  next
    case False
    then have "a * p \<le> MaxUint64 div p * p"
      using assms(2) by (intro mult_right_mono) auto
    also have "\<dots> \<le> MaxUint64"
      using assms(2) by (simp add: minus_mod_eq_div_mult [symmetric])
    finally have le: "a * p \<le> MaxUint64" .
    then have "Int_Mul x a p = Inr (a * p)" "Int_Add x (a * p) 9999 = Inr (a * p + 9999)"
      "Int_Quo x (a * p + 9999) 10000 = Inr (ceil_fee p a)"
      using assms(1) prod fee by (simp_all add: int_laws_def in_range_def MaxUint64_def)
    then show ?thesis
      using False by (simp add: platform_fee_def quo)
  qed
qed

text \<open>Both branches of \<open>getPlatformCoins\<close> accumulate the same fee, denomination by denomination.\<close>

lemma fold_fees:
  assumes "coins_laws x" and "coins_valid x cs" and "coins_valid x acc"
    and "\<And>d a. (d, a) \<in> set cs \<Longrightarrow> amount_of acc d = 0"
    and "\<And>d a acc. (d, a) \<in> set cs \<Longrightarrow> body (d, a) acc = add_coin x d (f a) acc"
    and "\<And>a. 0 \<le> a \<Longrightarrow> 0 \<le> f a \<and> f a \<le> a" and "f 0 = 0"
  shows "\<exists>pc. fold_each body cs acc = Inr pc \<and> coins_valid x pc
    \<and> (\<forall>d. amount_of pc d = amount_of acc d + f (amount_of cs d))"
  using assms(2-5)
proof (induction cs arbitrary: acc)
  case Nil
  then show ?case
    using assms(7) by simp
next
  case (Cons c cs)
  obtain d a where c: "c = (d, a)"
    by (cases c)
  have va: "coins_valid x cs" "ValidDenom x d" "0 < a" "in_range a" "\<forall>e \<in> fst ` set cs. d < e"
    using Cons.prems(1) by (auto simp: c coins_valid_Cons)
  have fa: "0 \<le> f a" "f a \<le> a" "in_range (f a)"
    using assms(6) [of a] va(3,4) by (auto simp: in_range_def)
  have "amount_of acc d = 0"
    using Cons.prems(3) [of d a] c by simp
  then obtain acc1 where acc1: "Coins_Add x acc [(d, f a)] = Inr acc1" "coins_valid x acc1"
    "\<And>e. amount_of acc1 e = amount_of acc e + (if e = d then f a else 0)"
    using coins_laws_Add1 [OF assms(1) Cons.prems(2) va(2) fa(1)] fa(3) by auto
  have body: "body (d, a) acc = Inr acc1"
    using Cons.prems(4) [of d a acc] c acc1(1) coins_laws_NewCoin [OF assms(1) va(2) fa(1,3)]
    by (simp add: add_coin_def)
  have d: "d \<notin> fst ` set cs"
    using va(5) by auto
  have "amount_of acc1 e = 0" if "(e, b) \<in> set cs" for e b
    using that d Cons.prems(3) [of e b] acc1(3) [of e] by force
  then obtain pc where "fold_each body cs acc1 = Inr pc" "coins_valid x pc"
    "\<And>e. amount_of pc e = amount_of acc1 e + f (amount_of cs e)"
    using Cons.IH [OF va(1) acc1(2)] Cons.prems(4) by force
  then show ?case
    using body acc1(3) d assms(7) by (auto simp: c amount_of_absent)
qed

lemma getPlatformCoins_exact:
  assumes "coins_laws x" and "coins_valid x cs" and "0 \<le> p" and "p \<le> 10000"
  shows "\<exists>pc. getPlatformCoins x cs p = Inr pc \<and> coins_valid x pc
    \<and> (\<forall>d. amount_of pc d = ceil_fee p (amount_of cs d))"
proof (cases "p = 0")
  case True
  then show ?thesis
    using fold_fees [OF assms(1,2), of "[]" "\<lambda>(d, _) acc. add_coin x d 0 acc" "\<lambda>_. 0"]
    by (simp add: getPlatformCoins_def)
next
  case False
  have "platform_fee x p a = Inr (ceil_fee p a)" if "(d, a) \<in> set cs" for d a
    using that assms False
    by (intro platform_fee_exact coins_laws_int) (auto simp: coins_valid_def list_all_iff)
  then show ?thesis
    using fold_fees [OF assms(1,2), of "[]"
        "\<lambda>(d, a) acc. bindr (platform_fee x p a) (\<lambda>f. add_coin x d f acc)" "ceil_fee p"]
      assms(3,4) False ceil_fee_nonneg ceil_fee_le
    by (simp add: getPlatformCoins_def)
qed

end
