(* ===== verification/Xion_Props.thy ===== *)
theory Xion_Props
  imports Xion_Platform
begin

text \<open>
  The properties of the platform fee of \<open>x/xion\<close>: where every unit of a transfer goes, that no
  transfer of valid coins panics, what the minimums enforce, who configures the platform.  The
  interpretations at the start make the message handlers instances of the machines of the prelude;
  \<open>demo_*\<close> is the concrete environment of the instances.
\<close>

section \<open>Inversion\<close>

lemma min_map_map_of: "min_map mins d = map_of (rev mins) d"
proof -
  have "fold (\<lambda>(d, a) m. m(d \<mapsto> a)) mins m = m ++ map_of (rev mins)" for m :: "string \<Rightarrow> int option"
    by (induction mins arbitrary: m) (auto simp: fun_eq_iff map_add_def split: option.split)
  then show ?thesis
    by (simp add: min_map_def)
qed

lemma Send_InrD:
  assumes "Send env msg st = Inr st'"
  obtains src dst thr b where "xe_FromBech32 env (ms_FromAddress msg) = Inr src"
    and "xe_FromBech32 env (ms_ToAddress msg) = Inr dst" and "\<not> BlockedAddr (xe_bank env) dst"
    and "meetsConfiguredMinimums (ms_Amount msg) (GetPlatformMinimums st)"
    and "charge_platform env src (ms_Amount msg) (GetPlatformPercentage st) (xs_bank st) = Inr (thr, b)"
    and "SendCoins (xe_bank env) src dst thr b = Inr (xs_bank st')"
    and "xs_percentage st' = xs_percentage st" and "xs_minimums st' = xs_minimums st"
  using assms by (auto simp: Send_def Let_def)

lemma MultiSend_InrD:
  assumes "MultiSend env msg st = Inr st'"
  obtains outs where "mm_Inputs msg \<noteq> []"
    and "meetsConfiguredMinimums (snd (mm_Inputs msg ! 0)) (GetPlatformMinimums st)"
    and "multi_outputs env (GetPlatformPercentage st) (mm_Outputs msg) = Inr outs"
    and "InputOutputCoins (xe_bank env) (mm_Inputs msg ! 0) outs (xs_bank st) = Inr (xs_bank st')"
    and "xs_percentage st' = xs_percentage st" and "xs_minimums st' = xs_minimums st"
  using assms by (auto simp: MultiSend_def Let_def go_index_Inr_iff)

section \<open>The handlers as machines\<close>

definition xion_inv :: "'b xion_state \<Rightarrow> bool" where
  "xion_inv st \<longleftrightarrow> GetPlatformPercentage st \<le> 10000"

fun config_msg :: "'b xion_env \<Rightarrow> xion_msg \<Rightarrow> bool" where
  "config_msg env (SetPercentageMsg m) = (mp_Authority m = xe_authority env)"
| "config_msg env (SetMinimumMsg m) = (mn_Authority m = xe_authority env)"
| "config_msg env _ = False"

lemma uint_ucast_u32: "uint (ucast (p :: u32) :: u64) = uint p"
  by (simp add: uint_up_ucast is_up)

lemma xion_step_inv: "xion_step env m st = Inr st' \<Longrightarrow> xion_inv st \<Longrightarrow> xion_inv st'"
proof (cases m)
  case (SetPercentageMsg p)
  assume "xion_step env m st = Inr st'"
  then have "uint (mp_PlatformPercentage p) \<le> 10000"
    and "GetPlatformPercentage st' = uint (mp_PlatformPercentage p)"
    using SetPercentageMsg
    by (auto simp: SetPlatformPercentage_def OverwritePlatformPercentage_def
        GetPlatformPercentage_def uint_ucast_u32 not_less word_le_def)
  then show ?thesis
    by (simp add: xion_inv_def)
qed (auto simp: xion_inv_def GetPlatformPercentage_def SetPlatformMinimum_def
      OverwritePlatformMinimum_def elim!: Send_InrD MultiSend_InrD)

interpretation xion_machine: invariant_machine "xion_step env" xion_inv for env
  by unfold_locales (rule xion_step_inv)

interpretation xion_config: gated_machine
  "xion_step env" "\<lambda>_ m. config_msg env m" "\<lambda>st. (xs_percentage st, xs_minimums st)" for env
proof
  fix m s t
  assume "xion_step env m s = Inr t" "\<not> config_msg env m"
  then show "(xs_percentage t, xs_minimums t) = (xs_percentage s, xs_minimums s)"
    by (cases m) (auto simp: SetPlatformPercentage_def SetPlatformMinimum_def
        elim!: Send_InrD MultiSend_InrD)
qed

section \<open>Fees of many outputs\<close>

definition total_of :: "(string \<times> coins) list \<Rightarrow> string \<Rightarrow> int" where
  "total_of outs d = sum_list (map (\<lambda>out. amount_of (snd out) d) outs)"

lemma total_of_simps [simp]:
  "total_of [] d = 0" "total_of (out # outs) d = amount_of (snd out) d + total_of outs d"
  "total_of (outs @ outs') d = total_of outs d + total_of outs' d"
  by (simp_all add: total_of_def)

definition fee_total :: "int \<Rightarrow> (string \<times> coins) list \<Rightarrow> string \<Rightarrow> int" where
  "fee_total p outs d = sum_list (map (\<lambda>out. ceil_fee p (amount_of (snd out) d)) outs)"

lemma fee_total_ge: "ceil_fee p (total_of outs d) \<le> fee_total p outs d"
proof (induction outs)
  case (Cons out outs)
  then show ?case
    using ceil_fee_split [of p "amount_of (snd out) d" "total_of outs d"] by (simp add: fee_total_def)
qed (simp add: fee_total_def)

lemma total_of_nonneg:
  "list_all (coins_valid x \<circ> snd) outs \<Longrightarrow> 0 \<le> total_of outs d"
  using amount_of_range by (induction outs) (auto intro!: add_nonneg_nonneg)

lemma fee_total_bounds:
  assumes "list_all (coins_valid x \<circ> snd) outs" and "0 \<le> p" and "p \<le> 10000"
  shows "0 \<le> fee_total p outs d \<and> fee_total p outs d \<le> total_of outs d"
  using assms(1)
proof (induction outs)
  case (Cons out outs)
  then have "0 \<le> amount_of (snd out) d"
    using amount_of_range by auto
  then show ?case
    using Cons assms(2,3) ceil_fee_nonneg [of "amount_of (snd out) d" p] ceil_fee_le [of "amount_of (snd out) d" p]
    by (simp add: fee_total_def)
qed (simp add: fee_total_def)

text \<open>What becomes of one output: its address is parsable and not blocked, the payment goes to that
  address (printed again from the parsed one when a fee is taken), and it is the amount less the
  rounded-up fee.\<close>

definition after_fee :: "'b xion_env \<Rightarrow> int \<Rightarrow> string \<times> coins \<Rightarrow> string \<times> coins \<Rightarrow> bool" where
  "after_fee env p out out' \<longleftrightarrow>
     (\<exists>addr. xe_FromBech32 env (fst out) = Inr addr \<and> \<not> BlockedAddr (xe_bank env) addr
        \<and> fst out' = (if p = 0 then fst out else xe_AddrString env addr))
     \<and> (\<forall>d. amount_of (snd out') d = amount_of (snd out) d - ceil_fee p (amount_of (snd out) d))"

lemma multi_output_step:
  assumes "coins_laws (xe_coins env)" and "0 \<le> p" and "p \<le> 10000"
    and "coins_valid (xe_coins env) (snd out)" and "coins_valid (xe_coins env) tot"
    and "\<And>d. in_range (amount_of tot d + amount_of (snd out) d)"
    and "multi_output env p out (outs, tot) = Inr (outs', tot')"
  shows "\<exists>out'. outs' = outs @ [out'] \<and> after_fee env p out out' \<and> coins_valid (xe_coins env) tot'
    \<and> (\<forall>d. amount_of tot' d = amount_of tot d + ceil_fee p (amount_of (snd out) d))"
proof (cases "p = 0")
  case True
  then show ?thesis
    using assms by (cases out) (auto simp: multi_output_def Let_def after_fee_def)
next
  case False
  note rng = amount_of_range [OF assms(4)] amount_of_range [OF assms(5)]
  obtain pc where pc: "getPlatformCoins (xe_coins env) (snd out) p = Inr pc"
    "coins_valid (xe_coins env) pc" "\<And>d. amount_of pc d = ceil_fee p (amount_of (snd out) d)"
    using getPlatformCoins_exact [OF assms(1,4,2,3)] by auto
  have le: "amount_of pc d \<le> amount_of (snd out) d" for d
    using pc(3) rng ceil_fee_le assms(3) by simp
  then obtain thr where thr: "Coins_SafeSub (xe_coins env) (snd out) pc = (thr, False)"
    "\<And>d. amount_of thr d = amount_of (snd out) d - amount_of pc d"
    using coins_laws_Sub [OF assms(1,4) pc(2)] by auto
  have "in_range (amount_of tot d + amount_of pc d)" for d
    using assms(6) [of d] le [of d] rng(2) [of d] amount_of_range [OF pc(2), of d]
    by (auto simp: in_range_def)
  then obtain t where t: "Coins_Add (xe_coins env) tot pc = Inr t" "coins_valid (xe_coins env) t"
    "\<And>d. amount_of t d = amount_of tot d + amount_of pc d"
    using coins_laws_Add [OF assms(1,5) pc(2)] by auto
  show ?thesis
    using assms(7) False pc thr t by (auto simp: multi_output_def Let_def after_fee_def)
qed

lemma multi_output_fold:
  assumes "coins_laws (xe_coins env)" and "0 \<le> p" and "p \<le> 10000"
    and "list_all (coins_valid (xe_coins env) \<circ> snd) outs" and "coins_valid (xe_coins env) tot"
    and "\<And>d. in_range (amount_of tot d + total_of outs d)"
    and "fold_each (multi_output env p) outs (acc, tot) = Inr (outs', tot')"
  shows "\<exists>thr. outs' = acc @ thr \<and> list_all2 (after_fee env p) outs thr \<and> coins_valid (xe_coins env) tot'
    \<and> (\<forall>d. amount_of tot' d = amount_of tot d + fee_total p outs d)"
  using assms(4-7)
proof (induction outs arbitrary: acc tot)
  case Nil
  then show ?case by (simp add: fee_total_def)
next
  case (Cons out outs)
  have v: "coins_valid (xe_coins env) (snd out)" "list_all (coins_valid (xe_coins env) \<circ> snd) outs"
    using Cons.prems(1) by (simp_all add: comp_def)
  note nn = total_of_nonneg [OF v(2)] amount_of_range [OF v(1)] amount_of_range [OF Cons.prems(2)]
  obtain acc1 tot1 where run: "multi_output env p out (acc, tot) = Inr (acc1, tot1)"
    "fold_each (multi_output env p) outs (acc1, tot1) = Inr (outs', tot')"
    using Cons.prems(4) by auto
  have "in_range (amount_of tot d + amount_of (snd out) d)" for d
    using Cons.prems(3) [of d] nn [of d] by (auto simp: in_range_def)
  from multi_output_step [OF assms(1-3) v(1) Cons.prems(2) this run(1)]
  obtain out' where out': "acc1 = acc @ [out']" "after_fee env p out out'" "coins_valid (xe_coins env) tot1"
    "\<And>d. amount_of tot1 d = amount_of tot d + ceil_fee p (amount_of (snd out) d)"
    by blast
  have "in_range (amount_of tot1 d + total_of outs d)" for d
    using Cons.prems(3) [of d] nn [of d] out'(4) [of d] amount_of_range [OF out'(3), of d]
      ceil_fee_le [of "amount_of (snd out) d" p] assms(3)
    by (auto simp: in_range_def)
  from Cons.IH [OF v(2) out'(3) this run(2)] obtain thr where
    "outs' = acc1 @ thr" "list_all2 (after_fee env p) outs thr" "coins_valid (xe_coins env) tot'"
    "\<And>d. amount_of tot' d = amount_of tot1 d + fee_total p outs d"
    by blast
  then show ?case
    using out' by (intro exI [of _ "out' # thr"]) (simp add: fee_total_def)
qed

lemma after_fee_total:
  "list_all2 (after_fee env p) outs thr \<Longrightarrow> total_of thr d = total_of outs d - fee_total p outs d"
  by (induction rule: list_all2_induct) (auto simp: after_fee_def fee_total_def)

lemma IsZero_amounts:
  assumes "coins_laws x" and "coins_valid x cs"
  shows "Coins_IsZero x cs \<longleftrightarrow> (\<forall>d. amount_of cs d = 0)"
proof
  assume "Coins_IsZero x cs"
  then show "\<forall>d. amount_of cs d = 0"
    using coins_laws_IsZero [OF assms(1)] amount_of_zeros by blast
next
  assume zero: "\<forall>d. amount_of cs d = 0"
  show "Coins_IsZero x cs"
  proof (cases cs)
    case (Cons c cs')
    obtain d a where c: "c = (d, a)" by (cases c)
    have "0 < a" "coins_valid x cs'"
      using assms(2) by (simp_all add: Cons c coins_valid_Cons)
    then have "0 < amount_of cs d"
      using amount_of_range [of x cs' d] by (simp add: Cons c)
    then show ?thesis using zero by simp
  qed (simp add: coins_laws_IsZero [OF assms(1)])
qed

text \<open>The whole loop and the collector's output: it is there exactly when some fee is due.\<close>

lemma multi_outputs_exact:
  assumes "coins_laws (xe_coins env)" and "0 \<le> p" and "p \<le> 10000"
    and "list_all (coins_valid (xe_coins env) \<circ> snd) outs" and "\<And>d. in_range (total_of outs d)"
    and "multi_outputs env p outs = Inr outs'"
  shows "\<exists>thr fees. outs' = thr @ fees \<and> list_all2 (after_fee env p) outs thr
    \<and> (if \<forall>d. fee_total p outs d = 0 then fees = []
       else \<exists>tot. fees = [(xe_AddrString env (GetModuleAddress (xe_bank env) FeeCollectorName), tot)]
         \<and> (\<forall>d. amount_of tot d = fee_total p outs d))"
proof -
  define fees where "fees = (\<lambda>tot. if Coins_IsZero (xe_coins env) tot then []
    else [(xe_AddrString env (GetModuleAddress (xe_bank env) FeeCollectorName), tot)])"
  obtain outs0 tot where run: "fold_each (multi_output env p) outs ([], []) = Inr (outs0, tot)" "outs' = outs0 @ fees tot"
    using assms(6) by (auto simp: multi_outputs_def fees_def)
  obtain thr where thr: "outs0 = thr" "list_all2 (after_fee env p) outs thr" "coins_valid (xe_coins env) tot"
    "\<And>d. amount_of tot d = fee_total p outs d"
    using multi_output_fold [OF assms(1-4) _ _ run(1)] assms(5) by auto
  have "Coins_IsZero (xe_coins env) tot \<longleftrightarrow> (\<forall>d. amount_of tot d = 0)"
    by (rule IsZero_amounts [OF assms(1) thr(3)])
  then show ?thesis
    using run(2) thr by (intro exI [of _ thr] exI [of _ "fees tot"]) (auto simp: fees_def)
qed

lemma charge_platform_exact:
  assumes "coins_laws (xe_coins env)" and "0 \<le> p" and "p \<le> 10000"
    and "coins_valid (xe_coins env) amt"
  obtains pc thr where "coins_valid (xe_coins env) pc" and "coins_valid (xe_coins env) thr"
    and "\<And>d. amount_of pc d = ceil_fee p (amount_of amt d)"
    and "\<And>d. amount_of thr d = amount_of amt d - ceil_fee p (amount_of amt d)"
    and "charge_platform env src amt p b =
         (if p = 0 then Inr (thr, b)
          else bindr (SendCoinsFromAccountToModule (xe_bank env) src FeeCollectorName pc b) (\<lambda>b'. Inr (thr, b')))"
proof -
  obtain pc where pc: "getPlatformCoins (xe_coins env) amt p = Inr pc"
    "coins_valid (xe_coins env) pc" "\<And>d. amount_of pc d = ceil_fee p (amount_of amt d)"
    using getPlatformCoins_exact [OF assms(1,4,2,3)] by auto
  have "amount_of pc d \<le> amount_of amt d" for d
    using pc(3) amount_of_range [OF assms(4), of d] ceil_fee_le assms(3) by simp
  then obtain thr where thr: "Coins_Sub (xe_coins env) amt pc = Inr thr" "coins_valid (xe_coins env) thr"
    "\<And>d. amount_of thr d = amount_of amt d - amount_of pc d"
    using coins_laws_Sub [OF assms(1,4) pc(2)] by auto
  show ?thesis
  proof (cases "p = 0")
    case True
    then show ?thesis
      using that [of pc amt] pc assms(4) by (simp add: charge_platform_def)
  next
    case False
    then show ?thesis
      using that [of pc thr] pc thr by (simp add: charge_platform_def)
  qed
qed

section \<open>A concrete environment\<close>

definition demo_xion :: "ref_bank xion_env" where
  "demo_xion =
     \<lparr> xe_authority = ''gov'', xe_coins = ref_coins, xe_bank = ref_bank,
       xe_FromBech32 = (\<lambda>s. if s = [] then Inl (External ''empty address'') else Inr s),
       xe_AddrString = (\<lambda>a. a), xe_bech32_Decode = (\<lambda>s. Inr s),
       xe_ValidateInputOutputs = (\<lambda>i os. Inr ()) \<rparr>"

definition demo_platform :: "ref_bank xion_state" where
  "demo_platform =
     \<lparr> xs_percentage = Some 250, xs_minimums = Some [(''uxion'', 10)],
       xs_bank = (\<lambda>a d. if a = ''alice'' \<and> d = ''uxion'' then 1000 else 0) \<rparr>"

definition demo_send :: MsgSend where
  "demo_send = \<lparr> ms_FromAddress = ''alice'', ms_ToAddress = ''bob'', ms_Amount = [(''uxion'', 101)] \<rparr>"

definition demo_multi :: MsgMultiSend where
  "demo_multi =
     \<lparr> mm_Inputs = [(''alice'', [(''uxion'', 101)])],
       mm_Outputs = [(''bob'', [(''uxion'', 50)]), (''carol'', [(''uxion'', 51)])] \<rparr>"

lemma demo_xion_simps [simp]:
  "xe_coins demo_xion = ref_coins" "xe_bank demo_xion = ref_bank" "xe_authority demo_xion = ''gov''"
  "xe_FromBech32 demo_xion s = (if s = [] then Inl (External ''empty address'') else Inr s)"
  "xe_AddrString demo_xion a = a"
  by (simp_all add: demo_xion_def)

lemma ref_bank_simps:
  "IsSendEnabledCoins ref_bank b cs = Inr ()" "BlockedAddr ref_bank a \<longleftrightarrow> a = ''blocked''"
  "SendCoinsFromAccountToModule ref_bank = ref_transfer" "SendCoins ref_bank = ref_transfer"
  "InputOutputCoins ref_bank i os b = ref_outputs (fst i) os b"
  "GetBalance ref_bank b a d = b a d" "GetModuleAddress ref_bank m = m"
  by (simp_all add: ref_bank_def)

lemma demo_valid: "0 < a \<Longrightarrow> a < 10 ^ 6 \<Longrightarrow> coins_valid ref_coins [(''uxion'', a)]"
  by (simp add: coins_valid_def in_range_def ref_coins_def)

lemma demo_percentage [simp]: "GetPlatformPercentage demo_platform = 250"
  by (simp add: demo_platform_def GetPlatformPercentage_def)

lemma demo_combine:
  "combine f [(d, a)] [(d, b)] = (if f a b = 0 then [] else [(d, f a b)])"
  "combine f [] [(d, b)] = (if f 0 b = 0 then [] else [(d, f 0 b)])"
  by (simp_all add: combine_def)

lemma demo_fee:
  "0 \<le> a \<Longrightarrow> a < 10 ^ 6 \<Longrightarrow> platform_fee ref_coins 250 a = Inr (ceil_fee 250 a)"
  by (rule platform_fee_exact) (simp_all add: coins_laws_int ref_coins_laws in_range_def)

lemma demo_coins:
  "0 < a \<Longrightarrow> a < 10 ^ 6 \<Longrightarrow>
     getPlatformCoins ref_coins [(''uxion'', a)] 250 = Inr [(''uxion'', ceil_fee 250 a)]"
  using ceil_fee_pos [of a 250]
  by (simp add: getPlatformCoins_def demo_fee add_coin_def)
    (simp add: ref_coins_def panic_unless_def demo_combine)

section \<open>Properties\<close>

text \<open>C8: A successful \<open>Send\<close> takes exactly the amount from the sender, gives the fee collector the
  platform percentage of each denomination rounded up and the recipient the rest, and touches no
  other balance, also where sender, recipient and collector coincide.  The fee never exceeds the
  amount, and is at least one unit of every denomination sent while a percentage is set.\<close>

theorem Send_moves_exactly:
  assumes "coins_laws (xe_coins env)" and "bank_laws (xe_bank env)" and "xion_inv st"
    and "coins_valid (xe_coins env) (ms_Amount msg)" and "Send env msg st = Inr st'"
    and "xe_FromBech32 env (ms_FromAddress msg) = Inr src"
    and "xe_FromBech32 env (ms_ToAddress msg) = Inr dst"
  defines "fee \<equiv> \<lambda>d. ceil_fee (GetPlatformPercentage st) (amount_of (ms_Amount msg) d)"
  shows "GetBalance (xe_bank env) (xs_bank st') a d = GetBalance (xe_bank env) (xs_bank st) a d
      - (if a = src then amount_of (ms_Amount msg) d else 0)
      + (if a = dst then amount_of (ms_Amount msg) d - fee d else 0)
      + (if a = GetModuleAddress (xe_bank env) FeeCollectorName then fee d else 0)
    \<and> 0 \<le> fee d \<and> fee d \<le> amount_of (ms_Amount msg) d
    \<and> (0 < amount_of (ms_Amount msg) d \<and> 0 < GetPlatformPercentage st \<longrightarrow> 0 < fee d)"
proof -
  define p where "p = GetPlatformPercentage st"
  have p: "0 \<le> p" "p \<le> 10000"
    using assms(3) by (auto simp: p_def xion_inv_def GetPlatformPercentage_def split: option.split)
  obtain thr b where run: "charge_platform env src (ms_Amount msg) p (xs_bank st) = Inr (thr, b)"
    "SendCoins (xe_bank env) src dst thr b = Inr (xs_bank st')"
    using assms(5-7) by (auto elim!: Send_InrD simp: p_def)
  obtain pc thr' where ex: "\<And>d. amount_of pc d = fee d"
    "\<And>d. amount_of thr' d = amount_of (ms_Amount msg) d - fee d"
    "charge_platform env src (ms_Amount msg) p (xs_bank st) =
         (if p = 0 then Inr (thr', xs_bank st)
          else bindr (SendCoinsFromAccountToModule (xe_bank env) src FeeCollectorName pc (xs_bank st)) (\<lambda>b'. Inr (thr', b')))"
    using charge_platform_exact [OF assms(1) p assms(4)] unfolding fee_def p_def by metis
  have "GetBalance (xe_bank env) b a d = GetBalance (xe_bank env) (xs_bank st) a d
      + moved src (GetModuleAddress (xe_bank env) FeeCollectorName) pc a d"
  proof (cases "p = 0")
    case True
    then have "fee d = 0"
      by (simp add: fee_def p_def)
    then show ?thesis
      using True run(1) ex by (simp add: moved_def)
  next
    case False
    then show ?thesis
      using run(1) ex(3) bank_laws_ToModule [OF assms(2)] by auto
  qed
  moreover have "thr = thr'"
    using run(1) ex(3) by (auto split: if_splits)
  ultimately have "GetBalance (xe_bank env) (xs_bank st') a d = GetBalance (xe_bank env) (xs_bank st) a d
      + moved src (GetModuleAddress (xe_bank env) FeeCollectorName) pc a d + moved src dst thr' a d"
    using bank_laws_Send [OF assms(2) run(2)] by simp
  moreover have "0 \<le> amount_of (ms_Amount msg) d"
    using amount_of_range [OF assms(4)] by simp
  ultimately show ?thesis
    using ceil_fee_nonneg [of "amount_of (ms_Amount msg) d" p] ceil_fee_le [of "amount_of (ms_Amount msg) d" p]
      ceil_fee_pos [of "amount_of (ms_Amount msg) d" p] p
    unfolding moved_def ex fee_def p_def by simp
qed

lemma demo_send_run:
  "Send demo_xion demo_send demo_platform = Inr (demo_platform\<lparr> xs_bank :=
     (\<lambda>a d. xs_bank demo_platform a d + moved ''alice'' FeeCollectorName [(''uxion'', 3)] a d
        + moved ''alice'' ''bob'' [(''uxion'', 98)] a d) \<rparr>)"
proof -
  have "ceil_fee 250 101 = 3"
    by (simp add: ceil_fee_def)
  moreover have "Coins_Sub ref_coins [(''uxion'', 101)] [(''uxion'', 3)] = Inr [(''uxion'', 98)]"
    by (simp add: ref_coins_def demo_combine panic_unless_def)
  ultimately show ?thesis
    using demo_coins [of 101]
    by (simp add: Send_def demo_send_def charge_platform_def ref_bank_simps ref_transfer_def
        GetPlatformMinimums_def meetsConfiguredMinimums_def min_map_map_of)
      (simp add: demo_platform_def moved_def meetsConfiguredMinimums_def min_map_map_of)
qed

theorem Send_moves_exactly_witness:
  "\<exists>st'. Send demo_xion demo_send demo_platform = Inr st'
     \<and> GetBalance ref_bank (xs_bank st') ''bob'' ''uxion'' = 98
     \<and> GetBalance ref_bank (xs_bank st') FeeCollectorName ''uxion'' = 3"
proof -
  obtain st' where st': "Send demo_xion demo_send demo_platform = Inr st'"
    using demo_send_run by blast
  note exact = Send_moves_exactly [OF _ _ _ _ st', of "''alice''" "''bob''"]
  have "GetBalance ref_bank (xs_bank st') ''bob'' ''uxion'' = 98"
    using exact [of "''bob''" "''uxion''"] demo_valid [of 101]
    by (simp add: demo_send_def xion_inv_def ref_coins_laws ref_bank_laws ref_bank_simps ceil_fee_def)
      (simp add: demo_platform_def)
  moreover have "GetBalance ref_bank (xs_bank st') FeeCollectorName ''uxion'' = 3"
    using exact [of FeeCollectorName "''uxion''"] demo_valid [of 101]
    by (simp add: demo_send_def xion_inv_def ref_coins_laws ref_bank_laws ref_bank_simps ceil_fee_def)
      (simp add: demo_platform_def)
  ultimately show ?thesis
    using st' by blast
qed

text \<open>A \<open>Send\<close> of valid coins never panics, at any stored percentage up to 100%: the fee computation
  stays within 256 bits on both of its branches and \<open>Coins.Sub\<close> never meets a negative difference.
  The hypotheses on the bank and the address codec say that these calls return errors instead of
  panicking.\<close>

theorem Send_never_panics:
  assumes "coins_laws (xe_coins env)" and "bank_calm (xe_bank env)" and "xion_inv st"
    and "coins_valid (xe_coins env) (ms_Amount msg)"
    and "\<And>a. \<not> is_panic (xe_FromBech32 env a)"
  shows "\<not> is_panic (Send env msg st)"
proof -
  have p: "0 \<le> GetPlatformPercentage st" "GetPlatformPercentage st \<le> 10000"
    using assms(3) by (auto simp: xion_inv_def GetPlatformPercentage_def split: option.split)
  have charge: "\<not> is_panic (charge_platform env src (ms_Amount msg) (GetPlatformPercentage st) b)" for src b
  proof -
    obtain pc thr where "charge_platform env src (ms_Amount msg) (GetPlatformPercentage st) b =
         (if GetPlatformPercentage st = 0 then Inr (thr, b)
          else bindr (SendCoinsFromAccountToModule (xe_bank env) src FeeCollectorName pc b) (\<lambda>b'. Inr (thr, b')))"
      using charge_platform_exact [OF assms(1) p assms(4)] by metis
    then show ?thesis
      using assms(2) by (simp add: bank_calm_def bindr_not_panic)
  qed
  then show ?thesis
    using assms(2,5) unfolding Send_def Let_def bank_calm_def
    by (auto simp: xion_error_defs is_panic_bindr is_panic_ensure)
qed

theorem Send_never_panics_witness: "\<not> is_panic (Send demo_xion demo_send demo_platform)"
  by (rule Send_never_panics)
    (use demo_valid [of 101] in \<open>simp_all add: demo_send_def ref_coins_laws ref_bank_calm xion_inv_def\<close>)

text \<open>C9: A successful \<open>MultiSend\<close> hands the bank one output for each output of the message, in order, to
  the address it names and less the rounded-up fee, followed by at most one output to the fee collector
  that carries the fees of all of them (none exactly when no fee is due).  The total of every
  denomination is the total the message asked for, and the collected fee is at least the fee of the
  whole sum, so splitting a payment into many outputs never lowers the fee.\<close>

theorem MultiSend_conserves:
  assumes "coins_laws (xe_coins env)" and "xion_inv st" and "MultiSend env msg st = Inr st'"
    and "list_all (coins_valid (xe_coins env) \<circ> snd) (mm_Outputs msg)"
    and "\<And>d. in_range (total_of (mm_Outputs msg) d)"
  shows "\<exists>thr fees. InputOutputCoins (xe_bank env) (mm_Inputs msg ! 0) (thr @ fees) (xs_bank st) = Inr (xs_bank st')
    \<and> list_all2 (after_fee env (GetPlatformPercentage st)) (mm_Outputs msg) thr
    \<and> (if \<forall>d. fee_total (GetPlatformPercentage st) (mm_Outputs msg) d = 0 then fees = []
       else \<exists>tot. fees = [(xe_AddrString env (GetModuleAddress (xe_bank env) FeeCollectorName), tot)]
         \<and> (\<forall>d. amount_of tot d = fee_total (GetPlatformPercentage st) (mm_Outputs msg) d))
    \<and> (\<forall>d. total_of (thr @ fees) d = total_of (mm_Outputs msg) d
         \<and> ceil_fee (GetPlatformPercentage st) (total_of (mm_Outputs msg) d) \<le> total_of fees d)"
proof -
  define p where "p = GetPlatformPercentage st"
  have p: "0 \<le> p" "p \<le> 10000"
    using assms(2) by (auto simp: p_def xion_inv_def GetPlatformPercentage_def split: option.split)
  obtain outs where io: "multi_outputs env p (mm_Outputs msg) = Inr outs"
    "InputOutputCoins (xe_bank env) (mm_Inputs msg ! 0) outs (xs_bank st) = Inr (xs_bank st')"
    using assms(3) by (auto elim!: MultiSend_InrD simp: p_def)
  obtain thr fees where out: "outs = thr @ fees" "list_all2 (after_fee env p) (mm_Outputs msg) thr"
    "if \<forall>d. fee_total p (mm_Outputs msg) d = 0 then fees = []
     else \<exists>tot. fees = [(xe_AddrString env (GetModuleAddress (xe_bank env) FeeCollectorName), tot)]
         \<and> (\<forall>d. amount_of tot d = fee_total p (mm_Outputs msg) d)"
    using multi_outputs_exact [OF assms(1) p assms(4,5) io(1)] by blast
  have tf: "total_of fees d = fee_total p (mm_Outputs msg) d" for d
    using out(3) by (auto split: if_splits)
  show ?thesis
    unfolding p_def [symmetric]
  proof (rule exI [of _ thr], rule exI [of _ fees], intro conjI allI)
    show "InputOutputCoins (xe_bank env) (mm_Inputs msg ! 0) (thr @ fees) (xs_bank st) = Inr (xs_bank st')"
      using io(2) out(1) by simp
    show "list_all2 (after_fee env p) (mm_Outputs msg) thr"
      by (rule out(2))
    show "if \<forall>d. fee_total p (mm_Outputs msg) d = 0 then fees = []
       else \<exists>tot. fees = [(xe_AddrString env (GetModuleAddress (xe_bank env) FeeCollectorName), tot)]
         \<and> (\<forall>d. amount_of tot d = fee_total p (mm_Outputs msg) d)"
      by (rule out(3))
    show "total_of (thr @ fees) d = total_of (mm_Outputs msg) d" for d
      using after_fee_total [OF out(2)] tf by simp
    show "ceil_fee p (total_of (mm_Outputs msg) d) \<le> total_of fees d" for d
      using fee_total_ge tf by simp
  qed
qed

lemma demo_multi_runs: "\<exists>st'. MultiSend demo_xion demo_multi demo_platform = Inr st'"
proof -
  have fees: "ceil_fee 250 50 = 2" "ceil_fee 250 51 = 2"
    by (simp_all add: ceil_fee_def)
  have ops: "Coins_SafeSub ref_coins [(''uxion'', 50)] [(''uxion'', 2)] = ([(''uxion'', 48)], False)"
    "Coins_SafeSub ref_coins [(''uxion'', 51)] [(''uxion'', 2)] = ([(''uxion'', 49)], False)"
    "Coins_Add ref_coins [] [(''uxion'', 2)] = Inr [(''uxion'', 2)]"
    "Coins_Add ref_coins [(''uxion'', 2)] [(''uxion'', 2)] = Inr [(''uxion'', 4)]"
    "\<not> Coins_IsZero ref_coins [(''uxion'', 4)]"
    by (simp_all add: ref_coins_def demo_combine)
  have "multi_outputs demo_xion 250 (mm_Outputs demo_multi) =
      Inr [(''bob'', [(''uxion'', 48)]), (''carol'', [(''uxion'', 49)]), (FeeCollectorName, [(''uxion'', 4)])]"
    using demo_coins [of 50] demo_coins [of 51]
    by (simp add: multi_outputs_def demo_multi_def multi_output_def fees ops ref_bank_simps)
  moreover have "meetsConfiguredMinimums [(''uxion'', 101)] (GetPlatformMinimums demo_platform)"
    by (simp add: demo_platform_def GetPlatformMinimums_def meetsConfiguredMinimums_def min_map_map_of)
  ultimately show ?thesis
    by (simp add: MultiSend_def ref_bank_simps)
      (simp add: demo_multi_def ref_transfer_def demo_platform_def moved_def)
qed

theorem MultiSend_conserves_witness:
  "\<exists>thr tot. list_all2 (after_fee demo_xion 250) (mm_Outputs demo_multi) thr \<and> map fst thr = [''bob'', ''carol'']
     \<and> amount_of tot ''uxion'' = 4
     \<and> total_of (thr @ [(FeeCollectorName, tot)]) ''uxion'' = 101 \<and> 3 \<le> amount_of tot ''uxion''"
proof -
  obtain st' where st': "MultiSend demo_xion demo_multi demo_platform = Inr st'"
    using demo_multi_runs by blast
  have pct: "GetPlatformPercentage demo_platform = 250"
    and col: "xe_AddrString demo_xion (GetModuleAddress (xe_bank demo_xion) FeeCollectorName) = FeeCollectorName"
    by (simp_all add: ref_bank_simps)
  have "list_all (coins_valid ref_coins \<circ> snd) (mm_Outputs demo_multi)"
    using demo_valid [of 50] demo_valid [of 51] by (simp add: demo_multi_def)
  moreover have "in_range (total_of (mm_Outputs demo_multi) d)" for d
    by (simp add: demo_multi_def in_range_def)
  ultimately obtain thr fees where all: "list_all2 (after_fee demo_xion 250) (mm_Outputs demo_multi) thr"
    and fees: "if \<forall>d. fee_total 250 (mm_Outputs demo_multi) d = 0 then fees = []
      else \<exists>tot. fees = [(FeeCollectorName, tot)] \<and> (\<forall>d. amount_of tot d = fee_total 250 (mm_Outputs demo_multi) d)"
    and tot: "\<forall>d. total_of (thr @ fees) d = total_of (mm_Outputs demo_multi) d
       \<and> ceil_fee 250 (total_of (mm_Outputs demo_multi) d) \<le> total_of fees d"
    using MultiSend_conserves [OF _ _ st', unfolded pct col] by (auto simp: ref_coins_laws xion_inv_def)
  have sums: "total_of (mm_Outputs demo_multi) ''uxion'' = 101" "fee_total 250 (mm_Outputs demo_multi) ''uxion'' = 4"
    by (simp_all add: demo_multi_def fee_total_def ceil_fee_def)
  then have "\<not> (\<forall>d. fee_total 250 (mm_Outputs demo_multi) d = 0)"
    by (metis zero_neq_numeral)
  note fees [unfolded if_not_P [OF this]]
  then obtain c where c: "fees = [(FeeCollectorName, c)]" "amount_of c ''uxion'' = 4"
    using sums by auto
  have "map fst thr = [''bob'', ''carol'']"
    using all by (auto simp: demo_multi_def after_fee_def list_all2_Cons1)
  then show ?thesis
    using all tot [rule_format, of "''uxion''"] c sums by (intro exI [of _ thr] exI [of _ c]) simp
qed

text \<open>C10: The platform configuration is governed: over any sequence of messages, transfers included,
  the percentage stays at most 100% and the percentage and the minimums change only by a
  configuration message of the module authority.\<close>

theorem platform_config_governed:
  assumes "xion_inv st"
  shows "xion_inv (run_msgs (xion_step env) ms st)
    \<and> ((xs_percentage (run_msgs (xion_step env) ms st), xs_minimums (run_msgs (xion_step env) ms st))
         = (xs_percentage st, xs_minimums st)
       \<or> (\<exists>m \<in> set ms. config_msg env m))"
  using xion_machine.run_keeps [OF assms, of env ms] xion_config.run_changed_by_allowed [of env ms st]
  by blast

theorem platform_config_governed_witness:
  "xion_inv (run_msgs (xion_step demo_xion)
     [SendMsg demo_send,
      SetPercentageMsg \<lparr> mp_Authority = ''mallory'', mp_PlatformPercentage = 0 \<rparr>,
      SetPercentageMsg \<lparr> mp_Authority = ''gov'', mp_PlatformPercentage = 20000 \<rparr>] demo_platform)"
  using platform_config_governed [of demo_platform demo_xion
      "[SendMsg demo_send,
        SetPercentageMsg \<lparr> mp_Authority = ''mallory'', mp_PlatformPercentage = 0 \<rparr>,
        SetPercentageMsg \<lparr> mp_Authority = ''gov'', mp_PlatformPercentage = 20000 \<rparr>]"]
  by (simp add: xion_inv_def)

text \<open>The minimums are an allowlist: a successful \<open>Send\<close> happens only while minimums are
  configured, every denomination sent is among them, and its amount reaches the last minimum listed
  for it unless that minimum is zero; the recipient is not a blocked address.\<close>

theorem Send_respects_minimums:
  assumes "Send env msg st = Inr st'"
  shows "GetPlatformMinimums st \<noteq> []
    \<and> (\<forall>(d, a) \<in> set (ms_Amount msg).
         \<exists>m. map_of (rev (GetPlatformMinimums st)) d = Some m \<and> (m = 0 \<or> m \<le> a))
    \<and> (\<exists>dst. xe_FromBech32 env (ms_ToAddress msg) = Inr dst \<and> \<not> BlockedAddr (xe_bank env) dst)"
  using assms
  by (rule Send_InrD)
    (force simp: meetsConfiguredMinimums_def min_map_map_of list_all_iff split: option.splits)

theorem Send_respects_minimums_witness:
  "\<exists>m. map_of (rev (GetPlatformMinimums demo_platform)) ''uxion'' = Some m \<and> (m = 0 \<or> m \<le> (101 :: int))"
  using Send_respects_minimums [OF demo_send_run] by (simp add: demo_send_def)

text \<open>Importing a genesis state and exporting it again gives it back, over any previous state, and
  \<open>Validate\<close> accepts exactly the genesis states whose import satisfies the percentage bound.\<close>

theorem xion_genesis_roundtrip:
  "xion_ExportGenesis (xion_InitGenesis gs st) = gs
   \<and> (xion_ValidateGenesis gs = Inr ()) = xion_inv (xion_InitGenesis gs st)"
proof
  have pct: "GetPlatformPercentage (xion_InitGenesis gs st) = uint (xg_PlatformPercentage gs)"
    by (simp add: xion_InitGenesis_def OverwritePlatformMinimum_def OverwritePlatformPercentage_def
        GetPlatformPercentage_def uint_ucast_u32)
  show "xion_ExportGenesis (xion_InitGenesis gs st) = gs"
    unfolding xion_ExportGenesis_def pct
    by (simp add: xion_NewGenesisState_def xion_InitGenesis_def OverwritePlatformMinimum_def
        GetPlatformMinimums_def)
  show "(xion_ValidateGenesis gs = Inr ()) = xion_inv (xion_InitGenesis gs st)"
    unfolding xion_inv_def pct by (simp add: xion_ValidateGenesis_def not_less word_le_def)
qed

end
