(* ===== verification/Mint.thy ===== *)
theory Mint
  imports Sdk
begin

text \<open>
  Inflation: \<open>x/xion/keeper/mint.go\<close>, the function that tops the fee collector up to the block
  provision or burns what exceeds it, and \<open>x/mint/types\<close>, the inflation schedule and its
  parameters.  A \<open>LegacyDec\<close> is its integer value scaled by \<open>10 ^ 18\<close>, or \<open>None\<close> for the nil value;
  its arithmetic, the mint keeper and the coin operations are the SDK's and are arguments.
\<close>

section \<open>Decimals\<close>

type_synonym dec = "int option"

record dec_ext =
  Dec_Quo :: "int \<Rightarrow> int \<Rightarrow> int result"
  Dec_Mul :: "int \<Rightarrow> int \<Rightarrow> int result"
  Dec_Add :: "int \<Rightarrow> int \<Rightarrow> int result"
  Dec_Sub :: "int \<Rightarrow> int \<Rightarrow> int result"
  Dec_MulInt :: "int \<Rightarrow> int \<Rightarrow> int result"
  Dec_QuoInt :: "int \<Rightarrow> int \<Rightarrow> int result"
  Dec_TruncateInt :: "int \<Rightarrow> int"
  Int_ToLegacyDec :: "int \<Rightarrow> int"

definition OneDec :: int where
  "OneDec = 10 ^ 18"

definition NewDecWithPrec :: "int \<Rightarrow> nat \<Rightarrow> int" where
  "NewDecWithPrec i prec = i * 10 ^ (18 - prec)"

text \<open>A method call on a nil decimal dereferences a nil pointer.\<close>

definition dec_val :: "dec \<Rightarrow> int result" where
  "dec_val d = (case d of None \<Rightarrow> Inl (GoPanic ''nil pointer'') | Some v \<Rightarrow> Inr v)"

section \<open>Parameters (x/mint/types/params.go)\<close>

record mint_Params =
  MintDenom :: string
  InflationRateChange :: dec
  InflationMax :: dec
  InflationMin :: dec
  GoalBonded :: dec
  BlocksPerYear :: u64

definition mint_NewParams :: "string \<Rightarrow> dec \<Rightarrow> dec \<Rightarrow> dec \<Rightarrow> dec \<Rightarrow> u64 \<Rightarrow> mint_Params" where
  "mint_NewParams d change mx mn goal blocks =
     \<lparr> MintDenom = d, InflationRateChange = change, InflationMax = mx, InflationMin = mn,
       GoalBonded = goal, BlocksPerYear = blocks \<rparr>"

definition mint_DefaultParams :: "string \<Rightarrow> mint_Params" where
  "mint_DefaultParams DefaultBondDenom =
     \<lparr> MintDenom = DefaultBondDenom, InflationRateChange = Some (NewDecWithPrec 13 2),
       InflationMax = Some (NewDecWithPrec 20 2), InflationMin = Some (NewDecWithPrec 7 2),
       GoalBonded = Some (NewDecWithPrec 67 2), BlocksPerYear = 60 * 60 * 8766 div 5 \<rparr>"

definition validateMintDenom :: "(string \<Rightarrow> unit result) \<Rightarrow> string \<Rightarrow> unit result" where
  "validateMintDenom ValidateDenom v =
     (if TrimSpace v = [] then Inl (Plain ''mint denom cannot be blank'') else ValidateDenom v)"

definition validateInflationRateChange :: "dec \<Rightarrow> unit result" where
  "validateInflationRateChange d =
     (case d of
        None \<Rightarrow> Inl (Plain ''inflation rate change cannot be nil'')
      | Some v \<Rightarrow>
          if v < 0 then Inl (Plain ''inflation rate change cannot be negative'')
          else if v > OneDec then Inl (Plain ''inflation rate change too large'') else Inr ())"

definition validateInflationMax :: "dec \<Rightarrow> unit result" where
  "validateInflationMax d =
     (case d of
        None \<Rightarrow> Inl (Plain ''max inflation cannot be nil'')
      | Some v \<Rightarrow>
          if v < 0 then Inl (Plain ''max inflation cannot be negative'')
          else if v > OneDec then Inl (Plain ''max inflation too large'') else Inr ())"

definition validateInflationMin :: "dec \<Rightarrow> unit result" where
  "validateInflationMin d =
     (case d of
        None \<Rightarrow> Inl (Plain ''min inflation cannot be nil'')
      | Some v \<Rightarrow>
          if v < 0 then Inl (Plain ''min inflation cannot be negative'')
          else if v > OneDec then Inl (Plain ''min inflation too large'') else Inr ())"

definition validateGoalBonded :: "dec \<Rightarrow> unit result" where
  "validateGoalBonded d =
     (case d of
        None \<Rightarrow> Inl (Plain ''goal bonded cannot be nil'')
      | Some v \<Rightarrow>
          if v < 0 \<or> v = 0 then Inl (Plain ''goal bonded must be positive'')
          else if v > OneDec then Inl (Plain ''goal bonded too large'') else Inr ())"

definition validateBlocksPerYear :: "u64 \<Rightarrow> unit result" where
  "validateBlocksPerYear v = ensure (v \<noteq> 0) (Plain ''blocks per year must be positive'')"

definition mint_Validate :: "(string \<Rightarrow> unit result) \<Rightarrow> mint_Params \<Rightarrow> unit result" where
  "mint_Validate ValidateDenom p =
     bindr (validateMintDenom ValidateDenom (MintDenom p)) (\<lambda>_.
     bindr (validateInflationRateChange (InflationRateChange p)) (\<lambda>_.
     bindr (validateInflationMax (InflationMax p)) (\<lambda>_.
     bindr (validateInflationMin (InflationMin p)) (\<lambda>_.
     bindr (validateGoalBonded (GoalBonded p)) (\<lambda>_.
     bindr (validateBlocksPerYear (BlocksPerYear p)) (\<lambda>_.
     bindr (dec_val (InflationMax p)) (\<lambda>mx.
     bindr (dec_val (InflationMin p)) (\<lambda>mn.
     ensure (\<not> mx < mn) (Plain ''max inflation must be greater than or equal to min inflation'')))))))))"

section \<open>The minter (x/mint/types/minter.go, genesis.go)\<close>

record Minter =
  Inflation :: int
  AnnualProvisions :: int

definition NewMinter :: "int \<Rightarrow> int \<Rightarrow> Minter" where
  "NewMinter i a = \<lparr> Inflation = i, AnnualProvisions = a \<rparr>"

definition InitialMinter :: "int \<Rightarrow> Minter" where
  "InitialMinter i = NewMinter i 0"

definition DefaultInitialMinter :: Minter where
  "DefaultInitialMinter = InitialMinter (NewDecWithPrec 13 2)"

definition ValidateMinter :: "Minter \<Rightarrow> unit result" where
  "ValidateMinter m = ensure (\<not> Inflation m < 0) (Plain ''mint parameter Inflation should be positive'')"

definition NextInflationRate :: "dec_ext \<Rightarrow> Minter \<Rightarrow> mint_Params \<Rightarrow> int \<Rightarrow> int result" where
  "NextInflationRate x m params bondedRatio =
     bindr (dec_val (GoalBonded params)) (\<lambda>goal.
     bindr (Dec_Quo x bondedRatio goal) (\<lambda>q.
     bindr (Dec_Sub x OneDec q) (\<lambda>s.
     bindr (dec_val (InflationRateChange params)) (\<lambda>change.
     bindr (Dec_Mul x s change) (\<lambda>perYear.
     let blocksPerYear = Int_ToLegacyDec x (uint (BlocksPerYear params)) in
     bindr (Dec_Quo x perYear blocksPerYear) (\<lambda>inflationRateChange.
     bindr (Dec_Add x (Inflation m) inflationRateChange) (\<lambda>inflation.
     bindr (dec_val (InflationMax params)) (\<lambda>mx.
     bindr (dec_val (InflationMin params)) (\<lambda>mn.
     let inflation = (if inflation > mx then mx else inflation);
         inflation = (if inflation < mn then mn else inflation)
     in Inr inflation)))))))))"

definition NextAnnualProvisions :: "dec_ext \<Rightarrow> Minter \<Rightarrow> int \<Rightarrow> int result" where
  "NextAnnualProvisions x m totalSupply = Dec_MulInt x (Inflation m) totalSupply"

definition BlockProvision :: "dec_ext \<Rightarrow> coins_ext \<Rightarrow> Minter \<Rightarrow> mint_Params \<Rightarrow> coin result" where
  "BlockProvision x c m params =
     bindr (Dec_QuoInt x (AnnualProvisions m) (uint (BlocksPerYear params))) (\<lambda>provisionAmt.
     NewCoin c (MintDenom params) (Dec_TruncateInt x provisionAmt))"

definition DefaultInflationCalculationFn :: "dec_ext \<Rightarrow> Minter \<Rightarrow> mint_Params \<Rightarrow> int \<Rightarrow> int result" where
  "DefaultInflationCalculationFn x m params bondedRatio = NextInflationRate x m params bondedRatio"

definition mint_DefaultGenesisState :: "string \<Rightarrow> Minter \<times> mint_Params" where
  "mint_DefaultGenesisState DefaultBondDenom = (DefaultInitialMinter, mint_DefaultParams DefaultBondDenom)"

definition mint_ValidateGenesis :: "(string \<Rightarrow> unit result) \<Rightarrow> Minter \<times> mint_Params \<Rightarrow> unit result" where
  "mint_ValidateGenesis ValidateDenom gs =
     bindr (mint_Validate ValidateDenom (snd gs)) (\<lambda>_. ValidateMinter (fst gs))"

section \<open>The mint function of the chain (x/xion/keeper/mint.go)\<close>

text \<open>
  The SDK's mint keeper over a state that contains the bank; \<open>'p\<close> are its parameters.  The minter
  of the SDK has the two fields of \<open>Minter\<close>.  The inflation function and the arithmetic of the
  minter return a result, since decimals and coins panic on overflow or an invalid denomination.
\<close>

record ('m, 'p) mint_ext =
  me_Minter_Get :: "'m \<Rightarrow> Minter result"
  me_Params_Get :: "'m \<Rightarrow> 'p result"
  me_MintDenom :: "'p \<Rightarrow> string"
  me_BondedRatio :: "'m \<Rightarrow> int result"
  me_inflation :: "'m \<Rightarrow> Minter \<Rightarrow> 'p \<Rightarrow> int \<Rightarrow> int result"
  me_TotalBondedTokens :: "'m \<Rightarrow> int result"
  me_NextAnnualProvisions :: "Minter \<Rightarrow> 'p \<Rightarrow> int \<Rightarrow> int result"
  me_BlockProvision :: "Minter \<Rightarrow> 'p \<Rightarrow> coin result"
  me_Minter_Set :: "Minter \<Rightarrow> 'm \<Rightarrow> 'm result"
  me_MintCoins :: "coins \<Rightarrow> 'm \<Rightarrow> 'm result"
  me_AddCollectedFees :: "coins \<Rightarrow> 'm \<Rightarrow> 'm result"
  me_Coin_IsLT :: "coin \<Rightarrow> coin \<Rightarrow> bool result"
  me_Coin_Sub :: "coin \<Rightarrow> coin \<Rightarrow> coin result"
  me_NewCoin :: "string \<Rightarrow> int \<Rightarrow> coin result"
  me_NewCoins :: "coin \<Rightarrow> coins result"

record mint_event =
  ev_bonded_ratio :: int
  ev_inflation :: int
  ev_annual_provisions :: int
  ev_needed_amount :: int
  ev_minted_amount :: int
  ev_collected_amount :: int
  ev_burned_amount :: int

text \<open>The branch on the collected fees: minted coin, burned coin, new state.  The two coins start as
  given and only the branch that is taken replaces its own.\<close>

definition settle_fees ::
  "('m, 'p) mint_ext \<Rightarrow> 'm bank_ext \<Rightarrow> string \<Rightarrow> coin \<Rightarrow> coin \<Rightarrow> coin \<Rightarrow> coin \<Rightarrow> 'm
     \<Rightarrow> (coin \<times> coin \<times> 'm) result" where
  "settle_fees x k feeCollectorName collectedFeeCoin neededCoin mintedCoin0 burnedCoin0 s =
     bindr (me_Coin_IsLT x collectedFeeCoin neededCoin) (\<lambda>lt.
     if lt
     then bindr (me_Coin_Sub x neededCoin collectedFeeCoin) (\<lambda>mintedCoin.
          bindr (me_NewCoins x mintedCoin) (\<lambda>mintedCoins.
          bindr (me_MintCoins x mintedCoins s) (\<lambda>s2.
          bindr (me_AddCollectedFees x mintedCoins s2) (\<lambda>s3.
          Inr (mintedCoin, burnedCoin0, s3)))))
     else bindr (me_Coin_Sub x collectedFeeCoin neededCoin) (\<lambda>burnedCoin.
          bindr (me_NewCoins x burnedCoin) (\<lambda>burnedCoins.
          bindr (BurnCoins k feeCollectorName burnedCoins s) (\<lambda>s2.
          Inr (mintedCoin0, burnedCoin, s2)))))"

definition StakedInflationMintFn ::
  "('m, 'p) mint_ext \<Rightarrow> 'm bank_ext \<Rightarrow> string \<Rightarrow> 'm \<Rightarrow> (mint_event \<times> 'm) result" where
  "StakedInflationMintFn x k feeCollectorName s =
     bindr (me_Minter_Get x s) (\<lambda>minter0.
     bindr (me_Params_Get x s) (\<lambda>params.
     let denom = me_MintDenom x params;
         collectedFeeCoin = (denom, GetBalance k s (GetModuleAddress k feeCollectorName) denom) in
     bindr (me_BondedRatio x s) (\<lambda>bondedRatio.
     bindr (me_inflation x s minter0 params bondedRatio) (\<lambda>inflation.
     let minter1 = minter0\<lparr> Inflation := inflation \<rparr> in
     bindr (me_TotalBondedTokens x s) (\<lambda>bondedTokenSupply.
     bindr (me_NextAnnualProvisions x minter1 params bondedTokenSupply) (\<lambda>annual.
     let minter = minter1\<lparr> AnnualProvisions := annual \<rparr> in
     bindr (me_Minter_Set x minter s) (\<lambda>s1.
     bindr (me_BlockProvision x minter params) (\<lambda>neededCoin.
     bindr (me_NewCoin x denom 0) (\<lambda>mintedCoin0.
     bindr (me_NewCoin x denom 0) (\<lambda>burnedCoin0.
     bindr (settle_fees x k feeCollectorName collectedFeeCoin neededCoin mintedCoin0 burnedCoin0 s1)
       (\<lambda>(mintedCoin, burnedCoin, s').
     Inr (\<lparr> ev_bonded_ratio = bondedRatio, ev_inflation = Inflation minter,
            ev_annual_provisions = AnnualProvisions minter, ev_needed_amount = snd neededCoin,
            ev_minted_amount = snd mintedCoin, ev_collected_amount = snd collectedFeeCoin,
            ev_burned_amount = snd burnedCoin \<rparr>, s'))))))))))))"

section \<open>Documented behaviour\<close>

text \<open>
  \<open>minter_account\<close> is the mint module's own account: minting credits it and
  \<open>AddCollectedFees\<close> moves coins from it to the fee collector.
\<close>

definition mint_laws :: "('m, 'p) mint_ext \<Rightarrow> 'm bank_ext \<Rightarrow> string \<Rightarrow> address \<Rightarrow> bool" where
  "mint_laws x k feeCollectorName minter_account \<longleftrightarrow>
     (\<forall>d a b. me_Coin_IsLT x (d, a) (d, b) = Inr (a < b))
     \<and> (\<forall>d a b. b \<le> a \<longrightarrow> me_Coin_Sub x (d, a) (d, b) = Inr (d, a - b))
     \<and> (\<forall>d a cs. 0 \<le> a \<longrightarrow> me_NewCoins x (d, a) = Inr cs \<longrightarrow>
          (\<forall>e. amount_of cs e = (if e = d then a else 0)))
     \<and> (\<forall>d a e b. me_NewCoin x d a = Inr (e, b) \<longrightarrow> e = d \<and> b = a)
     \<and> (\<forall>m p d a. me_BlockProvision x m p = Inr (d, a) \<longrightarrow> d = me_MintDenom x p)
     \<and> (\<forall>m s s' a d. me_Minter_Set x m s = Inr s' \<longrightarrow> GetBalance k s' a d = GetBalance k s a d)
     \<and> (\<forall>cs s s' a d. me_MintCoins x cs s = Inr s' \<longrightarrow>
          GetBalance k s' a d = GetBalance k s a d + (if a = minter_account then amount_of cs d else 0))
     \<and> (\<forall>cs s s' a d. me_AddCollectedFees x cs s = Inr s' \<longrightarrow>
          GetBalance k s' a d =
            GetBalance k s a d + moved minter_account (GetModuleAddress k feeCollectorName) cs a d)"

section \<open>Facts\<close>

lemma mint_Validate_bounds:
  assumes "mint_Validate vd p = Inr ()"
  obtains change mx mn goal where "InflationRateChange p = Some change" and "0 \<le> change" and "change \<le> OneDec"
    and "InflationMax p = Some mx" and "InflationMin p = Some mn" and "GoalBonded p = Some goal"
    and "0 \<le> mn" and "mn \<le> mx" and "mx \<le> OneDec" and "0 < goal" and "goal \<le> OneDec"
    and "BlocksPerYear p \<noteq> 0"
  using assms
  by (auto simp: mint_Validate_def validateInflationRateChange_def validateInflationMax_def
      validateInflationMin_def validateGoalBonded_def validateBlocksPerYear_def dec_val_def not_less
      split: option.splits if_splits)

lemma mint_lawsD:
  assumes "mint_laws x k fc ma"
  shows "me_Coin_IsLT x (d, a) (d, b) = Inr (a < b)"
    and "b \<le> a \<Longrightarrow> me_Coin_Sub x (d, a) (d, b) = Inr (d, a - b)"
    and "0 \<le> a \<Longrightarrow> me_NewCoins x (d, a) = Inr cs \<Longrightarrow> amount_of cs e = (if e = d then a else 0)"
    and "me_BlockProvision x m p = Inr (d, a) \<Longrightarrow> d = me_MintDenom x p"
    and "me_Minter_Set x m s = Inr s' \<Longrightarrow> GetBalance k s' acc d = GetBalance k s acc d"
    and "me_MintCoins x cs s = Inr s' \<Longrightarrow>
          GetBalance k s' acc d = GetBalance k s acc d + (if acc = ma then amount_of cs d else 0)"
    and "me_AddCollectedFees x cs s = Inr s' \<Longrightarrow>
          GetBalance k s' acc d = GetBalance k s acc d + moved ma (GetModuleAddress k fc) cs acc d"
    and "me_NewCoin x d a = Inr (e, b) \<Longrightarrow> e = d \<and> b = a"
  using assms by (simp_all add: mint_laws_def) blast

text \<open>The balances after the settlement, in both of its branches.\<close>

lemma settle_fees_exact:
  assumes "mint_laws x k fc ma" and "bank_laws k" and "ma \<noteq> GetModuleAddress k fc"
    and "collected = GetBalance k s (GetModuleAddress k fc) d"
    and "settle_fees x k fc (d, collected) (d, needed) (d, 0) (d, 0) s = Inr (minted, burned, s')"
  shows "GetBalance k s' a e =
      (if a = GetModuleAddress k fc \<and> e = d then needed else GetBalance k s a e)
    \<and> minted = (d, max 0 (needed - collected)) \<and> burned = (d, max 0 (collected - needed))"
proof -
  note L = mint_lawsD [OF assms(1)]
  show ?thesis
  proof (cases "collected < needed")
    case True
    then have "me_Coin_Sub x (d, needed) (d, collected) = Inr (d, needed - collected)"
      by (intro L(2)) simp
    then obtain cs s2 where run: "me_NewCoins x (d, needed - collected) = Inr cs"
      "me_MintCoins x cs s = Inr s2" "me_AddCollectedFees x cs s2 = Inr s'"
      "minted = (d, needed - collected)" "burned = (d, 0)"
      using assms(5) True by (auto simp: settle_fees_def L(1))
    have cs: "amount_of cs e = (if e = d then needed - collected else 0)"
      using run(1) True by (intro L(3)) simp_all
    show ?thesis
      using L(6) [OF run(2), of a e] L(7) [OF run(3), of a e] True assms(3,4) run(4,5) cs
      by (auto simp: moved_def)
  next
    case False
    then have "me_Coin_Sub x (d, collected) (d, needed) = Inr (d, collected - needed)"
      by (intro L(2)) simp
    then obtain cs where run: "me_NewCoins x (d, collected - needed) = Inr cs"
      "BurnCoins k fc cs s = Inr s'" "burned = (d, collected - needed)" "minted = (d, 0)"
      using assms(5) False by (auto simp: settle_fees_def L(1))
    have cs: "amount_of cs e = (if e = d then collected - needed else 0)"
      using run(1) False by (intro L(3)) simp_all
    show ?thesis
      using bank_laws_Burn [OF assms(2) run(2), of a e] False assms(4) run(3,4) cs by auto
  qed
qed

lemma StakedInflationMintFn_InrD:
  assumes "StakedInflationMintFn x k fc s = Inr (ev, s')" and "me_Params_Get x s = Inr p"
    and "mint_laws x k fc ma"
  obtains minter0 ratio infl bonded annual s1 needed minted burned
  where "me_Minter_Get x s = Inr minter0" and "me_BondedRatio x s = Inr ratio"
    and "me_inflation x s minter0 p ratio = Inr infl" and "me_TotalBondedTokens x s = Inr bonded"
    and "me_NextAnnualProvisions x (minter0\<lparr>Inflation := infl\<rparr>) p bonded = Inr annual"
    and "me_Minter_Set x (minter0\<lparr>Inflation := infl, AnnualProvisions := annual\<rparr>) s = Inr s1"
    and "me_BlockProvision x (minter0\<lparr>Inflation := infl, AnnualProvisions := annual\<rparr>) p = Inr (me_MintDenom x p, needed)"
    and "settle_fees x k fc (me_MintDenom x p, GetBalance k s (GetModuleAddress k fc) (me_MintDenom x p))
           (me_MintDenom x p, needed) (me_MintDenom x p, 0) (me_MintDenom x p, 0) s1 = Inr (minted, burned, s')"
    and "ev = \<lparr>ev_bonded_ratio = ratio, ev_inflation = infl, ev_annual_provisions = annual, ev_needed_amount = needed,
           ev_minted_amount = snd minted,
           ev_collected_amount = GetBalance k s (GetModuleAddress k fc) (me_MintDenom x p),
           ev_burned_amount = snd burned\<rparr>"
  using assms(1,2) that
  by (clarsimp simp: StakedInflationMintFn_def Let_def)
    (use mint_lawsD(4,8) [OF assms(3)] in blast)

section \<open>A concrete keeper\<close>

definition demo_mint :: "(ref_bank, string) mint_ext" where
  "demo_mint =
     \<lparr> me_Minter_Get = (\<lambda>s. Inr \<lparr> Inflation = 0, AnnualProvisions = 0 \<rparr>), me_Params_Get = (\<lambda>s. Inr ''uxion''),
       me_MintDenom = (\<lambda>p. p), me_BondedRatio = (\<lambda>s. Inr 0), me_inflation = (\<lambda>s m p r. Inr 7),
       me_TotalBondedTokens = (\<lambda>s. Inr 100), me_NextAnnualProvisions = (\<lambda>m p t. Inr (Inflation m * t)),
       me_BlockProvision = (\<lambda>m p. Inr (p, AnnualProvisions m div 10)), me_Minter_Set = (\<lambda>m s. Inr s),
       me_MintCoins = (\<lambda>cs s. Inr (\<lambda>a d. s a d + (if a = ''mint'' then amount_of cs d else 0))),
       me_AddCollectedFees = (\<lambda>cs s. Inr (\<lambda>a d. s a d + moved ''mint'' ''fee_collector'' cs a d)),
       me_Coin_IsLT = (\<lambda>a b. Inr (snd a < snd b)),
       me_Coin_Sub = (\<lambda>a b. panic_unless (snd b \<le> snd a) (fst a, snd a - snd b)),
       me_NewCoin = (\<lambda>d a. panic_unless (0 \<le> a) (d, a)),
       me_NewCoins = (\<lambda>c. Inr (if snd c = 0 then [] else [c])) \<rparr>"

lemma demo_mint_laws: "mint_laws demo_mint ref_bank ''fee_collector'' ''mint''"
  by (simp add: mint_laws_def demo_mint_def panic_unless_def ref_bank_def moved_def)

definition demo_dec :: dec_ext where
  "demo_dec =
     \<lparr> Dec_Quo = (\<lambda>a b. panic_unless (b \<noteq> 0) (go_quo (a * 10 ^ 18) b)),
       Dec_Mul = (\<lambda>a b. Inr (go_quo (a * b) (10 ^ 18))), Dec_Add = (\<lambda>a b. Inr (a + b)),
       Dec_Sub = (\<lambda>a b. Inr (a - b)), Dec_MulInt = (\<lambda>a b. Inr (a * b)),
       Dec_QuoInt = (\<lambda>a b. panic_unless (b \<noteq> 0) (go_quo a b)),
       Dec_TruncateInt = (\<lambda>a. go_quo a (10 ^ 18)), Int_ToLegacyDec = (\<lambda>a. a * 10 ^ 18) \<rparr>"

section \<open>Properties\<close>

text \<open>C15: After every successful run of the block's mint function the fee collector holds exactly the
  block provision, in the mint denomination, of the minter the run stores: the stored minter with
  the inflation computed from the bonded ratio and the annual provisions computed with that
  inflation from the bonded tokens.  A shortfall is minted, an excess is burned, never both; no
  other balance changes, and the event reports exactly these numbers.\<close>

theorem mint_tops_up_exactly:
  assumes "mint_laws x k fc ma" and "bank_laws k" and "ma \<noteq> GetModuleAddress k fc"
    and "me_Params_Get x s = Inr p" and "StakedInflationMintFn x k fc s = Inr (ev, s')"
    and "collected = GetBalance k s (GetModuleAddress k fc) (me_MintDenom x p)"
  shows "\<exists>minter0 ratio infl bonded annual minter s1 needed.
    me_Minter_Get x s = Inr minter0 \<and> me_BondedRatio x s = Inr ratio
    \<and> me_inflation x s minter0 p ratio = Inr infl \<and> me_TotalBondedTokens x s = Inr bonded
    \<and> me_NextAnnualProvisions x (minter0\<lparr>Inflation := infl\<rparr>) p bonded = Inr annual
    \<and> minter = minter0\<lparr>Inflation := infl, AnnualProvisions := annual\<rparr>
    \<and> me_Minter_Set x minter s = Inr s1
    \<and> me_BlockProvision x minter p = Inr (me_MintDenom x p, needed)
    \<and> (\<forall>a d. GetBalance k s' a d =
         (if a = GetModuleAddress k fc \<and> d = me_MintDenom x p then needed else GetBalance k s a d))
    \<and> ev = \<lparr>ev_bonded_ratio = ratio, ev_inflation = infl, ev_annual_provisions = annual,
         ev_needed_amount = needed, ev_minted_amount = max 0 (needed - collected),
         ev_collected_amount = collected, ev_burned_amount = max 0 (collected - needed)\<rparr>"
  using assms(5,4,1)
proof (cases rule: StakedInflationMintFn_InrD)
  case (1 minter0 ratio infl bonded annual s1 needed minted burned)
  have same: "GetBalance k s1 a d = GetBalance k s a d" for a d
    using 1(6) by (rule mint_lawsD(5) [OF assms(1)])
  note exact = settle_fees_exact [OF assms(1-3) same [symmetric] 1(8)]
  have "minted = (me_MintDenom x p, max 0 (needed - collected))" "burned = (me_MintDenom x p, max 0 (collected - needed))"
    using exact assms(6) by simp_all
  moreover have "\<forall>a d. GetBalance k s' a d =
      (if a = GetModuleAddress k fc \<and> d = me_MintDenom x p then needed else GetBalance k s a d)"
    using exact same by simp
  ultimately show ?thesis
    using 1(1-7,9) assms(6) by auto
qed

theorem mint_tops_up_exactly_witness:
  "\<exists>ev s'. StakedInflationMintFn demo_mint ref_bank ''fee_collector'' (\<lambda>a d. 30) = Inr (ev, s')
     \<and> GetBalance ref_bank s' ''fee_collector'' ''uxion'' = 70 \<and> GetBalance ref_bank s' ''mint'' ''uxion'' = 30
     \<and> ev_minted_amount ev = 40 \<and> ev_burned_amount ev = 0"
proof -
  obtain ev s' where run: "StakedInflationMintFn demo_mint ref_bank ''fee_collector'' (\<lambda>a d. 30) = Inr (ev, s')"
    by (simp add: StakedInflationMintFn_def settle_fees_def demo_mint_def ref_bank_def panic_unless_def)
  have p: "me_Params_Get demo_mint (\<lambda>a d. 30) = Inr ''uxion''"
    by (simp add: demo_mint_def)
  have ma: "''mint'' \<noteq> GetModuleAddress ref_bank ''fee_collector''"
    by (simp add: ref_bank_def)
  show ?thesis
    using mint_tops_up_exactly [OF demo_mint_laws ref_bank_laws ma p run refl] run
    by (auto simp: demo_mint_def ref_bank_def)
qed

text \<open>With validated parameters the next inflation rate lies between the configured minimum and
  maximum, and so between 0 and 100%, for every bonded ratio and previous inflation, whatever the
  rounding of the decimal arithmetic.\<close>

theorem NextInflationRate_bounded:
  assumes "mint_Validate ValidateDenom params = Inr ()"
    and "NextInflationRate x m params bondedRatio = Inr i"
  shows "\<exists>mn mx. InflationMin params = Some mn \<and> InflationMax params = Some mx
    \<and> mn \<le> i \<and> i \<le> mx \<and> 0 \<le> i \<and> i \<le> OneDec"
  using assms(1)
proof (cases rule: mint_Validate_bounds)
  case (1 change mx mn goal)
  then show ?thesis
    using assms(2) by (auto simp: NextInflationRate_def Let_def dec_val_def)
qed

theorem NextInflationRate_bounded_witness:
  "\<exists>i. NextInflationRate demo_dec DefaultInitialMinter (mint_DefaultParams ''uxion'') 0 = Inr i
     \<and> 0 \<le> i \<and> i \<le> OneDec"
proof -
  have denom: "TrimSpace ''uxion'' = ''uxion''"
    by (rule TrimSpace_trimmed) (simp_all add: space_simps)
  have "mint_Validate (\<lambda>d. Inr ()) (mint_DefaultParams ''uxion'') = Inr ()"
    using denom
    by (simp add: mint_Validate_def mint_DefaultParams_def validateMintDenom_def
        validateInflationRateChange_def validateInflationMax_def validateInflationMin_def
        validateGoalBonded_def validateBlocksPerYear_def NewDecWithPrec_def OneDec_def dec_val_def)
  moreover obtain i where
    i: "NextInflationRate demo_dec DefaultInitialMinter (mint_DefaultParams ''uxion'') 0 = Inr i"
    by (simp add: NextInflationRate_def mint_DefaultParams_def dec_val_def demo_dec_def panic_unless_def
        NewDecWithPrec_def Let_def)
  ultimately show ?thesis
    using NextInflationRate_bounded [OF _ i] by blast
qed

end
