(* ===== verification/Feegrant.thy ===== *)
theory Feegrant
  imports Sdk Xion_Platform
begin

text \<open>
  The fee allowances of \<open>x/xion/types/feegrant.go\<close>: \<open>AuthzAllowance\<close>, \<open>ContractsAllowance\<close> and
  \<open>MultiAnyAllowance\<close>, which wrap other allowances.  The allowances of the SDK's feegrant module are
  values of a type of their own (\<open>Foreign\<close>); their methods, the packing of a value into an \<open>Any\<close>, the
  address codec and the gas meter are fields of \<open>feegrant_ext\<close>.  A method that uses the context
  returns the meter beside its result, also when it fails, since a failed attempt of a
  \<open>MultiAnyAllowance\<close> still costs gas.  What is followed is the stored value: a wrapped allowance
  changes only where \<open>SetAllowance\<close> packs it again.
\<close>

section \<open>Values\<close>

text \<open>An \<open>*Any\<close>: nil, one whose cached value is no fee allowance, or one that holds an allowance.\<close>

datatype 'a any_field = NilAny | AnyOther | AnyOf 'a

datatype 'f allowance =
    Foreign 'f
  | AuthzAllowance "'f allowance any_field" string
  | ContractsAllowance "'f allowance any_field" "string list"
  | MultiAnyAllowance "'f allowance any_field list"

text \<open>
  Messages: \<open>authz.MsgExec\<close> with its grantee and what \<open>GetMessages\<close> unpacks (None where it fails),
  \<open>wasm.MsgExecuteContract\<close> with its contract, and every other type.
\<close>

datatype 'm sdk_msg =
    MsgExec string "'m sdk_msg list option"
  | MsgExecuteContract string
  | OtherMsg 'm

text \<open>A \<open>time.Time\<close> by its instant; a nil \<open>*time.Time\<close> is None.\<close>

type_synonym expiry = "int option"

record ('f, 'm, 'g) feegrant_ext =
  f_Accept :: "'f \<Rightarrow> coins \<Rightarrow> 'm sdk_msg list \<Rightarrow> 'g \<Rightarrow> 'g \<times> (bool \<times> 'f) result"
  f_ValidateBasic :: "'f \<Rightarrow> unit result"
  f_ExpiresAt :: "'f \<Rightarrow> expiry result"
  f_ConsumeGas :: "'g \<Rightarrow> u64 \<Rightarrow> 'g result"
  f_ProtoMessage :: "'f allowance \<Rightarrow> bool"
  f_NewAnyWithValue :: "'f allowance \<Rightarrow> 'f allowance any_field result"
  f_UnpackAny :: "'f allowance any_field \<Rightarrow> 'f allowance any_field result"
  f_AccAddressFromBech32 :: "string \<Rightarrow> address result"

definition gasCostPerIteration :: u64 where
  "gasCostPerIteration = 10"

definition maxMultiAnyAllowanceDepth :: nat where
  "maxMultiAnyAllowanceDepth = 5"

section \<open>Computations that use the gas meter\<close>

definition bindm :: "'g \<times> 'a result \<Rightarrow> ('a \<Rightarrow> 'g \<Rightarrow> 'g \<times> 'b result) \<Rightarrow> 'g \<times> 'b result" where
  "bindm p f = (case snd p of Inl e \<Rightarrow> (fst p, Inl e) | Inr x \<Rightarrow> f x (fst p))"

lemma bindm_cong [fundef_cong]:
  "p = q \<Longrightarrow> (\<And>x g. q = (g, Inr x) \<Longrightarrow> f x g = f' x g) \<Longrightarrow> bindm p f = bindm q f'"
  by (cases q) (auto simp: bindm_def split: sum.split)

lemma bindm_Inr_iff [res_simps]:
  "bindm p f = (g', Inr y) \<longleftrightarrow> (\<exists>x g. p = (g, Inr x) \<and> f x g = (g', Inr y))"
  by (cases p) (auto simp: bindm_def split: sum.split)

lemma bindm_simps [simp]: "bindm (g, Inl e) f = (g, Inl e)" "bindm (g, Inr x) f = f x g"
  by (simp_all add: bindm_def)

lemma bindr_cong [fundef_cong]:
  "r = r' \<Longrightarrow> (\<And>x. r' = Inr x \<Longrightarrow> f x = f' x) \<Longrightarrow> bindr r f = bindr r' f'"
  by (cases r') auto

definition charge :: "('f, 'm, 'g) feegrant_ext \<Rightarrow> 'g \<Rightarrow> 'g \<times> unit result" where
  "charge X g = (case f_ConsumeGas X g gasCostPerIteration of Inl e \<Rightarrow> (g, Inl e) | Inr g' \<Rightarrow> (g', Inr ()))"

section \<open>Packing\<close>

fun GetAllowance :: "'f allowance any_field \<Rightarrow> 'f allowance result" where
  "GetAllowance NilAny = Inl (GoPanic ''nil pointer dereference'')"
| "GetAllowance AnyOther = Inl (SdkErr ''ErrNoAllowance'')"
| "GetAllowance (AnyOf a) = Inr a"

definition SetAllowance :: "('f, 'm, 'g) feegrant_ext \<Rightarrow> 'f allowance \<Rightarrow> 'f allowance any_field result" where
  "SetAllowance X a =
     bindr (ensure (f_ProtoMessage X a) (GoPanic ''interface conversion'')) (\<lambda>_.
     wrap_as (SdkErr ''ErrPackAny'') (f_NewAnyWithValue X a))"

definition pack_new :: "('f, 'm, 'g) feegrant_ext \<Rightarrow> 'f allowance \<Rightarrow> 'f allowance any_field result" where
  "pack_new X a =
     bindr (ensure (f_ProtoMessage X a) (SdkErr ''ErrPackAny'')) (\<lambda>_. f_NewAnyWithValue X a)"

definition NewAuthzAllowance ::
  "('f, 'm, 'g) feegrant_ext \<Rightarrow> 'f allowance \<Rightarrow> string \<Rightarrow> 'f allowance result" where
  "NewAuthzAllowance X a grantee = bindr (pack_new X a) (\<lambda>al. Inr (AuthzAllowance al grantee))"

definition NewContractsAllowance ::
  "('f, 'm, 'g) feegrant_ext \<Rightarrow> 'f allowance \<Rightarrow> string list \<Rightarrow> 'f allowance result" where
  "NewContractsAllowance X a addrs = bindr (pack_new X a) (\<lambda>al. Inr (ContractsAllowance al addrs))"

definition NewMultiAnyAllowance ::
  "('f, 'm, 'g) feegrant_ext \<Rightarrow> 'f allowance list \<Rightarrow> 'f allowance result" where
  "NewMultiAnyAllowance X as = bindr (map_each (pack_new X) as) (\<lambda>als. Inr (MultiAnyAllowance als))"

fun UnpackInterfaces :: "('f, 'm, 'g) feegrant_ext \<Rightarrow> 'f allowance \<Rightarrow> 'f allowance result" where
  "UnpackInterfaces X (Foreign f) = Inr (Foreign f)"
| "UnpackInterfaces X (AuthzAllowance al grantee) =
     bindr (f_UnpackAny X al) (\<lambda>al'. Inr (AuthzAllowance al' grantee))"
| "UnpackInterfaces X (ContractsAllowance al addrs) =
     bindr (f_UnpackAny X al) (\<lambda>al'. Inr (ContractsAllowance al' addrs))"
| "UnpackInterfaces X (MultiAnyAllowance als) =
     bindr (map_each (f_UnpackAny X) als) (\<lambda>als'. Inr (MultiAnyAllowance als'))"

section \<open>Accept\<close>

text \<open>The submessages of messages that all are authz executions by the grantee, else None.\<close>

fun allMsgTypesAuthz ::
  "('f, 'm, 'g) feegrant_ext \<Rightarrow> string \<Rightarrow> 'm sdk_msg list \<Rightarrow> 'm sdk_msg list \<Rightarrow> 'g
     \<Rightarrow> 'g \<times> 'm sdk_msg list option result" where
  "allMsgTypesAuthz X grantee [] subMsgs g = (g, Inr (Some subMsgs))"
| "allMsgTypesAuthz X grantee (m # ms) subMsgs g =
     bindm (charge X g) (\<lambda>_ g.
     case m of
       MsgExec g1 (Some msgMsgs) \<Rightarrow>
         if g1 \<noteq> grantee then (g, Inr None)
         else allMsgTypesAuthz X grantee ms (subMsgs @ msgMsgs) g
     | _ \<Rightarrow> (g, Inr None))"

fun allowedContractsToMap ::
  "('f, 'm, 'g) feegrant_ext \<Rightarrow> string list \<Rightarrow> string set \<Rightarrow> 'g \<Rightarrow> 'g \<times> string set result" where
  "allowedContractsToMap X [] addrsMap g = (g, Inr addrsMap)"
| "allowedContractsToMap X (addr # addrs) addrsMap g =
     bindm (charge X g) (\<lambda>_ g. allowedContractsToMap X addrs (insert addr addrsMap) g)"

fun all_wasm_execs ::
  "('f, 'm, 'g) feegrant_ext \<Rightarrow> string set \<Rightarrow> 'm sdk_msg list \<Rightarrow> 'g \<Rightarrow> 'g \<times> bool result" where
  "all_wasm_execs X addrsMap [] g = (g, Inr True)"
| "all_wasm_execs X addrsMap (m # ms) g =
     bindm (charge X g) (\<lambda>_ g.
     case m of
       MsgExecuteContract c \<Rightarrow> if c \<notin> addrsMap then (g, Inr False) else all_wasm_execs X addrsMap ms g
     | _ \<Rightarrow> (g, Inr False))"

definition allMsgsValidWasmExecs ::
  "('f, 'm, 'g) feegrant_ext \<Rightarrow> string list \<Rightarrow> 'm sdk_msg list \<Rightarrow> 'g \<Rightarrow> 'g \<times> bool result" where
  "allMsgsValidWasmExecs X addrs ms g =
     bindm (allowedContractsToMap X addrs {} g) (\<lambda>addrsMap g. all_wasm_execs X addrsMap ms g)"

lemma GetAllowance_Inr_iff [simp]: "GetAllowance al = Inr a \<longleftrightarrow> al = AnyOf a"
  by (cases al) auto

text \<open>
  \<open>accept_any\<close> is the loop of \<open>MultiAnyAllowance.Accept\<close> over the allowances from one index on: None
  when every one of them errs, else the allowances that remain.  A panic is not an error value, so
  it ends the loop.
\<close>

function (sequential) Accept ::
    "('f, 'm, 'g) feegrant_ext \<Rightarrow> 'f allowance \<Rightarrow> coins \<Rightarrow> 'm sdk_msg list \<Rightarrow> 'g
       \<Rightarrow> 'g \<times> (bool \<times> 'f allowance) result"
  and accept_any ::
    "('f, 'm, 'g) feegrant_ext \<Rightarrow> 'f allowance any_field list \<Rightarrow> coins \<Rightarrow> 'm sdk_msg list \<Rightarrow> 'g
       \<Rightarrow> 'g \<times> 'f allowance any_field list option result" where
  "Accept X (Foreign f) fee msgs g =
     bindm (f_Accept X f fee msgs g) (\<lambda>(remove, f') g. (g, Inr (remove, Foreign f')))"
| "Accept X (AuthzAllowance al grantee) fee msgs g =
     bindm (allMsgTypesAuthz X grantee msgs [] g) (\<lambda>ok g.
     case ok of
       None \<Rightarrow> (g, Inl (SdkErr ''ErrMessageNotAllowed''))
     | Some subMsgs \<Rightarrow>
         bindm (g, GetAllowance al) (\<lambda>a g.
         bindm (Accept X a fee subMsgs g) (\<lambda>(remove, a') g.
         if remove then (g, Inr (True, AuthzAllowance al grantee))
         else bindm (g, SetAllowance X a') (\<lambda>al' g. (g, Inr (False, AuthzAllowance al' grantee))))))"
| "Accept X (ContractsAllowance al addrs) fee msgs g =
     bindm (allMsgsValidWasmExecs X addrs msgs g) (\<lambda>ok g.
     if \<not> ok then (g, Inl (SdkErr ''ErrMessageNotAllowed''))
     else
       bindm (g, GetAllowance al) (\<lambda>a g.
       bindm (Accept X a fee msgs g) (\<lambda>(remove, a') g.
       if remove then (g, Inr (True, ContractsAllowance al addrs))
       else bindm (g, SetAllowance X a') (\<lambda>al' g. (g, Inr (False, ContractsAllowance al' addrs))))))"
| "Accept X (MultiAnyAllowance als) fee msgs g =
     bindm (accept_any X als fee msgs g) (\<lambda>accepted g.
     case accepted of
       None \<Rightarrow> (g, Inl ErrNoValidAllowances)
     | Some als' \<Rightarrow> (g, Inr (length als' = 0, MultiAnyAllowance als')))"
| "accept_any X [] fee msgs g = (g, Inr None)"
| "accept_any X (al # als) fee msgs g =
     bindm (g, GetAllowance al) (\<lambda>a g.
     bindm (charge X g) (\<lambda>_ g.
     case Accept X a fee msgs g of
       (g, Inl e) \<Rightarrow>
         if is_panic (Inl e :: unit result) then (g, Inl e)
         else bindm (accept_any X als fee msgs g) (\<lambda>rest g. (g, Inr (map_option ((#) al) rest)))
     | (g, Inr (remove, a')) \<Rightarrow>
         if \<not> remove then bindm (g, SetAllowance X a') (\<lambda>al' g. (g, Inr (Some (al' # als))))
         else (g, Inr (Some als))))"
  by pat_completeness auto
termination
  by (relation "measure (case_sum (\<lambda>(_, a, _). size a) (\<lambda>(_, als, _). size_list (size_any_field size) als))")
    auto

section \<open>Expiry and validation\<close>

fun EqTime :: "expiry \<Rightarrow> expiry \<Rightarrow> bool" where
  "EqTime (Some a) (Some b) \<longleftrightarrow> a = b"
| "EqTime None None \<longleftrightarrow> True"
| "EqTime _ _ \<longleftrightarrow> False"

text \<open>The loop of \<open>MultiAnyAllowance.ExpiresAt\<close> carries \<open>expiration\<close> once it is \<open>set\<close>.\<close>

function (sequential) ExpiresAt :: "('f, 'm, 'g) feegrant_ext \<Rightarrow> 'f allowance \<Rightarrow> expiry result"
  and expires_any ::
    "('f, 'm, 'g) feegrant_ext \<Rightarrow> 'f allowance any_field list \<Rightarrow> expiry option \<Rightarrow> expiry result" where
  "ExpiresAt X (Foreign f) = f_ExpiresAt X f"
| "ExpiresAt X (AuthzAllowance al grantee) = bindr (GetAllowance al) (\<lambda>a. ExpiresAt X a)"
| "ExpiresAt X (ContractsAllowance al addrs) = bindr (GetAllowance al) (\<lambda>a. ExpiresAt X a)"
| "ExpiresAt X (MultiAnyAllowance als) = expires_any X als None"
| "expires_any X [] expiration = Inr (case expiration of None \<Rightarrow> None | Some e \<Rightarrow> e)"
| "expires_any X (al # als) expiration =
     bindr (GetAllowance al) (\<lambda>a.
     bindr (ExpiresAt X a) (\<lambda>newExpiration.
     case expiration of
       Some e \<Rightarrow>
         bindr (ensure (EqTime e newExpiration) ErrInconsistentExpiry) (\<lambda>_. expires_any X als expiration)
     | None \<Rightarrow> expires_any X als (Some newExpiration)))"
  by pat_completeness auto
termination
  by (relation "measure (case_sum (\<lambda>(_, a). size a) (\<lambda>(_, als, _). size_list (size_any_field size) als))")
    auto

text \<open>The \<open>a.Allowance == nil\<close> check of the two wrappers.\<close>

definition not_nil :: "'a any_field \<Rightarrow> bool" where
  "not_nil al \<longleftrightarrow> (case al of NilAny \<Rightarrow> False | _ \<Rightarrow> True)"

function (sequential) ValidateBasic_allowance :: "('f, 'm, 'g) feegrant_ext \<Rightarrow> 'f allowance \<Rightarrow> unit result"
  and validateBasicDepth ::
    "('f, 'm, 'g) feegrant_ext \<Rightarrow> 'f allowance any_field list \<Rightarrow> nat \<Rightarrow> unit result"
  and validate_any ::
    "('f, 'm, 'g) feegrant_ext \<Rightarrow> 'f allowance any_field list \<Rightarrow> nat \<Rightarrow> unit result" where
  "ValidateBasic_allowance X (Foreign f) = f_ValidateBasic X f"
| "ValidateBasic_allowance X (AuthzAllowance al grantee) =
     bindr (ensure (not_nil al) (SdkErr ''ErrNoAllowance'')) (\<lambda>_.
     bindr (f_AccAddressFromBech32 X grantee) (\<lambda>_.
     bindr (GetAllowance al) (\<lambda>a. ValidateBasic_allowance X a)))"
| "ValidateBasic_allowance X (ContractsAllowance al addrs) =
     bindr (ensure (not_nil al) (SdkErr ''ErrNoAllowance'')) (\<lambda>_.
     bindr (ensure (\<not> length addrs < 1) ErrNoAllowedContracts) (\<lambda>_.
     bindr (for_each addrs (\<lambda>addr. bindr (f_AccAddressFromBech32 X addr) (\<lambda>_. Inr ()))) (\<lambda>_.
     bindr (GetAllowance al) (\<lambda>a. ValidateBasic_allowance X a))))"
| "ValidateBasic_allowance X (MultiAnyAllowance als) = validateBasicDepth X als 0"
| "validateBasicDepth X als depth =
     bindr (ensure (\<not> depth > maxMultiAnyAllowanceDepth) (SdkErr ''ErrInvalidRequest'')) (\<lambda>_.
     bindr (ensure (length als \<noteq> 0) (SdkErr ''ErrNoAllowance'')) (\<lambda>_.
     bindr (validate_any X als depth) (\<lambda>_.
     bindr (ExpiresAt X (MultiAnyAllowance als)) (\<lambda>_. Inr ()))))"
| "validate_any X [] depth = Inr ()"
| "validate_any X (al # als) depth =
     bindr (GetAllowance al) (\<lambda>a.
     bindr (case a of
         MultiAnyAllowance nested \<Rightarrow> validateBasicDepth X nested (depth + 1)
       | _ \<Rightarrow> ValidateBasic_allowance X a) (\<lambda>_.
     validate_any X als depth))"
  by pat_completeness auto
termination
  by (relation "measures
      [case_sum (\<lambda>(_, a). size a)
        (case_sum (\<lambda>(_, als, _). size_list (size_any_field size) als)
          (\<lambda>(_, als, _). size_list (size_any_field size) als)),
       case_sum (\<lambda>_. 0) (case_sum (\<lambda>_. 1) (\<lambda>_. 0))]")
    auto

declare validateBasicDepth.simps [simp del]

section \<open>Facts about expiry and validation\<close>

lemma EqTime_iff [simp]: "EqTime a b \<longleftrightarrow> a = b"
  by (cases a; cases b) auto

lemma expires_any_Some_iff:
  "expires_any X als (Some e) = Inr e' \<longleftrightarrow>
     e' = e \<and> (\<forall>al \<in> set als. \<exists>a. al = AnyOf a \<and> ExpiresAt X a = Inr e)"
  by (induction als) auto

lemma ExpiresAt_MultiAny_iff:
  "als \<noteq> [] \<Longrightarrow>
   ExpiresAt X (MultiAnyAllowance als) = Inr e \<longleftrightarrow> (\<forall>al \<in> set als. \<exists>a. al = AnyOf a \<and> ExpiresAt X a = Inr e)"
  by (cases als) (auto simp: expires_any_Some_iff)

text \<open>Validation of an allowance that stands at a nesting depth.\<close>

definition valid_at :: "('f, 'm, 'g) feegrant_ext \<Rightarrow> nat \<Rightarrow> 'f allowance \<Rightarrow> bool" where
  "valid_at X d a \<longleftrightarrow>
     (case a of MultiAnyAllowance nested \<Rightarrow> validateBasicDepth X nested d
      | _ \<Rightarrow> ValidateBasic_allowance X a) = Inr ()"

lemma ValidateBasic_iff: "ValidateBasic_allowance X a = Inr () \<longleftrightarrow> valid_at X 0 a"
  by (cases a) (simp_all add: valid_at_def)

lemma not_nil_simps [simp]: "not_nil NilAny = False" "not_nil AnyOther" "not_nil (AnyOf a)"
  by (simp_all add: not_nil_def)

lemma valid_at_simps [simp]:
  "valid_at X d (Foreign f) \<longleftrightarrow> f_ValidateBasic X f = Inr ()"
  "valid_at X d (AuthzAllowance al grantee) \<longleftrightarrow>
     (\<exists>a y. al = AnyOf a \<and> f_AccAddressFromBech32 X grantee = Inr y \<and> valid_at X 0 a)"
  "valid_at X d (ContractsAllowance al addrs) \<longleftrightarrow>
     (\<exists>a. al = AnyOf a \<and> addrs \<noteq> [] \<and> (\<forall>x \<in> set addrs. \<exists>y. f_AccAddressFromBech32 X x = Inr y)
        \<and> valid_at X 0 a)"
  unfolding ValidateBasic_iff [symmetric] by (cases al; auto simp: valid_at_def Suc_le_eq)+

lemma validate_any_iff:
  "validate_any X als d = Inr () \<longleftrightarrow> (\<forall>al \<in> set als. \<exists>a. al = AnyOf a \<and> valid_at X (d + 1) a)"
proof (induction als)
  case (Cons al als)
  then show ?case
    by (cases al) (simp_all add: valid_at_def cong: allowance.case_cong)
qed simp

lemma valid_at_MultiAny [simp]:
  "valid_at X d (MultiAnyAllowance als) \<longleftrightarrow>
     d \<le> maxMultiAnyAllowanceDepth \<and> als \<noteq> []
     \<and> (\<exists>e. \<forall>al \<in> set als. \<exists>a. al = AnyOf a \<and> valid_at X (d + 1) a \<and> ExpiresAt X a = Inr e)"
proof (cases "als = []")
  case False
  have "valid_at X d (MultiAnyAllowance als) \<longleftrightarrow>
      d \<le> maxMultiAnyAllowanceDepth \<and> validate_any X als d = Inr ()
      \<and> (\<exists>e. ExpiresAt X (MultiAnyAllowance als) = Inr e)"
    using False by (simp add: valid_at_def validateBasicDepth.simps not_less del: ExpiresAt.simps)
  also have "\<dots> \<longleftrightarrow> d \<le> maxMultiAnyAllowanceDepth
      \<and> (\<forall>al \<in> set als. \<exists>a. al = AnyOf a \<and> valid_at X (d + 1) a)
      \<and> (\<exists>e. \<forall>al \<in> set als. \<exists>a. al = AnyOf a \<and> ExpiresAt X a = Inr e)"
    by (simp only: validate_any_iff ExpiresAt_MultiAny_iff [OF False])
  finally show ?thesis
    using False by (metis any_field.inject)
qed (simp add: valid_at_def validateBasicDepth.simps)

end
