(* ===== verification/Feegrant_Props.thy ===== *)
theory Feegrant_Props
  imports Feegrant
begin

text \<open>
  Properties of the fee allowances: which messages the wrappers let through, which of its
  allowances a \<open>MultiAnyAllowance\<close> charges, how deep a validated allowance nests, and that the uses
  of a granted allowance leave it consistent.
\<close>

section \<open>The loops\<close>

lemma charge_Inr_iff: "charge X g = (g', Inr u) \<longleftrightarrow> f_ConsumeGas X g gasCostPerIteration = Inr g'"
  by (auto simp: charge_def split: sum.split)

lemma allMsgTypesAuthz_Some:
  "allMsgTypesAuthz X grantee ms sub g = (g', Inr (Some sub')) \<Longrightarrow>
     \<exists>subs. list_all2 (\<lambda>m s. m = MsgExec grantee (Some s)) ms subs \<and> sub' = sub @ concat subs"
proof (induction ms arbitrary: sub g)
  case (Cons m ms)
  from Cons.prems obtain s g1 where m: "m = MsgExec grantee (Some s)"
    and rest: "allMsgTypesAuthz X grantee ms (sub @ s) g1 = (g', Inr (Some sub'))"
    by (cases m) (auto simp: bindm_Inr_iff split: option.splits if_splits)
  then obtain subs where "list_all2 (\<lambda>m s. m = MsgExec grantee (Some s)) ms subs"
    "sub' = (sub @ s) @ concat subs"
    using Cons.IH by blast
  then show ?case
    using m by (intro exI [of _ "s # subs"]) simp
qed simp

lemma allowedContractsToMap_set:
  "allowedContractsToMap X addrs acc g = (g', Inr s) \<Longrightarrow> s = acc \<union> set addrs"
  by (induction addrs arbitrary: acc g) (auto simp: bindm_Inr_iff)

lemma all_wasm_execs_True:
  "all_wasm_execs X s ms g = (g', Inr True) \<Longrightarrow> \<forall>m \<in> set ms. \<exists>c \<in> s. m = MsgExecuteContract c"
proof (induction ms arbitrary: g)
  case (Cons m ms)
  then show ?case
    by (cases m) (auto simp: bindm_Inr_iff split: if_splits)
qed simp

lemma allMsgsValidWasmExecs_True:
  "allMsgsValidWasmExecs X addrs ms g = (g', Inr True) \<Longrightarrow>
     \<forall>m \<in> set ms. \<exists>c \<in> set addrs. m = MsgExecuteContract c"
  by (auto simp: allMsgsValidWasmExecs_def bindm_Inr_iff
      dest!: allowedContractsToMap_set all_wasm_execs_True)

text \<open>A run of allowances that all err, the meter going from one value to another.\<close>

fun all_err ::
  "('f, 'm, 'g) feegrant_ext \<Rightarrow> 'f allowance any_field list \<Rightarrow> coins \<Rightarrow> 'm sdk_msg list \<Rightarrow> 'g \<Rightarrow> 'g \<Rightarrow> bool" where
  "all_err X [] fee msgs g g' \<longleftrightarrow> g' = g"
| "all_err X (al # als) fee msgs g g' \<longleftrightarrow>
     (\<exists>a g1 g2 e. al = AnyOf a \<and> charge X g = (g1, Inr ()) \<and> Accept X a fee msgs g1 = (g2, Inl e)
        \<and> \<not> is_panic (Inl e :: unit result) \<and> all_err X als fee msgs g2 g')"

text \<open>What the accepting allowance at its place in the list leaves there.\<close>

definition charged ::
  "('f, 'm, 'g) feegrant_ext \<Rightarrow> 'f allowance \<Rightarrow> coins \<Rightarrow> 'm sdk_msg list \<Rightarrow> 'g \<Rightarrow> 'g
     \<Rightarrow> 'f allowance any_field list \<Rightarrow> bool" where
  "charged X a fee msgs g g' left \<longleftrightarrow>
     (\<exists>g1 remove b. charge X g = (g1, Inr ()) \<and> Accept X a fee msgs g1 = (g', Inr (remove, b))
        \<and> (if remove then left = [] else \<exists>al. SetAllowance X b = Inr al \<and> left = [al]))"

text \<open>One round of the loop, by what the meter and the allowance answer.\<close>

lemma accept_any_step:
  "charge X g = (g1, Inr ()) \<Longrightarrow> Accept X a fee msgs g1 = (g2, Inl e) \<Longrightarrow>
     accept_any X (AnyOf a # als) fee msgs g =
       (if is_panic (Inl e :: unit result) then (g2, Inl e)
        else bindm (accept_any X als fee msgs g2) (\<lambda>rest g. (g, Inr (map_option ((#) (AnyOf a)) rest))))"
  "charge X g = (g1, Inr ()) \<Longrightarrow> Accept X a fee msgs g1 = (g2, Inr (remove, b)) \<Longrightarrow>
     accept_any X (AnyOf a # als) fee msgs g =
       (if \<not> remove then bindm (g2, SetAllowance X b) (\<lambda>al g. (g, Inr (Some (al # als))))
        else (g2, Inr (Some als)))"
  "charge X g = (g1, Inl e) \<Longrightarrow> accept_any X (AnyOf a # als) fee msgs g = (g1, Inl e)"
  by simp_all

lemma meter_cases:
  obtains g1 e where "charge X g = (g1, Inl e)"
  | g1 g2 e where "charge X g = (g1, Inr ())" "Accept X a fee msgs g1 = (g2, Inl e)"
  | g1 g2 remove b where "charge X g = (g1, Inr ())" "Accept X a fee msgs g1 = (g2, Inr (remove, b))"
proof (cases "charge X g")
  case (Pair g1 c)
  show thesis
  proof (cases c)
    case (Inl e)
    then show ?thesis
      using Pair by (intro that(1)) simp
  next
    case (Inr u)
    show ?thesis
      using Pair Inr that(2,3) by (cases "Accept X a fee msgs g1"; cases "snd (Accept X a fee msgs g1)") auto
  qed
qed

lemma accept_any_None_iff:
  "accept_any X als fee msgs g = (g', Inr None) \<longleftrightarrow> all_err X als fee msgs g g'"
proof (induction als arbitrary: g)
  case (Cons al als)
  show ?case
  proof (cases al)
    case (AnyOf a)
    show ?thesis
      unfolding AnyOf by (rule meter_cases [where X = X and g = g and a = a and fee = fee and msgs = msgs])
        (auto simp: accept_any_step bindm_Inr_iff Cons.IH simp del: accept_any.simps)
  qed simp_all
qed auto

lemma accept_any_Some_iff:
  "accept_any X als fee msgs g = (g', Inr (Some als')) \<longleftrightarrow>
     (\<exists>pre a post g0 left. als = pre @ AnyOf a # post \<and> all_err X pre fee msgs g g0
        \<and> charged X a fee msgs g0 g' left \<and> als' = pre @ left @ post)"
  (is "_ \<longleftrightarrow> ?R als g als'")
proof (induction als arbitrary: g als')
  case (Cons al als)
  have split: "?R (al # als) g als' \<longleftrightarrow>
      (\<exists>a left. al = AnyOf a \<and> charged X a fee msgs g g' left \<and> als' = left @ als)
      \<or> (\<exists>a g1 g2 e rest. al = AnyOf a \<and> charge X g = (g1, Inr ()) \<and> Accept X a fee msgs g1 = (g2, Inl e)
           \<and> \<not> is_panic (Inl e :: unit result) \<and> ?R als g2 rest \<and> als' = al # rest)"
    (is "_ \<longleftrightarrow> ?now \<or> ?later")
  proof
    assume "?R (al # als) g als'"
    then obtain pre a post g0 left where h: "al # als = pre @ AnyOf a # post"
      "all_err X pre fee msgs g g0" "charged X a fee msgs g0 g' left" "als' = pre @ left @ post"
      by blast
    show "?now \<or> ?later"
    proof (cases pre)
      case Nil
      then show ?thesis
        using h by simp
    next
      case (Cons x xs)
      then have "?later"
        using h by (simp add: append_eq_Cons_conv) metis
      then show ?thesis ..
    qed
  next
    assume "?now \<or> ?later"
    then show "?R (al # als) g als'"
    proof
      assume ?now
      then show ?thesis
        by (metis append_Nil all_err.simps(1))
    next
      assume ?later
      then obtain a g1 g2 e rest pre b post g0 left where "al = AnyOf a" "charge X g = (g1, Inr ())"
        "Accept X a fee msgs g1 = (g2, Inl e)" "\<not> is_panic (Inl e :: unit result)" "als' = al # rest"
        "als = pre @ AnyOf b # post" "all_err X pre fee msgs g2 g0" "charged X b fee msgs g0 g' left"
        "rest = pre @ left @ post"
        by blast
      then show ?thesis
        by (intro exI [of _ "al # pre"] exI [of _ b] exI [of _ post] exI [of _ g0] exI [of _ left]) auto
    qed
  qed
  show ?case
  proof (cases al)
    case (AnyOf a)
    show ?thesis
      unfolding split unfolding AnyOf Cons.IH [symmetric]
      by (rule meter_cases [where X = X and g = g and a = a and fee = fee and msgs = msgs])
        (auto simp: accept_any_step bindm_Inr_iff charged_def simp del: accept_any.simps)
  next
    case NilAny
    then show ?thesis
      unfolding split by simp
  next
    case AnyOther
    then show ?thesis
      unfolding split by simp
  qed
qed simp

section \<open>Uses of a grant\<close>

text \<open>
  What the feegrant module documents of its allowances and of packing: accepting a fee never moves
  the expiry of an allowance that is kept, and packing holds the value packed.
\<close>

definition feegrant_laws :: "('f, 'm, 'g) feegrant_ext \<Rightarrow> bool" where
  "feegrant_laws X \<longleftrightarrow>
     (\<forall>f fee msgs g g' f'. f_Accept X f fee msgs g = (g', Inr (False, f')) \<longrightarrow>
        f_ExpiresAt X f' = f_ExpiresAt X f)
     \<and> (\<forall>a al. f_NewAnyWithValue X a = Inr al \<longrightarrow> al = AnyOf a)"

text \<open>
  The part of \<open>ValidateBasic\<close> that is the repository's: everything but the checks that the SDK's
  allowances make of themselves.
\<close>

definition own_checks :: "('f, 'm, 'g) feegrant_ext \<Rightarrow> ('f, 'm, 'g) feegrant_ext" where
  "own_checks X = X\<lparr>f_ValidateBasic := \<lambda>_. Inr ()\<rparr>"

definition consistent :: "('f, 'm, 'g) feegrant_ext \<Rightarrow> 'f allowance \<Rightarrow> bool" where
  "consistent X a \<longleftrightarrow> ValidateBasic_allowance (own_checks X) a = Inr ()"

lemma own_checks_simps [simp]:
  "f_ValidateBasic (own_checks X) f = Inr ()" "f_ExpiresAt (own_checks X) = f_ExpiresAt X"
  "f_AccAddressFromBech32 (own_checks X) = f_AccAddressFromBech32 X"
  by (simp_all add: own_checks_def)

lemma ExpiresAt_own_checks [simp]:
  "ExpiresAt (own_checks X) a = ExpiresAt X a"
  "expires_any (own_checks X) als ex = expires_any X als ex"
  by (induction X a and X als ex rule: ExpiresAt_expires_any.induct)
    (auto intro!: bindr_cong split: option.splits)

lemma valid_at_own_checks: "valid_at X d a \<Longrightarrow> valid_at (own_checks X) d a"
proof (induction a arbitrary: d)
  case (MultiAnyAllowance als)
  then show ?case
    by simp (metis any_field.set_intros)
qed auto

lemma feegrant_laws_SetAllowance: "feegrant_laws X \<Longrightarrow> SetAllowance X a = Inr al \<Longrightarrow> al = AnyOf a"
  by (auto simp: feegrant_laws_def SetAllowance_def)

lemma Accept_keeps_consistent:
  assumes laws: "feegrant_laws X"
  shows "Accept X a fee msgs g = (g', Inr (False, a')) \<Longrightarrow> valid_at (own_checks X) d a \<Longrightarrow>
    valid_at (own_checks X) d a' \<and> ExpiresAt X a' = ExpiresAt X a"
proof (induction a arbitrary: fee msgs g g' a' d)
  case (Foreign f)
  then show ?case
    using laws by (auto simp: bindm_Inr_iff feegrant_laws_def)
next
  case (AuthzAllowance al grantee)
  then show ?case
    by (auto simp: bindm_Inr_iff split: option.splits if_splits
        dest!: feegrant_laws_SetAllowance [OF laws])
next
  case (ContractsAllowance al addrs)
  then show ?case
    by (auto simp: bindm_Inr_iff split: option.splits if_splits
        dest!: feegrant_laws_SetAllowance [OF laws])
next
  case (MultiAnyAllowance als)
  from MultiAnyAllowance.prems(1) obtain als' where als': "a' = MultiAnyAllowance als'" "als' \<noteq> []"
    and "accept_any X als fee msgs g = (g', Inr (Some als'))"
    by (auto simp: bindm_Inr_iff split: option.splits)
  then obtain pre a post g0 left where als: "als = pre @ AnyOf a # post" "als' = pre @ left @ post"
    and ch: "charged X a fee msgs g0 g' left"
    unfolding accept_any_Some_iff by blast
  from MultiAnyAllowance.prems(2) obtain e where d: "d \<le> maxMultiAnyAllowanceDepth"
    and ok: "\<And>al. al \<in> set als \<Longrightarrow> \<exists>a. al = AnyOf a \<and> valid_at (own_checks X) (d + 1) a \<and> ExpiresAt X a = Inr e"
    by auto
  have "\<exists>a. al = AnyOf a \<and> valid_at (own_checks X) (d + 1) a \<and> ExpiresAt X a = Inr e" if "al \<in> set left" for al
  proof -
    from ch that obtain g1 b where acc: "Accept X a fee msgs g1 = (g', Inr (False, b))"
      and packed: "SetAllowance X b = Inr al"
      by (auto simp: charged_def split: if_splits)
    have "valid_at (own_checks X) (d + 1) b \<and> ExpiresAt X b = ExpiresAt X a"
      using MultiAnyAllowance.IH [of "AnyOf a" a, OF _ _ acc, of "d + 1"] ok [of "AnyOf a"] als(1) by simp
    then show ?thesis
      using feegrant_laws_SetAllowance [OF laws packed] ok [of "AnyOf a"] als(1) by simp
  qed
  then have ok': "\<exists>a. al = AnyOf a \<and> valid_at (own_checks X) (d + 1) a \<and> ExpiresAt X a = Inr e"
    if "al \<in> set als'" for al
    using that ok als by auto
  have "ExpiresAt X (MultiAnyAllowance als') = Inr e"
    using ok' by (subst ExpiresAt_MultiAny_iff [OF als'(2)]) blast
  moreover have "ExpiresAt X (MultiAnyAllowance als) = Inr e"
    using ok als(1) by (subst ExpiresAt_MultiAny_iff) auto
  moreover have "valid_at (own_checks X) d a'"
    unfolding als'(1) valid_at_MultiAny using d als'(2) ok' by (simp only: ExpiresAt_own_checks) blast
  ultimately show ?case
    by (simp only: als'(1))
qed

text \<open>
  A use of a grant, as the feegrant keeper performs it: the allowance decides, and the grant is
  dropped when the allowance asks for it, else stored with what the allowance became.
\<close>

definition use_grant ::
  "('f, 'm, 'g) feegrant_ext \<Rightarrow> coins \<times> 'm sdk_msg list \<times> 'g \<Rightarrow> 'f allowance option
     \<Rightarrow> 'f allowance option result" where
  "use_grant X use grant =
     (case grant of
        None \<Rightarrow> Inl (SdkErr ''ErrNoAllowance'')
      | Some a \<Rightarrow>
          (case use of (fee, msgs, g) \<Rightarrow>
             bindr (snd (Accept X a fee msgs g)) (\<lambda>(remove, a').
             Inr (if remove then None else Some a'))))"

definition grant_inv :: "('f, 'm, 'g) feegrant_ext \<Rightarrow> expiry result \<Rightarrow> 'f allowance option \<Rightarrow> bool" where
  "grant_inv X e grant \<longleftrightarrow>
     feegrant_laws X \<longrightarrow> (case grant of None \<Rightarrow> True | Some a \<Rightarrow> consistent X a \<and> ExpiresAt X a = e)"

interpretation grant_uses: invariant_machine "use_grant X" "grant_inv X e"
proof
  fix use :: "coins \<times> 'b sdk_msg list \<times> 'c" and s t :: "'a allowance option"
  assume step: "use_grant X use s = Inr t" and inv: "grant_inv X e s"
  show "grant_inv X e t"
    unfolding grant_inv_def
  proof (intro impI)
    assume laws: "feegrant_laws X"
    obtain a fee msgs g where s: "s = Some a" "use = (fee, msgs, g)"
      using step by (cases s; cases use) (auto simp: use_grant_def)
    obtain g' remove b where acc: "Accept X a fee msgs g = (g', Inr (remove, b))"
      "t = (if remove then None else Some b)"
      using step s by (cases "Accept X a fee msgs g") (auto simp: use_grant_def)
    show "case t of None \<Rightarrow> True | Some a \<Rightarrow> consistent X a \<and> ExpiresAt X a = e"
      using acc inv laws s Accept_keeps_consistent [OF laws, of a fee msgs g g' b 0]
      by (auto simp: grant_inv_def consistent_def ValidateBasic_iff)
  qed
qed

section \<open>Nesting\<close>

text \<open>
  A chain of that many \<open>MultiAnyAllowance\<close>s, each directly inside the one before; and one where
  authz and contract allowances may stand in between.
\<close>

inductive direct_levels :: "nat \<Rightarrow> 'f allowance \<Rightarrow> bool" where
  "direct_levels 0 a"
| "AnyOf b \<in> set als \<Longrightarrow> direct_levels n b \<Longrightarrow> direct_levels (Suc n) (MultiAnyAllowance als)"

inductive levels :: "nat \<Rightarrow> 'f allowance \<Rightarrow> bool" where
  "levels 0 a"
| "AnyOf b \<in> set als \<Longrightarrow> levels n b \<Longrightarrow> levels (Suc n) (MultiAnyAllowance als)"
| "levels n b \<Longrightarrow> levels n (AuthzAllowance (AnyOf b) grantee)"
| "levels n b \<Longrightarrow> levels n (ContractsAllowance (AnyOf b) addrs)"

lemma valid_at_direct_levels:
  "direct_levels n a \<Longrightarrow> valid_at X d a \<Longrightarrow> 0 < n \<Longrightarrow> n + d \<le> maxMultiAnyAllowanceDepth + 1"
proof (induction n a arbitrary: d rule: direct_levels.induct)
  case (2 b als n)
  then have "valid_at X (d + 1) b" "d \<le> maxMultiAnyAllowanceDepth"
    by auto
  then show ?case
    using "2.IH" [of "d + 1"] by (cases n) auto
qed simp

lemma validateBasicDepth_iff: "validateBasicDepth X als d = Inr () \<longleftrightarrow> valid_at X d (MultiAnyAllowance als)"
  by (simp only: valid_at_def allowance.case)

text \<open>Lists directly inside each other around a foreign allowance.\<close>

primrec nested_lists :: "nat \<Rightarrow> 'f \<Rightarrow> 'f allowance" where
  "nested_lists 0 f = Foreign f"
| "nested_lists (Suc n) f = MultiAnyAllowance [AnyOf (nested_lists n f)]"

lemma nested_lists_ExpiresAt: "ExpiresAt X (nested_lists n f) = f_ExpiresAt X f"
proof (induction n)
  case (Suc n)
  then show ?case by (cases "f_ExpiresAt X f") simp_all
qed simp

lemma nested_lists_valid:
  assumes "f_ValidateBasic X f = Inr ()" and "f_ExpiresAt X f = Inr e"
  shows "valid_at X d (nested_lists n f) \<longleftrightarrow> n = 0 \<or> n + d \<le> maxMultiAnyAllowanceDepth + 1"
proof (induction n arbitrary: d)
  case (Suc n)
  have "valid_at X d (nested_lists (Suc n) f) \<longleftrightarrow>
      d \<le> maxMultiAnyAllowanceDepth \<and> valid_at X (d + 1) (nested_lists n f)"
    by (simp add: nested_lists_ExpiresAt assms(2))
  then show ?case
    unfolding Suc.IH by (cases n) auto
qed (simp add: assms)

text \<open>The two wrappers with what their own checks ask of them, and lists with a wrapper, of either
  kind, inside each of them.\<close>

datatype wrapper = ByAuthz string | ByContracts "string list"

primrec wrap :: "wrapper \<Rightarrow> 'f allowance \<Rightarrow> 'f allowance" where
  "wrap (ByAuthz grantee) a = AuthzAllowance (AnyOf a) grantee"
| "wrap (ByContracts addrs) a = ContractsAllowance (AnyOf a) addrs"

primrec wrapper_ok :: "('f, 'm, 'g) feegrant_ext \<Rightarrow> wrapper \<Rightarrow> bool" where
  "wrapper_ok X (ByAuthz grantee) \<longleftrightarrow> (\<exists>y. f_AccAddressFromBech32 X grantee = Inr y)"
| "wrapper_ok X (ByContracts addrs) \<longleftrightarrow>
     addrs \<noteq> [] \<and> (\<forall>x \<in> set addrs. \<exists>y. f_AccAddressFromBech32 X x = Inr y)"

primrec wrapped_lists :: "wrapper list \<Rightarrow> 'f \<Rightarrow> 'f allowance" where
  "wrapped_lists [] f = Foreign f"
| "wrapped_lists (w # ws) f = MultiAnyAllowance [AnyOf (wrap w (wrapped_lists ws f))]"

lemma wrap_ExpiresAt [simp]: "ExpiresAt X (wrap w a) = ExpiresAt X a"
  by (cases w) simp_all

lemma wrap_valid_at [simp]: "wrapper_ok X w \<Longrightarrow> valid_at X d (wrap w a) \<longleftrightarrow> valid_at X 0 a"
  by (cases w) auto

lemma wrap_levels: "levels n a \<Longrightarrow> levels n (wrap w a)"
  by (cases w) (auto intro: levels.intros)

lemma wrapped_lists_levels: "levels (length ws) (wrapped_lists ws f)"
  by (induction ws) (auto intro: levels.intros wrap_levels)

lemma wrapped_lists_valid:
  assumes "f_ValidateBasic X f = Inr ()" and "f_ExpiresAt X f = Inr e" and "list_all (wrapper_ok X) ws"
  shows "valid_at X 0 (wrapped_lists ws f) \<and> ExpiresAt X (wrapped_lists ws f) = Inr e"
  using assms(3) by (induction ws) (auto simp: assms(1,2))

section \<open>An instance\<close>

text \<open>
  An allowance with a spend limit in one denomination and an expiry, as the SDK's basic allowance,
  and a meter that counts the gas left.
\<close>

definition limit_Accept :: "int \<times> expiry \<Rightarrow> coins \<Rightarrow> unit sdk_msg list \<Rightarrow> int \<Rightarrow> int \<times> (bool \<times> int \<times> expiry) result" where
  "limit_Accept f fee msgs g =
     (let amt = amount_of fee ''uxion'' in
      if amt \<le> fst f then (g, Inr (fst f = amt, fst f - amt, snd f))
      else (g, Inl (SdkErr ''ErrFeeLimitExceeded'')))"

definition demo_fg :: "(int \<times> expiry, unit, int) feegrant_ext" where
  "demo_fg = \<lparr>f_Accept = limit_Accept,
     f_ValidateBasic = \<lambda>f. ensure (0 < fst f) (SdkErr ''ErrInvalidCoins''),
     f_ExpiresAt = \<lambda>f. Inr (snd f),
     f_ConsumeGas = \<lambda>g c. if uint c \<le> g then Inr (g - uint c) else Inl (GoPanic ''out of gas''),
     f_ProtoMessage = \<lambda>_. True,
     f_NewAnyWithValue = \<lambda>a. Inr (AnyOf a),
     f_UnpackAny = Inr,
     f_AccAddressFromBech32 = Inr\<rparr>"

abbreviation limited :: "int \<Rightarrow> (int \<times> expiry) allowance" where
  "limited n \<equiv> Foreign (n, Some 1700)"

lemma demo_fg_simps [simp]:
  "f_Accept demo_fg = limit_Accept" "f_ValidateBasic demo_fg f = ensure (0 < fst f) (SdkErr ''ErrInvalidCoins'')"
  "f_ExpiresAt demo_fg f = Inr (snd f)" "f_AccAddressFromBech32 demo_fg = Inr"
  "SetAllowance demo_fg a = Inr (AnyOf a)"
  "charge demo_fg g = (if 10 \<le> g then (g - 10, Inr ()) else (g, Inl (GoPanic ''out of gas'')))"
  by (simp_all add: demo_fg_def SetAllowance_def charge_def gasCostPerIteration_def)

lemma demo_fg_laws: "feegrant_laws demo_fg"
  by (auto simp: feegrant_laws_def demo_fg_def limit_Accept_def Let_def split: if_splits)

lemmas demo_run = limit_Accept_def amount_of_def bindm_def

section \<open>Properties\<close>

text \<open>C11: A \<open>MultiAnyAllowance\<close> accepts exactly when some allowance of its list accepts after all
  those before it erred without a panic; that one alone is charged and, when it is used up, alone
  taken off the list; the whole is used up exactly when the list is then empty.  It answers
  \<open>ErrNoValidAllowances\<close> when every allowance errs.\<close>

theorem MultiAny_charges_first:
  "(Accept X (MultiAnyAllowance als) fee msgs g = (g', Inr (remove, b)) \<longleftrightarrow>
     (\<exists>pre a post g0 left. als = pre @ AnyOf a # post \<and> all_err X pre fee msgs g g0
        \<and> charged X a fee msgs g0 g' left
        \<and> b = MultiAnyAllowance (pre @ left @ post) \<and> remove = (pre @ left @ post = [])))
   \<and> (all_err X als fee msgs g g' \<longrightarrow>
        Accept X (MultiAnyAllowance als) fee msgs g = (g', Inl ErrNoValidAllowances))"
proof -
  have "Accept X (MultiAnyAllowance als) fee msgs g = (g', Inr (remove, b)) \<longleftrightarrow>
      (\<exists>als'. accept_any X als fee msgs g = (g', Inr (Some als'))
         \<and> b = MultiAnyAllowance als' \<and> remove = (als' = []))"
    by (auto simp: bindm_Inr_iff split: option.splits)
  moreover have "all_err X als fee msgs g g' \<Longrightarrow>
      Accept X (MultiAnyAllowance als) fee msgs g = (g', Inl ErrNoValidAllowances)"
    by (simp add: accept_any_None_iff [symmetric])
  ultimately show ?thesis
    by (simp only: accept_any_Some_iff ex_simps simp_thms) metis
qed

theorem MultiAny_charges_first_witness:
  "Accept demo_fg (MultiAnyAllowance [AnyOf (limited 3), AnyOf (limited 9)]) [(''uxion'', 5)] [] 100
     = (80, Inr (False, MultiAnyAllowance [AnyOf (limited 3), AnyOf (limited 4)]))
   \<and> Accept demo_fg (MultiAnyAllowance [AnyOf (limited 3)]) [(''uxion'', 5)] [] 100
     = (90, Inl ErrNoValidAllowances)"
proof
  have "all_err demo_fg [AnyOf (limited 3)] [(''uxion'', 5)] [] 100 90"
    by (simp add: demo_run)
  moreover have "charged demo_fg (limited 9) [(''uxion'', 5)] [] 90 80 [AnyOf (limited 4)]"
    unfolding charged_def
    by (rule exI [of _ 80], rule exI [of _ False], rule exI [of _ "limited 4"]) (simp add: demo_run)
  ultimately show "Accept demo_fg (MultiAnyAllowance [AnyOf (limited 3), AnyOf (limited 9)]) [(''uxion'', 5)] [] 100
     = (80, Inr (False, MultiAnyAllowance [AnyOf (limited 3), AnyOf (limited 4)]))"
    by (intro MultiAny_charges_first [THEN conjunct1, THEN iffD2]
        exI [of _ "[AnyOf (limited 3)]"] exI [of _ "limited 9"] exI [of _ "[]"] exI [of _ 90]
        exI [of _ "[AnyOf (limited 4)]"]) simp
  show "Accept demo_fg (MultiAnyAllowance [AnyOf (limited 3)]) [(''uxion'', 5)] [] 100
     = (90, Inl ErrNoValidAllowances)"
    by (rule MultiAny_charges_first [THEN conjunct2, THEN mp]) (simp add: demo_run)
qed

text \<open>C12: The wrappers confine a fee grant: a contract allowance pays only for executions of its
  listed contracts, an authz allowance only for authz executions by its grantee, and then the
  allowance inside has accepted the fee for the messages executed.\<close>

theorem allowance_scope:
  "(Accept X (ContractsAllowance al addrs) fee msgs g = (g', Inr r) \<longrightarrow>
     (\<forall>m \<in> set msgs. \<exists>c \<in> set addrs. m = MsgExecuteContract c)
     \<and> (\<exists>a g1 g2 q. al = AnyOf a \<and> Accept X a fee msgs g1 = (g2, Inr q) \<and> fst q = fst r))
   \<and> (Accept X (AuthzAllowance al grantee) fee msgs g = (g', Inr r) \<longrightarrow>
     (\<exists>subs a g1 g2 q. list_all2 (\<lambda>m s. m = MsgExec grantee (Some s)) msgs subs
       \<and> al = AnyOf a \<and> Accept X a fee (concat subs) g1 = (g2, Inr q) \<and> fst q = fst r))"
proof (intro conjI impI)
  assume "Accept X (ContractsAllowance al addrs) fee msgs g = (g', Inr r)"
  then obtain a g1 g2 q where "allMsgsValidWasmExecs X addrs msgs g = (g1, Inr True)" "al = AnyOf a"
    "Accept X a fee msgs g1 = (g2, Inr q)" "fst q = fst r"
    by (auto simp: bindm_Inr_iff split: if_splits)
  note run = this
  show "\<forall>m \<in> set msgs. \<exists>c \<in> set addrs. m = MsgExecuteContract c"
    by (rule allMsgsValidWasmExecs_True [OF run(1)])
  show "\<exists>a g1 g2 q. al = AnyOf a \<and> Accept X a fee msgs g1 = (g2, Inr q) \<and> fst q = fst r"
    using run(2-4) by (intro exI conjI)
next
  assume "Accept X (AuthzAllowance al grantee) fee msgs g = (g', Inr r)"
  then obtain sub a g1 g2 q where run: "allMsgTypesAuthz X grantee msgs [] g = (g1, Inr (Some sub))"
    "al = AnyOf a" "Accept X a fee sub g1 = (g2, Inr q)" "fst q = fst r"
    by (auto simp: bindm_Inr_iff split: option.splits if_splits)
  obtain subs where "list_all2 (\<lambda>m s. m = MsgExec grantee (Some s)) msgs subs" "sub = concat subs"
    using allMsgTypesAuthz_Some [OF run(1)] by auto
  then show "\<exists>subs a g1 g2 q. list_all2 (\<lambda>m s. m = MsgExec grantee (Some s)) msgs subs
       \<and> al = AnyOf a \<and> Accept X a fee (concat subs) g1 = (g2, Inr q) \<and> fst q = fst r"
    using run(2-4) 
    by (intro exI [of _ subs] exI [of _ a] exI [of _ g1] exI [of _ g2] exI [of _ q]) simp
qed

theorem allowance_scope_witness:
  "(\<exists>r. Accept demo_fg (ContractsAllowance (AnyOf (limited 9)) [''c1'', ''c2'']) [(''uxion'', 5)]
      [MsgExecuteContract ''c2''] 100 = (70, Inr r))
   \<and> (\<exists>r. Accept demo_fg (AuthzAllowance (AnyOf (limited 9)) ''bob'') [(''uxion'', 5)]
      [MsgExec ''bob'' (Some [OtherMsg ()])] 100 = (90, Inr r))
   \<and> (\<exists>c. c \<in> set [''c1'', ''c2''] \<and> (MsgExecuteContract ''c2'' :: unit sdk_msg) = MsgExecuteContract c)
   \<and> (\<exists>subs. list_all2 (\<lambda>m s. m = MsgExec ''bob'' (Some s)) [MsgExec ''bob'' (Some [OtherMsg ()])] subs)"
proof -
  have 1: "Accept demo_fg (ContractsAllowance (AnyOf (limited 9)) [''c1'', ''c2'']) [(''uxion'', 5)]
      [MsgExecuteContract ''c2''] 100 = (70, Inr (False, ContractsAllowance (AnyOf (limited 4)) [''c1'', ''c2'']))"
    by (simp add: allMsgsValidWasmExecs_def demo_run)
  have 2: "Accept demo_fg (AuthzAllowance (AnyOf (limited 9)) ''bob'') [(''uxion'', 5)]
      [MsgExec ''bob'' (Some [OtherMsg ()])] 100 = (90, Inr (False, AuthzAllowance (AnyOf (limited 4)) ''bob''))"
    by (simp add: demo_run)
  have 3: "\<exists>subs. list_all2 (\<lambda>m s. m = MsgExec ''bob'' (Some s)) [MsgExec ''bob'' (Some [OtherMsg ()])] subs"
    using allowance_scope [THEN conjunct2, THEN mp, OF 2] by (elim exE conjE) (rule exI)
  have 4: "\<exists>c. c \<in> set [''c1'', ''c2''] \<and> (MsgExecuteContract ''c2'' :: unit sdk_msg) = MsgExecuteContract c"
    using bspec [OF allowance_scope [THEN conjunct1, THEN mp, OF 1, THEN conjunct1], of "MsgExecuteContract ''c2''"]
    by simp
  show ?thesis
    by (rule conjI, rule exI, rule 1, rule conjI, rule exI, rule 2, rule conjI, rule 4, rule 3)
qed

text \<open>C13: A validated allowance stays consistent under every sequence of uses: whatever is left of
  the grant still passes the repository's own checks (no empty list, every packed allowance present,
  nesting within the limit, equal expiries) and expires when it did at the grant.\<close>

theorem grants_stay_consistent:
  assumes "feegrant_laws X" and "ValidateBasic_allowance X a = Inr ()"
    and "run_msgs (use_grant X) uses (Some a) = Some a'"
  shows "consistent X a' \<and> ExpiresAt X a' = ExpiresAt X a"
proof -
  have "consistent X a"
    unfolding consistent_def ValidateBasic_iff
    by (rule valid_at_own_checks) (rule assms(2) [unfolded ValidateBasic_iff])
  then have "grant_inv X (ExpiresAt X a) (Some a)"
    unfolding grant_inv_def by simp
  from grant_uses.run_keeps [OF this, of uses] show ?thesis
    unfolding assms(3) grant_inv_def using assms(1) by simp
qed

lemma demo_uses:
  "use_grant demo_fg ([(''uxion'', 5)], [], 100) (Some (MultiAnyAllowance [AnyOf (limited 3), AnyOf (limited 7)]))
     = Inr (Some (MultiAnyAllowance [AnyOf (limited 3), AnyOf (limited 2)]))"
  "use_grant demo_fg ([(''uxion'', 8)], [], 100) (Some (MultiAnyAllowance [AnyOf (limited 3), AnyOf (limited 2)]))
     = Inl ErrNoValidAllowances"
  "use_grant demo_fg ([(''uxion'', 3)], [], 100) (Some (MultiAnyAllowance [AnyOf (limited 3), AnyOf (limited 2)]))
     = Inr (Some (MultiAnyAllowance [AnyOf (limited 2)]))"
  by (simp_all add: use_grant_def demo_run)

theorem grants_stay_consistent_witness:
  "consistent demo_fg (MultiAnyAllowance [AnyOf (limited 2)])
   \<and> ExpiresAt demo_fg (MultiAnyAllowance [AnyOf (limited 2)])
     = ExpiresAt demo_fg (MultiAnyAllowance [AnyOf (limited 3), AnyOf (limited 7)])"
proof (rule grants_stay_consistent [OF demo_fg_laws])
  show "ValidateBasic_allowance demo_fg (MultiAnyAllowance [AnyOf (limited 3), AnyOf (limited 7)]) = Inr ()"
    by (simp add: ValidateBasic_iff maxMultiAnyAllowanceDepth_def del: ValidateBasic_allowance.simps)
  show "run_msgs (use_grant demo_fg) [([(''uxion'', 5)], [], 100), ([(''uxion'', 8)], [], 100), ([(''uxion'', 3)], [], 100)]
      (Some (MultiAnyAllowance [AnyOf (limited 3), AnyOf (limited 7)])) = Some (MultiAnyAllowance [AnyOf (limited 2)])"
    by (simp add: deliver_def demo_uses)
qed

text \<open>C14: The depth limit counts only directly nested lists.  No validated allowance has more than six
  \<open>MultiAnyAllowance\<close>s directly inside each other, and six are allowed; but the count restarts
  inside an authz and inside a contract allowance: a list that holds a well-formed one of either
  kind is accepted at any depth within the limit exactly when the allowance inside is valid on its
  own, so lists with one of them, of whichever kind, inside each list validate at every length.\<close>

theorem nesting_limit:
  assumes "f_ValidateBasic X f = Inr ()" and "f_ExpiresAt X f = Inr e" and "list_all (wrapper_ok X) ws"
  shows "(\<forall>a n. ValidateBasic_allowance X a = Inr () \<longrightarrow> direct_levels n a \<longrightarrow> n \<le> maxMultiAnyAllowanceDepth + 1)
    \<and> (\<forall>n. ValidateBasic_allowance X (nested_lists n f) = Inr () \<longleftrightarrow> n \<le> maxMultiAnyAllowanceDepth + 1)
    \<and> (\<forall>w a d. wrapper_ok X w \<longrightarrow>
         (validateBasicDepth X [AnyOf (wrap w a)] d = Inr () \<longleftrightarrow>
            d \<le> maxMultiAnyAllowanceDepth \<and> ValidateBasic_allowance X a = Inr () \<and> (\<exists>t. ExpiresAt X a = Inr t)))
    \<and> ValidateBasic_allowance X (wrapped_lists ws f) = Inr () \<and> levels (length ws) (wrapped_lists ws f)"
proof (intro conjI allI impI)
  show "n \<le> maxMultiAnyAllowanceDepth + 1" if "ValidateBasic_allowance X a = Inr ()" "direct_levels n a" for a n
    using valid_at_direct_levels [OF that(2) that(1) [unfolded ValidateBasic_iff]] by (cases n) simp_all
  show "ValidateBasic_allowance X (nested_lists n f) = Inr () \<longleftrightarrow> n \<le> maxMultiAnyAllowanceDepth + 1" for n
    unfolding ValidateBasic_iff nested_lists_valid [OF assms(1,2)] by auto
  show "validateBasicDepth X [AnyOf (wrap w a)] d = Inr () \<longleftrightarrow>
      d \<le> maxMultiAnyAllowanceDepth \<and> ValidateBasic_allowance X a = Inr () \<and> (\<exists>t. ExpiresAt X a = Inr t)"
    if "wrapper_ok X w" for w a d
    using that unfolding ValidateBasic_iff validateBasicDepth_iff by simp
  show "ValidateBasic_allowance X (wrapped_lists ws f) = Inr ()"
    unfolding ValidateBasic_iff using wrapped_lists_valid [OF assms] by simp
  show "levels (length ws) (wrapped_lists ws f)"
    by (rule wrapped_lists_levels)
qed

theorem nesting_limit_witness:
  "ValidateBasic_allowance demo_fg (wrapped_lists (replicate 40 (ByContracts [''c1''])) (1, None)) = Inr ()
   \<and> levels 40 (wrapped_lists (replicate 40 (ByContracts [''c1''])) (1 :: int, None :: expiry))
   \<and> ValidateBasic_allowance demo_fg (nested_lists 7 (1, None)) \<noteq> Inr ()"
proof -
  have "f_ValidateBasic demo_fg (1, None) = Inr ()" "f_ExpiresAt demo_fg (1, None) = Inr None"
    "list_all (wrapper_ok demo_fg) (replicate 40 (ByContracts [''c1'']))"
    by (simp_all add: list_all_iff)
  note all = nesting_limit [OF this]
  show ?thesis
    using all [THEN conjunct2, THEN conjunct1, rule_format, of 7] all [THEN conjunct2, THEN conjunct2, THEN conjunct2]
    by (simp add: maxMultiAnyAllowanceDepth_def del: ValidateBasic_allowance.simps)
qed

end
