(* ===== verification/Go_Enc.thy ===== *)
theory Go_Enc
  imports Go_Std
begin

text \<open>
  Encodings of Go's standard library that the modules use: base64 (the standard alphabet of
  \<open>encoding/base64\<close>, padded), the byte form of \<open>big.Int\<close>, and trimming.
\<close>

section \<open>Base64\<close>

definition b64_char :: "nat \<Rightarrow> char" where
  "b64_char n =
     (if n < 26 then char_of (65 + n)
      else if n < 52 then char_of (71 + n)
      else if n < 62 then char_of (n - 4)
      else if n = 62 then CHR ''+''
      else CHR ''/'')"

definition b64_val :: "char \<Rightarrow> nat option" where
  "b64_val c =
     (let n = of_char c :: nat in
      if 65 \<le> n \<and> n \<le> 90 then Some (n - 65)
      else if 97 \<le> n \<and> n \<le> 122 then Some (n - 71)
      else if 48 \<le> n \<and> n \<le> 57 then Some (n + 4)
      else if c = CHR ''+'' then Some 62
      else if c = CHR ''/'' then Some 63
      else None)"

text \<open>
  \<open>DecodeString\<close>: line breaks are skipped; the last group of four may end in one or two padding
  characters, after which nothing follows; unused low bits are dropped.
\<close>

fun b64_groups :: "string \<Rightarrow> bytes option" where
  "b64_groups [] = Some []"
| "b64_groups (a # b # c # d # rest) =
     (case (b64_val a, b64_val b) of
        (Some va, Some vb) \<Rightarrow>
          if d = CHR ''='' then
            if rest \<noteq> [] then None
            else if c = CHR ''='' then Some [char_of (va * 4 + vb div 16)]
            else (case b64_val c of
                None \<Rightarrow> None
              | Some vc \<Rightarrow> Some [char_of (va * 4 + vb div 16), char_of (vb mod 16 * 16 + vc div 4)])
          else
            (case (b64_val c, b64_val d) of
               (Some vc, Some vd) \<Rightarrow>
                 map_option (\<lambda>bs. char_of (va * 4 + vb div 16) # char_of (vb mod 16 * 16 + vc div 4)
                   # char_of (vc mod 4 * 64 + vd) # bs) (b64_groups rest)
             | _ \<Rightarrow> None)
      | _ \<Rightarrow> None)"
| "b64_groups _ = None"

definition base64_DecodeString :: "string \<Rightarrow> bytes option" where
  "base64_DecodeString s = b64_groups (filter (\<lambda>c. c \<noteq> CHR 0x0A \<and> c \<noteq> CHR 0x0D) s)"

fun base64_EncodeToString :: "bytes \<Rightarrow> string" where
  "base64_EncodeToString [] = []"
| "base64_EncodeToString [x] =
     (let a = of_char x :: nat in [b64_char (a div 4), b64_char (a mod 4 * 16), CHR ''='', CHR ''=''])"
| "base64_EncodeToString [x, y] =
     (let a = of_char x :: nat; b = of_char y in
      [b64_char (a div 4), b64_char (a mod 4 * 16 + b div 16), b64_char (b mod 16 * 4), CHR ''=''])"
| "base64_EncodeToString (x # y # z # rest) =
     (let a = of_char x :: nat; b = of_char y; c = of_char z in
      b64_char (a div 4) # b64_char (a mod 4 * 16 + b div 16) # b64_char (b mod 16 * 4 + c div 64)
      # b64_char (c mod 64) # base64_EncodeToString rest)"

lemma b64_val_char: "n < 64 \<Longrightarrow> b64_val (b64_char n) = Some n"
  by (cases "n < 26"; cases "n < 52"; cases "n < 62"; cases "n = 62")
    (auto simp: b64_val_def b64_char_def Let_def)

lemma b64_char_plain:
  assumes "n < 64"
  shows "b64_char n \<noteq> CHR ''=''" "b64_char n \<noteq> CHR 0x0A" "b64_char n \<noteq> CHR 0x0D"
proof -
  have "list_all (\<lambda>n. b64_char n \<noteq> CHR ''='' \<and> b64_char n \<noteq> CHR 0x0A \<and> b64_char n \<noteq> CHR 0x0D) [0..<64]"
    by code_simp
  then show "b64_char n \<noteq> CHR ''=''" "b64_char n \<noteq> CHR 0x0A" "b64_char n \<noteq> CHR 0x0D"
    using assms by (simp_all add: list_all_iff)
qed

lemma b64_split:
  fixes a b c :: nat
  assumes "a < 256" "b < 256" "c < 256"
  shows "a div 4 < 64" "a mod 4 * 16 + b div 16 < 64" "b mod 16 * 4 + c div 64 < 64" "c mod 64 < 64"
    "a div 4 * 4 + (a mod 4 * 16 + b div 16) div 16 = a"
    "(a mod 4 * 16 + b div 16) mod 16 * 16 + (b mod 16 * 4 + c div 64) div 4 = b"
    "(b mod 16 * 4 + c div 64) mod 4 * 64 + c mod 64 = c"
proof -
  have b: "b div 16 < 16" and c: "c div 64 < 4"
    using assms by auto
  have m: "a mod 4 \<le> 3" "b mod 16 \<le> 15"
    by (auto simp: less_Suc_eq_le [symmetric])
  show "a div 4 < 64"
    using assms(1) by auto
  show "a mod 4 * 16 + b div 16 < 64" "b mod 16 * 4 + c div 64 < 64"
    using m b c by linarith+
  show "c mod 64 < 64"
    by simp
  show "a div 4 * 4 + (a mod 4 * 16 + b div 16) div 16 = a"
    using b by simp
  show "(a mod 4 * 16 + b div 16) mod 16 * 16 + (b mod 16 * 4 + c div 64) div 4 = b"
    using b c by simp
  show "(b mod 16 * 4 + c div 64) mod 4 * 64 + c mod 64 = c"
    using c by simp
qed

lemma b64_groups_tail:
  "va < 64 \<Longrightarrow> vb < 64 \<Longrightarrow>
     b64_groups [b64_char va, b64_char vb, CHR ''='', CHR ''=''] = Some [char_of (va * 4 + vb div 16)]"
  "va < 64 \<Longrightarrow> vb < 64 \<Longrightarrow> vc < 64 \<Longrightarrow>
     b64_groups [b64_char va, b64_char vb, b64_char vc, CHR ''='']
       = Some [char_of (va * 4 + vb div 16), char_of (vb mod 16 * 16 + vc div 4)]"
  by (simp_all add: b64_val_char b64_char_plain)

lemma b64_groups_full:
  "va < 64 \<Longrightarrow> vb < 64 \<Longrightarrow> vc < 64 \<Longrightarrow> vd < 64 \<Longrightarrow>
     b64_groups (b64_char va # b64_char vb # b64_char vc # b64_char vd # rest)
       = map_option (\<lambda>bs. char_of (va * 4 + vb div 16) # char_of (vb mod 16 * 16 + vc div 4)
           # char_of (vc mod 4 * 64 + vd) # bs) (b64_groups rest)"
  by (simp add: b64_val_char b64_char_plain)

lemma b64_groups_Encode: "b64_groups (base64_EncodeToString xs) = Some xs"
proof (induction xs rule: base64_EncodeToString.induct)
  case (2 x)
  note s = b64_split [of "of_char x" 0 0, simplified]
  show ?case
    using s(1,2) by (simp add: Let_def b64_groups_tail del: b64_groups.simps)
next
  case (3 x y)
  note s = b64_split [of "of_char x" "of_char y" 0, OF nat_of_char_less_256 nat_of_char_less_256 zero_less_numeral]
  show ?case
    using s(1-3) s(5,6) by (simp only: base64_EncodeToString.simps Let_def b64_groups_tail
        div_0 add_0_right char_of_char)
next
  case (4 x y z rest)
  note s = b64_split [of "of_char x" "of_char y" "of_char z", OF nat_of_char_less_256 nat_of_char_less_256 nat_of_char_less_256]
  show ?case
    by (simp only: base64_EncodeToString.simps Let_def b64_groups_full [OF s(1-4)] s(5-7)
        4 [OF refl refl refl] char_of_char option.map)
qed simp

lemma Encode_no_breaks:
  "filter (\<lambda>c. c \<noteq> CHR 0x0A \<and> c \<noteq> CHR 0x0D) (base64_EncodeToString xs) = base64_EncodeToString xs"
proof (induction xs rule: base64_EncodeToString.induct)
  case (2 x)
  note s = b64_split [of "of_char x" 0 0]
  show ?case
    using s(1,2) by (simp add: Let_def b64_char_plain)
next
  case (3 x y)
  note s = b64_split [of "of_char x" "of_char y" 0]
  show ?case
    using s(1,2,3) by (simp add: Let_def b64_char_plain)
next
  case (4 x y z rest)
  note s = b64_split [of "of_char x" "of_char y" "of_char z"]
  show ?case
    using s(1-4) 4 by (simp add: Let_def b64_char_plain)
qed simp

lemma base64_roundtrip: "base64_DecodeString (base64_EncodeToString xs) = Some xs"
  by (simp only: base64_DecodeString_def Encode_no_breaks b64_groups_Encode)

section \<open>Integers and bytes\<close>

text \<open>\<open>big.Int.Bytes\<close>: the absolute value, big-endian without leading zeros; and \<open>SetBytes\<close>.\<close>

fun big_endian :: "nat \<Rightarrow> bytes" where
  "big_endian n = (if n = 0 then [] else big_endian (n div 256) @ [char_of (n mod 256)])"

declare big_endian.simps [simp del]

definition big_Bytes :: "int \<Rightarrow> bytes" where
  "big_Bytes i = big_endian (nat \<bar>i\<bar>)"

definition big_SetBytes :: "bytes \<Rightarrow> int" where
  "big_SetBytes bs = foldl (\<lambda>n c. n * 256 + int (of_char c)) 0 bs"

lemma big_SetBytes_endian: "big_SetBytes (big_endian n) = int n"
proof (induction n rule: big_endian.induct)
  case (1 n)
  show ?case
  proof (cases "n = 0")
    case False
    then have "big_SetBytes (big_endian n) = int (n div 256) * 256 + int (n mod 256)"
      using 1 by (subst big_endian.simps) (simp add: big_SetBytes_def)
    also have "\<dots> = int (n div 256 * 256 + n mod 256)"
      by (simp only: of_nat_mult of_nat_add of_nat_numeral)
    finally show ?thesis
      by (simp only: div_mult_mod_eq)
  qed (simp add: big_endian.simps big_SetBytes_def)
qed

lemma big_SetBytes_Bytes: "0 \<le> i \<Longrightarrow> big_SetBytes (big_Bytes i) = i"
  by (simp add: big_Bytes_def big_SetBytes_endian)

lemma big_Bytes_inject: "0 \<le> i \<Longrightarrow> 0 \<le> j \<Longrightarrow> big_Bytes i = big_Bytes j \<longleftrightarrow> i = j"
  by (metis big_SetBytes_Bytes)

text \<open>\<open>big.Int.BitLen\<close> of a non-negative value.\<close>

fun nat_bits :: "nat \<Rightarrow> nat" where
  "nat_bits n = (if n = 0 then 0 else Suc (nat_bits (n div 2)))"

declare nat_bits.simps [simp del]

definition BitLen :: "int \<Rightarrow> nat" where
  "BitLen i = nat_bits (nat \<bar>i\<bar>)"

lemma nat_bits_bound: "n < 2 ^ k \<longleftrightarrow> nat_bits n \<le> k"
proof (induction n arbitrary: k rule: nat_bits.induct)
  case (1 n)
  show ?case
  proof (cases "n = 0")
    case False
    show ?thesis
    proof (cases k)
      case (Suc k')
      have "n < 2 ^ k \<longleftrightarrow> n div 2 < 2 ^ k'"
        using Suc by auto
      then show ?thesis
        using 1 [OF False, of k'] False Suc by (simp add: nat_bits.simps [of n])
    qed (use False in \<open>subst nat_bits.simps; simp\<close>)
  qed (simp add: nat_bits.simps)
qed

section \<open>Trimming and joining\<close>

text \<open>\<open>strings.TrimRight(s, cutset)\<close> for an ASCII cut set, and \<open>strings.Join\<close>.\<close>

definition TrimRight :: "string \<Rightarrow> char set \<Rightarrow> string" where
  "TrimRight s cutset = rev (dropWhile (\<lambda>c. c \<in> cutset) (rev s))"

fun Join :: "string list \<Rightarrow> string \<Rightarrow> string" where
  "Join [] sep = []"
| "Join [x] sep = x"
| "Join (x # y # xs) sep = x @ sep @ Join (y # xs) sep"

end
