(* ===== verification/Dkim_Subject.thy ===== *)
theory Dkim_Subject
  imports Go_Enc
begin

text \<open>
  \<open>x/dkim/types/subject_validation.go\<close>: the subject of a mail that may authenticate.  The loop that
  strips reply markers has no bound in the code; \<open>strip_loop\<close> is a partial function with value None
  where it would not return, and so is \<open>ValidateForcedSubject\<close>.
\<close>

section \<open>MIME encoded words\<close>

text \<open>
  The regular expression \<open>=\?([^?]+)\?([BbQq])\?([^?]+)\?=\<close> at the start of a string: the groups and
  what follows the match.  A group \<open>[^?]+\<close> ends at the next question mark, so there is one way to
  match at most.
\<close>

definition until_mark :: "string \<Rightarrow> (string \<times> string) option" where
  "until_mark s =
     (let grp = takeWhile (\<lambda>c. c \<noteq> CHR ''?'') s; rest = dropWhile (\<lambda>c. c \<noteq> CHR ''?'') s in
      if grp = [] \<or> rest = [] then None else Some (grp, tl rest))"

definition mime_at :: "string \<Rightarrow> (string \<times> char \<times> string \<times> string) option" where
  "mime_at s =
     (if \<not> HasPrefix s ''=?'' then None
      else case until_mark (drop 2 s) of
        None \<Rightarrow> None
      | Some (charset, s1) \<Rightarrow>
          (case s1 of
             e # q # s2 \<Rightarrow>
               if e \<notin> set ''BbQq'' \<or> q \<noteq> CHR ''?'' then None
               else (case until_mark s2 of
                   None \<Rightarrow> None
                 | Some (txt, s3) \<Rightarrow>
                     (case s3 of
                        c # s4 \<Rightarrow> if c = CHR ''='' then Some (charset, e, txt, s4) else None
                      | [] \<Rightarrow> None))
           | _ \<Rightarrow> None))"

lemma until_mark_length: "until_mark s = Some (g, r) \<Longrightarrow> length r < length s"
proof -
  assume "until_mark s = Some (g, r)"
  then have "r = tl (dropWhile (\<lambda>c. c \<noteq> CHR ''?'') s)" "dropWhile (\<lambda>c. c \<noteq> CHR ''?'') s \<noteq> []"
    by (auto simp: until_mark_def Let_def split: if_splits)
  then show "length r < length s"
    using length_dropWhile_le [of "\<lambda>c. c \<noteq> CHR ''?''" s] by (cases "dropWhile (\<lambda>c. c \<noteq> CHR ''?'') s") auto
qed

lemma mime_at_length: "mime_at s = Some (charset, e, txt, rest) \<Longrightarrow> length rest < length s"
  unfolding mime_at_def
  by (auto split: if_splits option.splits list.splits dest!: until_mark_length)

text \<open>\<open>FindAllStringSubmatch\<close>: the matches from left to right, none overlapping another.\<close>

function mime_matches :: "string \<Rightarrow> (string \<times> char \<times> string) list" where
  "mime_matches s =
     (case mime_at s of
        Some (charset, e, txt, rest) \<Rightarrow> (charset, e, txt) # mime_matches rest
      | None \<Rightarrow> (case s of [] \<Rightarrow> [] | _ # s' \<Rightarrow> mime_matches s'))"
  by pat_completeness auto
termination
  by (relation "measure length") (auto dest: mime_at_length)

declare mime_matches.simps [simp del]

definition decode_word :: "string \<times> char \<times> string \<Rightarrow> string option" where
  "decode_word m =
     (case m of (charset0, e, encodedText) \<Rightarrow>
       let charset = map ascii_lower (TrimSpace charset0) in
       if charset \<noteq> ''utf-8'' then None
       else if e \<notin> set ''Bb'' then None
       else case base64_DecodeString encodedText of
         Some decodedBytes \<Rightarrow> Some decodedBytes
       | None \<Rightarrow> base64_DecodeString (encodedText @ ''==''))"

fun decode_words :: "(string \<times> char \<times> string) list \<Rightarrow> string list option" where
  "decode_words [] = Some []"
| "decode_words (m # ms) =
     (case decode_word m of
        None \<Rightarrow> None
      | Some d \<Rightarrow> map_option ((#) d) (decode_words ms))"

text \<open>The second result \<open>false\<close> of \<open>decodeMIMESubject\<close> is None.\<close>

definition decodeMIMESubject :: "string \<Rightarrow> string option" where
  "decodeMIMESubject encoded0 =
     (let encoded = TrimSpace encoded0 in
      if encoded = [] then None
      else let matches = mime_matches encoded in
        if length matches = 0 then None
        else map_option (\<lambda>decodedParts. Join decodedParts '' '') (decode_words matches))"

section \<open>Validation\<close>

definition validPrefixes :: "string list" where
  "validPrefixes = [''Re:'', ''RE:'', ''re:'', ''Fwd:'', ''FWD:'', ''fwd:'']"

text \<open>The inner loop: the first prefix that the text starts with, regardless of case, is removed.\<close>

definition strip_once :: "string \<Rightarrow> string option" where
  "strip_once remaining =
     map_option (\<lambda>p. TrimSpace (drop (length p) remaining))
       (find (\<lambda>p. length remaining \<ge> length p \<and> EqualFold (take (length p) remaining) p) validPrefixes)"

partial_function (option) strip_loop :: "string \<Rightarrow> string option" where
  "strip_loop remaining =
     (case strip_once remaining of
        None \<Rightarrow> Some remaining
      | Some remaining' \<Rightarrow> strip_loop remaining')"

definition reply_tag :: string where
  "reply_tag = ''[Reply Needed]''"

definition check_reply_tag :: "string \<Rightarrow> bool option" where
  "check_reply_tag subject =
     (case Index subject reply_tag of
        None \<Rightarrow> Some False
      | Some tagIndex \<Rightarrow>
          (let prefix = TrimSpace (take tagIndex subject) in
           if prefix \<noteq> [] then map_option (\<lambda>remaining. remaining = []) (strip_loop prefix)
           else Some True))"

definition ValidateForcedSubject :: "string \<Rightarrow> bool option" where
  "ValidateForcedSubject subject0 =
     (let subject = TrimSpace subject0 in
      if subject = [] then Some False
      else
        case (case decodeMIMESubject subject of
                Some decoded \<Rightarrow> Some decoded
              | None \<Rightarrow> if Contains subject ''=?'' then None else Some subject) of
          None \<Rightarrow> Some False
        | Some subject \<Rightarrow>
            let subject = TrimSpace subject in
            if subject = [] then Some False
            else
              let subject = TrimRight subject {CHR 0x0D, CHR 0x0A} in
              if \<not> Contains subject reply_tag then Some False
              else check_reply_tag subject)"

section \<open>The loop returns\<close>

lemma validPrefixes_nonempty: "p \<in> set validPrefixes \<Longrightarrow> p \<noteq> []"
  by (auto simp: validPrefixes_def)

lemma strip_once_shorter:
  assumes "strip_once r = Some r'"
  shows "length r' < length r"
proof -
  from assms obtain p where p: "find (\<lambda>p. length r \<ge> length p \<and> EqualFold (take (length p) r) p) validPrefixes = Some p"
    and r': "r' = TrimSpace (drop (length p) r)"
    by (auto simp: strip_once_def)
  from p have "p \<in> set validPrefixes" "length p \<le> length r"
    by (auto simp: find_Some_iff)
  moreover from this have "0 < length p"
    using validPrefixes_nonempty by blast
  ultimately show ?thesis
    using TrimSpace_length [of "drop (length p) r"] unfolding r' length_drop by linarith
qed

lemma strip_loop_returns: "\<exists>r'. strip_loop r = Some r' \<and> strip_once r' = None"
proof (induction r rule: measure_induct_rule [of length])
  case (less r)
  show ?case
  proof (cases "strip_once r")
    case None
    then show ?thesis
      by (subst strip_loop.simps) simp
  next
    case (Some r')
    then show ?thesis
      using less [OF strip_once_shorter [OF Some]] by (subst strip_loop.simps) simp
  qed
qed

section \<open>What is accepted\<close>

text \<open>A sequence of reply and forward markers in any case, with white space after each.\<close>

inductive reply_markers :: "string \<Rightarrow> bool" where
  no_marker: "reply_markers []"
| marker: "map ascii_lower q \<in> {''re:'', ''fwd:''} \<Longrightarrow> reply_markers (TrimSpace rest) \<Longrightarrow> reply_markers (q @ rest)"

text \<open>The text that is searched for the tag: the decoded subject, or the subject itself.\<close>

definition subject_text :: "string \<Rightarrow> string option" where
  "subject_text subject0 =
     (let subject = TrimSpace subject0 in
      case decodeMIMESubject subject of
        Some decoded \<Rightarrow> Some (TrimRight (TrimSpace decoded) {CHR 0x0D, CHR 0x0A})
      | None \<Rightarrow> if Contains subject ''=?'' then None
          else Some (TrimRight (TrimSpace subject) {CHR 0x0D, CHR 0x0A}))"

lemma find_SomeD: "find P xs = Some x \<Longrightarrow> x \<in> set xs \<and> P x"
  by (auto simp: find_Some_iff)

lemma lower_prefixes: "list_all (\<lambda>p. map ascii_lower p \<in> {''re:'', ''fwd:''}) validPrefixes"
  by code_simp

lemma strip_once_iff:
  "strip_once r = Some r' \<longleftrightarrow>
     (\<exists>q rest. map ascii_lower q \<in> {''re:'', ''fwd:''} \<and> r = q @ rest \<and> r' = TrimSpace rest)"
proof -
  have starts: "length p \<le> length r \<and> EqualFold (take (length p) r) p \<longleftrightarrow>
      (\<exists>q rest. map ascii_lower q = map ascii_lower p \<and> r = q @ rest)" for p
  proof
    assume "length p \<le> length r \<and> EqualFold (take (length p) r) p"
    then show "\<exists>q rest. map ascii_lower q = map ascii_lower p \<and> r = q @ rest"
      by (metis EqualFold_def append_take_drop_id)
  next
    assume "\<exists>q rest. map ascii_lower q = map ascii_lower p \<and> r = q @ rest"
    then obtain q rest where q: "map ascii_lower q = map ascii_lower p" "r = q @ rest"
      by blast
    moreover from q(1) have "length q = length p"
      by (metis length_map)
    ultimately show "length p \<le> length r \<and> EqualFold (take (length p) r) p"
      by (simp add: EqualFold_def)
  qed
  have lower: "map ascii_lower p \<in> {''re:'', ''fwd:''}" if "p \<in> set validPrefixes" for p
    using that lower_prefixes by (simp add: list_all_iff)
  show ?thesis
  proof
    assume "strip_once r = Some r'"
    then obtain p where p: "p \<in> set validPrefixes" "length p \<le> length r" "EqualFold (take (length p) r) p"
      and r': "r' = TrimSpace (drop (length p) r)"
      by (auto simp: strip_once_def dest: find_SomeD)
    have "map ascii_lower (take (length p) r) \<in> {''re:'', ''fwd:''}"
      using p(3) lower [OF p(1)] by (simp add: EqualFold_def)
    then show "\<exists>q rest. map ascii_lower q \<in> {''re:'', ''fwd:''} \<and> r = q @ rest \<and> r' = TrimSpace rest"
      using r' by (intro exI [of _ "take (length p) r"] exI [of _ "drop (length p) r"]) simp
  next
    assume "\<exists>q rest. map ascii_lower q \<in> {''re:'', ''fwd:''} \<and> r = q @ rest \<and> r' = TrimSpace rest"
    then obtain q rest where q: "map ascii_lower q \<in> {''re:'', ''fwd:''}" "r = q @ rest" "r' = TrimSpace rest"
      by (elim exE conjE)
    have low: "map ascii_lower ''re:'' = ''re:''" "map ascii_lower ''fwd:'' = ''fwd:''"
      by code_simp+
    have two: "map ascii_lower q = ''re:'' \<or> map ascii_lower q = ''fwd:''"
      using q(1) by (simp only: insert_iff empty_iff simp_thms)
    then have idem: "map ascii_lower (map ascii_lower q) = map ascii_lower q"
      by (rule disjE) (simp_all only: low)
    have "map ascii_lower q \<in> set validPrefixes"
      using two by (rule disjE) (simp_all only: validPrefixes_def list.set insert_iff simp_thms)
    moreover have "length (map ascii_lower q) \<le> length r \<and> EqualFold (take (length (map ascii_lower q)) r) (map ascii_lower q)"
      using idem q(2) by (simp add: EqualFold_def)
    ultimately have "\<exists>p \<in> set validPrefixes. length p \<le> length r \<and> EqualFold (take (length p) r) p"
      by (rule bexI [rotated])
    then obtain p where p: "find (\<lambda>p. length p \<le> length r \<and> EqualFold (take (length p) r) p) validPrefixes = Some p"
      by (metis (no_types, lifting) find_None_iff not_None_eq)
    then have "p \<in> set validPrefixes" "map ascii_lower p = map ascii_lower (take (length p) r)" "length p \<le> length r"
      using find_SomeD [OF p] by (auto simp: EqualFold_def)
    moreover from this(1) have "map ascii_lower p \<in> {''re:'', ''fwd:''}"
      by (rule lower)
    moreover have "hd (map ascii_lower p) = hd (map ascii_lower q)"
      using calculation q(1,2) by (cases p; cases q) auto
    ultimately have "map ascii_lower p = map ascii_lower q"
      using two by (auto simp del: map_eq_Cons_conv Cons_eq_map_conv)
    then have "length p = length q"
      by (rule map_eq_imp_length_eq)
    then show "strip_once r = Some r'"
      using p q by (simp add: strip_once_def)
  qed
qed

lemma strip_loop_iff: "strip_loop r = Some [] \<longleftrightarrow> reply_markers r"
proof
  show "reply_markers r" if "strip_loop r = Some []"
    using that
  proof (induction r rule: measure_induct_rule [of length])
    case (less r)
    show ?case
    proof (cases "strip_once r")
      case None
      then show ?thesis
        using less.prems by (subst (asm) strip_loop.simps) (simp add: no_marker)
    next
      case (Some r')
      then have "reply_markers r'"
        using less strip_once_shorter [OF Some] by (subst (asm) (2) strip_loop.simps) simp
      then show ?thesis
        using Some by (auto simp: strip_once_iff intro: marker)
    qed
  qed
next
  assume "reply_markers r"
  then show "strip_loop r = Some []"
  proof (induction rule: reply_markers.induct)
    case no_marker
    have "strip_once [] = None"
      using strip_once_iff [of "[]"] by (cases "strip_once []") auto
    then show ?case
      by (subst strip_loop.simps) simp
  next
    case (marker q rest)
    then have "strip_once (q @ rest) = Some (TrimSpace rest)"
      unfolding strip_once_iff by (intro exI [of _ q] exI [of _ rest] conjI refl)
    then show ?case
      using marker by (subst strip_loop.simps) simp
  qed
qed

text \<open>White space and markers hold no bracket, so the tag after them is the first one.\<close>

definition space_chars :: "char set" where
  "space_chars = (\<Union>p \<in> set space_seqs. set p)"

lemma HasPrefix_split: "HasPrefix s p \<Longrightarrow> s = p @ drop (length p) s"
  by (metis HasPrefix_def append_take_drop_id)

lemma HasSuffix_split: "HasSuffix s p \<Longrightarrow> s = take (length s - length p) s @ p"
  using HasPrefix_split [of "rev s" "rev p"]
  by (metis HasSuffix_def append_take_drop_id length_rev rev_append rev_rev_ident take_rev rev_drop)

lemma leading_space_chars: "leading_space s = Some p \<Longrightarrow> set p \<subseteq> space_chars"
  unfolding leading_space_def space_chars_def by (drule find_SomeD) blast

lemma trailing_space_chars: "trailing_space s = Some p \<Longrightarrow> set p \<subseteq> space_chars"
  unfolding trailing_space_def space_chars_def by (drule find_SomeD) blast

lemma TrimLeftSpace_set: "set s \<subseteq> set (TrimLeftSpace s) \<union> space_chars"
proof (induction s rule: TrimLeftSpace.induct)
  case (1 s)
  show ?case
  proof (cases "leading_space s")
    case None
    then show ?thesis
      by (subst TrimLeftSpace.simps) simp
  next
    case (Some p)
    have "set s = set p \<union> set (drop (length p) s)"
      using HasPrefix_split leading_space_Some [OF Some] by (metis set_append)
    then show ?thesis
      using 1 [OF Some] leading_space_chars [OF Some] Some by (subst TrimLeftSpace.simps) auto
  qed
qed

lemma TrimRightSpace_set: "set s \<subseteq> set (TrimRightSpace s) \<union> space_chars"
proof (induction s rule: TrimRightSpace.induct)
  case (1 s)
  show ?case
  proof (cases "trailing_space s")
    case None
    then show ?thesis
      by (subst TrimRightSpace.simps) simp
  next
    case (Some p)
    have "set s = set (take (length s - length p) s) \<union> set p"
      using HasSuffix_split trailing_space_Some [OF Some] by (metis set_append)
    then show ?thesis
      using 1 [OF Some] trailing_space_chars [OF Some] Some by (subst TrimRightSpace.simps) auto
  qed
qed

lemma TrimSpace_set: "set s \<subseteq> set (TrimSpace s) \<union> space_chars"
  using TrimLeftSpace_set [of s] TrimRightSpace_set [of "TrimLeftSpace s"] by (auto simp: TrimSpace_def)

lemma bracket_not_space: "CHR ''['' \<notin> space_chars"
  by (simp add: space_chars_def space_seqs_def)

lemma ascii_lower_bracket: "ascii_lower (CHR ''['') = CHR ''[''"
  by code_simp

lemma reply_markers_no_bracket: "reply_markers r \<Longrightarrow> CHR ''['' \<notin> set r"
proof (induction rule: reply_markers.induct)
  case (marker q rest)
  have "CHR ''['' \<notin> set (map ascii_lower q)"
    using marker.hyps(1) by auto
  then have "CHR ''['' \<notin> set q"
    using ascii_lower_bracket by (metis imageI list.set_map)
  moreover have "CHR ''['' \<notin> set rest"
    using marker.IH TrimSpace_set [of rest] bracket_not_space by auto
  ultimately show ?case
    by simp
qed simp

lemma Index_SomeD: "Index s p = Some i \<Longrightarrow> s = take i s @ p @ drop (i + length p) s"
proof (induction s arbitrary: i)
  case (Cons c s)
  show ?case
  proof (cases "HasPrefix (c # s) p")
    case True
    then show ?thesis
      using Cons.prems HasPrefix_split [OF True] by simp
  next
    case False
    then show ?thesis
      using Cons by auto
  qed
qed (simp split: if_splits)

lemma Index_bracket: "CHR ''['' \<notin> set pre \<Longrightarrow> p = CHR ''['' # p' \<Longrightarrow> Index (pre @ p @ post) p = Some (length pre)"
proof (induction pre)
  case Nil
  then show ?case
    by (simp add: HasPrefix_def)
next
  case (Cons c pre)
  then have "\<not> HasPrefix (c # pre @ p @ post) p"
    by (auto simp: HasPrefix_def)
  then show ?case
    using Cons by simp
qed

lemma check_reply_tag_iff:
  "check_reply_tag t = Some True \<longleftrightarrow> (\<exists>pre post. t = pre @ reply_tag @ post \<and> reply_markers (TrimSpace pre))"
proof
  assume "check_reply_tag t = Some True"
  then obtain i where "Index t reply_tag = Some i" "reply_markers (TrimSpace (take i t))"
    by (auto simp: check_reply_tag_def Let_def strip_loop_iff no_marker split: option.splits if_splits)
  then show "\<exists>pre post. t = pre @ reply_tag @ post \<and> reply_markers (TrimSpace pre)"
    using Index_SomeD by blast
next
  assume "\<exists>pre post. t = pre @ reply_tag @ post \<and> reply_markers (TrimSpace pre)"
  then obtain pre post where t: "t = pre @ reply_tag @ post" and m: "reply_markers (TrimSpace pre)"
    by blast
  have "CHR ''['' \<notin> set pre"
    using reply_markers_no_bracket [OF m] TrimSpace_set [of pre] bracket_not_space by auto
  then have "Index t reply_tag = Some (length pre)"
    unfolding t reply_tag_def by (intro Index_bracket) simp_all
  then show "check_reply_tag t = Some True"
    using m t by (simp add: check_reply_tag_def Let_def strip_loop_iff [symmetric])
qed

lemma check_reply_tag_returns: "\<exists>b. check_reply_tag t = Some b"
proof (cases "Index t reply_tag")
  case None
  then show ?thesis
    by (intro exI [of _ False]) (simp add: check_reply_tag_def)
next
  case (Some i)
  then show ?thesis
    using strip_loop_returns [of "TrimSpace (take i t)"] by (auto simp: check_reply_tag_def Let_def)
qed

lemma TrimSpace_Nil: "TrimSpace [] = []"
  using TrimSpace_length [of "[]"] by simp

lemma check_reply_tag_Nil: "check_reply_tag [] = Some False"
  by (simp add: check_reply_tag_def reply_tag_def)

lemma ValidateForcedSubject_text:
  "ValidateForcedSubject s = (case subject_text s of None \<Rightarrow> Some False | Some t \<Rightarrow> check_reply_tag t)"
proof -
  have tag: "(if \<not> Contains t reply_tag then Some False else check_reply_tag t) = check_reply_tag t" for t
    by (simp add: Contains_def check_reply_tag_def)
  have empty: "check_reply_tag (TrimRight [] c) = Some False" for c
    by (simp add: TrimRight_def check_reply_tag_Nil)
  have no_word: "decodeMIMESubject [] = None" "\<not> Contains [] ''=?''"
    by (simp_all add: decodeMIMESubject_def TrimSpace_Nil Contains_def)
  show ?thesis
    unfolding ValidateForcedSubject_def subject_text_def Let_def tag
    by (simp add: no_word empty TrimSpace_Nil split: option.split)
qed

section \<open>Property\<close>

text \<open>C16: Subject validation always returns, although its loop has no bound, and it accepts exactly the
  subjects whose text (the decoded encoded words, if any) has the tag \<open>[Reply Needed]\<close> with nothing
  before it but reply and forward markers.\<close>

theorem ValidateForcedSubject_exact:
  "(\<exists>b. ValidateForcedSubject s = Some b)
   \<and> (ValidateForcedSubject s = Some True \<longleftrightarrow>
        (\<exists>t pre post. subject_text s = Some t \<and> t = pre @ reply_tag @ post \<and> reply_markers (TrimSpace pre)))"
  unfolding ValidateForcedSubject_text
  by (auto simp: check_reply_tag_returns check_reply_tag_iff split: option.split)

end
