(* ===== verification/Dkim_Keeper.thy ===== *)
theory Dkim_Keeper
  imports Dkim_Types
begin

text \<open>
  \<open>x/dkim/keeper\<close>: the stored keys by domain and selector, the revoked key identifiers, the
  parameters; the message server, genesis of the keeper and of the module, the store migration.
\<close>

section \<open>State (keeper.go)\<close>

record dkim_state =
  DkimPubKeys :: "(string \<times> string, DkimPubKey) kv"
  RevokedKeys :: "(string, bool) kv"
  dkim_Params :: "dkim_params option"

record dkim_env =
  de_ext :: dkim_ext
  de_authority :: string

definition NewKeeper_dkim :: "dkim_ext \<Rightarrow> string \<Rightarrow> string \<Rightarrow> dkim_env" where
  "NewKeeper_dkim x govAddress authority =
     \<lparr>de_ext = x, de_authority = (if authority = [] then govAddress else authority)\<rparr>"

definition GetParams_dkim :: "dkim_state \<Rightarrow> dkim_params" where
  "GetParams_dkim st = (case dkim_Params st of None \<Rightarrow> DefaultParams_dkim | Some p \<Rightarrow> p)"

definition SetParams_dkim :: "dkim_params \<Rightarrow> dkim_state \<Rightarrow> dkim_state result" where
  "SetParams_dkim params0 st =
     (let params = fill_max_size params0 in
      bindr (Validate_dkim_params params) (\<lambda>_. Inr (st\<lparr>dkim_Params := Some params\<rparr>)))"

section \<open>Message server (msg_server.go)\<close>

definition SaveDkimPubKey :: "DkimPubKey \<Rightarrow> dkim_state \<Rightarrow> dkim_state" where
  "SaveDkimPubKey dkimKey st =
     st\<lparr>DkimPubKeys := kv_set (dk_Domain dkimKey, dk_Selector dkimKey) dkimKey (DkimPubKeys st)\<rparr>"

definition SaveDkimPubKeys :: "DkimPubKey list \<Rightarrow> dkim_state \<Rightarrow> dkim_state" where
  "SaveDkimPubKeys dkimKeys st = fold SaveDkimPubKey dkimKeys st"

definition with_hash :: "dkim_ext \<Rightarrow> DkimPubKey \<Rightarrow> DkimPubKey result" where
  "with_hash x dkimKey =
     bindr (wrap_as ErrInvalidPubKey (ComputePoseidonHash x (dk_PubKey dkimKey))) (\<lambda>hash.
     Inr (dkimKey\<lparr>dk_PoseidonHash := big_Bytes hash\<rparr>))"

definition AddDkimPubKeys :: "dkim_env \<Rightarrow> MsgAddDkimPubKeys \<Rightarrow> dkim_state \<Rightarrow> dkim_state result" where
  "AddDkimPubKeys env msg st =
     bindr (ensure (de_authority env = ad_Authority msg) (SdkErr ''ErrInvalidSigner'')) (\<lambda>_.
     bindr (ValidateDkimPubKeysWithRevocation (de_ext env) (ad_DkimPubkeys msg) (GetParams_dkim st)
              (Some (kv_has (RevokedKeys st))) True) (\<lambda>_.
     bindr (map_each (with_hash (de_ext env)) (ad_DkimPubkeys msg)) (\<lambda>dkimKeys.
     Inr (SaveDkimPubKeys dkimKeys st))))"

definition RemoveDkimPubKey :: "dkim_env \<Rightarrow> MsgRemoveDkimPubKey \<Rightarrow> dkim_state \<Rightarrow> dkim_state result" where
  "RemoveDkimPubKey env msg st =
     bindr (ensure (de_authority env = rm_Authority_dkim msg) (SdkErr ''ErrInvalidSigner'')) (\<lambda>_.
     Inr (st\<lparr>DkimPubKeys := kv_del (rm_Domain msg, rm_Selector msg) (DkimPubKeys st)\<rparr>))"

text \<open>The entries of a domain in key order (\<open>NewPrefixedPairRange\<close>).\<close>

definition domain_entries :: "string \<Rightarrow> dkim_state \<Rightarrow> ((string \<times> string) \<times> DkimPubKey) list" where
  "domain_entries domain st = filter (\<lambda>e. fst (fst e) = domain) (DkimPubKeys st)"

text \<open>One round of the loop over the entries; the flag is \<open>revoked\<close>.\<close>

definition revoke_entry ::
  "dkim_ext \<Rightarrow> u64 \<Rightarrow> rsa_key \<Rightarrow> (string \<times> string) \<times> DkimPubKey \<Rightarrow> bool \<times> dkim_state
     \<Rightarrow> (bool \<times> dkim_state) result" where
  "revoke_entry x maxSize publicKey kv s =
     (case s of (revoked, st) \<Rightarrow>
       bindr (DecodePubKeyWithLimit (dk_PubKey (snd kv)) maxSize) (\<lambda>pubKeyBytes.
       bindr (ParseRSAPublicKey x pubKeyBytes) (\<lambda>storedKey.
       if rsa_E storedKey = rsa_E publicKey \<and> rsa_N storedKey = rsa_N publicKey then
         let st1 = st\<lparr>DkimPubKeys := kv_del (fst kv) (DkimPubKeys st)\<rparr> in
         Inr (True,
           if \<not> revoked
           then st1\<lparr>RevokedKeys := kv_set (CanonicalizeRSAPublicKey x publicKey) True (RevokedKeys st1)\<rparr>
           else st1)
       else Inr (revoked, st))))"

definition RevokeDkimPubKey :: "dkim_env \<Rightarrow> MsgRevokeDkimPubKey \<Rightarrow> dkim_state \<Rightarrow> dkim_state result" where
  "RevokeDkimPubKey env msg st =
     (let params = GetParams_dkim st in
      bindr (parse_private_key (de_ext env) (rv_PrivKey msg)) (\<lambda>publicKey.
      bindr (fold_each (revoke_entry (de_ext env) (MaxPubkeySizeBytes params) publicKey)
               (domain_entries (rv_Domain msg) st) (False, st)) (\<lambda>(_, st').
      Inr st')))"

definition UpdateParams_dkim :: "dkim_env \<Rightarrow> MsgUpdateParams_dkim \<Rightarrow> dkim_state \<Rightarrow> dkim_state result" where
  "UpdateParams_dkim env msg st =
     bindr (ensure (de_authority env = up_Authority_dkim msg) (SdkErr ''ErrInvalidSigner'')) (\<lambda>_.
     let params = fill_max_size (up_Params_dkim msg) in
     bindr (wrap_as ErrInvalidParams_dkim (Validate_dkim_params params)) (\<lambda>_.
     SetParams_dkim params st))"

datatype dkim_msg =
    Add_keys MsgAddDkimPubKeys
  | Remove_key MsgRemoveDkimPubKey
  | Revoke_key MsgRevokeDkimPubKey
  | Update_dkim_params MsgUpdateParams_dkim

fun dkim_step :: "dkim_env \<Rightarrow> dkim_msg \<Rightarrow> dkim_state \<Rightarrow> dkim_state result" where
  "dkim_step env (Add_keys msg) st = AddDkimPubKeys env msg st"
| "dkim_step env (Remove_key msg) st = RemoveDkimPubKey env msg st"
| "dkim_step env (Revoke_key msg) st = RevokeDkimPubKey env msg st"
| "dkim_step env (Update_dkim_params msg) st = UpdateParams_dkim env msg st"

section \<open>Genesis and migration (keeper.go, module.go, migrations/v2)\<close>

definition InitGenesis_dkim :: "dkim_env \<Rightarrow> GenesisState_dkim \<Rightarrow> dkim_state \<Rightarrow> dkim_state result" where
  "InitGenesis_dkim env data st =
     bindr (Validate_GenesisState_dkim (de_ext env) data) (\<lambda>_.
     bindr (SetParams_dkim (fill_max_size (gd_Params data)) st) (\<lambda>st1.
     let st2 = st1\<lparr>RevokedKeys := fold (\<lambda>r. kv_set r True) (gd_RevokedPubkeys data) (RevokedKeys st1)\<rparr> in
     Inr (SaveDkimPubKeys (gd_DkimPubkeys data) st2)))"

definition ExportGenesis_dkim :: "dkim_state \<Rightarrow> GenesisState_dkim" where
  "ExportGenesis_dkim st =
     \<lparr>gd_DkimPubkeys = map snd (DkimPubKeys st), gd_Params = GetParams_dkim st,
      gd_RevokedPubkeys = map fst (RevokedKeys st)\<rparr>"

text \<open>What the application runs at genesis: parameters and keys as they are, without a check.\<close>

definition AppModule_InitGenesis :: "GenesisState_dkim \<Rightarrow> dkim_state \<Rightarrow> dkim_state" where
  "AppModule_InitGenesis genesisState st =
     SaveDkimPubKeys (gd_DkimPubkeys genesisState) (st\<lparr>dkim_Params := Some (gd_Params genesisState)\<rparr>)"

definition AppModule_DefaultGenesis :: GenesisState_dkim where
  "AppModule_DefaultGenesis = \<lparr>gd_DkimPubkeys = [], gd_Params = DefaultParams_dkim, gd_RevokedPubkeys = []\<rparr>"

definition MigrateStore_dkim :: "dkim_state \<Rightarrow> dkim_state" where
  "MigrateStore_dkim st =
     (case dkim_Params st of
        None \<Rightarrow> st\<lparr>dkim_Params := Some DefaultParams_dkim\<rparr>
      | Some existingParams \<Rightarrow>
          st\<lparr>dkim_Params := Some (existingParams\<lparr>PublicInputIndices_of := DefaultPublicInputIndices\<rparr>)\<rparr>)"

end
