(* ===== verification/Dkim_Query.thy ===== *)
theory Dkim_Query
  imports Dkim_Keeper Dkim_Subject Zk_Query
begin

text \<open>
  \<open>x/dkim/keeper/query_server.go\<close>: lookup and listing of keys with pagination, and \<open>Authenticate\<close>,
  which checks the public inputs of a proof against the request and the stored keys and has the
  keeper of \<open>x/zk\<close> verify it.  The codec of the store's keys is the argument \<open>EncodeNonTerminal\<close>:
  given the size of a fresh buffer and a key, the bytes it has written to the buffer, an error, or
  the panic of writing past its end.
\<close>

section \<open>Keys\<close>

record PageRequest =
  pg_Key :: bytes
  pg_Offset :: u64
  pg_Limit :: u64
  pg_CountTotal :: bool

record QueryDkimPubKeysRequest =
  qd_Domain :: string
  qd_Selector :: string
  qd_PoseidonHash :: bytes
  qd_Pagination :: "PageRequest option"

text \<open>The records found, and the next key with the total unless the pagination is nil.\<close>

type_synonym keys_response = "DkimPubKey list \<times> (bytes \<times> u64) option"

definition query_DkimPubKey :: "dkim_state \<Rightarrow> string \<Rightarrow> string \<Rightarrow> DkimPubKey result" where
  "query_DkimPubKey st domain selector =
     (case kv_get (DkimPubKeys st) (domain, selector) of
        None \<Rightarrow> Inl (SdkErr ''collections.ErrNotFound'')
      | Some dkimPubKey \<Rightarrow> Inr dkimPubKey)"

text \<open>The page parameters: limit, offset, whether and from which key to start, whether to count.\<close>

record page_params =
  pp_limit :: u64
  pp_offset :: u64
  pp_useKey :: bool
  pp_key :: bytes
  pp_countTotal :: bool

definition parse_pagination :: "PageRequest option \<Rightarrow> page_params" where
  "parse_pagination p =
     (case p of
        None \<Rightarrow> \<lparr>pp_limit = 100, pp_offset = 0, pp_useKey = False, pp_key = [], pp_countTotal = False\<rparr>
      | Some r \<Rightarrow>
          \<lparr>pp_limit = (if pg_Limit r \<noteq> 0 \<and> pg_Limit r < 100 then pg_Limit r else 100),
           pp_offset = (if length (pg_Key r) > 0 then 0 else if pg_Offset r \<noteq> 0 then pg_Offset r else 0),
           pp_useKey = (length (pg_Key r) > 0),
           pp_key = (if length (pg_Key r) > 0 then pg_Key r else []),
           pp_countTotal = pg_CountTotal r\<rparr>)"

text \<open>The iterator is the list of the entries not yet visited.\<close>

fun fast_forward ::
  "(nat \<Rightarrow> 'k \<Rightarrow> bytes result) \<Rightarrow> bytes \<Rightarrow> ('k \<times> 'v) list \<Rightarrow> ('k \<times> 'v) list result" where
  "fast_forward EncodeNonTerminal paginationKey [] = Inr []"
| "fast_forward EncodeNonTerminal paginationKey (e # es) =
     bindr (EncodeNonTerminal 1024 (fst e)) (\<lambda>buf.
     if buf \<ge> paginationKey then Inr (e # es)
     else fast_forward EncodeNonTerminal paginationKey es)"

record 'k collected =
  co_results :: "DkimPubKey list"
  co_lastKey :: "'k option"
  co_skipped :: u64
  co_collected :: u64
  co_total :: u64

definition start_collect :: "'k collected" where
  "start_collect = \<lparr>co_results = [], co_lastKey = None, co_skipped = 0, co_collected = 0, co_total = 0\<rparr>"

definition hash_matches :: "bytes \<Rightarrow> DkimPubKey \<Rightarrow> bool" where
  "hash_matches wanted k \<longleftrightarrow> \<not> (length wanted > 0 \<and> dk_PoseidonHash k \<noteq> wanted)"

fun collect ::
  "bytes \<Rightarrow> page_params \<Rightarrow> ('k \<times> DkimPubKey) list \<Rightarrow> 'k collected \<Rightarrow> 'k collected" where
  "collect hash pp [] acc = acc"
| "collect hash pp (e # es) acc =
     (if \<not> hash_matches hash (snd e) then collect hash pp es acc
      else
        let acc = acc\<lparr>co_total := co_total acc + 1\<rparr> in
        if \<not> pp_useKey pp \<and> co_skipped acc < pp_offset pp
        then collect hash pp es (acc\<lparr>co_skipped := co_skipped acc + 1\<rparr>)
        else if co_collected acc \<ge> pp_limit pp
        then
          let acc = (if co_lastKey acc = None then acc\<lparr>co_lastKey := Some (fst e)\<rparr> else acc) in
          if \<not> pp_countTotal pp \<and> pp_useKey pp then acc else collect hash pp es acc
        else collect hash pp es
               (acc\<lparr>co_results := co_results acc @ [snd e], co_collected := co_collected acc + 1\<rparr>))"

definition query_DkimPubKeys ::
  "(nat \<Rightarrow> string \<times> string \<Rightarrow> bytes result) \<Rightarrow> dkim_state \<Rightarrow> QueryDkimPubKeysRequest \<Rightarrow> keys_response result" where
  "query_DkimPubKeys EncodeNonTerminal st msg =
     (if qd_Domain msg \<noteq> [] \<and> qd_Selector msg \<noteq> []
      then bindr (query_DkimPubKey st (qd_Domain msg) (qd_Selector msg)) (\<lambda>k. Inr ([k], None))
      else
        let pp = parse_pagination (qd_Pagination msg);
            iter = (if qd_Domain msg \<noteq> [] then domain_entries (qd_Domain msg) st else DkimPubKeys st) in
        bindr (if pp_useKey pp \<and> length (pp_key pp) > 0
               then fast_forward EncodeNonTerminal (pp_key pp) iter else Inr iter) (\<lambda>iter.
        let c = collect (qd_PoseidonHash msg) pp iter start_collect in
        bindr (case co_lastKey c of None \<Rightarrow> Inr [] | Some lastKey \<Rightarrow> EncodeNonTerminal 1024 lastKey) (\<lambda>nextKey.
        Inr (co_results c, Some (nextKey, co_total c)))))"

section \<open>Authenticate\<close>

record QueryAuthenticateRequest =
  qa_TxBytes :: bytes
  qa_EmailHash :: string
  qa_Proof :: bytes
  qa_PublicInputs :: "string list"
  qa_AllowedEmailHosts :: "string list"

definition IsSubset :: "'a list \<Rightarrow> 'a list \<Rightarrow> bool" where
  "IsSubset as bs = (let s = set bs in list_all (\<lambda>v. v \<in> s) as)"

text \<open>A range of the public inputs as text: numbers in base 10, each the bytes of a field element.\<close>

definition inputs_text :: "dkim_ext \<Rightarrow> string list \<Rightarrow> IndexRange \<Rightarrow> string result" where
  "inputs_text x publicInputs r =
     bindr (go_slice publicInputs (unat (ir_Start r)) (unat (ir_End r))) (\<lambda>part.
     bindr (wrap_as ErrInvalidPublicInput (ConvertStringArrayToBigInt part)) (\<lambda>vs.
     Inr (ConvertBigIntArrayToString x vs)))"

definition verify_proof ::
  "vkey_ext \<Rightarrow> ('pf, 'gp) circom_ext \<Rightarrow> zk_state \<Rightarrow> u64 \<Rightarrow> bytes \<Rightarrow> string list \<Rightarrow> bool result" where
  "verify_proof zx cx zst vkeyIdentifier pr publicInputs =
     recover_as (Status ''Internal'')
       (bindr (UnmarshalCircomProofJSON cx pr) (\<lambda>snarkProof.
        bindr (GetCircomVKeyByID zx zst vkeyIdentifier) (\<lambda>vkey.
        Verify cx snarkProof vkey publicInputs)))"

definition Authenticate ::
  "dkim_ext \<Rightarrow> (nat \<Rightarrow> string \<times> string \<Rightarrow> bytes result) \<Rightarrow> vkey_ext \<Rightarrow> ('pf, 'gp) circom_ext \<Rightarrow> zk_state
     \<Rightarrow> dkim_state \<Rightarrow> QueryAuthenticateRequest \<Rightarrow> bool result" where
  "Authenticate x EncodeNonTerminal zx cx zst st req =
     (case dkim_Params st of
        None \<Rightarrow> Inl (SdkErr ''collections.ErrNotFound'')
      | Some params \<Rightarrow>
          let indices = PublicInputIndices_of params; inputs = qa_PublicInputs req in
          bindr (ensure (\<not> len64 (qa_Proof req) > MaxDKIMProofSizeBytes) ErrProofTooLarge_dkim) (\<lambda>_.
          bindr (ensure (\<not> len64 inputs < MinLength indices) ErrNotEnoughPublicInputs) (\<lambda>_.
          bindr (go_index inputs (unat (EmailHashIndex indices))) (\<lambda>emailHash.
          bindr (ensure (qa_EmailHash req = emailHash) ErrEmailHashMismatch) (\<lambda>_.
          bindr (inputs_text x inputs (TxBytesRange indices)) (\<lambda>txBytes.
          bindr (ensure (qa_TxBytes req = txBytes) ErrTxBytesMismatch) (\<lambda>_.
          bindr (inputs_text x inputs (DkimDomainRange indices)) (\<lambda>dkimDomain.
          bindr (go_index inputs (unat (DkimHashIndex indices))) (\<lambda>dkimHash.
          bindr (case SetString dkimHash 10 of None \<Rightarrow> Inl ErrInvalidPublicInput | Some v \<Rightarrow> Inr v) (\<lambda>dkimHashBig.
          bindr (query_DkimPubKeys EncodeNonTerminal st
                   \<lparr>qd_Domain = dkimDomain, qd_Selector = [], qd_PoseidonHash = big_Bytes dkimHashBig,
                    qd_Pagination = None\<rparr>) (\<lambda>(keys, _).
          bindr (ensure (length keys \<noteq> 0) ErrNoDkimPubKey) (\<lambda>_.
          bindr (inputs_text x inputs (EmailHostRange indices)) (\<lambda>emailHost.
          bindr (ensure (emailHost \<noteq> []) ErrEmailHostMismatch) (\<lambda>_.
          bindr (ensure (length (qa_AllowedEmailHosts req) \<noteq> 0) ErrEmailHostMismatch) (\<lambda>_.
          bindr (ensure (IsSubset [emailHost] (qa_AllowedEmailHosts req)) ErrEmailHostMismatch) (\<lambda>_.
          bindr (inputs_text x inputs (EmailSubjectRange indices)) (\<lambda>emailSubject.
          bindr (ensure (ValidateForcedSubject emailSubject = Some True) ErrInvalidEmailSubject) (\<lambda>_.
          verify_proof zx cx zst (VkeyIdentifier params) (qa_Proof req) inputs))))))))))))))))))"

definition query_Params_dkim :: "dkim_state \<Rightarrow> dkim_params" where
  "query_Params_dkim st = GetParams_dkim st"

end
