(* ===== verification/Dkim_Paging.thy ===== *)
theory Dkim_Paging
  imports Dkim_Query
begin

text \<open>
  Listing keys page by page.  The abstract view of a listing is the list of the matching entries in
  key order; the facts here show what part of it the loop of \<open>DkimPubKeys\<close> returns and that a client
  who follows the next keys receives all of it.
\<close>

section \<open>The loop\<close>

lemma collect_filter:
  "collect hash pp es acc = collect hash pp (filter (\<lambda>e. hash_matches hash (snd e)) es) acc"
  by (induction es arbitrary: acc) (simp_all add: Let_def)

text \<open>Past the offset: what is collected, and the key of the first entry that is not.\<close>

lemma collect_full:
  assumes "list_all (\<lambda>e. hash_matches hash (snd e)) es" and "co_collected acc \<ge> pp_limit pp"
    and "pp_useKey pp \<or> co_skipped acc \<ge> pp_offset pp"
  shows "co_results (collect hash pp es acc) = co_results acc
    \<and> co_lastKey (collect hash pp es acc) =
        (if co_lastKey acc = None \<and> es \<noteq> [] then Some (fst (hd es)) else co_lastKey acc)"
  using assms
proof (induction es arbitrary: acc)
  case (Cons e es)
  let ?acc = "acc\<lparr>co_total := co_total acc + 1\<rparr>"
  let ?acc' = "if co_lastKey ?acc = None then ?acc\<lparr>co_lastKey := Some (fst e)\<rparr> else ?acc"
  have run: "collect hash pp (e # es) acc = (if \<not> pp_countTotal pp \<and> pp_useKey pp then ?acc' else collect hash pp es ?acc')"
    using Cons.prems by (auto simp: Let_def)
  have "co_collected ?acc' = co_collected acc" "co_skipped ?acc' = co_skipped acc" "co_results ?acc' = co_results acc"
    "co_lastKey ?acc' = (if co_lastKey acc = None then Some (fst e) else co_lastKey acc)"
    by simp_all
  then show ?case
    unfolding run using Cons.IH [of ?acc'] Cons.prems by (auto split: if_splits)
qed simp

lemma collect_page:
  assumes "list_all (\<lambda>e. hash_matches hash (snd e)) es" and "unat (co_collected acc) \<le> unat (pp_limit pp)"
    and "pp_useKey pp \<or> co_skipped acc \<ge> pp_offset pp" and "co_lastKey acc = None"
  shows "co_results (collect hash pp es acc)
      = co_results acc @ map snd (take (unat (pp_limit pp) - unat (co_collected acc)) es)
    \<and> co_lastKey (collect hash pp es acc) =
        (let n = unat (pp_limit pp) - unat (co_collected acc) in
         if n < length es then Some (fst (es ! n)) else None)"
  using assms
proof (induction es arbitrary: acc)
  case (Cons e es)
  show ?case
  proof (cases "co_collected acc \<ge> pp_limit pp")
    case True
    then have "unat (pp_limit pp) - unat (co_collected acc) = 0"
      by (simp add: word_le_nat_alt)
    then show ?thesis
      using collect_full [OF Cons.prems(1) True Cons.prems(3)] Cons.prems(4) by simp
  next
    case False
    let ?acc = "acc\<lparr>co_total := co_total acc + 1, co_results := co_results acc @ [snd e],
      co_collected := co_collected acc + 1\<rparr>"
    have less: "unat (co_collected acc) < unat (pp_limit pp)"
      using False by (simp add: word_le_nat_alt)
    have "co_collected acc \<noteq> - 1"
      using False by (metis word_n1_ge)
    then have succ: "unat (co_collected acc + 1) = Suc (unat (co_collected acc))"
      by (rule unat_succ)
    have run: "collect hash pp (e # es) acc = collect hash pp es ?acc"
      using Cons.prems False by (auto simp: Let_def)
    have n: "unat (pp_limit pp) - unat (co_collected acc) = Suc (unat (pp_limit pp) - unat (co_collected ?acc))"
      using less succ by simp
    show ?thesis
      unfolding run n using Cons.IH [of ?acc] Cons.prems less succ by (simp add: Let_def)
  qed
qed simp

text \<open>Without a start key the offset is skipped first and every matching entry is counted.\<close>

lemma collect_skip:
  assumes "list_all (\<lambda>e. hash_matches hash (snd e)) es" and "\<not> pp_useKey pp"
    and "unat (co_skipped acc) \<le> unat (pp_offset pp)"
  shows "\<exists>s t. collect hash pp es acc
      = collect hash pp (drop (unat (pp_offset pp) - unat (co_skipped acc)) es) (acc\<lparr>co_skipped := s, co_total := t\<rparr>)
    \<and> (unat (pp_offset pp) - unat (co_skipped acc) < length es \<longrightarrow> s = pp_offset pp)"
  using assms
proof (induction es arbitrary: acc)
  case Nil
  show ?case
    by (rule exI [of _ "co_skipped acc"], rule exI [of _ "co_total acc"]) (simp del: collect.simps(2))
next
  case (Cons e es)
  show ?case
  proof (cases "co_skipped acc < pp_offset pp")
    case True
    let ?acc = "acc\<lparr>co_total := co_total acc + 1, co_skipped := co_skipped acc + 1\<rparr>"
    have less: "unat (co_skipped acc) < unat (pp_offset pp)"
      using True by (simp add: word_less_nat_alt)
    have "co_skipped acc \<noteq> - 1"
      using True by (metis word_n1_ge leD)
    then have succ: "unat (co_skipped acc + 1) = Suc (unat (co_skipped acc))"
      by (rule unat_succ)
    have run: "collect hash pp (e # es) acc = collect hash pp es ?acc"
      using Cons.prems True by (auto simp: Let_def)
    have n: "unat (pp_offset pp) - unat (co_skipped acc) = Suc (unat (pp_offset pp) - unat (co_skipped ?acc))"
      using less succ by simp
    obtain s t where st: "collect hash pp es ?acc
        = collect hash pp (drop (unat (pp_offset pp) - unat (co_skipped ?acc)) es) (?acc\<lparr>co_skipped := s, co_total := t\<rparr>)"
      "unat (pp_offset pp) - unat (co_skipped ?acc) < length es \<longrightarrow> s = pp_offset pp"
      using Cons.IH [of ?acc] Cons.prems less succ by auto
    show ?thesis
      unfolding run n by (rule exI [of _ s], rule exI [of _ t]) (use st in simp)
  next
    case False
    then have eq: "co_skipped acc = pp_offset pp"
      using Cons.prems(3) by (simp add: word_le_nat_alt [symmetric])
    then have same: "acc\<lparr>co_skipped := pp_offset pp, co_total := co_total acc\<rparr> = acc"
      by (cases acc) simp
    show ?thesis
      by (rule exI [of _ "pp_offset pp"], rule exI [of _ "co_total acc"])
        (simp add: eq same del: collect.simps(2))
  qed
qed

lemma collect_total:
  assumes "list_all (\<lambda>e. hash_matches hash (snd e)) es" and "\<not> pp_useKey pp"
  shows "co_total (collect hash pp es acc) = co_total acc + of_nat (length es)"
  using assms by (induction es arbitrary: acc) (simp_all add: Let_def)

section \<open>A page of the listing\<close>

text \<open>The entries a request asks for, in key order, and a page of them with the key that follows it.\<close>

definition range_of :: "dkim_state \<Rightarrow> QueryDkimPubKeysRequest \<Rightarrow> ((string \<times> string) \<times> DkimPubKey) list" where
  "range_of st req = (if qd_Domain req \<noteq> [] then domain_entries (qd_Domain req) st else DkimPubKeys st)"

definition matching :: "dkim_state \<Rightarrow> QueryDkimPubKeysRequest \<Rightarrow> ((string \<times> string) \<times> DkimPubKey) list" where
  "matching st req = filter (\<lambda>e. hash_matches (qd_PoseidonHash req) (snd e)) (range_of st req)"

definition page :: "('k \<times> 'v) list \<Rightarrow> nat \<Rightarrow> nat \<Rightarrow> 'v list \<times> 'k option" where
  "page es off lim =
     (map snd (take lim (drop off es)), if off + lim < length es then Some (fst (es ! (off + lim))) else None)"

lemma pp_limit_range: "1 \<le> unat (pp_limit (parse_pagination p)) \<and> unat (pp_limit (parse_pagination p)) \<le> 100"
proof (cases p)
  case (Some r)
  have "unat (pg_Limit r) \<le> 100" if "pg_Limit r < 100"
    using that by (simp add: word_less_nat_alt)
  moreover have "1 \<le> unat (pg_Limit r)" if "pg_Limit r \<noteq> 0"
    using that by (simp add: Suc_le_eq unat_gt_0)
  ultimately show ?thesis
    using Some by (simp add: parse_pagination_def)
qed (simp add: parse_pagination_def)

lemma collect_key_page:
  assumes "pp_useKey pp"
  shows "(co_results (collect hash pp es start_collect), co_lastKey (collect hash pp es start_collect))
    = page (filter (\<lambda>e. hash_matches hash (snd e)) es) 0 (unat (pp_limit pp))"
proof -
  let ?ms = "filter (\<lambda>e. hash_matches hash (snd e)) es"
  have "list_all (\<lambda>e. hash_matches hash (snd e)) ?ms"
    by (simp add: list_all_iff)
  from collect_page [OF this, of start_collect pp] assms show ?thesis
    by (simp add: collect_filter [of _ _ es] start_collect_def page_def Let_def)
qed

lemma collect_offset_page:
  assumes "\<not> pp_useKey pp"
  shows "(co_results (collect hash pp es start_collect), co_lastKey (collect hash pp es start_collect))
      = page (filter (\<lambda>e. hash_matches hash (snd e)) es) (unat (pp_offset pp)) (unat (pp_limit pp))
    \<and> co_total (collect hash pp es start_collect) = of_nat (length (filter (\<lambda>e. hash_matches hash (snd e)) es))"
proof -
  let ?ms = "filter (\<lambda>e. hash_matches hash (snd e)) es"
  have all: "list_all (\<lambda>e. hash_matches hash (snd e)) ?ms"
    by (simp add: list_all_iff)
  obtain s t where run: "collect hash pp ?ms start_collect
      = collect hash pp (drop (unat (pp_offset pp)) ?ms) (start_collect\<lparr>co_skipped := s, co_total := t\<rparr>)"
    and s: "unat (pp_offset pp) < length ?ms \<longrightarrow> s = pp_offset pp"
    using collect_skip [OF all assms, of start_collect] by (auto simp: start_collect_def)
  have "(co_results (collect hash pp ?ms start_collect), co_lastKey (collect hash pp ?ms start_collect))
      = page ?ms (unat (pp_offset pp)) (unat (pp_limit pp))"
  proof (cases "unat (pp_offset pp) < length ?ms")
    case True
    have "list_all (\<lambda>e. hash_matches hash (snd e)) (drop (unat (pp_offset pp)) ?ms)"
      using all unfolding list_all_iff by (auto dest: in_set_dropD)
    from collect_page [OF this, of "start_collect\<lparr>co_skipped := s, co_total := t\<rparr>" pp] s True show ?thesis
      unfolding run by (simp add: start_collect_def page_def Let_def less_diff_conv add.commute)
  next
    case False
    then show ?thesis
      unfolding run by (simp add: start_collect_def page_def)
  qed
  then show ?thesis
    using collect_total [OF all assms, of start_collect]
    by (simp add: collect_filter [of _ _ es] start_collect_def)
qed

section \<open>Following the pages\<close>

text \<open>What the documentation promises of the key codec on keys that fit the buffer: it encodes every
  stored key, to bytes in the order of the keys.\<close>

definition codec_laws :: "(nat \<Rightarrow> string \<times> string \<Rightarrow> bytes result) \<Rightarrow> dkim_state \<Rightarrow> bool" where
  "codec_laws enc st \<longleftrightarrow>
     (\<exists>f. list_all (\<lambda>e. enc 1024 (fst e) = Inr (f (fst e)) \<and> f (fst e) \<noteq> []) (DkimPubKeys st)
        \<and> sorted_wrt (\<lambda>d e. f (fst d) < f (fst e)) (DkimPubKeys st))"

definition page_request :: "QueryDkimPubKeysRequest \<Rightarrow> u64 \<Rightarrow> bytes \<Rightarrow> QueryDkimPubKeysRequest" where
  "page_request req lim key =
     req\<lparr>qd_Pagination := Some \<lparr>pg_Key = key, pg_Offset = 0, pg_Limit = lim, pg_CountTotal = False\<rparr>\<rparr>"

text \<open>A client that asks for the page at a key, then for the page at its next key, and so on for at most
  that many further pages.\<close>

fun follow ::
  "(nat \<Rightarrow> string \<times> string \<Rightarrow> bytes result) \<Rightarrow> dkim_state \<Rightarrow> QueryDkimPubKeysRequest \<Rightarrow> u64 \<Rightarrow> nat \<Rightarrow> bytes
     \<Rightarrow> DkimPubKey list option" where
  "follow enc st req lim fuel key =
     (case query_DkimPubKeys enc st (page_request req lim key) of
        Inl _ \<Rightarrow> None
      | Inr (ks, None) \<Rightarrow> Some ks
      | Inr (ks, Some (nextKey, _)) \<Rightarrow>
          if nextKey = [] then Some ks
          else (case fuel of
              0 \<Rightarrow> None
            | Suc n \<Rightarrow> map_option ((@) ks) (follow enc st req lim n nextKey)))"

declare follow.simps [simp del]

lemma fast_forward_at:
  assumes "list_all (\<lambda>e. enc 1024 (fst e) = Inr (f (fst e))) (pre @ e # post)"
    and "sorted_wrt (\<lambda>d e. f (fst d) < f (fst e)) (pre @ e # post)"
  shows "fast_forward enc (f (fst e)) (pre @ e # post) = Inr (e # post)"
  using assms by (induction pre) (auto simp: not_le)

lemma codec_range:
  assumes "codec_laws enc st"
  obtains f where "list_all (\<lambda>e. enc 1024 (fst e) = Inr (f (fst e))) (range_of st req)"
    "list_all (\<lambda>e. f (fst e) \<noteq> []) (range_of st req)"
    "sorted_wrt (\<lambda>d e. f (fst d) < f (fst e)) (range_of st req)"
proof -
  from assms obtain f where f: "\<And>e. e \<in> set (DkimPubKeys st) \<Longrightarrow> enc 1024 (fst e) = Inr (f (fst e)) \<and> f (fst e) \<noteq> []"
    "sorted_wrt (\<lambda>d e. f (fst d) < f (fst e)) (DkimPubKeys st)"
    by (auto simp: codec_laws_def list_all_iff)
  have sub: "set (range_of st req) \<subseteq> set (DkimPubKeys st)"
    by (auto simp: range_of_def domain_entries_def)
  have "sorted_wrt (\<lambda>d e. f (fst d) < f (fst e)) (range_of st req)"
    using f(2) by (simp add: range_of_def domain_entries_def sorted_wrt_filter)
  moreover have "list_all (\<lambda>e. enc 1024 (fst e) = Inr (f (fst e))) (range_of st req)"
    "list_all (\<lambda>e. f (fst e) \<noteq> []) (range_of st req)"
    using f(1) sub by (auto simp: list_all_iff)
  ultimately show thesis
    using that by blast
qed

lemma split_at_match:
  assumes n: "n < length (filter P es)" and e: "e = filter P es ! n" and dist: "distinct (filter P es)"
  obtains pre post where "es = pre @ e # post" "filter P (e # post) = drop n (filter P es)"
proof -
  have mem: "e \<in> set (filter P es)"
    unfolding e using n by (rule nth_mem)
  then have "e \<in> set es" and P: "P e"
    by simp_all
  then obtain pre post where es: "es = pre @ e # post"
    by (meson split_list)
  have fs: "filter P es = filter P pre @ e # filter P post"
    using P by (simp add: es)
  then have "filter P es ! length (filter P pre) = e" "length (filter P pre) < length (filter P es)"
    by simp_all
  then have "n = length (filter P pre)"
    using nth_eq_iff_index_eq [OF dist n] e by metis
  then have "filter P (e # post) = drop n (filter P es)"
    using fs P by simp
  with es show thesis
    by (rule that)
qed

definition next_bytes :: "(string \<times> string \<Rightarrow> bytes) \<Rightarrow> (string \<times> string) option \<Rightarrow> bytes" where
  "next_bytes f nk = (case nk of None \<Rightarrow> [] | Some k \<Rightarrow> f k)"

definition page_size :: "u64 \<Rightarrow> nat" where
  "page_size lim = unat (pp_limit (parse_pagination (Some \<lparr>pg_Key = [], pg_Offset = 0, pg_Limit = lim, pg_CountTotal = False\<rparr>)))"

lemma page_size_pos: "1 \<le> page_size lim"
  unfolding page_size_def using pp_limit_range by blast

lemma page_params_of:
  "parse_pagination (qd_Pagination (page_request req lim key)) =
     \<lparr>pp_limit = pp_limit (parse_pagination (Some \<lparr>pg_Key = [], pg_Offset = 0, pg_Limit = lim, pg_CountTotal = False\<rparr>)),
      pp_offset = 0, pp_useKey = (key \<noteq> []), pp_key = key, pp_countTotal = False\<rparr>"
  by (simp add: parse_pagination_def page_request_def)

lemma page_next_encodes:
  assumes "list_all (\<lambda>e. enc 1024 (fst e) = Inr (f (fst e))) es"
  shows "(case snd (page es a b) of None \<Rightarrow> Inr [] | Some k \<Rightarrow> enc 1024 k) = Inr (next_bytes f (snd (page es a b)))"
  using assms by (auto simp: page_def next_bytes_def list_all_length)

lemma page_request_simps [simp]:
  "qd_Domain (page_request req lim key) = qd_Domain req"
  "qd_Selector (page_request req lim key) = qd_Selector req"
  "qd_PoseidonHash (page_request req lim key) = qd_PoseidonHash req"
  "range_of st (page_request req lim key) = range_of st req"
  by (simp_all add: page_request_def range_of_def)

lemma query_list:
  assumes "\<not> (qd_Domain req \<noteq> [] \<and> qd_Selector req \<noteq> [])"
    and "pp = parse_pagination (qd_Pagination req)"
    and "(if pp_useKey pp \<and> pp_key pp \<noteq> [] then fast_forward enc (pp_key pp) (range_of st req) else Inr (range_of st req)) = Inr it"
    and "c = collect (qd_PoseidonHash req) pp it start_collect"
    and "(case co_lastKey c of None \<Rightarrow> Inr [] | Some k \<Rightarrow> enc 1024 k) = Inr nk"
  shows "query_DkimPubKeys enc st req = Inr (co_results c, Some (nk, co_total c))"
  using assms by (auto simp: query_DkimPubKeys_def Let_def range_of_def split: if_splits)

lemma sorted_wrt_distinct: "sorted_wrt (\<lambda>d e. g d < (g e :: 'b :: order)) xs \<Longrightarrow> distinct xs"
  by (induction xs) auto

lemma first_page:
  assumes "\<not> (qd_Domain req \<noteq> [] \<and> qd_Selector req \<noteq> [])"
    and enc: "list_all (\<lambda>e. enc 1024 (fst e) = Inr (f (fst e))) (range_of st req)"
  shows "\<exists>t. query_DkimPubKeys enc st (page_request req lim [])
    = Inr (fst (page (matching st req) 0 (page_size lim)), Some (next_bytes f (snd (page (matching st req) 0 (page_size lim))), t))"
proof -
  let ?pp = "parse_pagination (qd_Pagination (page_request req lim []))"
  let ?c = "collect (qd_PoseidonHash req) ?pp (range_of st req) start_collect"
  have "(co_results ?c, co_lastKey ?c) = page (matching st req) 0 (page_size lim)"
    using collect_offset_page [of ?pp "qd_PoseidonHash req" "range_of st req"]
    by (simp add: page_params_of matching_def page_size_def)
  then have c: "co_results ?c = fst (page (matching st req) 0 (page_size lim))"
    "co_lastKey ?c = snd (page (matching st req) 0 (page_size lim))"
    by (metis fst_conv, metis snd_conv)
  have "list_all (\<lambda>e. enc 1024 (fst e) = Inr (f (fst e))) (matching st req)"
    using enc by (auto simp: matching_def list_all_iff)
  then have "(case co_lastKey ?c of None \<Rightarrow> Inr [] | Some k \<Rightarrow> enc 1024 k)
      = Inr (next_bytes f (snd (page (matching st req) 0 (page_size lim))))"
    unfolding c by (rule page_next_encodes)
  from query_list [where enc = enc and st = st, OF _ refl _ _ this] assms(1) show ?thesis
    unfolding c(1) by (auto simp: page_params_of)
qed

lemma later_page:
  assumes "\<not> (qd_Domain req \<noteq> [] \<and> qd_Selector req \<noteq> [])"
    and enc: "list_all (\<lambda>e. enc 1024 (fst e) = Inr (f (fst e))) (range_of st req)"
    and some: "list_all (\<lambda>e. f (fst e) \<noteq> []) (range_of st req)"
    and sorted: "sorted_wrt (\<lambda>d e. f (fst d) < f (fst e)) (range_of st req)"
    and n: "n < length (matching st req)"
  shows "\<exists>t. query_DkimPubKeys enc st (page_request req lim (f (fst (matching st req ! n))))
    = Inr (fst (page (drop n (matching st req)) 0 (page_size lim)),
        Some (next_bytes f (snd (page (drop n (matching st req)) 0 (page_size lim))), t))"
proof -
  define e where "e = matching st req ! n"
  have "distinct (range_of st req)"
    by (rule sorted_wrt_distinct [OF sorted])
  then obtain pre post where split: "range_of st req = pre @ e # post"
    and rest: "filter (\<lambda>e. hash_matches (qd_PoseidonHash req) (snd e)) (e # post) = drop n (matching st req)"
    using split_at_match [OF n [unfolded matching_def] e_def [unfolded matching_def]]
    by (metis distinct_filter matching_def)
  have key: "f (fst e) \<noteq> []"
    using some split by (simp add: list_all_iff)
  have ff: "fast_forward enc (f (fst e)) (range_of st req) = Inr (e # post)"
    using fast_forward_at [of enc f pre e post] enc sorted by (simp add: split)
  let ?pp = "parse_pagination (qd_Pagination (page_request req lim (f (fst e))))"
  let ?c = "collect (qd_PoseidonHash req) ?pp (e # post) start_collect"
  have "(co_results ?c, co_lastKey ?c) = page (drop n (matching st req)) 0 (page_size lim)"
    using collect_key_page [of ?pp "qd_PoseidonHash req" "e # post"] key
    by (simp only: rest page_params_of) (simp add: page_size_def)
  then have c: "co_results ?c = fst (page (drop n (matching st req)) 0 (page_size lim))"
    "co_lastKey ?c = snd (page (drop n (matching st req)) 0 (page_size lim))"
    by (metis fst_conv, metis snd_conv)
  have "list_all (\<lambda>e. enc 1024 (fst e) = Inr (f (fst e))) (drop n (matching st req))"
    using enc by (auto simp: matching_def list_all_iff dest!: in_set_dropD)
  then have "(case co_lastKey ?c of None \<Rightarrow> Inr [] | Some k \<Rightarrow> enc 1024 k)
      = Inr (next_bytes f (snd (page (drop n (matching st req)) 0 (page_size lim))))"
    unfolding c by (rule page_next_encodes)
  from query_list [where enc = enc and st = st, OF _ refl _ _ this] assms(1) ff key show ?thesis
    unfolding c(1) e_def [symmetric] by (auto simp: page_params_of)
qed

lemma follow_from:
  assumes direct: "\<not> (qd_Domain req \<noteq> [] \<and> qd_Selector req \<noteq> [])"
    and enc: "list_all (\<lambda>e. enc 1024 (fst e) = Inr (f (fst e))) (range_of st req)"
    and some: "list_all (\<lambda>e. f (fst e) \<noteq> []) (range_of st req)"
    and sorted: "sorted_wrt (\<lambda>d e. f (fst d) < f (fst e)) (range_of st req)"
  shows "n < length (matching st req) \<Longrightarrow> length (matching st req) - n \<le> fuel \<Longrightarrow>
    follow enc st req lim fuel (f (fst (matching st req ! n))) = Some (map snd (drop n (matching st req)))"
proof (induction fuel arbitrary: n)
  case (Suc fuel)
  let ?ms = "matching st req" and ?L = "page_size lim"
  obtain t where q: "query_DkimPubKeys enc st (page_request req lim (f (fst (?ms ! n))))
      = Inr (fst (page (drop n ?ms) 0 ?L), Some (next_bytes f (snd (page (drop n ?ms) 0 ?L)), t))"
    using later_page [where enc = enc, OF direct enc some sorted Suc.prems(1)] by blast
  show ?case
  proof (cases "n + ?L < length ?ms")
    case True
    have L: "1 \<le> ?L"
      by (rule page_size_pos)
    have "f (fst (?ms ! (n + ?L))) \<noteq> []"
      using some nth_mem [OF True] by (auto simp: matching_def list_all_iff)
    moreover have "follow enc st req lim fuel (f (fst (?ms ! (n + ?L)))) = Some (map snd (drop (n + ?L) ?ms))"
      using Suc.prems L by (intro Suc.IH [OF True]) linarith
    moreover have "take ?L (drop n ?ms) @ drop (n + ?L) ?ms = drop n ?ms"
      by (metis append_take_drop_id drop_drop add.commute)
    ultimately show ?thesis
      using True q by (subst follow.simps) (simp add: page_def next_bytes_def flip: map_append)
  next
    case False
    then have "\<not> ?L < length ?ms - n"
      by linarith
    then show ?thesis
      using q by (subst follow.simps) (simp add: page_def next_bytes_def)
  qed
qed simp

section \<open>The buffer of the key codec\<close>

text \<open>The documented encoding of a pair of strings takes their bytes and a delimiter for each; the codec
  does not panic in a buffer that holds it, and does in a smaller one unless it meets a delimiter
  inside a string, which is an error.\<close>

definition key_fits :: "nat \<Rightarrow> string \<times> string \<Rightarrow> bool" where
  "key_fits n k \<longleftrightarrow> length (fst k) + length (snd k) + 2 \<le> n"

definition buffer_laws :: "(nat \<Rightarrow> string \<times> string \<Rightarrow> bytes result) \<Rightarrow> bool" where
  "buffer_laws enc \<longleftrightarrow>
     (\<forall>n k. key_fits n k \<longrightarrow> \<not> is_panic (enc n k))
     \<and> (\<forall>n k. \<not> key_fits n k \<longrightarrow> CHR 0x00 \<notin> set (fst k) \<union> set (snd k) \<longrightarrow> is_panic (enc n k))"

lemma nth_filter_in_drop: "i < length (filter P xs) \<Longrightarrow> filter P xs ! i \<in> set (drop i xs)"
proof (induction xs arbitrary: i)
  case (Cons x xs)
  show ?case
  proof (cases "P x")
    case True
    then show ?thesis
      using Cons by (cases i) auto
  next
    case False
    then have "filter P xs ! i \<in> set (drop i xs)"
      using Cons by simp
    moreover have "set (drop i xs) \<subseteq> set (drop i (x # xs))"
      using set_drop_subset_set_drop [of "i - 1" i xs] by (auto simp: drop_Cons')
    ultimately show ?thesis
      using False by auto
  qed
qed simp

text \<open>Without a start key the codec is called at most once, on the first matching key past the page.\<close>

lemma query_first_page:
  assumes "\<not> (qd_Domain req \<noteq> [] \<and> qd_Selector req \<noteq> [])" and "qd_Pagination req = None"
  shows "query_DkimPubKeys enc st req =
    (if 100 < length (matching st req)
     then bindr (enc 1024 (fst (matching st req ! 100))) (\<lambda>nk.
            Inr (map snd (take 100 (matching st req)), Some (nk, of_nat (length (matching st req)))))
     else Inr (map snd (take 100 (matching st req)), Some ([], of_nat (length (matching st req)))))"
proof -
  let ?pp = "parse_pagination (qd_Pagination req)" and ?ms = "matching st req"
  let ?c = "collect (qd_PoseidonHash req) ?pp (range_of st req) start_collect"
  have pp: "\<not> pp_useKey ?pp" "unat (pp_offset ?pp) = 0" "unat (pp_limit ?pp) = 100"
    by (simp_all add: parse_pagination_def assms(2))
  have c: "co_results ?c = fst (page ?ms 0 100)" "co_lastKey ?c = snd (page ?ms 0 100)"
    "co_total ?c = of_nat (length ?ms)"
    using collect_offset_page [OF pp(1), of "qd_PoseidonHash req" "range_of st req"] pp(2,3)
    unfolding matching_def [symmetric] by (metis fst_conv, metis snd_conv, metis)
  have "query_DkimPubKeys enc st req =
      bindr (case co_lastKey ?c of None \<Rightarrow> Inr [] | Some k \<Rightarrow> enc 1024 k) (\<lambda>nk. Inr (co_results ?c, Some (nk, co_total ?c)))"
    using assms(1) pp(1) by (auto simp: query_DkimPubKeys_def Let_def range_of_def)
  then show ?thesis
    unfolding c by (simp add: page_def)
qed

lemma matching_past_page: "100 < length (matching st req) \<Longrightarrow> matching st req ! 100 \<in> set (drop 100 (DkimPubKeys st))"
  using nth_filter_in_drop [of 100 "\<lambda>e. hash_matches (qd_PoseidonHash req) (snd e)
      \<and> (qd_Domain req \<noteq> [] \<longrightarrow> fst (fst e) = qd_Domain req)" "DkimPubKeys st"]
  by (auto simp: matching_def range_of_def domain_entries_def conj_commute split: if_splits)

text \<open>A listing whose first key past the page is too long for the buffer panics.\<close>

lemma long_key_panics:
  assumes "buffer_laws enc" and "\<not> (qd_Domain req \<noteq> [] \<and> qd_Selector req \<noteq> [])" and "qd_Pagination req = None"
    and "100 < length (matching st req)" and "fst (matching st req ! 100) = d"
    and "\<not> key_fits 1024 d" and "CHR 0x00 \<notin> set (fst d) \<union> set (snd d)"
  shows "is_panic (query_DkimPubKeys enc st req)"
  using assms by (cases d) (simp add: query_first_page is_panic_bindr buffer_laws_def)

lemma query_not_panic:
  assumes "buffer_laws enc" and "qd_Selector req = []" and "qd_Pagination req = None"
    and "\<forall>e \<in> set (drop 100 (DkimPubKeys st)). key_fits 1024 (fst e)"
  shows "\<not> is_panic (query_DkimPubKeys enc st req)"
proof (cases "100 < length (matching st req)")
  case True
  then have "key_fits 1024 (fst (matching st req ! 100))"
    using assms(4) matching_past_page by blast
  then have "\<not> is_panic (enc 1024 (fst (matching st req ! 100)))"
    using assms(1) unfolding buffer_laws_def by blast
  then show ?thesis
    by (simp add: query_first_page assms(2,3) True is_panic_bindr)
qed (simp add: query_first_page assms(2,3))

section \<open>Properties\<close>

text \<open>C24: A client that lists keys page by page, following the next keys, receives every matching key
  exactly once and in key order, and is done after at most one page per stored key; the stored keys
  are assumed to fit the codec's buffer.\<close>

theorem pages_enumerate_all_keys:
  assumes direct: "\<not> (qd_Domain req \<noteq> [] \<and> qd_Selector req \<noteq> [])" and codec: "codec_laws enc st"
  shows "follow enc st req lim (length (DkimPubKeys st)) [] = Some (map snd (matching st req))"
proof -
  obtain f where enc: "list_all (\<lambda>e. enc 1024 (fst e) = Inr (f (fst e))) (range_of st req)"
    and some: "list_all (\<lambda>e. f (fst e) \<noteq> []) (range_of st req)"
    and sorted: "sorted_wrt (\<lambda>d e. f (fst d) < f (fst e)) (range_of st req)"
    by (rule codec_range [where enc = enc, OF codec, of req])
  let ?ms = "matching st req" and ?L = "page_size lim" and ?n = "length (DkimPubKeys st)"
  obtain t where q: "query_DkimPubKeys enc st (page_request req lim [])
      = Inr (fst (page ?ms 0 ?L), Some (next_bytes f (snd (page ?ms 0 ?L)), t))"
    using first_page [where enc = enc, OF direct enc] by blast
  have len: "length ?ms \<le> ?n"
    by (simp add: matching_def range_of_def domain_entries_def le_trans [OF length_filter_le])
  show ?thesis
  proof (cases "?L < length ?ms")
    case True
    have L: "1 \<le> ?L"
      by (rule page_size_pos)
    obtain m where m: "?n = Suc m"
      using True len by (cases ?n) auto
    have "f (fst (?ms ! ?L)) \<noteq> []"
      using some nth_mem [OF True] by (auto simp: matching_def list_all_iff)
    moreover have "follow enc st req lim m (f (fst (?ms ! ?L))) = Some (map snd (drop ?L ?ms))"
      using len L m by (intro follow_from [where enc = enc, OF direct enc some sorted True]) linarith
    ultimately show ?thesis
      using True q m by (subst follow.simps) (simp add: page_def next_bytes_def flip: map_append)
  next
    case False
    then show ?thesis
      using q by (subst follow.simps) (simp add: page_def next_bytes_def)
  qed
qed

text \<open>C25: A listing without a start key refines the plain one: it returns the matching keys from the
  offset on, at most the limit, with the number of all of them, and a next key exactly when some
  remain; the stored keys are assumed to fit the codec's buffer.\<close>

theorem listing_refines_page:
  assumes direct: "\<not> (qd_Domain req \<noteq> [] \<and> qd_Selector req \<noteq> [])" and codec: "codec_laws enc st"
    and pp: "pp = parse_pagination (qd_Pagination req)" "\<not> pp_useKey pp"
  shows "\<exists>nk. query_DkimPubKeys enc st req
      = Inr (map snd (take (unat (pp_limit pp)) (drop (unat (pp_offset pp)) (matching st req))),
          Some (nk, of_nat (length (matching st req))))
    \<and> (nk \<noteq> [] \<longleftrightarrow> unat (pp_offset pp) + unat (pp_limit pp) < length (matching st req))"
proof -
  obtain f where enc: "list_all (\<lambda>e. enc 1024 (fst e) = Inr (f (fst e))) (range_of st req)"
    and some: "list_all (\<lambda>e. f (fst e) \<noteq> []) (range_of st req)"
    by (rule codec_range [where enc = enc, OF codec, of req])
  let ?ms = "matching st req" and ?off = "unat (pp_offset pp)" and ?lim = "unat (pp_limit pp)"
  let ?c = "collect (qd_PoseidonHash req) pp (range_of st req) start_collect"
  have c: "co_results ?c = fst (page ?ms ?off ?lim)" "co_lastKey ?c = snd (page ?ms ?off ?lim)"
    "co_total ?c = of_nat (length ?ms)"
    using collect_offset_page [OF pp(2), of "qd_PoseidonHash req" "range_of st req"]
    unfolding matching_def [symmetric] by (metis fst_conv, metis snd_conv, metis)
  have "list_all (\<lambda>e. enc 1024 (fst e) = Inr (f (fst e))) ?ms"
    using enc by (auto simp: matching_def list_all_iff)
  then have "(case co_lastKey ?c of None \<Rightarrow> Inr [] | Some k \<Rightarrow> enc 1024 k) = Inr (next_bytes f (snd (page ?ms ?off ?lim)))"
    unfolding c(2) by (rule page_next_encodes)
  from query_list [where enc = enc and st = st, OF direct pp(1) _ refl this] pp(2)
  have q: "query_DkimPubKeys enc st req = Inr (fst (page ?ms ?off ?lim), Some (next_bytes f (snd (page ?ms ?off ?lim)), of_nat (length ?ms)))"
    unfolding c by simp
  have "f (fst (?ms ! i)) \<noteq> []" if "i < length ?ms" for i
    using some nth_mem [OF that] by (auto simp: matching_def list_all_iff)
  then have "next_bytes f (snd (page ?ms ?off ?lim)) \<noteq> [] \<longleftrightarrow> ?off + ?lim < length ?ms"
    by (simp add: page_def next_bytes_def)
  then show ?thesis
    using q by (simp add: page_def)
qed

section \<open>Witnesses\<close>

definition demo_enc :: "string \<times> string \<Rightarrow> bytes" where
  "demo_enc k = fst k @ [CHR 0x00] @ snd k @ [CHR 0x00]"

definition demo_encoder :: "nat \<Rightarrow> string \<times> string \<Rightarrow> bytes result" where
  "demo_encoder n k = (if length (demo_enc k) \<le> n then Inr (demo_enc k) else Inl (GoPanic ''index out of range''))"

definition demo_entry :: "string \<Rightarrow> string \<Rightarrow> bytes \<Rightarrow> (string \<times> string) \<times> DkimPubKey" where
  "demo_entry d s h = ((d, s), \<lparr>dk_Domain = d, dk_PubKey = [], dk_PoseidonHash = h, dk_Selector = s,
     dk_Version = 0, dk_KeyType = 0\<rparr>)"

definition demo_keys :: dkim_state where
  "demo_keys = \<lparr>DkimPubKeys = [demo_entry ''a'' ''1'' ''h'', demo_entry ''a'' ''2'' ''k'',
       demo_entry ''a'' ''3'' ''h'', demo_entry ''b'' ''1'' ''h''],
     RevokedKeys = [], dkim_Params = None\<rparr>"

definition demo_list :: "PageRequest option \<Rightarrow> QueryDkimPubKeysRequest" where
  "demo_list p = \<lparr>qd_Domain = ''a'', qd_Selector = [], qd_PoseidonHash = ''h'', qd_Pagination = p\<rparr>"

lemma demo_buffer: "buffer_laws demo_encoder"
  by (simp add: buffer_laws_def key_fits_def demo_encoder_def demo_enc_def)

lemma demo_codec: "codec_laws demo_encoder demo_keys"
proof -
  have "list_all (\<lambda>e. demo_encoder 1024 (fst e) = Inr (demo_enc (fst e)) \<and> demo_enc (fst e) \<noteq> []) (DkimPubKeys demo_keys)"
    "sorted_wrt (\<lambda>d e. demo_enc (fst d) < demo_enc (fst e)) (DkimPubKeys demo_keys)"
    by (simp_all add: demo_keys_def demo_entry_def demo_enc_def demo_encoder_def less_char_def)
  then show ?thesis
    unfolding codec_laws_def by (intro exI [of _ demo_enc] conjI)
qed

lemma demo_simps: "length (DkimPubKeys demo_keys) = 4" "qd_Selector (demo_list p) = []"
  by (simp_all add: demo_keys_def demo_list_def)

lemma demo_matching:
  "matching demo_keys (demo_list p) = [demo_entry ''a'' ''1'' ''h'', demo_entry ''a'' ''3'' ''h'']"
  by (simp add: matching_def range_of_def domain_entries_def demo_keys_def demo_list_def demo_entry_def hash_matches_def)

theorem pages_enumerate_all_keys_witness:
  "follow demo_encoder demo_keys (demo_list None) 1 4 []
     = Some (map snd [demo_entry ''a'' ''1'' ''h'', demo_entry ''a'' ''3'' ''h''])"
  using pages_enumerate_all_keys [OF _ demo_codec, of "demo_list None" 1] demo_matching [of None]
  by (simp add: demo_simps)

theorem listing_refines_page_witness:
  "\<exists>nk. query_DkimPubKeys demo_encoder demo_keys (demo_list (Some \<lparr>pg_Key = [], pg_Offset = 1, pg_Limit = 5, pg_CountTotal = True\<rparr>))
     = Inr (map snd [demo_entry ''a'' ''3'' ''h''], Some (nk, 2)) \<and> nk = []"
  using listing_refines_page [OF _ demo_codec refl, of "demo_list (Some \<lparr>pg_Key = [], pg_Offset = 1, pg_Limit = 5, pg_CountTotal = True\<rparr>)"]
    demo_matching [of "Some \<lparr>pg_Key = [], pg_Offset = 1, pg_Limit = 5, pg_CountTotal = True\<rparr>"]
  by (simp add: demo_list_def parse_pagination_def)

end
