(* ===== verification/Dkim_Hash.thy ===== *)
theory Dkim_Hash
  imports Dkim_Types
begin

text \<open>
  What Poseidon hashes for a public key.  The code cuts the modulus into 17 chunks of 121 bits and
  packs them in pairs; the facts here give the nine inputs as bit ranges of the modulus.
\<close>

definition bit_range :: "nat \<Rightarrow> nat \<Rightarrow> int \<Rightarrow> int" where
  "bit_range a b v = take_bit b (drop_bit a v)"

lemma bit_range_bounds: "0 \<le> bit_range a b v \<and> bit_range a b v < 2 ^ b"
  by (simp add: bit_range_def)

lemma bit_range_join: "bit_range a b v + push_bit b (bit_range (a + b) c v) = bit_range a (b + c) v"
proof -
  have "take_bit (b + c) (drop_bit a v)
      = push_bit b (drop_bit b (take_bit (b + c) (drop_bit a v))) + take_bit b (take_bit (b + c) (drop_bit a v))"
    by (simp only: bits_ident)
  also have "\<dots> = push_bit b (take_bit c (drop_bit (a + b) v)) + take_bit b (drop_bit a v)"
    by (simp add: drop_bit_take_bit add.commute)
  finally show ?thesis
    by (simp add: bit_range_def)
qed

lemma BigIntToChunkedBytes_ranges: "BigIntToChunkedBytes v n k = map (\<lambda>i. bit_range (i * n) n v) [0..<k]"
  by (simp add: BigIntToChunkedBytes_def Let_def bit_range_def take_bit_eq_mask mask_eq_exp_minus_1 push_bit_of_1)

lemma map_each_total: "(\<And>v. v \<in> set xs \<Longrightarrow> f v = Inr (g v)) \<Longrightarrow> map_each f xs = Inr (map g xs)"
  by (induction xs) auto

text \<open>The nine inputs: eight ranges of 242 bits and one of 121 bits.\<close>

definition hash_range :: "nat \<Rightarrow> int \<Rightarrow> int" where
  "hash_range i v = bit_range (i * 242) (if i = 8 then 121 else 242) v"

lemma modulus_inputs_ranges: "modulus_inputs v = Inr (map (\<lambda>i. hash_range i v) [0..<9])"
proof -
  let ?chunks = "map (\<lambda>i. bit_range (i * 121) 121 v) [0..<17]"
  have elem: "prepare_element ?chunks 121 9 i = Inr (hash_range i v)" if "i \<in> set [0..<9]" for i
  proof (cases "i = 8")
    case True
    then show ?thesis
      by (simp add: prepare_element_def hash_range_def)
  next
    case False
    then have i: "2 * i + 1 < 17"
      using that by simp
    have "bit_range (2 * i * 121) 121 v + push_bit 121 (bit_range ((2 * i + 1) * 121) 121 v)
        = bit_range (i * 242) 242 v"
      using bit_range_join [of "i * 242" 121 v 121] by (simp add: algebra_simps)
    then show ?thesis
      using False i by (simp add: prepare_element_def hash_range_def del: upt_Suc)
  qed
  show ?thesis
    unfolding modulus_inputs_def PreparePubkeyForHashing_def CircomBigintN_def CircomBigintK_def
      BigIntToChunkedBytes_ranges
    using map_each_total [of "[0..<9]", OF elem] by (simp add: Let_def del: upt_Suc upt_rec_numeral)
qed

lemma low_bits_eq:
  "(\<And>i. i < k \<Longrightarrow> bit_range (i * 242) 242 v = bit_range (i * 242) 242 w) \<Longrightarrow>
     bit_range 0 (k * 242) v = bit_range 0 (k * 242) w"
proof (induction k)
  case (Suc k)
  have "bit_range 0 (k * 242 + 242) u = bit_range 0 (k * 242) u + push_bit (k * 242) (bit_range (k * 242) 242 u)" for u
    using bit_range_join [of 0 "k * 242" u 242] by simp
  then show ?case
    using Suc by (simp add: add.commute)
qed (simp add: bit_range_def)

lemma bit_range_low: "a + b \<le> c \<Longrightarrow> bit_range a b (take_bit c v) = bit_range a b v"
  by (simp add: bit_range_def drop_bit_take_bit)

lemma hash_ranges_eq_iff:
  "map (\<lambda>i. hash_range i v) [0..<9] = map (\<lambda>i. hash_range i w) [0..<9] \<longleftrightarrow>
     take_bit 2057 v = take_bit 2057 w"
proof
  assume eq: "map (\<lambda>i. hash_range i v) [0..<9] = map (\<lambda>i. hash_range i w) [0..<9]"
  have each: "hash_range i v = hash_range i w" if "i < 9" for i
    using eq that by (simp only: map_eq_conv) simp
  have "bit_range (i * 242) 242 v = bit_range (i * 242) 242 w" if "i < 8" for i
    using each [of i] that by (simp add: hash_range_def)
  then have "bit_range 0 (8 * 242) v = bit_range 0 (8 * 242) w"
    by (rule low_bits_eq)
  moreover have "bit_range 1936 121 v = bit_range 1936 121 w"
    using each [of 8] by (simp add: hash_range_def)
  ultimately show "take_bit 2057 v = take_bit 2057 w"
    using bit_range_join [of 0 1936 v 121] bit_range_join [of 0 1936 w 121] by (simp add: bit_range_def)
next
  assume "take_bit 2057 v = take_bit 2057 w"
  then have "hash_range i v = hash_range i w" if "i < 9" for i
    using bit_range_low [of "i * 242" "if i = 8 then 121 else 242" 2057 v]
      bit_range_low [of "i * 242" "if i = 8 then 121 else 242" 2057 w] that
    by (simp add: hash_range_def split: if_splits)
  then show "map (\<lambda>i. hash_range i v) [0..<9] = map (\<lambda>i. hash_range i w) [0..<9]"
    by (simp only: map_eq_conv set_upt atLeastLessThan_iff) simp
qed

text \<open>C17: The inputs of the Poseidon hash always exist (no index of the packing is out of range), are nine
  numbers below \<open>2 ^ 242\<close>, and determine the modulus up to its bit 2057: two keys of at most 2057 bits
  get the same inputs only if they have the same modulus, while of a longer modulus the higher bits
  are not hashed.\<close>

theorem modulus_inputs_faithful:
  "(\<exists>xs. modulus_inputs v = Inr xs \<and> length xs = 9 \<and> list_all (\<lambda>e. 0 \<le> e \<and> e < 2 ^ 242) xs)
   \<and> (modulus_inputs v = modulus_inputs w \<longleftrightarrow> v mod 2 ^ 2057 = w mod 2 ^ 2057)"
proof
  have "hash_range i u < 2 ^ 242" for i u
  proof -
    have "hash_range i u < 2 ^ (if i = 8 then 121 else 242)"
      unfolding hash_range_def using bit_range_bounds by blast
    also have "\<dots> \<le> 2 ^ 242"
      by (intro power_increasing) simp_all
    finally show ?thesis .
  qed
  then show "\<exists>xs. modulus_inputs v = Inr xs \<and> length xs = 9 \<and> list_all (\<lambda>e. 0 \<le> e \<and> e < 2 ^ 242) xs"
    unfolding modulus_inputs_ranges by (simp add: list_all_iff hash_range_def bit_range_bounds del: upt_Suc upt_rec_numeral)
  show "modulus_inputs v = modulus_inputs w \<longleftrightarrow> v mod 2 ^ 2057 = w mod 2 ^ 2057"
    unfolding modulus_inputs_ranges sum.inject hash_ranges_eq_iff by (simp only: take_bit_eq_mod)
qed

end
