(* ===== verification/Dkim_Props.thy ===== *)
theory Dkim_Props
  imports Dkim_Paging Dkim_Hash
begin

text \<open>
  Properties of \<open>x/dkim\<close>: the invariant of the stored keys, who may change them, revocation and
  genesis.
\<close>

section \<open>Parameters\<close>

definition range_ok :: "u64 \<Rightarrow> IndexRange \<Rightarrow> bool" where
  "range_ok n r \<longleftrightarrow> unat (ir_Start r) < unat (ir_End r) \<and> unat (ir_End r) \<le> unat n"

definition indices_ok :: "PublicInputIndices \<Rightarrow> bool" where
  "indices_ok p \<longleftrightarrow>
     unat (EmailHashIndex p) < unat (MinLength p) \<and> unat (DkimHashIndex p) < unat (MinLength p)
     \<and> range_ok (MinLength p) (DkimDomainRange p) \<and> range_ok (MinLength p) (TxBytesRange p)
     \<and> range_ok (MinLength p) (EmailHostRange p) \<and> range_ok (MinLength p) (EmailSubjectRange p)"

lemma Validate_PublicInputIndices_iff: "Validate_PublicInputIndices p = Inr () \<longleftrightarrow> indices_ok p"
proof
  assume "Validate_PublicInputIndices p = Inr ()"
  then show "indices_ok p"
    by (simp add: Validate_PublicInputIndices_def Validate_IndexRange_def indices_ok_def range_ok_def
        word_le_nat_alt word_less_nat_alt not_le not_less)
next
  assume ok: "indices_ok p"
  then have "0 < unat (MinLength p)"
    by (auto simp: indices_ok_def)
  then have "MinLength p \<noteq> 0"
    by auto
  then show "Validate_PublicInputIndices p = Inr ()"
    using ok by (simp add: Validate_PublicInputIndices_def Validate_IndexRange_def indices_ok_def range_ok_def
        word_le_nat_alt word_less_nat_alt not_le not_less)
qed

lemma Validate_dkim_params_indices: "Validate_dkim_params p = Inr () \<Longrightarrow> indices_ok (PublicInputIndices_of p)"
  by (simp add: Validate_dkim_params_def Validate_PublicInputIndices_iff)

lemma SetParams_dkim_Inr_iff:
  "SetParams_dkim p st = Inr st' \<longleftrightarrow>
     Validate_dkim_params (fill_max_size p) = Inr () \<and> st' = st\<lparr>dkim_Params := Some (fill_max_size p)\<rparr>"
  by (auto simp: SetParams_dkim_def Let_def)

section \<open>Stored keys\<close>

text \<open>The RSA key an entry holds and the identifier under which it can be revoked.\<close>

definition key_of :: "dkim_ext \<Rightarrow> DkimPubKey \<Rightarrow> rsa_key option" where
  "key_of x k =
     (case base64_DecodeString (dk_PubKey k) of
        None \<Rightarrow> None
      | Some bz \<Rightarrow> (case ParseRSAPublicKey x bz of Inr key \<Rightarrow> Some key | Inl _ \<Rightarrow> None))"

definition key_id :: "dkim_ext \<Rightarrow> DkimPubKey \<Rightarrow> string option" where
  "key_id x k = map_option (CanonicalizeRSAPublicKey x) (key_of x k)"

lemma DecodePubKeyWithLimit_Inr:
  "DecodePubKeyWithLimit s n = Inr bz \<longleftrightarrow> base64_DecodeString s = Some bz \<and> len64 bz \<le> n"
  by (auto simp: DecodePubKeyWithLimit_def split: option.splits if_splits)

lemma validate_key_entry_id:
  assumes "validate_key_entry x n (Some isRev) b k = Inr ()"
  shows "\<exists>i. key_id x k = Some i \<and> \<not> isRev i"
  using assms by (auto simp: validate_key_entry_def DecodePubKeyWithLimit_Inr key_id_def key_of_def)

lemma with_hash_InrD:
  "with_hash x k = Inr k' \<Longrightarrow>
     \<exists>h. ComputePoseidonHash x (dk_PubKey k) = Inr h \<and> k' = k\<lparr>dk_PoseidonHash := big_Bytes h\<rparr>"
  by (auto simp: with_hash_def)

lemma SaveDkimPubKeys_simps [simp]:
  "RevokedKeys (SaveDkimPubKeys ks st) = RevokedKeys st"
  "dkim_Params (SaveDkimPubKeys ks st) = dkim_Params st"
  by (induction ks arbitrary: st) (simp_all add: SaveDkimPubKeys_def SaveDkimPubKey_def)

lemma SaveDkimPubKeys_get:
  "kv_get (DkimPubKeys (SaveDkimPubKeys ks st)) d = Some k \<Longrightarrow>
     k \<in> set ks \<and> d = (dk_Domain k, dk_Selector k) \<or> kv_get (DkimPubKeys st) d = Some k"
proof (induction ks arbitrary: st)
  case (Cons a ks)
  have "SaveDkimPubKeys (a # ks) st = SaveDkimPubKeys ks (SaveDkimPubKey a st)"
    by (simp add: SaveDkimPubKeys_def)
  then show ?case
    using Cons by (fastforce simp: SaveDkimPubKey_def split: if_splits)
qed (simp add: SaveDkimPubKeys_def)

lemma SaveDkimPubKeys_wf: "kv_wf (DkimPubKeys st) \<Longrightarrow> kv_wf (DkimPubKeys (SaveDkimPubKeys ks st))"
  by (induction ks arbitrary: st) (simp_all add: SaveDkimPubKeys_def SaveDkimPubKey_def)

text \<open>What a successful addition stored: validated keys with their own hashes.\<close>

lemma AddDkimPubKeys_InrD:
  assumes "AddDkimPubKeys env msg st = Inr st'"
  obtains ks where "de_authority env = ad_Authority msg" "st' = SaveDkimPubKeys ks st"
    "\<And>k. k \<in> set ks \<Longrightarrow> \<exists>i. key_id (de_ext env) k = Some i \<and> \<not> kv_has (RevokedKeys st) i"
    "\<And>k. k \<in> set ks \<Longrightarrow> \<exists>h. ComputePoseidonHash (de_ext env) (dk_PubKey k) = Inr h \<and> dk_PoseidonHash k = big_Bytes h"
proof -
  from assms obtain ks where auth: "de_authority env = ad_Authority msg"
    and val: "\<And>k. k \<in> set (ad_DkimPubkeys msg) \<Longrightarrow>
      validate_key_entry (de_ext env) (MaxPubkeySizeBytes (GetParams_dkim st)) (Some (kv_has (RevokedKeys st))) True k = Inr ()"
    and ks: "list_all2 (\<lambda>k k'. with_hash (de_ext env) k = Inr k') (ad_DkimPubkeys msg) ks"
    and st': "st' = SaveDkimPubKeys ks st"
    by (auto simp: AddDkimPubKeys_def ValidateDkimPubKeysWithRevocation_def map_each_Inr_iff)
  have origin: "\<exists>k0 h. k0 \<in> set (ad_DkimPubkeys msg) \<and> ComputePoseidonHash (de_ext env) (dk_PubKey k0) = Inr h
      \<and> k = k0\<lparr>dk_PoseidonHash := big_Bytes h\<rparr>" if "k \<in> set ks" for k
    using ks that with_hash_InrD unfolding list_all2_conv_all_nth in_set_conv_nth by metis
  have same: "key_id (de_ext env) (k0\<lparr>dk_PoseidonHash := h\<rparr>) = key_id (de_ext env) k0" for k0 h
    by (simp add: key_id_def key_of_def)
  show thesis
  proof (rule that [OF auth st'])
    show "\<exists>i. key_id (de_ext env) k = Some i \<and> \<not> kv_has (RevokedKeys st) i" if "k \<in> set ks" for k
      using origin [OF that] validate_key_entry_id [OF val] same by metis
    show "\<exists>h. ComputePoseidonHash (de_ext env) (dk_PubKey k) = Inr h \<and> dk_PoseidonHash k = big_Bytes h" if "k \<in> set ks" for k
      using origin [OF that] by auto
  qed
qed

section \<open>Revocation\<close>

definition same_key :: "dkim_ext \<Rightarrow> rsa_key \<Rightarrow> DkimPubKey \<Rightarrow> bool" where
  "same_key x key k \<longleftrightarrow>
     (case key_of x k of None \<Rightarrow> False | Some s \<Rightarrow> rsa_E s = rsa_E key \<and> rsa_N s = rsa_N key)"

text \<open>What the loop has done after some entries.\<close>

definition revoke_some ::
  "dkim_ext \<Rightarrow> rsa_key \<Rightarrow> ((string \<times> string) \<times> DkimPubKey) list \<Rightarrow> dkim_state \<Rightarrow> dkim_state" where
  "revoke_some x key es st =
     (let hit = filter (\<lambda>e. same_key x key (snd e)) es in
      st\<lparr>DkimPubKeys := filter (\<lambda>e. fst e \<notin> fst ` set hit) (DkimPubKeys st),
         RevokedKeys := (if hit = [] then RevokedKeys st
                         else kv_set (CanonicalizeRSAPublicKey x key) True (RevokedKeys st))\<rparr>)"

lemma revoke_entry_step:
  assumes "revoke_entry x n key e (hit, s) = Inr (hit', s')"
  shows "hit' = (hit \<or> same_key x key (snd e))
    \<and> (same_key x key (snd e) \<longrightarrow>
         s' = s\<lparr>DkimPubKeys := kv_del (fst e) (DkimPubKeys s),
                RevokedKeys := (if hit then RevokedKeys s else kv_set (CanonicalizeRSAPublicKey x key) True (RevokedKeys s))\<rparr>)
    \<and> (\<not> same_key x key (snd e) \<longrightarrow> s' = s)"
  using assms
  by (auto simp: revoke_entry_def DecodePubKeyWithLimit_Inr same_key_def key_of_def Let_def split: if_splits)

lemma revoke_loop:
  assumes "fold_each (revoke_entry x n key) es (False, st) = Inr (hit, st')"
  shows "hit = (\<exists>e \<in> set es. same_key x key (snd e)) \<and> st' = revoke_some x key es st"
  using assms
proof (induction es arbitrary: hit st' rule: rev_induct)
  case Nil
  then show ?case
    by (simp add: revoke_some_def)
next
  case (snoc e es)
  from snoc.prems obtain h1 s1 where 1: "fold_each (revoke_entry x n key) es (False, st) = Inr (h1, s1)"
    and 2: "revoke_entry x n key e (h1, s1) = Inr (hit, st')"
    by (auto simp: fold_each_append)
  have h1: "h1 = (\<exists>e \<in> set es. same_key x key (snd e))" and s1: "s1 = revoke_some x key es st"
    using snoc.IH [OF 1] by auto
  have none: "filter (\<lambda>e. same_key x key (snd e)) es = [] \<longleftrightarrow> \<not> h1"
    unfolding h1 by (auto simp: filter_empty_conv)
  show ?case
  proof (cases "same_key x key (snd e)")
    case True
    then have st': "st' = s1\<lparr>DkimPubKeys := kv_del (fst e) (DkimPubKeys s1),
        RevokedKeys := (if h1 then RevokedKeys s1 else kv_set (CanonicalizeRSAPublicKey x key) True (RevokedKeys s1))\<rparr>"
      and hit: "hit"
      using revoke_entry_step [OF 2] by auto
    show ?thesis
      using True hit none unfolding st' s1
      by (cases h1) (auto simp: revoke_some_def Let_def kv_del_def conj_commute)
  next
    case False
    then show ?thesis
      using revoke_entry_step [OF 2] h1 s1 by (auto simp: revoke_some_def)
  qed
qed

lemma RevokeDkimPubKey_InrD:
  assumes "RevokeDkimPubKey env msg st = Inr st'"
  obtains key where "parse_private_key (de_ext env) (rv_PrivKey msg) = Inr key"
    "st' = revoke_some (de_ext env) key (domain_entries (rv_Domain msg) st) st"
  using assms by (auto simp: RevokeDkimPubKey_def Let_def dest!: revoke_loop)

lemma kv_get_filter_keys: "kv_get (filter (\<lambda>e. fst e \<notin> S) s) d = (if d \<in> S then None else kv_get s d)"
  by (induction s) (auto simp: kv_get_def)

lemma kv_wf_filter: "kv_wf s \<Longrightarrow> kv_wf (filter P s)"
  by (simp add: kv_wf_def sorted_wrt_map sorted_wrt_filter)

lemma revoke_some_keys:
  assumes "kv_wf (DkimPubKeys st)"
  shows "DkimPubKeys (revoke_some x key (domain_entries dn st) st)
    = filter (\<lambda>e. \<not> (fst (fst e) = dn \<and> same_key x key (snd e))) (DkimPubKeys st)"
proof -
  have "fst e \<in> fst ` set (filter (\<lambda>e. same_key x key (snd e)) (domain_entries dn st))
      \<longleftrightarrow> fst (fst e) = dn \<and> same_key x key (snd e)" if "e \<in> set (DkimPubKeys st)" for e
  proof -
    have "inj_on fst (set (DkimPubKeys st))"
      using assms by (simp add: kv_wf_def strict_sorted_iff distinct_map)
    then show ?thesis
      using that by (auto simp: domain_entries_def inj_on_def)
  qed
  then show ?thesis
    by (auto simp: revoke_some_def Let_def intro!: filter_cong)
qed

section \<open>The invariant\<close>

definition entry_ok :: "dkim_ext \<Rightarrow> string \<times> string \<Rightarrow> DkimPubKey \<Rightarrow> bool" where
  "entry_ok x d k \<longleftrightarrow>
     d = (dk_Domain k, dk_Selector k)
     \<and> (\<exists>h. ComputePoseidonHash x (dk_PubKey k) = Inr h \<and> dk_PoseidonHash k = big_Bytes h)"

definition dkim_inv :: "dkim_ext \<Rightarrow> dkim_state \<Rightarrow> bool" where
  "dkim_inv x st \<longleftrightarrow>
     kv_wf (DkimPubKeys st) \<and> kv_wf (RevokedKeys st)
     \<and> (\<forall>d k. kv_get (DkimPubKeys st) d = Some k \<longrightarrow> entry_ok x d k)
     \<and> (\<forall>p. dkim_Params st = Some p \<longrightarrow> Validate_dkim_params p = Inr ())"

definition dkim_empty :: dkim_state where
  "dkim_empty = \<lparr>DkimPubKeys = [], RevokedKeys = [], dkim_Params = None\<rparr>"

lemma dkim_empty_inv: "dkim_inv x dkim_empty"
  by (simp add: dkim_inv_def dkim_empty_def)

lemma revoke_some_simps [simp]: "dkim_Params (revoke_some x key es st) = dkim_Params st"
  by (simp add: revoke_some_def Let_def)

lemma revoke_some_get:
  "kv_get (DkimPubKeys (revoke_some x key es st)) d = Some k \<Longrightarrow> kv_get (DkimPubKeys st) d = Some k"
  by (auto simp: revoke_some_def Let_def kv_get_filter_keys split: if_splits)

lemma revoke_some_revoked: "kv_has (RevokedKeys st) i \<Longrightarrow> kv_has (RevokedKeys (revoke_some x key es st)) i"
  by (simp add: revoke_some_def Let_def)

lemma UpdateParams_dkim_InrD:
  "UpdateParams_dkim env msg st = Inr st' \<Longrightarrow>
     de_authority env = up_Authority_dkim msg
     \<and> (\<exists>p. Validate_dkim_params p = Inr () \<and> st' = st\<lparr>dkim_Params := Some p\<rparr>)"
  by (auto simp: UpdateParams_dkim_def Let_def SetParams_dkim_Inr_iff)

lemma RemoveDkimPubKey_InrD:
  "RemoveDkimPubKey env msg st = Inr st' \<Longrightarrow>
     de_authority env = rm_Authority_dkim msg
     \<and> st' = st\<lparr>DkimPubKeys := kv_del (rm_Domain msg, rm_Selector msg) (DkimPubKeys st)\<rparr>"
  by (auto simp: RemoveDkimPubKey_def)

lemma dkim_step_inv:
  assumes "dkim_step env m st = Inr st'" and "dkim_inv (de_ext env) st"
  shows "dkim_inv (de_ext env) st'"
proof (cases m)
  case (Add_keys msg)
  with assms(1) obtain ks where "st' = SaveDkimPubKeys ks st"
    "\<And>k. k \<in> set ks \<Longrightarrow> \<exists>h. ComputePoseidonHash (de_ext env) (dk_PubKey k) = Inr h \<and> dk_PoseidonHash k = big_Bytes h"
    by (auto elim: AddDkimPubKeys_InrD)
  then show ?thesis
    using assms(2) by (auto simp: dkim_inv_def entry_ok_def SaveDkimPubKeys_wf dest!: SaveDkimPubKeys_get)
next
  case (Remove_key msg)
  then show ?thesis
    using assms by (auto simp: dkim_inv_def dest!: RemoveDkimPubKey_InrD split: if_splits)
next
  case (Revoke_key msg)
  with assms(1) obtain key where st': "st' = revoke_some (de_ext env) key (domain_entries (rv_Domain msg) st) st"
    by (auto elim: RevokeDkimPubKey_InrD)
  have "kv_wf (DkimPubKeys st')" "kv_wf (RevokedKeys st')"
    using assms(2) unfolding st' by (simp_all add: dkim_inv_def revoke_some_def Let_def kv_wf_filter)
  moreover have "kv_get (DkimPubKeys st') d = Some k \<Longrightarrow> entry_ok (de_ext env) d k" for d k
    using assms(2) revoke_some_get unfolding st' dkim_inv_def by blast
  moreover have "dkim_Params st' = dkim_Params st"
    by (simp add: st')
  ultimately show ?thesis
    using assms(2) by (simp add: dkim_inv_def)
next
  case (Update_dkim_params msg)
  then show ?thesis
    using assms by (auto simp: dkim_inv_def dest!: UpdateParams_dkim_InrD)
qed

text \<open>A genesis state whose parameters are valid and whose keys carry their own hashes; the
  application's genesis function does not check either.\<close>

definition genesis_hashed :: "dkim_ext \<Rightarrow> GenesisState_dkim \<Rightarrow> bool" where
  "genesis_hashed x gs \<longleftrightarrow>
     Validate_dkim_params (gd_Params gs) = Inr ()
     \<and> (\<forall>k \<in> set (gd_DkimPubkeys gs). \<exists>h. ComputePoseidonHash x (dk_PubKey k) = Inr h \<and> dk_PoseidonHash k = big_Bytes h)"

lemma genesis_inv:
  assumes "genesis_hashed x gs"
  shows "dkim_inv x (AppModule_InitGenesis gs dkim_empty)"
  using assms SaveDkimPubKeys_wf
  by (auto simp: genesis_hashed_def dkim_inv_def AppModule_InitGenesis_def dkim_empty_def entry_ok_def
      dest!: SaveDkimPubKeys_get)

lemma default_params_valid: "Validate_dkim_params DefaultParams_dkim = Inr ()"
  by (simp add: Validate_dkim_params_def DefaultParams_dkim_def DefaultPublicInputIndices_def DefaultIndexRange_def
      DefaultMaxPubKeySizeBytes_def Validate_PublicInputIndices_iff indices_ok_def range_ok_def)

lemma default_genesis_hashed:
  "genesis_hashed x AppModule_DefaultGenesis"
  "DefaultGenesis_dkim x = Inr gs \<Longrightarrow> genesis_hashed x gs"
proof -
  show "genesis_hashed x AppModule_DefaultGenesis"
    by (simp add: genesis_hashed_def AppModule_DefaultGenesis_def default_params_valid)
  assume "DefaultGenesis_dkim x = Inr gs"
  then obtain keys where keys: "DefaultDkimPubKeys x = Inr keys"
    and gs: "gs = \<lparr>gd_DkimPubkeys = keys, gd_Params = DefaultParams_dkim, gd_RevokedPubkeys = []\<rparr>"
    by (auto simp: DefaultGenesis_dkim_def)
  have "\<exists>h. ComputePoseidonHash x (dk_PubKey k) = Inr h \<and> dk_PoseidonHash k = big_Bytes h" if "k \<in> set keys" for k
    using keys that unfolding DefaultDkimPubKeys_def map_each_Inr_iff
    by (auto simp: list_all2_Cons1 must_Inr_iff)
  then show "genesis_hashed x gs"
    by (simp add: genesis_hashed_def gs default_params_valid)
qed

interpretation dkim_runs: invariant_machine "dkim_step env" "dkim_inv (de_ext env)"
  by unfold_locales (rule dkim_step_inv)

text \<open>An identifier once revoked, and no entry for it beyond those of a given store.\<close>

definition stays_out :: "dkim_ext \<Rightarrow> string \<Rightarrow> dkim_state \<Rightarrow> dkim_state \<Rightarrow> bool" where
  "stays_out x i st0 st \<longleftrightarrow>
     kv_has (RevokedKeys st) i
     \<and> (\<forall>d k. kv_get (DkimPubKeys st) d = Some k \<longrightarrow> key_id x k = Some i \<longrightarrow> kv_get (DkimPubKeys st0) d = Some k)"

lemma dkim_step_stays_out:
  assumes "dkim_step env m st = Inr st'" and "stays_out (de_ext env) i st0 st"
  shows "stays_out (de_ext env) i st0 st'"
proof (cases m)
  case (Add_keys msg)
  with assms(1) obtain ks where "st' = SaveDkimPubKeys ks st"
    "\<And>k. k \<in> set ks \<Longrightarrow> \<exists>i. key_id (de_ext env) k = Some i \<and> \<not> kv_has (RevokedKeys st) i"
    by (auto elim: AddDkimPubKeys_InrD)
  then show ?thesis
    using assms(2) by (fastforce simp: stays_out_def dest!: SaveDkimPubKeys_get)
next
  case (Remove_key msg)
  then show ?thesis
    using assms by (auto simp: stays_out_def dest!: RemoveDkimPubKey_InrD split: if_splits)
next
  case (Revoke_key msg)
  with assms(1) obtain key where "st' = revoke_some (de_ext env) key (domain_entries (rv_Domain msg) st) st"
    by (auto elim: RevokeDkimPubKey_InrD)
  then show ?thesis
    using assms(2) by (auto simp: stays_out_def revoke_some_revoked dest!: revoke_some_get)
next
  case (Update_dkim_params msg)
  then show ?thesis
    using assms by (auto simp: stays_out_def dest!: UpdateParams_dkim_InrD)
qed

interpretation revoked_runs: invariant_machine "dkim_step env" "stays_out (de_ext env) i st0"
  by unfold_locales (rule dkim_step_stays_out)

text \<open>Who may change the entry of a domain and selector in a state.\<close>

fun key_gate :: "dkim_env \<Rightarrow> string \<times> string \<Rightarrow> dkim_state \<Rightarrow> dkim_msg \<Rightarrow> bool" where
  "key_gate env d st (Add_keys msg) \<longleftrightarrow> ad_Authority msg = de_authority env"
| "key_gate env d st (Remove_key msg) \<longleftrightarrow> rm_Authority_dkim msg = de_authority env"
| "key_gate env d st (Revoke_key msg) \<longleftrightarrow>
     (\<exists>key k. parse_private_key (de_ext env) (rv_PrivKey msg) = Inr key
        \<and> kv_get (DkimPubKeys st) d = Some k \<and> fst d = rv_Domain msg \<and> same_key (de_ext env) key k)"
| "key_gate env d st (Update_dkim_params msg) \<longleftrightarrow> False"

lemma dkim_step_gate:
  assumes "dkim_step env m st = Inr st'" and "\<not> key_gate env d st m" and "kv_wf (DkimPubKeys st)"
  shows "kv_wf (DkimPubKeys st') \<and> kv_get (DkimPubKeys st') d = kv_get (DkimPubKeys st) d"
proof (cases m)
  case (Revoke_key msg)
  with assms(1) obtain key where key: "parse_private_key (de_ext env) (rv_PrivKey msg) = Inr key"
    and st': "st' = revoke_some (de_ext env) key (domain_entries (rv_Domain msg) st) st"
    by (auto elim: RevokeDkimPubKey_InrD)
  have "d \<notin> fst ` set (filter (\<lambda>e. same_key (de_ext env) key (snd e)) (domain_entries (rv_Domain msg) st))"
    using assms(2,3) key Revoke_key by (auto simp: domain_entries_def kv_in_set_iff)
  then show ?thesis
    using assms(3) unfolding st' by (simp add: revoke_some_def Let_def kv_get_filter_keys kv_wf_filter)
next
  case (Add_keys msg)
  then show ?thesis
    using assms(1,2) by (auto elim!: AddDkimPubKeys_InrD)
next
  case (Remove_key msg)
  then show ?thesis
    using assms(1,2) by (auto dest!: RemoveDkimPubKey_InrD)
next
  case (Update_dkim_params msg)
  then show ?thesis
    using assms by (auto dest!: UpdateParams_dkim_InrD)
qed

interpretation key_changes: gated_machine "dkim_step env" "\<lambda>st m. kv_wf (DkimPubKeys st) \<longrightarrow> key_gate env d st m"
  "\<lambda>st. kv_get (DkimPubKeys st) d"
  by unfold_locales (use dkim_step_gate in metis)

section \<open>Authenticate\<close>

lemma query_first_keys:
  assumes "query_DkimPubKeys enc st \<lparr>qd_Domain = dn, qd_Selector = [], qd_PoseidonHash = h, qd_Pagination = None\<rparr> = Inr (ks, pr)"
    and "k \<in> set ks"
  shows "\<exists>d. (d, k) \<in> set (DkimPubKeys st) \<and> (dn \<noteq> [] \<longrightarrow> fst d = dn) \<and> (h \<noteq> [] \<longrightarrow> dk_PoseidonHash k = h)"
proof -
  let ?req = "\<lparr>qd_Domain = dn, qd_Selector = [], qd_PoseidonHash = h, qd_Pagination = None\<rparr>"
  let ?pp = "parse_pagination None"
  have useKey: "\<not> pp_useKey ?pp"
    by (simp add: parse_pagination_def)
  have "ks = co_results (collect h ?pp (range_of st ?req) start_collect)"
    using assms(1) useKey by (auto simp: query_DkimPubKeys_def Let_def range_of_def)
  then have "ks = fst (page (matching st ?req) (unat (pp_offset ?pp)) (unat (pp_limit ?pp)))"
    using collect_offset_page [OF useKey, of h "range_of st ?req"] by (auto simp: matching_def dest: arg_cong [of _ _ fst])
  then have "k \<in> snd ` set (matching st ?req)"
    using assms(2) by (auto simp: page_def dest!: in_set_takeD in_set_dropD)
  then show ?thesis
    by (fastforce simp: matching_def range_of_def domain_entries_def hash_matches_def split: if_splits)
qed

lemma inputs_text_not_panic:
  assumes "range_ok n r" and "unat n \<le> length inputs"
  shows "\<not> is_panic (inputs_text x inputs r)"
proof -
  have conv: "\<not> is_panic (ConvertStringArrayToBigInt part)" for part
    unfolding ConvertStringArrayToBigInt_def
  proof (induction part)
    case (Cons s part)
    then show ?case
      by (cases "SetString s 10") (auto simp: is_panic_bindr)
  qed simp
  have "go_slice inputs (unat (ir_Start r)) (unat (ir_End r)) = Inr (take (unat (ir_End r) - unat (ir_Start r)) (drop (unat (ir_Start r)) inputs))"
    using assms by (intro go_slice_Inr) (auto simp: range_ok_def)
  then show ?thesis
    unfolding inputs_text_def
    by (simp add: is_panic_bindr wrap_as_not_panic conv ErrInvalidPublicInput_def)
qed

text \<open>What a request has passed when \<open>Authenticate\<close> answers.\<close>

lemma Authenticate_InrD:
  assumes "Authenticate x enc zx cx zst st req = Inr b"
  obtains params emailHash dn dkimHash v ks pr host subject where
    "dkim_Params st = Some params"
    "go_index (qa_PublicInputs req) (unat (EmailHashIndex (PublicInputIndices_of params))) = Inr (qa_EmailHash req)"
    "inputs_text x (qa_PublicInputs req) (TxBytesRange (PublicInputIndices_of params)) = Inr (qa_TxBytes req)"
    "inputs_text x (qa_PublicInputs req) (DkimDomainRange (PublicInputIndices_of params)) = Inr dn"
    "go_index (qa_PublicInputs req) (unat (DkimHashIndex (PublicInputIndices_of params))) = Inr dkimHash"
    "SetString dkimHash 10 = Some v"
    "query_DkimPubKeys enc st \<lparr>qd_Domain = dn, qd_Selector = [], qd_PoseidonHash = big_Bytes v, qd_Pagination = None\<rparr> = Inr (ks, pr)"
    "ks \<noteq> []"
    "inputs_text x (qa_PublicInputs req) (EmailHostRange (PublicInputIndices_of params)) = Inr host"
    "host \<in> set (qa_AllowedEmailHosts req)" "host \<noteq> []"
    "inputs_text x (qa_PublicInputs req) (EmailSubjectRange (PublicInputIndices_of params)) = Inr subject"
    "ValidateForcedSubject subject = Some True"
    "verify_proof zx cx zst (VkeyIdentifier params) (qa_Proof req) (qa_PublicInputs req) = Inr b"
  using assms
  by (auto simp: Authenticate_def Let_def IsSubset_def split: option.splits intro: that)

lemma verify_proof_Inr_iff:
  "verify_proof zx cx zst i pr inputs = Inr b \<longleftrightarrow>
     (\<exists>p vk. UnmarshalCircomProofJSON cx pr = Inr p \<and> GetCircomVKeyByID zx zst i = Inr vk \<and> Verify cx p vk inputs = Inr b)"
  by (auto simp: verify_proof_def)

lemma kv_set_last: "(\<And>e. e \<in> set s \<Longrightarrow> fst e < k) \<Longrightarrow> kv_set k v s = s @ [(k, v)]"
  by (induction s) auto

text \<open>Writing the entries of a store back in order builds the store.\<close>

lemma fold_kv_set:
  assumes "kv_wf s"
  shows "fold (\<lambda>e. kv_set (fst e) (snd e)) s [] = s"
  using assms
proof (induction s rule: rev_induct)
  case (snoc e s)
  then show ?case
    by (auto simp: kv_wf_def sorted_wrt_append kv_set_last)
qed simp

section \<open>An instance\<close>

text \<open>
  Keys whose encoding is their modulus, big-endian, with a fixed exponent; PEM, hashing and parsing
  are as plain as their types allow.  The state holds one key three times, in two domains.
\<close>

definition plain_key :: "bytes \<Rightarrow> rsa_key" where
  "plain_key bz = \<lparr>rsa_N = big_SetBytes bz, rsa_E = 3\<rparr>"

definition demo_dx :: dkim_ext where
  "demo_dx = \<lparr>ParsePKIXPublicKey = \<lambda>_. Inl (External ''asn1''), ParsePKCS1PublicKey = \<lambda>bz. Inr (plain_key bz),
     ParsePKCS1PrivateKey = \<lambda>bz. Inr (plain_key bz), ParsePKCS8PrivateKey = \<lambda>_. Inr Other_key,
     MarshalPKCS1PublicKey = \<lambda>k. big_Bytes (rsa_N k), Sum256 = id, pem_Decode = Some,
     poseidon_Hash = \<lambda>_. Inr 7, fr_Bytes = big_Bytes, url_Parse = \<lambda>_. Inr (),
     dk_AccAddressFromBech32 = Inr\<rparr>"

definition demo_denv :: dkim_env where
  "demo_denv = \<lparr>de_ext = demo_dx, de_authority = ''gov''\<rparr>"

definition demo_dkey :: "string \<Rightarrow> string \<Rightarrow> DkimPubKey" where
  "demo_dkey d s = \<lparr>dk_Domain = d, dk_PubKey = ''QUJD'', dk_PoseidonHash = [CHR 0x07], dk_Selector = s,
     dk_Version = 0, dk_KeyType = 0\<rparr>"

definition demo_dst :: dkim_state where
  "demo_dst = \<lparr>DkimPubKeys = [((''a'', ''1''), demo_dkey ''a'' ''1''), ((''a'', ''2''), demo_dkey ''a'' ''2''),
       ((''b'', ''1''), demo_dkey ''b'' ''1'')],
     RevokedKeys = [], dkim_Params = Some DefaultParams_dkim\<rparr>"

definition demo_revoke :: "string \<Rightarrow> MsgRevokeDkimPubKey" where
  "demo_revoke d = \<lparr>rv_Signer = ''anyone'', rv_Domain = d, rv_PrivKey = ''ABC''\<rparr>"

definition demo_revoked :: dkim_state where
  "demo_revoked = demo_dst\<lparr>DkimPubKeys := [((''b'', ''1''), demo_dkey ''b'' ''1'')], RevokedKeys := [(''QUJD'', True)]\<rparr>"

lemma demo_base64: "base64_DecodeString ''QUJD'' = Some ''ABC''" "base64_EncodeToString ''ABC'' = ''QUJD''"
  by code_simp+

lemma demo_modulus: "big_Bytes (big_SetBytes ''ABC'') = ''ABC''"
  by (simp add: big_SetBytes_def big_Bytes_def big_endian.simps char_of_def bit_Suc_0_iff)

lemma demo_key_of: "key_of demo_dx (demo_dkey d s) = Some (plain_key ''ABC'')"
  by (simp add: key_of_def demo_dkey_def demo_base64 ParseRSAPublicKey_def demo_dx_def)

lemma demo_canonical: "CanonicalizeRSAPublicKey demo_dx (plain_key ''ABC'') = ''QUJD''"
  by (simp add: CanonicalizeRSAPublicKey_def demo_dx_def plain_key_def demo_modulus demo_base64
      del: base64_EncodeToString.simps)

lemma demo_key_id: "key_id demo_dx (demo_dkey d s) = Some ''QUJD''"
  by (simp add: key_id_def demo_key_of demo_canonical)

lemma demo_hash: "ComputePoseidonHash demo_dx ''QUJD'' = Inr 7"
  by (simp add: ComputePoseidonHash_def demo_base64 demo_dx_def pem_public_key_def modulus_inputs_ranges recover_as_def)

lemma demo_dst_inv: "dkim_inv demo_dx demo_dst"
proof -
  have "big_Bytes 7 = [CHR 0x07]"
    by (simp add: big_Bytes_def big_endian.simps char_of_def bit_Suc_0_iff)
  then show ?thesis
    using default_params_valid
    by (auto simp: dkim_inv_def demo_dst_def kv_wf_def kv_get_def entry_ok_def demo_dkey_def demo_hash less_char_def split: if_splits)
qed

lemma demo_step:
  assumes "MaxPubkeySizeBytes (GetParams_dkim st) = 512"
  shows "RevokeDkimPubKey demo_denv (demo_revoke d) st =
    (if list_all (\<lambda>e. snd e = demo_dkey (fst (fst e)) (snd (fst e))) (domain_entries d st)
     then Inr (revoke_some demo_dx (plain_key ''ABC'') (domain_entries d st) st)
     else RevokeDkimPubKey demo_denv (demo_revoke d) st)"
proof -
  have "\<exists>hit st'. fold_each (revoke_entry demo_dx 512 (plain_key ''ABC'')) es s = Inr (hit, st')"
    if "list_all (\<lambda>e. snd e = demo_dkey (fst (fst e)) (snd (fst e))) es" for es s
    using that
  proof (induction es arbitrary: s)
    case (Cons e es)
    have "\<exists>s'. revoke_entry demo_dx 512 (plain_key ''ABC'') e s = Inr s'"
      using Cons.prems
      by (cases s) (auto simp: revoke_entry_def demo_dkey_def DecodePubKeyWithLimit_def demo_base64 len64_def
          ParseRSAPublicKey_def demo_dx_def Let_def)
    then show ?case
      using Cons by auto
  qed auto
  then have "\<exists>hit st'. fold_each (revoke_entry demo_dx 512 (plain_key ''ABC'')) (domain_entries d st) (False, st) = Inr (hit, st')"
    if "list_all (\<lambda>e. snd e = demo_dkey (fst (fst e)) (snd (fst e))) (domain_entries d st)"
    using that .
  then show ?thesis
    using assms revoke_loop [of demo_dx 512 "plain_key ''ABC''" "domain_entries d st" st]
    by (fastforce simp: RevokeDkimPubKey_def Let_def demo_denv_def demo_revoke_def parse_private_key_def demo_dx_def)
qed

lemma demo_revoke_run: "RevokeDkimPubKey demo_denv (demo_revoke ''a'') demo_dst = Inr demo_revoked"
proof -
  have "revoke_some demo_dx (plain_key ''ABC'') (domain_entries ''a'' demo_dst) demo_dst = demo_revoked"
    by (simp add: revoke_some_def Let_def domain_entries_def demo_dst_def same_key_def demo_key_of demo_revoked_def
        demo_canonical)
  then show ?thesis
    by (subst demo_step) (simp_all add: GetParams_dkim_def demo_dst_def domain_entries_def DefaultParams_dkim_def
        DefaultMaxPubKeySizeBytes_def)
qed

section \<open>Properties\<close>

text \<open>C20: Whatever messages are delivered after the application's genesis, every stored key is filed under
  its own domain and selector and carries the Poseidon hash of its public key, and the stored
  parameters are valid, provided the genesis parameters are valid and every genesis key carries its
  own hash: the application's genesis function checks neither.  The module's default genesis state,
  and the one with the built-in keys whenever it is computed, need no such proviso.\<close>

theorem dkim_invariant_reachable:
  assumes "genesis_hashed (de_ext env) gs"
  shows "dkim_inv (de_ext env) (run_msgs (dkim_step env) ms (AppModule_InitGenesis gs dkim_empty))
    \<and> dkim_inv (de_ext env) (run_msgs (dkim_step env) ms (AppModule_InitGenesis AppModule_DefaultGenesis dkim_empty))
    \<and> (DefaultGenesis_dkim (de_ext env) = Inr built_in \<longrightarrow>
         dkim_inv (de_ext env) (run_msgs (dkim_step env) ms (AppModule_InitGenesis built_in dkim_empty)))"
  using assms default_genesis_hashed by (auto intro!: dkim_runs.run_keeps genesis_inv)

theorem dkim_invariant_reachable_witness:
  "dkim_inv demo_dx (run_msgs (dkim_step demo_denv) [Revoke_key (demo_revoke ''a'')]
     (AppModule_InitGenesis \<lparr>gd_DkimPubkeys = [demo_dkey ''a'' ''1'', demo_dkey ''b'' ''1''],
        gd_Params = DefaultParams_dkim, gd_RevokedPubkeys = []\<rparr> dkim_empty))"
proof -
  have env: "de_ext demo_denv = demo_dx"
    by (simp add: demo_denv_def)
  have "genesis_hashed demo_dx \<lparr>gd_DkimPubkeys = [demo_dkey ''a'' ''1'', demo_dkey ''b'' ''1''],
      gd_Params = DefaultParams_dkim, gd_RevokedPubkeys = []\<rparr>"
    using default_params_valid
    by (simp add: genesis_hashed_def demo_dkey_def demo_hash big_Bytes_def big_endian.simps char_of_def bit_Suc_0_iff)
  then show ?thesis
    by (rule dkim_invariant_reachable [of demo_denv, unfolded env, THEN conjunct1])
qed

text \<open>C21: A revoked key never comes back: after any messages, an entry whose key has a revoked
  identifier was stored, unchanged, when the identifier was revoked already.\<close>

theorem revoked_key_stays_out:
  assumes "kv_has (RevokedKeys st) i" and "kv_get (DkimPubKeys (run_msgs (dkim_step env) ms st)) d = Some k"
    and "key_id (de_ext env) k = Some i"
  shows "kv_get (DkimPubKeys st) d = Some k"
proof -
  have "stays_out (de_ext env) i st st"
    using assms(1) by (simp add: stays_out_def)
  from revoked_runs.run_keeps [OF this] show ?thesis
    using assms(2,3) unfolding stays_out_def by blast
qed

theorem revoked_key_stays_out_witness:
  "kv_get (DkimPubKeys demo_revoked) (''b'', ''1'') = Some (demo_dkey ''b'' ''1'')"
proof (rule revoked_key_stays_out [where env = demo_denv and i = "''QUJD''"
      and ms = "[Remove_key \<lparr>rm_Authority_dkim = ''mallory'', rm_Selector = ''1'', rm_Domain = ''b''\<rparr>]"])
  show "kv_has (RevokedKeys demo_revoked) ''QUJD''"
    by (simp add: demo_revoked_def kv_has_def kv_get_def)
  show "kv_get (DkimPubKeys (run_msgs (dkim_step demo_denv)
      [Remove_key \<lparr>rm_Authority_dkim = ''mallory'', rm_Selector = ''1'', rm_Domain = ''b''\<rparr>] demo_revoked)) (''b'', ''1'')
      = Some (demo_dkey ''b'' ''1'')"
    by (simp add: deliver_def RemoveDkimPubKey_def demo_denv_def demo_revoked_def kv_get_def)
  show "key_id (de_ext demo_denv) (demo_dkey ''b'' ''1'') = Some ''QUJD''"
    by (simp add: demo_denv_def demo_key_id)
qed

text \<open>C22: The entry of a domain and selector changes only by a message of the authority, or by a
  revocation for that domain that brings the private key of the very key stored there.\<close>

theorem key_change_needs_right:
  assumes inv: "dkim_inv (de_ext env) st"
    and change: "kv_get (DkimPubKeys (run_msgs (dkim_step env) ms st)) d \<noteq> kv_get (DkimPubKeys st) d"
  shows "\<exists>ms1 m ms2. ms = ms1 @ m # ms2 \<and> key_gate env d (run_msgs (dkim_step env) ms1 st) m"
proof -
  obtain ms1 m ms2 where "ms = ms1 @ m # ms2"
    "kv_wf (DkimPubKeys (run_msgs (dkim_step env) ms1 st)) \<longrightarrow> key_gate env d (run_msgs (dkim_step env) ms1 st) m"
    using key_changes.run_guarded [OF change] by blast
  moreover have "kv_wf (DkimPubKeys (run_msgs (dkim_step env) ms1 st))"
    using dkim_runs.run_keeps [OF inv] by (simp add: dkim_inv_def)
  ultimately show ?thesis
    by blast
qed

theorem key_change_needs_right_witness:
  "\<exists>ms1 m ms2. [Revoke_key (demo_revoke ''a'')] = ms1 @ m # ms2
     \<and> key_gate demo_denv (''a'', ''2'') (run_msgs (dkim_step demo_denv) ms1 demo_dst) m"
  by (rule key_change_needs_right)
    (simp_all add: demo_denv_def demo_dst_inv deliver_def demo_revoke_run [unfolded demo_denv_def],
      simp add: demo_revoked_def demo_dst_def kv_get_def)

text \<open>C23: A revocation removes exactly the entries of the domain that hold the key, whatever their
  selectors and encodings, and records the identifier of the key if there was one.\<close>

theorem RevokeDkimPubKey_exact:
  assumes "kv_wf (DkimPubKeys st)" and "RevokeDkimPubKey env msg st = Inr st'"
  shows "\<exists>key. parse_private_key (de_ext env) (rv_PrivKey msg) = Inr key
    \<and> DkimPubKeys st' = filter (\<lambda>e. \<not> (fst (fst e) = rv_Domain msg \<and> same_key (de_ext env) key (snd e))) (DkimPubKeys st)
    \<and> RevokedKeys st' =
        (if \<exists>e \<in> set (DkimPubKeys st). fst (fst e) = rv_Domain msg \<and> same_key (de_ext env) key (snd e)
         then kv_set (CanonicalizeRSAPublicKey (de_ext env) key) True (RevokedKeys st) else RevokedKeys st)
    \<and> dkim_Params st' = dkim_Params st"
proof -
  obtain key where key: "parse_private_key (de_ext env) (rv_PrivKey msg) = Inr key"
    and st': "st' = revoke_some (de_ext env) key (domain_entries (rv_Domain msg) st) st"
    by (rule RevokeDkimPubKey_InrD [OF assms(2)])
  have "RevokedKeys st' =
        (if \<exists>e \<in> set (DkimPubKeys st). fst (fst e) = rv_Domain msg \<and> same_key (de_ext env) key (snd e)
         then kv_set (CanonicalizeRSAPublicKey (de_ext env) key) True (RevokedKeys st) else RevokedKeys st)"
    unfolding st' revoke_some_def Let_def by (auto simp: domain_entries_def filter_empty_conv)
  then show ?thesis
    using key revoke_some_keys [OF assms(1)] by (intro exI [of _ key]) (simp add: st')
qed

theorem RevokeDkimPubKey_exact_witness:
  "RevokedKeys demo_revoked = [(''QUJD'', True)]
   \<and> DkimPubKeys demo_revoked
     = filter (\<lambda>e. \<not> (fst (fst e) = ''a'' \<and> same_key demo_dx (plain_key ''ABC'') (snd e))) (DkimPubKeys demo_dst)"
proof -
  have "kv_wf (DkimPubKeys demo_dst)"
    using demo_dst_inv by (simp add: dkim_inv_def)
  from RevokeDkimPubKey_exact [OF this demo_revoke_run] show ?thesis
    by (simp add: demo_denv_def demo_revoke_def parse_private_key_def demo_revoked_def) (simp add: demo_dx_def)
qed

text \<open>Importing an export through the module's own genesis function, which is the one the
  application runs, brings back the keys and the parameters of any valid state but no revocation: the
  list of revoked identifiers is empty afterwards, whatever it was.\<close>

theorem import_forgets_revocations:
  assumes "dkim_inv x st"
  shows "AppModule_InitGenesis (ExportGenesis_dkim st) dkim_empty
    = st\<lparr>RevokedKeys := [], dkim_Params := Some (GetParams_dkim st)\<rparr>"
proof -
  have wf: "kv_wf (DkimPubKeys st)" and own: "\<And>e. e \<in> set (DkimPubKeys st) \<Longrightarrow> fst e = (dk_Domain (snd e), dk_Selector (snd e))"
    using assms by (auto simp: dkim_inv_def entry_ok_def kv_in_set_iff)
  have saved: "DkimPubKeys (SaveDkimPubKeys ks s) = fold (\<lambda>k. kv_set (dk_Domain k, dk_Selector k) k) ks (DkimPubKeys s)" for ks s
    by (induction ks arbitrary: s) (simp_all add: SaveDkimPubKeys_def SaveDkimPubKey_def)
  have "fold (\<lambda>k. kv_set (dk_Domain k, dk_Selector k) k) (map snd (DkimPubKeys st)) [] = fold (\<lambda>e. kv_set (fst e) (snd e)) (DkimPubKeys st) []"
    unfolding fold_map using own by (intro fold_cong) auto
  also have "\<dots> = DkimPubKeys st"
    by (rule fold_kv_set [OF wf])
  finally show ?thesis
    by (intro dkim_state.equality)
      (simp_all add: AppModule_InitGenesis_def ExportGenesis_dkim_def saved dkim_empty_def)
qed

theorem import_forgets_revocations_witness:
  "AppModule_InitGenesis (ExportGenesis_dkim demo_revoked) dkim_empty
    = demo_revoked\<lparr>RevokedKeys := [], dkim_Params := Some (GetParams_dkim demo_revoked)\<rparr>"
proof (rule import_forgets_revocations)
  show "dkim_inv demo_dx demo_revoked"
    using dkim_step_inv [of demo_denv "Revoke_key (demo_revoke ''a'')"] demo_revoke_run demo_dst_inv
    by (simp add: demo_denv_def)
qed

end
