(* ===== verification/Dkim_Auth.thy ===== *)
theory Dkim_Auth
  imports Dkim_Props Zk_Props
begin

text \<open>
  What an answer of \<open>Authenticate\<close> rests on, across \<open>x/dkim\<close> and \<open>x/zk\<close>, and that the public inputs
  of a request never drive it out of range.
\<close>

section \<open>Facts\<close>

lemma canonical_decimal:
  assumes "canonical_input s" and "SetString s 10 = Some v"
  shows "0 \<le> v"
proof -
  have "SetString (''0x'' @ t) 10 = None" "SetString (''0X'' @ t) 10 = None" for t
    by (simp_all add: SetString_def natural_val_def digit_val_def)
  moreover have "HasPrefix s p \<Longrightarrow> \<exists>t. s = p @ t" for p
    by (metis HasPrefix_def append_take_drop_id)
  ultimately have "\<not> HasPrefix s ''0x''" "\<not> HasPrefix s ''0X''"
    using assms(2) by fastforce+
  then have "input_value s = SetString s 10"
    by (simp add: input_value_def)
  then show ?thesis
    using assms by (simp add: canonical_input_def)
qed

lemma abs_of_bytes: "big_Bytes i = big_Bytes j \<longleftrightarrow> \<bar>i\<bar> = \<bar>j\<bar>"
  using big_Bytes_inject [of "\<bar>i\<bar>" "\<bar>j\<bar>"] by (simp add: big_Bytes_def)

lemma big_Bytes_Nil_iff: "big_Bytes i = [] \<longleftrightarrow> i = 0"
  using abs_of_bytes [of i 0] by (simp add: big_Bytes_def big_endian.simps)

lemma query_key_sound:
  assumes inv: "dkim_inv x st" and v: "0 \<le> v" and ks: "ks \<noteq> []"
    and q: "query_DkimPubKeys enc st \<lparr>qd_Domain = dn, qd_Selector = [], qd_PoseidonHash = big_Bytes v, qd_Pagination = None\<rparr> = Inr (ks, pr)"
  shows "\<exists>k h. kv_get (DkimPubKeys st) (dk_Domain k, dk_Selector k) = Some k
     \<and> ComputePoseidonHash x (dk_PubKey k) = Inr h \<and> (dn \<noteq> [] \<longrightarrow> dk_Domain k = dn) \<and> (v \<noteq> 0 \<longrightarrow> \<bar>h\<bar> = v)"
proof -
  obtain d where d: "(d, hd ks) \<in> set (DkimPubKeys st)" "dn \<noteq> [] \<longrightarrow> fst d = dn"
    "big_Bytes v \<noteq> [] \<longrightarrow> dk_PoseidonHash (hd ks) = big_Bytes v"
    using query_first_keys [OF q hd_in_set [OF ks]] by blast
  then have get: "kv_get (DkimPubKeys st) d = Some (hd ks)"
    using inv by (simp add: dkim_inv_def kv_in_set_iff)
  then obtain h where "ComputePoseidonHash x (dk_PubKey (hd ks)) = Inr h" "dk_PoseidonHash (hd ks) = big_Bytes h"
    "d = (dk_Domain (hd ks), dk_Selector (hd ks))"
    using inv unfolding dkim_inv_def entry_ok_def by blast
  with d get v show ?thesis
    by (intro exI [of _ "hd ks"] exI [of _ h]) (auto simp: big_Bytes_Nil_iff abs_of_bytes)
qed

section \<open>An instance\<close>

definition demo_indices :: PublicInputIndices where
  "demo_indices = \<lparr>MinLength = 6, EmailHashIndex = 0, DkimDomainRange = DefaultIndexRange 1 2, DkimHashIndex = 2,
     TxBytesRange = DefaultIndexRange 3 4, EmailHostRange = DefaultIndexRange 4 5,
     EmailSubjectRange = DefaultIndexRange 5 6\<rparr>"

text \<open>The domain \<open>a\<close>, the hash 7, the bytes \<open>tx\<close>, the host \<open>h\<close> and the subject \<open>[Reply Needed]\<close>.\<close>

definition demo_inputs :: "string list" where
  "demo_inputs = [''5'', ''97'', ''7'', ''30836'', ''104'', ''1894218288748433466055627131671131'']"

definition demo_auth_state :: dkim_state where
  "demo_auth_state = demo_dst\<lparr>dkim_Params := Some (DefaultParams_dkim\<lparr>PublicInputIndices_of := demo_indices\<rparr>)\<rparr>"

definition demo_auth :: QueryAuthenticateRequest where
  "demo_auth = \<lparr>qa_TxBytes = ''tx'', qa_EmailHash = ''5'', qa_Proof = ''proof'', qa_PublicInputs = demo_inputs,
     qa_AllowedEmailHosts = [''g'', ''h'']\<rparr>"

lemma demo_numbers:
  "SetString ''97'' 10 = Some 97" "SetString ''30836'' 10 = Some 30836" "SetString ''104'' 10 = Some 104"
  "SetString ''1894218288748433466055627131671131'' 10 = Some 1894218288748433466055627131671131"
  by (simp_all add: SetString_def natural_val_def digit_val_def)

lemma demo_bytes:
  "big_Bytes 97 = ''a''" "big_Bytes 30836 = ''xt''" "big_Bytes 104 = ''h''"
  "big_Bytes 1894218288748433466055627131671131 = rev ''[Reply Needed]''"
  by (simp_all add: big_Bytes_def big_endian.simps char_of_def bit_Suc_0_iff)

lemma demo_texts:
  "inputs_text demo_dx demo_inputs (DefaultIndexRange 1 2) = Inr ''a''"
  "inputs_text demo_dx demo_inputs (DefaultIndexRange 3 4) = Inr ''tx''"
  "inputs_text demo_dx demo_inputs (DefaultIndexRange 4 5) = Inr ''h''"
  "inputs_text demo_dx demo_inputs (DefaultIndexRange 5 6) = Inr ''[Reply Needed]''"
  by (simp_all add: inputs_text_def DefaultIndexRange_def demo_inputs_def ConvertStringArrayToBigInt_def
      demo_numbers ConvertBigIntArrayToString_def demo_dx_def
      ToLittleEndianWithLeadingZerosTrimming_def TrimRight_def demo_bytes)

lemma demo_subject: "ValidateForcedSubject ''[Reply Needed]'' = Some True"
proof -
  have "subject_text ''[Reply Needed]'' = Some ''[Reply Needed]''"
    by code_simp
  moreover have "check_reply_tag ''[Reply Needed]'' = Some True"
    unfolding check_reply_tag_iff
    by (rule exI [of _ "[]"], rule exI [of _ "[]"]) (simp add: reply_tag_def TrimSpace_Nil reply_markers.no_marker)
  ultimately show ?thesis
    by (simp add: ValidateForcedSubject_text)
qed

lemma demo_auth_inv: "dkim_inv demo_dx demo_auth_state"
  using demo_dst_inv
  by (simp add: dkim_inv_def demo_auth_state_def Validate_dkim_params_def DefaultParams_dkim_def demo_indices_def
      DefaultIndexRange_def DefaultMaxPubKeySizeBytes_def Validate_PublicInputIndices_iff indices_ok_def range_ok_def)

lemma demo_canonical_inputs: "list_all canonical_input demo_inputs"
  by (simp add: demo_inputs_def canonical_input_def input_value_def HasPrefix_def demo_numbers bn254ScalarPrime_def)
    (simp add: SetString_def natural_val_def digit_val_def bn254ScalarPrime_def)

abbreviation demo_zk_state :: zk_state where
  "demo_zk_state \<equiv> demo_state (demo_key ''circom'' ''alice'' PROOF_SYSTEM_GROTH16)"

lemma demo_verified: "verify_proof demo_ext demo_prover demo_zk_state 1 ''proof'' demo_inputs = Inr True"
  using demo_canonical_inputs
  by (simp add: verify_proof_def demo_prover_def GetCircomVKeyByID_def GetVKeyByID_def demo_state_def demo_key_def
      kv_get_def UnmarshalVKey_def demo_ext_def Verify_def validatePublicInputs_cases recover_as_def)

lemma demo_keys:
  "\<exists>pr. query_DkimPubKeys demo_encoder demo_auth_state \<lparr>qd_Domain = ''a'', qd_Selector = [], qd_PoseidonHash = big_Bytes 7,
     qd_Pagination = None\<rparr> = Inr ([demo_dkey ''a'' ''1'', demo_dkey ''a'' ''2''], pr)"
proof -
  have "big_Bytes 7 = [CHR 0x07]"
    by (simp add: big_Bytes_def big_endian.simps char_of_def bit_Suc_0_iff)
  then show ?thesis
    by (simp add: query_DkimPubKeys_def parse_pagination_def domain_entries_def demo_auth_state_def demo_dst_def
        start_collect_def hash_matches_def demo_dkey_def Let_def word_le_nat_alt)
qed

lemma demo_authenticated:
  "Authenticate demo_dx demo_encoder demo_ext demo_prover demo_zk_state demo_auth_state demo_auth = Inr True"
proof -
  have inputs: "length demo_inputs = 6" "demo_inputs ! 0 = ''5''" "demo_inputs ! 2 = ''7''"
    by (simp_all add: demo_inputs_def)
  have "SetString ''7'' 10 = Some 7"
    by (simp add: SetString_def natural_val_def digit_val_def)
  then show ?thesis
    using demo_keys demo_texts demo_subject demo_verified inputs
    by (auto simp: Authenticate_def demo_auth_def Let_def demo_indices_def DefaultParams_dkim_def IsSubset_def
        len64_def MaxDKIMProofSizeBytes_def demo_auth_state_def)
qed

section \<open>Properties\<close>

text \<open>C18: A positive answer of \<open>Authenticate\<close> means, for the stored parameters: the public inputs carry
  the email hash and the transaction bytes of the request; a key is stored for the signing domain
  they name (any domain, if they name the empty one) whose Poseidon hash is the number they carry
  (any hash, if that number is 0); the host they name is one of the allowed ones and their subject is
  a forced one; and the proof library accepted the proof for exactly these inputs, all of them
  canonical field elements, under the key stored in \<open>x/zk\<close> with the identifier of the parameters.\<close>

theorem Authenticate_sound:
  assumes inv: "dkim_inv x st" and run: "Authenticate x enc zx cx zst st req = Inr True"
  shows "\<exists>params dn v k h host subject p vk gp.
    dkim_Params st = Some params
    \<and> go_index (qa_PublicInputs req) (unat (EmailHashIndex (PublicInputIndices_of params))) = Inr (qa_EmailHash req)
    \<and> inputs_text x (qa_PublicInputs req) (TxBytesRange (PublicInputIndices_of params)) = Inr (qa_TxBytes req)
    \<and> inputs_text x (qa_PublicInputs req) (DkimDomainRange (PublicInputIndices_of params)) = Inr dn
    \<and> SetString (qa_PublicInputs req ! unat (DkimHashIndex (PublicInputIndices_of params))) 10 = Some v
    \<and> kv_get (DkimPubKeys st) (dk_Domain k, dk_Selector k) = Some k
    \<and> ComputePoseidonHash x (dk_PubKey k) = Inr h \<and> (dn \<noteq> [] \<longrightarrow> dk_Domain k = dn) \<and> (v \<noteq> 0 \<longrightarrow> \<bar>h\<bar> = v)
    \<and> inputs_text x (qa_PublicInputs req) (EmailHostRange (PublicInputIndices_of params)) = Inr host
    \<and> host \<noteq> [] \<and> host \<in> set (qa_AllowedEmailHosts req)
    \<and> inputs_text x (qa_PublicInputs req) (EmailSubjectRange (PublicInputIndices_of params)) = Inr subject
    \<and> ValidateForcedSubject subject = Some True
    \<and> list_all canonical_input (qa_PublicInputs req)
    \<and> GetCircomVKeyByID zx zst (VkeyIdentifier params) = Inr vk
    \<and> UnmarshalCircomProofJSON cx (qa_Proof req) = Inr p
    \<and> ConvertCircomToGnark cx vk p (qa_PublicInputs req) = Inr gp \<and> VerifyProof cx gp = Inr True"
  using run
proof (rule Authenticate_InrD)
  fix params dn dkimHash v ks pr host subject
  assume passed: "dkim_Params st = Some params"
    "go_index (qa_PublicInputs req) (unat (EmailHashIndex (PublicInputIndices_of params))) = Inr (qa_EmailHash req)"
    "inputs_text x (qa_PublicInputs req) (TxBytesRange (PublicInputIndices_of params)) = Inr (qa_TxBytes req)"
    "inputs_text x (qa_PublicInputs req) (DkimDomainRange (PublicInputIndices_of params)) = Inr dn"
    "inputs_text x (qa_PublicInputs req) (EmailHostRange (PublicInputIndices_of params)) = Inr host"
    "host \<in> set (qa_AllowedEmailHosts req)" "host \<noteq> []"
    "inputs_text x (qa_PublicInputs req) (EmailSubjectRange (PublicInputIndices_of params)) = Inr subject"
    "ValidateForcedSubject subject = Some True"
  assume hash: "go_index (qa_PublicInputs req) (unat (DkimHashIndex (PublicInputIndices_of params))) = Inr dkimHash"
    "SetString dkimHash 10 = Some v"
  assume q: "query_DkimPubKeys enc st \<lparr>qd_Domain = dn, qd_Selector = [], qd_PoseidonHash = big_Bytes v, qd_Pagination = None\<rparr>
      = Inr (ks, pr)" and ks: "ks \<noteq> []"
  assume "verify_proof zx cx zst (VkeyIdentifier params) (qa_Proof req) (qa_PublicInputs req) = Inr True"
  then obtain p vk gp where vp: "UnmarshalCircomProofJSON cx (qa_Proof req) = Inr p"
    "GetCircomVKeyByID zx zst (VkeyIdentifier params) = Inr vk" "list_all canonical_input (qa_PublicInputs req)"
    "ConvertCircomToGnark cx vk p (qa_PublicInputs req) = Inr gp" "VerifyProof cx gp = Inr True"
    by (auto simp: verify_proof_Inr_iff Verify_def validatePublicInputs_iff)
  have "dkimHash = qa_PublicInputs req ! unat (DkimHashIndex (PublicInputIndices_of params))"
    "dkimHash \<in> set (qa_PublicInputs req)"
    using hash(1) by (auto simp: go_index_Inr_iff)
  moreover from this have "0 \<le> v"
    using canonical_decimal [OF _ hash(2)] vp(3) by (simp add: list_all_iff)
  from query_key_sound [OF inv this ks q] obtain k h where
    "kv_get (DkimPubKeys st) (dk_Domain k, dk_Selector k) = Some k"
    "ComputePoseidonHash x (dk_PubKey k) = Inr h" "dn \<noteq> [] \<longrightarrow> dk_Domain k = dn" "v \<noteq> 0 \<longrightarrow> \<bar>h\<bar> = v"
    by blast
  ultimately show ?thesis
    using passed hash vp by metis
qed

theorem Authenticate_sound_witness:
  "\<exists>vk p gp. GetCircomVKeyByID demo_ext demo_zk_state 1 = Inr vk
     \<and> ConvertCircomToGnark demo_prover vk p demo_inputs = Inr gp \<and> VerifyProof demo_prover gp = Inr True"
  using Authenticate_sound [OF demo_auth_inv demo_authenticated]
  by (auto simp: demo_auth_state_def demo_auth_def DefaultParams_dkim_def)

text \<open>C19: With parameters the module accepted, and when every stored key past the hundredth has a domain
  and selector that fit the codec's buffer of 1024 bytes with their delimiters, no request makes
  \<open>Authenticate\<close> panic, whatever its public inputs, its proof and the proof libraries: every index
  and slice it takes is in range, and the search for the signing key encodes at most one key, past
  the first hundred.  A longer key there does make that search panic (\<open>long_key_panics\<close>).\<close>

theorem Authenticate_never_panics:
  assumes inv: "dkim_inv x st" and sized: "go_sized (qa_PublicInputs req)" and codec: "buffer_laws enc"
    and fits: "\<forall>e \<in> set (drop 100 (DkimPubKeys st)). key_fits 1024 (fst e)"
  shows "\<not> is_panic (Authenticate x enc zx cx zst st req)"
proof (cases "dkim_Params st")
  case (Some params)
  let ?p = "PublicInputIndices_of params"
  have ok: "indices_ok ?p"
    using inv Some by (simp add: dkim_inv_def Validate_dkim_params_indices)
  show ?thesis
  proof (cases "len64 (qa_PublicInputs req) < MinLength ?p")
    case enough: False
    have "\<not> is_panic (verify_proof zx cx zst i pr inputs)" for i pr inputs
      by (simp add: verify_proof_def recover_as_not_panic)
    moreover have not_panics: "\<not> is_panic (Inl e :: unit result)"
      if "e \<in> {ErrProofTooLarge_dkim, ErrNotEnoughPublicInputs, ErrEmailHashMismatch, ErrTxBytesMismatch,
        ErrNoDkimPubKey, ErrEmailHostMismatch, ErrInvalidEmailSubject}" for e
      using that by (auto simp: dkim_error_defs)
    moreover have "\<not> is_panic (case SetString s 10 of None \<Rightarrow> Inl ErrInvalidPublicInput | Some v \<Rightarrow> Inr v)" for s
      by (simp add: ErrInvalidPublicInput_def split: option.split)
    moreover have "\<not> is_panic (inputs_text x (qa_PublicInputs req) r)" if "range_ok (MinLength ?p) r" for r
      using that enough sized inputs_text_not_panic [of "MinLength ?p" r "qa_PublicInputs req" x]
      by (simp add: not_less word_le_nat_alt unat_len64)
    moreover have "\<not> is_panic (go_index (qa_PublicInputs req) (unat i))" if "unat i < unat (MinLength ?p)" for i :: u64
      using that enough sized by (simp add: not_less word_le_nat_alt unat_len64)
    ultimately show ?thesis
      using ok query_not_panic [OF codec _ _ fits]
      unfolding Authenticate_def Let_def case_prod_beta Some option.case indices_ok_def
      by (intro bindr_not_panic ensure_not_panic) simp_all
  qed (simp add: Authenticate_def Let_def Some is_panic_bindr is_panic_ensure dkim_error_defs)
qed (simp add: Authenticate_def)

theorem Authenticate_never_panics_witness:
  "\<not> is_panic (Authenticate demo_dx demo_encoder demo_ext demo_prover demo_zk_state demo_auth_state demo_auth)"
  by (rule Authenticate_never_panics [OF demo_auth_inv _ demo_buffer])
    (simp_all add: go_sized_def demo_auth_def demo_inputs_def demo_auth_state_def demo_dst_def)

end
