(* ===== verification/Jwk.thy ===== *)
theory Jwk
  imports Sdk Go_Enc
begin

text \<open>
  \<open>x/jwk/types\<close>: audiences with their JSON web keys, the claims that reserve an audience name by its
  hash, the parameters, the stateless checks of the messages and of the genesis state.  The JOSE
  library, the address codec and SHA-256 are arguments (\<open>jwk_ext\<close>).
\<close>

section \<open>Outside code\<close>

text \<open>The Go type of the key material that \<open>key.Raw\<close> yields; of an RSA key the modulus.\<close>

datatype raw_key =
    RSA_Public int
  | RSA_Private
  | ECDSA_Public
  | ECDSA_Private
  | Ed25519_Public
  | Ed25519_Private
  | Raw_other

text \<open>A private claim by the case of the type switch it falls in: its text, or the outcome of
  \<open>json.Marshal\<close> and the text that \<open>%v\<close> gives.\<close>

datatype claim_value =
    Claim_string string
  | Claim_Stringer string
  | Claim_bytes bytes
  | Claim_basic string
  | Claim_other "string result" string

text \<open>A parsed token; times are Unix seconds, \<open>None\<close> the zero time.  The private claims are the
  entries of a Go map.\<close>

record jwt_token =
  tk_Issuer :: string
  tk_Subject :: string
  tk_Audience :: "string list"
  tk_Expiration :: "int option"
  tk_NotBefore :: "int option"
  tk_IssuedAt :: "int option"
  tk_JwtID :: string
  tk_PrivateClaims :: "(string \<times> claim_value) list"

record 'key jwk_ext =
  ParseKey :: "bytes \<Rightarrow> 'key result"
  key_Raw :: "'key \<Rightarrow> raw_key result"
  key_KeyType :: "'key \<Rightarrow> string"
  key_Algorithm :: "'key \<Rightarrow> string"
  SignatureAlgorithm_Accept :: "string \<Rightarrow> string result"
  jwt_Parse :: "bytes \<Rightarrow> string \<Rightarrow> 'key \<Rightarrow> string \<Rightarrow> string \<Rightarrow> int result \<Rightarrow> jwt_token result"
  jws_Verify :: "bytes \<Rightarrow> string \<Rightarrow> 'key \<Rightarrow> bytes result"
  json_strings :: "string list \<Rightarrow> string"
  jk_Sum256 :: "bytes \<Rightarrow> bytes"
  jk_AccAddressFromBech32 :: "string \<Rightarrow> address result"
  AccAddress_String :: "address \<Rightarrow> string"

section \<open>Types (types)\<close>

definition ErrInvalidJWK :: go_error where "ErrInvalidJWK = Registered ''jwk'' 1100"

definition MaxJWKKeySize :: nat where "MaxJWKKeySize = 2048"
definition MaxAudSize :: nat where "MaxAudSize = 512"
definition MaxRSAKeyBits :: nat where "MaxRSAKeyBits = 4096"

record Audience =
  Aud :: string
  aud_Key :: string
  aud_Admin :: string

record AudienceClaim =
  Signer :: string

definition AudienceKeyPrefix :: string where "AudienceKeyPrefix = ''Audience/value/''"
definition AudienceClaimKeyPrefix :: string where "AudienceClaimKeyPrefix = ''AudienceClaim/value/''"

definition AudienceKey :: "string \<Rightarrow> bytes" where
  "AudienceKey aud = aud @ ''/''"

definition AudienceClaimKey :: "bytes \<Rightarrow> bytes" where
  "AudienceClaimKey hash = hash @ ''/''"

definition ValidateJWKKeySize :: "'key jwk_ext \<Rightarrow> 'key \<Rightarrow> unit result" where
  "ValidateJWKKeySize x key =
     bindr (wrap_as ErrInvalidJWK (key_Raw x key)) (\<lambda>rawKey.
     case rawKey of
       RSA_Public n \<Rightarrow> ensure (\<not> BitLen n > MaxRSAKeyBits) ErrInvalidJWK
     | RSA_Private \<Rightarrow> Inl ErrInvalidJWK
     | ECDSA_Public \<Rightarrow> Inr ()
     | ECDSA_Private \<Rightarrow> Inl ErrInvalidJWK
     | Ed25519_Public \<Rightarrow> Inr ()
     | Ed25519_Private \<Rightarrow> Inl ErrInvalidJWK
     | Raw_other \<Rightarrow> Inr ())"

definition validateJWKKeyTypeAlgConsistency :: "'key jwk_ext \<Rightarrow> 'key \<Rightarrow> string \<Rightarrow> unit result" where
  "validateJWKKeyTypeAlgConsistency x key sigAlg =
     (let kty = key_KeyType x key in
      if sigAlg \<in> {''RS256'', ''RS384'', ''RS512'', ''PS256'', ''PS384'', ''PS512''}
      then ensure (kty = ''RSA'') (Plain ''requires kty=RSA'')
      else if sigAlg \<in> {''ES256'', ''ES384'', ''ES512''}
      then ensure (kty = ''EC'') (Plain ''requires kty=EC'')
      else if sigAlg = ''EdDSA''
      then ensure (kty = ''OKP'') (Plain ''requires kty=OKP'')
      else Inr ())"

text \<open>The switch that rejects symmetric algorithms and \<open>none\<close>.\<close>

definition symmetric_or_none :: "string \<Rightarrow> bool" where
  "symmetric_or_none sigAlg \<longleftrightarrow> sigAlg \<in> {''HS256'', ''HS384'', ''HS512'', ''none''}"

record MsgCreateAudience =
  ca_Admin :: string
  ca_Aud :: string
  ca_Key :: string

record MsgUpdateAudience =
  ua_NewAdmin :: string
  ua_Admin :: string
  ua_Aud :: string
  ua_Key :: string
  ua_NewAud :: string

record MsgDeleteAudience =
  da_Admin :: string
  da_Aud :: string

record MsgCreateAudienceClaim =
  cc_Admin :: string
  cc_AudHash :: bytes

record MsgDeleteAudienceClaim =
  dc_Admin :: string
  dc_AudHash :: bytes

text \<open>The checks of a key that \<open>MsgCreateAudience\<close> and \<open>MsgUpdateAudience\<close> share.\<close>

definition validate_msg_key :: "'key jwk_ext \<Rightarrow> string \<Rightarrow> unit result" where
  "validate_msg_key x k =
     bindr (wrap_as ErrInvalidJWK (ParseKey x k)) (\<lambda>key.
     bindr (ValidateJWKKeySize x key) (\<lambda>_.
     bindr (SignatureAlgorithm_Accept x (key_Algorithm x key)) (\<lambda>sigAlg.
     bindr (ensure (\<not> symmetric_or_none sigAlg) (Plain ''invalid algorithm'')) (\<lambda>_.
     wrap_as ErrInvalidJWK (validateJWKKeyTypeAlgConsistency x key sigAlg)))))"

definition jwk_address :: "'key jwk_ext \<Rightarrow> string \<Rightarrow> address result" where
  "jwk_address x s = wrap_as (SdkErr ''ErrInvalidAddress'') (jk_AccAddressFromBech32 x s)"

definition ValidateBasic_MsgCreateAudience :: "'key jwk_ext \<Rightarrow> MsgCreateAudience \<Rightarrow> unit result" where
  "ValidateBasic_MsgCreateAudience x msg =
     bindr (jwk_address x (ca_Admin msg)) (\<lambda>_.
     bindr (ensure (\<not> length (ca_Key msg) > MaxJWKKeySize) ErrInvalidJWK) (\<lambda>_.
     bindr (ensure (\<not> length (ca_Aud msg) > MaxAudSize) (SdkErr ''ErrInvalidRequest'')) (\<lambda>_.
     validate_msg_key x (ca_Key msg))))"

definition ValidateBasic_MsgUpdateAudience :: "'key jwk_ext \<Rightarrow> MsgUpdateAudience \<Rightarrow> unit result" where
  "ValidateBasic_MsgUpdateAudience x msg =
     bindr (jwk_address x (ua_NewAdmin msg)) (\<lambda>_.
     bindr (jwk_address x (ua_Admin msg)) (\<lambda>_.
     bindr (ensure (\<not> length (ua_Key msg) > MaxJWKKeySize) ErrInvalidJWK) (\<lambda>_.
     bindr (ensure (\<not> length (ua_Aud msg) > MaxAudSize) (SdkErr ''ErrInvalidRequest'')) (\<lambda>_.
     bindr (ensure (\<not> length (ua_NewAud msg) > MaxAudSize) (SdkErr ''ErrInvalidRequest'')) (\<lambda>_.
     validate_msg_key x (ua_Key msg))))))"

definition ValidateBasic_MsgDeleteAudience :: "'key jwk_ext \<Rightarrow> MsgDeleteAudience \<Rightarrow> unit result" where
  "ValidateBasic_MsgDeleteAudience x msg = bindr (jwk_address x (da_Admin msg)) (\<lambda>_. Inr ())"

definition ValidateBasic_MsgCreateAudienceClaim :: "'key jwk_ext \<Rightarrow> MsgCreateAudienceClaim \<Rightarrow> unit result" where
  "ValidateBasic_MsgCreateAudienceClaim x msg =
     bindr (jwk_address x (cc_Admin msg)) (\<lambda>_.
     ensure (\<not> length (cc_AudHash msg) \<noteq> 32) (SdkErr ''ErrInvalidRequest''))"

definition ValidateBasic_MsgDeleteAudienceClaim :: "'key jwk_ext \<Rightarrow> MsgDeleteAudienceClaim \<Rightarrow> unit result" where
  "ValidateBasic_MsgDeleteAudienceClaim x msg =
     bindr (jwk_address x (dc_Admin msg)) (\<lambda>_.
     ensure (\<not> length (dc_AudHash msg) \<noteq> 32) (SdkErr ''ErrInvalidRequest''))"

record jwk_params =
  TimeOffset :: u64
  DeploymentGas :: u64

definition NewParams_jwk :: "u64 \<Rightarrow> u64 \<Rightarrow> jwk_params" where
  "NewParams_jwk timeOffset deploymentGas = \<lparr>TimeOffset = timeOffset, DeploymentGas = deploymentGas\<rparr>"

definition DefaultParams_jwk :: jwk_params where
  "DefaultParams_jwk = NewParams_jwk 30000000000 10000"

definition validateDeploymentGas :: "u64 \<Rightarrow> unit result" where
  "validateDeploymentGas v = ensure (\<not> v = 0) (SdkErr ''ErrInvalidRequest'')"

definition validateTimeOffset :: "u64 \<Rightarrow> unit result" where
  "validateTimeOffset v =
     bindr (ensure (\<not> v = 0) (SdkErr ''ErrInvalidRequest'')) (\<lambda>_.
     ensure (\<not> v > 9223372036854775807) (SdkErr ''ErrInvalidRequest''))"

definition Validate_jwk_params :: "jwk_params \<Rightarrow> unit result" where
  "Validate_jwk_params p =
     bindr (validateDeploymentGas (DeploymentGas p)) (\<lambda>_. validateTimeOffset (TimeOffset p))"

record GenesisState_jwk =
  gj_Params :: jwk_params
  AudienceList :: "Audience list"

definition DefaultGenesis_jwk :: GenesisState_jwk where
  "DefaultGenesis_jwk = \<lparr>gj_Params = DefaultParams_jwk, AudienceList = []\<rparr>"

text \<open>The checks of a genesis key, in the order of \<open>Validate\<close>.\<close>

definition validate_genesis_key :: "'key jwk_ext \<Rightarrow> string \<Rightarrow> unit result" where
  "validate_genesis_key x k =
     (if k \<noteq> [] then
        bindr (ensure (\<not> length k > MaxJWKKeySize) ErrInvalidJWK) (\<lambda>_.
        bindr (wrap_as ErrInvalidJWK (ParseKey x k)) (\<lambda>parsedKey.
        bindr (wrap_as ErrInvalidJWK (SignatureAlgorithm_Accept x (key_Algorithm x parsedKey))) (\<lambda>sigAlg.
        bindr (ensure (\<not> symmetric_or_none sigAlg) ErrInvalidJWK) (\<lambda>_.
        bindr (wrap_as ErrInvalidJWK (ValidateJWKKeySize x parsedKey)) (\<lambda>_.
        wrap_as ErrInvalidJWK (validateJWKKeyTypeAlgConsistency x parsedKey sigAlg))))))
      else Inr ())"

text \<open>One round of the loop; the list stands for the keys of \<open>audienceIndexMap\<close>.\<close>

definition validate_genesis_audience ::
  "'key jwk_ext \<Rightarrow> Audience \<Rightarrow> bytes list \<Rightarrow> bytes list result" where
  "validate_genesis_audience x elem audienceIndexMap =
     bindr (jwk_address x (aud_Admin elem)) (\<lambda>_.
     let index = AudienceKey (Aud elem) in
     bindr (ensure (\<not> index \<in> set audienceIndexMap) (Plain ''duplicated index for audience'')) (\<lambda>_.
     bindr (validate_genesis_key x (aud_Key elem)) (\<lambda>_.
     Inr (index # audienceIndexMap))))"

definition Validate_GenesisState_jwk :: "'key jwk_ext \<Rightarrow> GenesisState_jwk \<Rightarrow> unit result" where
  "Validate_GenesisState_jwk x gs =
     bindr (fold_each (validate_genesis_audience x) (AudienceList gs) []) (\<lambda>_.
     Validate_jwk_params (gj_Params gs))"

end
