(* ===== verification/Jwk_Keeper.thy ===== *)
theory Jwk_Keeper
  imports Jwk
begin

text \<open>
  \<open>x/jwk/keeper\<close>: the stores of audiences and claims under their prefixes, the two parameters of the
  parameter subspace, the messages (each after its \<open>ValidateBasic\<close>, as the application delivers
  them), genesis, the migrations and the queries.
\<close>

section \<open>State\<close>

text \<open>
  The keys are those below the store prefixes; neither prefix begins the other, so the two prefix
  stores share nothing.  A parameter is absent until it is set.
\<close>

record jwk_state =
  Audiences :: "(bytes, Audience) kv"
  AudienceClaims :: "(bytes, AudienceClaim) kv"
  st_TimeOffset :: "u64 option"
  st_DeploymentGas :: "u64 option"

lemma store_prefixes_apart:
  "take (length AudienceKeyPrefix) AudienceClaimKeyPrefix \<noteq> AudienceKeyPrefix"
  "take (length AudienceClaimKeyPrefix) AudienceKeyPrefix \<noteq> AudienceClaimKeyPrefix"
  by (simp_all add: AudienceKeyPrefix_def AudienceClaimKeyPrefix_def)

text \<open>The SDK's subspace: \<open>Get\<close> panics on a parameter that was never set; \<open>SetParamSet\<close> validates and
  writes one pair after the other and panics on an invalid value.\<close>

definition GetTimeOffset :: "jwk_state \<Rightarrow> u64 result" where
  "GetTimeOffset st = (case st_TimeOffset st of None \<Rightarrow> Inl (GoPanic ''unmarshal'') | Some v \<Rightarrow> Inr v)"

definition GetDeploymentGas :: "jwk_state \<Rightarrow> u64 result" where
  "GetDeploymentGas st = (case st_DeploymentGas st of None \<Rightarrow> Inl (GoPanic ''unmarshal'') | Some v \<Rightarrow> Inr v)"

definition GetParams_jwk :: "jwk_state \<Rightarrow> jwk_params result" where
  "GetParams_jwk st =
     bindr (GetTimeOffset st) (\<lambda>t. bindr (GetDeploymentGas st) (\<lambda>g. Inr (NewParams_jwk t g)))"

definition SetParams_jwk :: "jwk_params \<Rightarrow> jwk_state \<Rightarrow> jwk_state result" where
  "SetParams_jwk params st =
     bindr (must (validateDeploymentGas (DeploymentGas params))) (\<lambda>_.
     bindr (must (validateTimeOffset (TimeOffset params))) (\<lambda>_.
     Inr (st\<lparr>st_DeploymentGas := Some (DeploymentGas params), st_TimeOffset := Some (TimeOffset params)\<rparr>)))"

section \<open>Stores (audience.go)\<close>

definition SetAudienceClaim :: "'key jwk_ext \<Rightarrow> bytes \<Rightarrow> address \<Rightarrow> jwk_state \<Rightarrow> jwk_state" where
  "SetAudienceClaim x hash signer st =
     st\<lparr>AudienceClaims := kv_set (AudienceClaimKey hash) \<lparr>Signer = AccAddress_String x signer\<rparr> (AudienceClaims st)\<rparr>"

definition GetAudienceClaim :: "jwk_state \<Rightarrow> bytes \<Rightarrow> AudienceClaim option" where
  "GetAudienceClaim st hash = kv_get (AudienceClaims st) (AudienceClaimKey hash)"

definition RemoveAudienceClaim :: "bytes \<Rightarrow> jwk_state \<Rightarrow> jwk_state" where
  "RemoveAudienceClaim audHash st = st\<lparr>AudienceClaims := kv_del (AudienceClaimKey audHash) (AudienceClaims st)\<rparr>"

definition SetAudience :: "Audience \<Rightarrow> jwk_state \<Rightarrow> jwk_state" where
  "SetAudience audience st = st\<lparr>Audiences := kv_set (AudienceKey (Aud audience)) audience (Audiences st)\<rparr>"

definition GetAudience :: "jwk_state \<Rightarrow> string \<Rightarrow> Audience option" where
  "GetAudience st aud = kv_get (Audiences st) (AudienceKey aud)"

definition RemoveAudience :: "string \<Rightarrow> jwk_state \<Rightarrow> jwk_state" where
  "RemoveAudience aud st = st\<lparr>Audiences := kv_del (AudienceKey aud) (Audiences st)\<rparr>"

definition GetAllAudience :: "jwk_state \<Rightarrow> Audience list" where
  "GetAllAudience st = map snd (Audiences st)"

section \<open>Messages (msg_server_audience.go)\<close>

definition CreateAudienceClaim ::
  "'key jwk_ext \<Rightarrow> ('g \<Rightarrow> u64 \<Rightarrow> 'g result) \<Rightarrow> MsgCreateAudienceClaim \<Rightarrow> 'g \<Rightarrow> jwk_state \<Rightarrow> ('g \<times> jwk_state) result" where
  "CreateAudienceClaim x ConsumeGas msg g st =
     bindr (ensure (GetAudienceClaim st (cc_AudHash msg) = None) (SdkErr ''ErrInvalidRequest'')) (\<lambda>_.
     bindr (GetDeploymentGas st) (\<lambda>gas.
     bindr (ConsumeGas g gas) (\<lambda>g'.
     bindr (jk_AccAddressFromBech32 x (cc_Admin msg)) (\<lambda>addr.
     Inr (g', SetAudienceClaim x (cc_AudHash msg) addr st)))))"

definition DeleteAudienceClaim :: "MsgDeleteAudienceClaim \<Rightarrow> jwk_state \<Rightarrow> jwk_state result" where
  "DeleteAudienceClaim msg st =
     (case GetAudienceClaim st (dc_AudHash msg) of
        None \<Rightarrow> Inl (SdkErr ''ErrKeyNotFound'')
      | Some valFound \<Rightarrow>
          bindr (ensure (\<not> dc_Admin msg \<noteq> Signer valFound) (SdkErr ''ErrUnauthorized'')) (\<lambda>_.
          Inr (RemoveAudienceClaim (dc_AudHash msg) st)))"

text \<open>The claim for an audience name that \<open>admin\<close> must hold.\<close>

definition own_claim :: "'key jwk_ext \<Rightarrow> jwk_state \<Rightarrow> string \<Rightarrow> string \<Rightarrow> unit result" where
  "own_claim x st aud admin =
     (case GetAudienceClaim st (jk_Sum256 x aud) of
        None \<Rightarrow> Inl (SdkErr ''ErrNotFound'')
      | Some claim \<Rightarrow> ensure (\<not> Signer claim \<noteq> admin) (SdkErr ''ErrorInvalidSigner''))"

definition CreateAudience :: "'key jwk_ext \<Rightarrow> MsgCreateAudience \<Rightarrow> jwk_state \<Rightarrow> (Audience \<times> jwk_state) result" where
  "CreateAudience x msg st =
     bindr (ensure (GetAudience st (ca_Aud msg) = None) (SdkErr ''ErrInvalidRequest'')) (\<lambda>_.
     bindr (own_claim x st (ca_Aud msg) (ca_Admin msg)) (\<lambda>_.
     let audience = \<lparr>Aud = ca_Aud msg, aud_Key = ca_Key msg, aud_Admin = ca_Admin msg\<rparr> in
     Inr (audience, SetAudience audience st)))"

text \<open>The part of \<open>UpdateAudience\<close> under \<open>msg.NewAud != ""\<close>: the audience may move to a new name.\<close>

definition rename_audience ::
  "'key jwk_ext \<Rightarrow> MsgUpdateAudience \<Rightarrow> Audience \<Rightarrow> Audience \<Rightarrow> jwk_state \<Rightarrow> (Audience \<times> jwk_state) result" where
  "rename_audience x msg valFound audience st =
     (if ua_NewAud msg \<noteq> [] then
        bindr (ensure (GetAudience st (ua_NewAud msg) = None) (SdkErr ''ErrInvalidRequest'')) (\<lambda>_.
        bindr (own_claim x st (ua_NewAud msg) (ua_Admin msg)) (\<lambda>_.
        let st1 = RemoveAudience (Aud valFound) st;
            st2 = RemoveAudienceClaim (jk_Sum256 x (Aud valFound)) st1
        in Inr (audience\<lparr>Aud := ua_NewAud msg\<rparr>, st2)))
      else Inr (audience, st))"

text \<open>The part under \<open>msg.NewAdmin != msg.Admin\<close>: the claim goes to the new admin.\<close>

definition transfer_claim ::
  "'key jwk_ext \<Rightarrow> MsgUpdateAudience \<Rightarrow> Audience \<Rightarrow> jwk_state \<Rightarrow> jwk_state result" where
  "transfer_claim x msg audience st =
     (if ua_NewAdmin msg \<noteq> ua_Admin msg then
        bindr (jwk_address x (ua_NewAdmin msg)) (\<lambda>newAdminAddr.
        let audHash = jk_Sum256 x (Aud audience) in
        Inr (SetAudienceClaim x audHash newAdminAddr (RemoveAudienceClaim audHash st)))
      else Inr st)"

definition UpdateAudience :: "'key jwk_ext \<Rightarrow> MsgUpdateAudience \<Rightarrow> jwk_state \<Rightarrow> (Audience \<times> jwk_state) result" where
  "UpdateAudience x msg st =
     (case GetAudience st (ua_Aud msg) of
        None \<Rightarrow> Inl (SdkErr ''ErrKeyNotFound'')
      | Some valFound \<Rightarrow>
          bindr (ensure (\<not> ua_Admin msg \<noteq> aud_Admin valFound) (SdkErr ''ErrUnauthorized'')) (\<lambda>_.
          bindr (rename_audience x msg valFound
                   \<lparr>Aud = ua_Aud msg, aud_Key = ua_Key msg, aud_Admin = ua_NewAdmin msg\<rparr> st) (\<lambda>(audience, st1).
          bindr (transfer_claim x msg audience st1) (\<lambda>st2.
          Inr (audience, SetAudience audience st2)))))"

definition DeleteAudience :: "'key jwk_ext \<Rightarrow> MsgDeleteAudience \<Rightarrow> jwk_state \<Rightarrow> jwk_state result" where
  "DeleteAudience x msg st =
     (case GetAudience st (da_Aud msg) of
        None \<Rightarrow> Inl (SdkErr ''ErrKeyNotFound'')
      | Some valFound \<Rightarrow>
          bindr (ensure (\<not> da_Admin msg \<noteq> aud_Admin valFound) (SdkErr ''ErrUnauthorized'')) (\<lambda>_.
          Inr (RemoveAudienceClaim (jk_Sum256 x (da_Aud msg)) (RemoveAudience (da_Aud msg) st))))"

datatype jwk_msg =
    Create_claim MsgCreateAudienceClaim
  | Delete_claim MsgDeleteAudienceClaim
  | Create_audience MsgCreateAudience
  | Update_audience MsgUpdateAudience
  | Delete_audience MsgDeleteAudience

fun jwk_step ::
  "'key jwk_ext \<Rightarrow> ('g \<Rightarrow> u64 \<Rightarrow> 'g result) \<Rightarrow> 'g \<times> jwk_msg \<Rightarrow> jwk_state \<Rightarrow> jwk_state result" where
  "jwk_step x cg (g, Create_claim msg) st =
     bindr (ValidateBasic_MsgCreateAudienceClaim x msg) (\<lambda>_.
     bindr (CreateAudienceClaim x cg msg g st) (\<lambda>(_, st'). Inr st'))"
| "jwk_step x cg (g, Delete_claim msg) st =
     bindr (ValidateBasic_MsgDeleteAudienceClaim x msg) (\<lambda>_. DeleteAudienceClaim msg st)"
| "jwk_step x cg (g, Create_audience msg) st =
     bindr (ValidateBasic_MsgCreateAudience x msg) (\<lambda>_.
     bindr (CreateAudience x msg st) (\<lambda>(_, st'). Inr st'))"
| "jwk_step x cg (g, Update_audience msg) st =
     bindr (ValidateBasic_MsgUpdateAudience x msg) (\<lambda>_.
     bindr (UpdateAudience x msg st) (\<lambda>(_, st'). Inr st'))"
| "jwk_step x cg (g, Delete_audience msg) st =
     bindr (ValidateBasic_MsgDeleteAudience x msg) (\<lambda>_. DeleteAudience x msg st)"

section \<open>Genesis and migrations (genesis.go, migrations)\<close>

definition InitGenesis_jwk :: "GenesisState_jwk \<Rightarrow> jwk_state \<Rightarrow> jwk_state result" where
  "InitGenesis_jwk genState st =
     SetParams_jwk (gj_Params genState) (fold SetAudience (AudienceList genState) st)"

definition ExportGenesis_jwk :: "jwk_state \<Rightarrow> GenesisState_jwk result" where
  "ExportGenesis_jwk st =
     bindr (GetParams_jwk st) (\<lambda>p. Inr \<lparr>gj_Params = p, AudienceList = GetAllAudience st\<rparr>)"

definition Migrate1To2_jwk :: "jwk_state \<Rightarrow> jwk_state result" where
  "Migrate1To2_jwk st = SetParams_jwk DefaultParams_jwk st"

definition Migrate2To3_jwk :: "jwk_state \<Rightarrow> jwk_state result" where
  "Migrate2To3_jwk st = Inr (st\<lparr>st_TimeOffset := Some 30000000000\<rparr>)"

section \<open>Queries\<close>

definition query_Audience :: "jwk_state \<Rightarrow> string option \<Rightarrow> Audience result" where
  "query_Audience st req =
     (case req of
        None \<Rightarrow> Inl (Status ''InvalidArgument'')
      | Some aud \<Rightarrow> (case GetAudience st aud of None \<Rightarrow> Inl (Status ''NotFound'') | Some val \<Rightarrow> Inr val))"

definition query_AudienceClaim :: "jwk_state \<Rightarrow> bytes option \<Rightarrow> AudienceClaim result" where
  "query_AudienceClaim st req =
     (case req of
        None \<Rightarrow> Inl (Status ''InvalidArgument'')
      | Some hash \<Rightarrow> (case GetAudienceClaim st hash of None \<Rightarrow> Inl (Status ''NotFound'') | Some val \<Rightarrow> Inr val))"

text \<open>\<open>Paginate\<close> is the SDK's paginator over the audience store; \<open>limit\<close> reads the limit of a page request.\<close>

definition query_AudienceAll ::
  "('pr \<Rightarrow> u64) \<Rightarrow> ((bytes, Audience) kv \<Rightarrow> 'pr option \<Rightarrow> (Audience list \<times> 'ps) result)
     \<Rightarrow> jwk_state \<Rightarrow> 'pr option option \<Rightarrow> (Audience list \<times> 'ps) result" where
  "query_AudienceAll limit Paginate st req =
     (case req of
        None \<Rightarrow> Inl (Status ''InvalidArgument'')
      | Some pagination \<Rightarrow>
          bindr (ensure (\<not> (case pagination of None \<Rightarrow> False | Some p \<Rightarrow> limit p > 100)) (Status ''ResourceExhausted'')) (\<lambda>_.
          wrap_as (Status ''Internal'') (Paginate (Audiences st) pagination)))"

definition query_Params_jwk :: "jwk_state \<Rightarrow> unit option \<Rightarrow> jwk_params result" where
  "query_Params_jwk st req =
     (case req of None \<Rightarrow> Inl (Status ''InvalidArgument'') | Some _ \<Rightarrow> GetParams_jwk st)"

record QueryJWTRequest =
  qj_Aud :: string
  qj_Sub :: string
  qj_SigBytes :: string

text \<open>What the three token queries do first: the audience's key, parsed and checked.\<close>

definition stored_key :: "'key jwk_ext \<Rightarrow> jwk_state \<Rightarrow> string \<Rightarrow> (Audience \<times> 'key) result" where
  "stored_key x st aud =
     (case GetAudience st aud of
        None \<Rightarrow> Inl (Status ''NotFound'')
      | Some audience \<Rightarrow>
          bindr (ParseKey x (aud_Key audience)) (\<lambda>key.
          bindr (wrap_as (Status ''FailedPrecondition'') (ValidateJWKKeySize x key)) (\<lambda>_.
          Inr (audience, key))))"

text \<open>The guards on the token text: not empty, not blank, not the JSON serialization.\<close>

definition compact_only :: "string \<Rightarrow> unit result" where
  "compact_only sigBytes =
     bindr (ensure (\<not> length sigBytes = 0) (Status ''InvalidArgument'')) (\<lambda>_.
     let trimmed = TrimLeftSpace sigBytes in
     bindr (ensure (\<not> length trimmed = 0) (Status ''InvalidArgument'')) (\<lambda>_.
     bindr (go_index trimmed 0) (\<lambda>c.
     ensure (\<not> c = CHR ''{'') (Status ''InvalidArgument''))))"

text \<open>The clock of the token check: the block time plus the offset, converted to \<open>int64\<close>.\<close>

definition jwt_clock :: "jwk_state \<Rightarrow> int \<Rightarrow> int result" where
  "jwt_clock st blockTime = bindr (GetTimeOffset st) (\<lambda>timeOffset. Inr (blockTime + sint timeOffset))"

definition claim_text :: "claim_value \<Rightarrow> string" where
  "claim_text v =
     (case v of
        Claim_string c \<Rightarrow> c
      | Claim_Stringer s \<Rightarrow> s
      | Claim_bytes b \<Rightarrow> b
      | Claim_basic s \<Rightarrow> s
      | Claim_other json printed \<Rightarrow> (case json of Inr b \<Rightarrow> b | Inl _ \<Rightarrow> printed))"

text \<open>Parsing and checking of a token, with panics of the library recovered.\<close>

definition parse_token ::
  "'key jwk_ext \<Rightarrow> jwk_state \<Rightarrow> int \<Rightarrow> QueryJWTRequest \<Rightarrow> jwt_token result" where
  "parse_token x st blockTime req =
     bindr (stored_key x st (qj_Aud req)) (\<lambda>(_, key).
     bindr (compact_only (qj_SigBytes req)) (\<lambda>_.
     recover_as (Status ''Internal'')
       (jwt_Parse x (qj_SigBytes req) (key_Algorithm x key) key (qj_Aud req) (qj_Sub req) (jwt_clock st blockTime))))"

text \<open>\<open>range\<close> over a Go map visits the entries in an order of the runtime's choice, here \<open>visit\<close>.\<close>

definition ValidateJWT ::
  "'key jwk_ext \<Rightarrow> ((string \<times> claim_value) list \<Rightarrow> (string \<times> claim_value) list)
     \<Rightarrow> jwk_state \<Rightarrow> int \<Rightarrow> QueryJWTRequest option \<Rightarrow> (string \<times> string) list result" where
  "ValidateJWT x visit st blockTime req0 =
     (case req0 of
        None \<Rightarrow> Inl (Status ''InvalidArgument'')
      | Some req \<Rightarrow>
          bindr (parse_token x st blockTime req) (\<lambda>token.
          let privateClaims = map (\<lambda>(k, v). (k, claim_text v)) (visit (tk_PrivateClaims token))
          in Inr (sort_key fst privateClaims)))"

definition standard_claims :: "'key jwk_ext \<Rightarrow> jwt_token \<Rightarrow> (string \<times> string) list" where
  "standard_claims x token =
     (if tk_Issuer token \<noteq> [] then [(''iss'', tk_Issuer token)] else [])
     @ (if tk_Subject token \<noteq> [] then [(''sub'', tk_Subject token)] else [])
     @ (if length (tk_Audience token) > 0 then [(''aud'', json_strings x (tk_Audience token))] else [])
     @ (case tk_Expiration token of None \<Rightarrow> [] | Some v \<Rightarrow> [(''exp'', big_String v)])
     @ (case tk_NotBefore token of None \<Rightarrow> [] | Some v \<Rightarrow> [(''nbf'', big_String v)])
     @ (case tk_IssuedAt token of None \<Rightarrow> [] | Some v \<Rightarrow> [(''iat'', big_String v)])
     @ (if tk_JwtID token \<noteq> [] then [(''jti'', tk_JwtID token)] else [])"

definition DecodeJWT ::
  "'key jwk_ext \<Rightarrow> ((string \<times> claim_value) list \<Rightarrow> (string \<times> claim_value) list)
     \<Rightarrow> jwk_state \<Rightarrow> int \<Rightarrow> QueryJWTRequest option \<Rightarrow> (string \<times> string) list result" where
  "DecodeJWT x visit st blockTime req0 =
     (case req0 of
        None \<Rightarrow> Inl (Status ''InvalidArgument'')
      | Some req \<Rightarrow>
          bindr (parse_token x st blockTime req) (\<lambda>token.
          let claims = standard_claims x token
                @ map (\<lambda>(k, v). (k, claim_text v)) (visit (tk_PrivateClaims token))
          in Inr (sort_key fst claims)))"

definition JWSVerifyBaseGas :: u64 where "JWSVerifyBaseGas = 50000"
definition JWSVerifyPerByteGas :: u64 where "JWSVerifyPerByteGas = 10"

definition VerifyJWS ::
  "'key jwk_ext \<Rightarrow> ('g \<Rightarrow> u64 \<Rightarrow> 'g result) \<Rightarrow> jwk_state \<Rightarrow> 'g \<Rightarrow> (string \<times> string) option \<Rightarrow> ('g \<times> bytes) result" where
  "VerifyJWS x ConsumeGas st g req0 =
     (case req0 of
        None \<Rightarrow> Inl (Status ''InvalidArgument'')
      | Some (aud, sigBytes) \<Rightarrow>
          bindr (stored_key x st aud) (\<lambda>(audience, key).
          let verifyGas = JWSVerifyBaseGas + JWSVerifyPerByteGas * len64 (aud_Key audience) in
          bindr (ConsumeGas g verifyGas) (\<lambda>g'.
          bindr (compact_only sigBytes) (\<lambda>_.
          bindr (recover_as (Status ''Internal'') (jws_Verify x sigBytes (key_Algorithm x key) key)) (\<lambda>payload.
          Inr (g', payload))))))"

end
