(* ===== verification/Jwk_Props.thy ===== *)
theory Jwk_Props
  imports Jwk_Keeper "HOL-Library.Multiset"
begin

text \<open>
  Correctness of \<open>x/jwk\<close>: what is stored is valid, who may change it, how claims follow audiences,
  and what the answers of the token queries rest on.
\<close>

section \<open>Keys\<close>

lemma BitLen_bound: "\<not> BitLen n > k \<longleftrightarrow> \<bar>n\<bar> < 2 ^ k"
proof -
  have "\<not> BitLen n > k \<longleftrightarrow> nat \<bar>n\<bar> < 2 ^ k"
    by (simp add: BitLen_def nat_bits_bound not_less)
  also have "\<dots> \<longleftrightarrow> \<bar>n\<bar> < 2 ^ k"
    by (simp add: nat_less_iff)
  finally show ?thesis .
qed

lemma ValidateJWKKeySize_iff:
  "ValidateJWKKeySize x key = Inr () \<longleftrightarrow>
     (\<exists>r. key_Raw x key = Inr r \<and> r \<notin> {RSA_Private, ECDSA_Private, Ed25519_Private}
        \<and> (\<forall>n. r = RSA_Public n \<longrightarrow> \<bar>n\<bar> < 2 ^ MaxRSAKeyBits))"
proof (cases "key_Raw x key")
  case (Inr r)
  then show ?thesis
    by (cases r) (simp_all add: ValidateJWKKeySize_def wrap_as_def BitLen_bound del: not_less)
qed (auto simp: ValidateJWKKeySize_def wrap_as_def split: go_error.split)

text \<open>What the checks of a key leave: a key of bounded size whose algorithm is neither symmetric nor
  \<open>none\<close>, and which has the key type of its algorithm where that is one of the RSA, elliptic curve
  and Edwards groups the code lists.  An accepted algorithm outside these groups, such as
  \<open>ES256K\<close>, puts no condition on the key type, as in the code.\<close>

definition alg_fits :: "string \<Rightarrow> string \<Rightarrow> bool" where
  "alg_fits alg kty \<longleftrightarrow>
     \<not> symmetric_or_none alg
     \<and> (alg \<in> {''RS256'', ''RS384'', ''RS512'', ''PS256'', ''PS384'', ''PS512''} \<longrightarrow> kty = ''RSA'')
     \<and> (alg \<in> {''ES256'', ''ES384'', ''ES512''} \<longrightarrow> kty = ''EC'')
     \<and> (alg = ''EdDSA'' \<longrightarrow> kty = ''OKP'')"

definition key_ok :: "'key jwk_ext \<Rightarrow> string \<Rightarrow> bool" where
  "key_ok x k \<longleftrightarrow>
     length k \<le> MaxJWKKeySize
     \<and> (\<exists>key alg. ParseKey x k = Inr key \<and> ValidateJWKKeySize x key = Inr ()
          \<and> SignatureAlgorithm_Accept x (key_Algorithm x key) = Inr alg \<and> alg_fits alg (key_KeyType x key))"

lemma alg_groups:
  "alg \<in> {''ES256'', ''ES384'', ''ES512''} \<Longrightarrow> alg \<notin> {''RS256'', ''RS384'', ''RS512'', ''PS256'', ''PS384'', ''PS512''}"
  "''EdDSA'' \<notin> {''RS256'', ''RS384'', ''RS512'', ''PS256'', ''PS384'', ''PS512''}"
  "''EdDSA'' \<notin> {''ES256'', ''ES384'', ''ES512''}"
  by (elim insertE emptyE; simp)+ simp_all

lemma consistency_iff:
  "\<not> symmetric_or_none alg \<and> validateJWKKeyTypeAlgConsistency x key alg = Inr () \<longleftrightarrow> alg_fits alg (key_KeyType x key)"
proof -
  define rsa ec where "rsa = {''RS256'', ''RS384'', ''RS512'', ''PS256'', ''PS384'', ''PS512''}"
    and "ec = {''ES256'', ''ES384'', ''ES512''}"
  have "alg \<in> ec \<Longrightarrow> alg \<notin> rsa" "''EdDSA'' \<notin> rsa" "''EdDSA'' \<notin> ec"
    unfolding rsa_def ec_def using alg_groups by blast+
  then show ?thesis
    unfolding validateJWKKeyTypeAlgConsistency_def alg_fits_def Let_def rsa_def [symmetric] ec_def [symmetric]
    by auto
qed

lemma validate_msg_key_iff:
  "length k \<le> MaxJWKKeySize \<Longrightarrow> validate_msg_key x k = Inr () \<longleftrightarrow> key_ok x k"
  unfolding validate_msg_key_def key_ok_def consistency_iff [symmetric] by auto

lemma validate_genesis_key_iff: "validate_genesis_key x k = Inr () \<longleftrightarrow> k = [] \<or> key_ok x k"
  unfolding validate_genesis_key_def key_ok_def consistency_iff [symmetric] by (auto simp: not_less)

section \<open>The invariant\<close>

definition audience_ok :: "'key jwk_ext \<Rightarrow> bytes \<Rightarrow> Audience \<Rightarrow> bool" where
  "audience_ok x k a \<longleftrightarrow>
     k = AudienceKey (Aud a) \<and> (\<exists>addr. jk_AccAddressFromBech32 x (aud_Admin a) = Inr addr)
     \<and> (aud_Key a = [] \<or> key_ok x (aud_Key a))"

definition jwk_inv :: "'key jwk_ext \<Rightarrow> jwk_state \<Rightarrow> bool" where
  "jwk_inv x st \<longleftrightarrow>
     kv_wf (Audiences st) \<and> kv_wf (AudienceClaims st)
     \<and> (\<forall>k a. kv_get (Audiences st) k = Some a \<longrightarrow> audience_ok x k a)
     \<and> (\<exists>t g. st_TimeOffset st = Some t \<and> st_DeploymentGas st = Some g
          \<and> Validate_jwk_params \<lparr>TimeOffset = t, DeploymentGas = g\<rparr> = Inr ())"

lemma AudienceKey_inject [simp]: "AudienceKey a = AudienceKey b \<longleftrightarrow> a = b"
  by (simp add: AudienceKey_def)

lemma AudienceClaimKey_inject [simp]: "AudienceClaimKey a = AudienceClaimKey b \<longleftrightarrow> a = b"
  by (simp add: AudienceClaimKey_def)

lemma get_audience_simps [simp]:
  "GetAudience (SetAudience a st) b = (if b = Aud a then Some a else GetAudience st b)"
  "GetAudience (RemoveAudience c st) b = (if b = c then None else GetAudience st b)"
  "GetAudience (SetAudienceClaim x h s st) b = GetAudience st b"
  "GetAudience (RemoveAudienceClaim h st) b = GetAudience st b"
  by (simp_all add: GetAudience_def SetAudience_def RemoveAudience_def SetAudienceClaim_def RemoveAudienceClaim_def)

lemma get_claim_simps [simp]:
  "GetAudienceClaim (SetAudienceClaim x h s st) i
     = (if i = h then Some \<lparr>Signer = AccAddress_String x s\<rparr> else GetAudienceClaim st i)"
  "GetAudienceClaim (RemoveAudienceClaim h st) i = (if i = h then None else GetAudienceClaim st i)"
  "GetAudienceClaim (SetAudience a st) i = GetAudienceClaim st i"
  "GetAudienceClaim (RemoveAudience c st) i = GetAudienceClaim st i"
  by (simp_all add: GetAudienceClaim_def SetAudience_def RemoveAudience_def SetAudienceClaim_def RemoveAudienceClaim_def)

lemma inv_updates:
  assumes "jwk_inv x st"
  shows "jwk_inv x (SetAudienceClaim x h s st)" "jwk_inv x (RemoveAudienceClaim h st)"
    "jwk_inv x (RemoveAudience c st)" "audience_ok x (AudienceKey (Aud a)) a \<Longrightarrow> jwk_inv x (SetAudience a st)"
  using assms
  by (simp_all add: jwk_inv_def SetAudienceClaim_def RemoveAudienceClaim_def RemoveAudience_def SetAudience_def)

lemma jwk_address_Inr_iff [simp]: "jwk_address x s = Inr a \<longleftrightarrow> jk_AccAddressFromBech32 x s = Inr a"
  by (simp add: jwk_address_def)

lemma transfer_claim_inv: "transfer_claim x msg a st = Inr st' \<Longrightarrow> jwk_inv x st \<Longrightarrow> jwk_inv x st'"
  by (auto simp: transfer_claim_def Let_def inv_updates split: if_splits)

lemma rename_audience_inv:
  "rename_audience x msg old a st = Inr (b, st') \<Longrightarrow> jwk_inv x st
     \<Longrightarrow> jwk_inv x st' \<and> aud_Key b = aud_Key a \<and> aud_Admin b = aud_Admin a"
  by (auto simp: rename_audience_def Let_def inv_updates split: if_splits)

lemma ValidateBasic_MsgCreateAudienceD:
  assumes "ValidateBasic_MsgCreateAudience x msg = Inr ()"
  shows "key_ok x (ca_Key msg)" "\<exists>a. jk_AccAddressFromBech32 x (ca_Admin msg) = Inr a"
proof -
  have "length (ca_Key msg) \<le> MaxJWKKeySize" "validate_msg_key x (ca_Key msg) = Inr ()"
    using assms by (simp_all add: ValidateBasic_MsgCreateAudience_def)
  then show "key_ok x (ca_Key msg)"
    by (simp add: validate_msg_key_iff)
qed (use assms in \<open>auto simp: ValidateBasic_MsgCreateAudience_def\<close>)

lemma ValidateBasic_MsgUpdateAudienceD:
  assumes "ValidateBasic_MsgUpdateAudience x msg = Inr ()"
  shows "key_ok x (ua_Key msg)" "\<exists>a. jk_AccAddressFromBech32 x (ua_NewAdmin msg) = Inr a"
proof -
  have "length (ua_Key msg) \<le> MaxJWKKeySize" "validate_msg_key x (ua_Key msg) = Inr ()"
    using assms by (simp_all add: ValidateBasic_MsgUpdateAudience_def)
  then show "key_ok x (ua_Key msg)"
    by (simp add: validate_msg_key_iff)
qed (use assms in \<open>auto simp: ValidateBasic_MsgUpdateAudience_def\<close>)

lemma UpdateAudience_InrD:
  assumes "UpdateAudience x msg st = Inr (a, st')"
  obtains old st1 st2 where "GetAudience st (ua_Aud msg) = Some old" "aud_Admin old = ua_Admin msg"
    "rename_audience x msg old \<lparr>Aud = ua_Aud msg, aud_Key = ua_Key msg, aud_Admin = ua_NewAdmin msg\<rparr> st = Inr (a, st1)"
    "transfer_claim x msg a st1 = Inr st2" "st' = SetAudience a st2"
  using assms by (auto simp: UpdateAudience_def split: option.splits intro: that)

lemma UpdateAudience_inv:
  assumes "ValidateBasic_MsgUpdateAudience x msg = Inr ()" and "UpdateAudience x msg st = Inr (a, st')" and "jwk_inv x st"
  shows "jwk_inv x st'"
proof -
  obtain old st1 st2 where run: "rename_audience x msg old
      \<lparr>Aud = ua_Aud msg, aud_Key = ua_Key msg, aud_Admin = ua_NewAdmin msg\<rparr> st = Inr (a, st1)"
    "transfer_claim x msg a st1 = Inr st2" "st' = SetAudience a st2"
    using assms(2) by (rule UpdateAudience_InrD)
  have "jwk_inv x st1" "aud_Key a = ua_Key msg" "aud_Admin a = ua_NewAdmin msg"
    using rename_audience_inv [OF run(1) assms(3)] by simp_all
  then show ?thesis
    using transfer_claim_inv [OF run(2)] ValidateBasic_MsgUpdateAudienceD [OF assms(1)] run(3)
    by (simp add: audience_ok_def inv_updates(4))
qed

lemma jwk_step_inv:
  assumes "jwk_step x cg m st = Inr st'" and "jwk_inv x st"
  shows "jwk_inv x st'"
proof (cases m)
  case (Pair g msg)
  show ?thesis
  proof (cases msg)
    case (Create_audience c)
    then have v: "ValidateBasic_MsgCreateAudience x c = Inr ()" and "\<exists>a. CreateAudience x c st = Inr (a, st')"
      using assms(1) by (auto simp: Pair)
    then show ?thesis
      using ValidateBasic_MsgCreateAudienceD [OF v] assms(2)
      by (auto simp: CreateAudience_def Let_def audience_ok_def inv_updates(4))
  next
    case (Update_audience u)
    then have "ValidateBasic_MsgUpdateAudience x u = Inr ()" "\<exists>a. UpdateAudience x u st = Inr (a, st')"
      using assms(1) by (auto simp: Pair)
    then show ?thesis
      using UpdateAudience_inv assms(2) by blast
  qed (use assms in \<open>auto simp: Pair CreateAudienceClaim_def DeleteAudienceClaim_def DeleteAudience_def inv_updates
      split: option.splits\<close>)
qed

interpretation jwk_runs: invariant_machine "jwk_step x cg" "jwk_inv x"
  by unfold_locales (rule jwk_step_inv)

definition jwk_empty :: jwk_state where
  "jwk_empty = \<lparr>Audiences = [], AudienceClaims = [], st_TimeOffset = None, st_DeploymentGas = None\<rparr>"

lemma validate_genesis_audience_iff:
  "validate_genesis_audience x a seen = Inr seen' \<longleftrightarrow>
     (\<exists>addr. jk_AccAddressFromBech32 x (aud_Admin a) = Inr addr) \<and> AudienceKey (Aud a) \<notin> set seen
     \<and> (aud_Key a = [] \<or> key_ok x (aud_Key a)) \<and> seen' = AudienceKey (Aud a) # seen"
  by (auto simp: validate_genesis_audience_def Let_def validate_genesis_key_iff)

text \<open>The audiences a genesis import files.\<close>

lemma genesis_audiences:
  assumes "fold_each (validate_genesis_audience x) as seen = Inr seen'"
    and "kv_wf (Audiences st)" and "\<forall>k a. kv_get (Audiences st) k = Some a \<longrightarrow> audience_ok x k a"
  shows "kv_wf (Audiences (fold SetAudience as st))
    \<and> (\<forall>k a. kv_get (Audiences (fold SetAudience as st)) k = Some a \<longrightarrow> audience_ok x k a)
    \<and> AudienceClaims (fold SetAudience as st) = AudienceClaims st"
  using assms
proof (induction as arbitrary: seen st)
  case (Cons a as)
  then obtain addr where "jk_AccAddressFromBech32 x (aud_Admin a) = Inr addr" "aud_Key a = [] \<or> key_ok x (aud_Key a)"
    and rest: "fold_each (validate_genesis_audience x) as (AudienceKey (Aud a) # seen) = Inr seen'"
    by (auto simp: validate_genesis_audience_iff)
  then have "\<forall>k b. kv_get (Audiences (SetAudience a st)) k = Some b \<longrightarrow> audience_ok x k b"
    using Cons.prems by (auto simp: SetAudience_def audience_ok_def)
  with Cons.IH [OF rest, of "SetAudience a st"] Cons.prems show ?case
    by (simp add: SetAudience_def)
qed simp

section \<open>Who may change an audience\<close>

fun jwk_signer :: "jwk_msg \<Rightarrow> string" where
  "jwk_signer (Create_claim m) = cc_Admin m"
| "jwk_signer (Delete_claim m) = dc_Admin m"
| "jwk_signer (Create_audience m) = ca_Admin m"
| "jwk_signer (Update_audience m) = ua_Admin m"
| "jwk_signer (Delete_audience m) = da_Admin m"

text \<open>A stored audience belongs to its admin, a free name to the holder of its claim.\<close>

definition may_change :: "'key jwk_ext \<Rightarrow> jwk_state \<Rightarrow> string \<Rightarrow> string \<Rightarrow> bool" where
  "may_change x st a s \<longleftrightarrow>
     (case GetAudience st a of
        Some old \<Rightarrow> s = aud_Admin old
      | None \<Rightarrow> GetAudienceClaim st (jk_Sum256 x a) = Some \<lparr>Signer = s\<rparr>)"

lemma own_claim_iff: "own_claim x st a s = Inr () \<longleftrightarrow> GetAudienceClaim st (jk_Sum256 x a) = Some \<lparr>Signer = s\<rparr>"
  by (auto simp: own_claim_def split: option.split)

lemma stored_name: "jwk_inv x st \<Longrightarrow> GetAudience st a = Some b \<Longrightarrow> Aud b = a"
  unfolding jwk_inv_def GetAudience_def audience_ok_def by fastforce

lemma rename_audience_cases:
  assumes "rename_audience x msg old a st = Inr (b, st')"
  obtains (same) "ua_NewAud msg = []" "b = a" "st' = st"
  | (moved) "ua_NewAud msg \<noteq> []" "b = a\<lparr>Aud := ua_NewAud msg\<rparr>" "GetAudience st (ua_NewAud msg) = None"
      "GetAudienceClaim st (jk_Sum256 x (ua_NewAud msg)) = Some \<lparr>Signer = ua_Admin msg\<rparr>"
      "st' = RemoveAudienceClaim (jk_Sum256 x (Aud old)) (RemoveAudience (Aud old) st)"
  using assms by (auto simp: rename_audience_def own_claim_iff Let_def split: if_splits)

lemma transfer_claim_cases:
  assumes "transfer_claim x msg a st = Inr st'"
  obtains (same) "ua_NewAdmin msg = ua_Admin msg" "st' = st"
  | (moved) addr where "ua_NewAdmin msg \<noteq> ua_Admin msg" "jk_AccAddressFromBech32 x (ua_NewAdmin msg) = Inr addr"
      "st' = SetAudienceClaim x (jk_Sum256 x (Aud a)) addr (RemoveAudienceClaim (jk_Sum256 x (Aud a)) st)"
  using assms by (auto simp: transfer_claim_def Let_def split: if_splits)

lemma UpdateAudience_audiences:
  assumes "UpdateAudience x msg st = Inr (a, st')" and "jwk_inv x st"
  shows "GetAudience st' b =
    (if b = Aud a then Some a else if b = ua_Aud msg then None else GetAudience st b)
    \<and> (Aud a = ua_Aud msg \<or> may_change x st (Aud a) (ua_Admin msg)) \<and> may_change x st (ua_Aud msg) (ua_Admin msg)"
proof -
  obtain old st1 st2 where old: "GetAudience st (ua_Aud msg) = Some old" "aud_Admin old = ua_Admin msg"
    and run: "rename_audience x msg old
      \<lparr>Aud = ua_Aud msg, aud_Key = ua_Key msg, aud_Admin = ua_NewAdmin msg\<rparr> st = Inr (a, st1)"
    "transfer_claim x msg a st1 = Inr st2" "st' = SetAudience a st2"
    using assms(1) by (rule UpdateAudience_InrD)
  have "GetAudience st2 c = GetAudience st1 c" for c
    using run(2) by (rule transfer_claim_cases) simp_all
  with run(1) show ?thesis
    using old run(3) stored_name [OF assms(2) old(1)]
    by (cases rule: rename_audience_cases) (auto simp: may_change_def)
qed

lemma jwk_step_gate:
  assumes "jwk_step x cg m st = Inr st'" and "jwk_inv x st" and "\<not> may_change x st a (jwk_signer (snd m))"
  shows "GetAudience st' a = GetAudience st a"
proof (cases m)
  case (Pair g msg)
  show ?thesis
  proof (cases msg)
    case (Update_audience u)
    then obtain b where "UpdateAudience x u st = Inr (b, st')"
      using assms(1) by (auto simp: Pair)
    from UpdateAudience_audiences [OF this assms(2), of a] show ?thesis
      using assms(3) by (auto simp: Pair Update_audience split: if_splits)
  next
    case (Create_audience c)
    then show ?thesis
      using assms(1,3) by (auto simp: Pair CreateAudience_def Let_def own_claim_iff may_change_def)
  qed (use assms(1,3) in \<open>auto simp: Pair CreateAudienceClaim_def DeleteAudienceClaim_def DeleteAudience_def may_change_def
      split: option.splits if_splits\<close>)
qed

interpretation audience_changes: gated_machine "jwk_step x cg"
  "\<lambda>st m. jwk_inv x st \<longrightarrow> may_change x st a (jwk_signer (snd m))" "\<lambda>st. GetAudience st a"
  by unfold_locales (use jwk_step_gate in metis)

section \<open>Claims follow audiences\<close>

text \<open>Writing an address and reading it back.\<close>

definition bech32_laws :: "'key jwk_ext \<Rightarrow> bool" where
  "bech32_laws x \<longleftrightarrow>
     (\<forall>s addr. jk_AccAddressFromBech32 x s = Inr addr \<longrightarrow> jk_AccAddressFromBech32 x (AccAddress_String x addr) = Inr addr)"

definition claimed :: "'key jwk_ext \<Rightarrow> jwk_state \<Rightarrow> string \<Rightarrow> string \<Rightarrow> bool" where
  "claimed x st a s \<longleftrightarrow>
     (\<exists>c. GetAudienceClaim st (jk_Sum256 x a) = Some c \<and> jk_AccAddressFromBech32 x (Signer c) = jk_AccAddressFromBech32 x s)"

lemma claimed_simps [simp]:
  "claimed x (SetAudience b st) a s = claimed x st a s"
  "claimed x (RemoveAudience c st) a s = claimed x st a s"
  "claimed x (SetAudienceClaim x h addr st) a s =
     (if jk_Sum256 x a = h then jk_AccAddressFromBech32 x (AccAddress_String x addr) = jk_AccAddressFromBech32 x s
      else claimed x st a s)"
  "claimed x (RemoveAudienceClaim h st) a s = (jk_Sum256 x a \<noteq> h \<and> claimed x st a s)"
  by (simp_all add: claimed_def)

text \<open>Every audience, all of them in \<open>N\<close>, has a claim of its admin's address.\<close>

definition claims_ok :: "'key jwk_ext \<Rightarrow> string set \<Rightarrow> jwk_state \<Rightarrow> bool" where
  "claims_ok x N st \<longleftrightarrow>
     (\<forall>a b. GetAudience st a = Some b \<longrightarrow> a \<in> N \<and> claimed x st a (aud_Admin b))"

lemma claims_okD: "claims_ok x N st \<Longrightarrow> GetAudience st a = Some b \<Longrightarrow> a \<in> N \<and> claimed x st a (aud_Admin b)"
  by (simp add: claims_ok_def)

fun audience_names :: "jwk_msg \<Rightarrow> string set" where
  "audience_names (Create_audience m) = {ca_Aud m}"
| "audience_names (Update_audience m) = {ua_Aud m} \<union> (if ua_NewAud m = [] then {} else {ua_NewAud m})"
| "audience_names (Delete_audience m) = {da_Aud m}"
| "audience_names _ = {}"

fun deletes_claim :: "jwk_msg \<Rightarrow> bool" where
  "deletes_claim (Delete_claim m) = True"
| "deletes_claim _ = False"

lemma claims_ok_rename:
  assumes "rename_audience x msg old a st = Inr (b, st')" and ok: "claims_ok x N st" and inj: "inj_on (jk_Sum256 x) N"
    and old: "GetAudience st (ua_Aud msg) = Some old" "Aud old = ua_Aud msg" "aud_Admin old = ua_Admin msg"
    and names: "ua_NewAud msg \<noteq> [] \<Longrightarrow> ua_NewAud msg \<in> N" "Aud a = ua_Aud msg"
  shows "Aud b \<in> N \<and> claimed x st' (Aud b) (ua_Admin msg) \<and> claims_ok x N (RemoveAudience (Aud b) st')"
  using assms(1)
proof (cases rule: rename_audience_cases)
  case same
  then show ?thesis
    using claims_okD [OF ok old(1)] ok old(3) names(2) by (simp add: claims_ok_def)
next
  case moved
  then have "ua_Aud msg \<in> N" "jk_Sum256 x (ua_NewAud msg) \<noteq> jk_Sum256 x (ua_Aud msg)"
    using claims_okD [OF ok old(1)] old(1) names(1) inj_on_eq_iff [OF inj] by auto
  moreover have "claimed x st (ua_NewAud msg) (ua_Admin msg)"
    using moved(4) by (simp add: claimed_def)
  moreover have "jk_Sum256 x c \<noteq> jk_Sum256 x (ua_Aud msg)" if "c \<in> N" "c \<noteq> ua_Aud msg" for c
    using that calculation(1) inj_on_eq_iff [OF inj] by blast
  ultimately show ?thesis
    using ok moved names(1) old(2) by (simp add: claims_ok_def)
qed

lemma claims_ok_update:
  assumes run: "UpdateAudience x msg st = Inr (a, st')" and inv: "jwk_inv x st" and ok: "claims_ok x N st"
    and inj: "inj_on (jk_Sum256 x) N" and names: "ua_NewAud msg \<noteq> [] \<Longrightarrow> ua_NewAud msg \<in> N" and laws: "bech32_laws x"
  shows "claims_ok x N st'"
proof -
  obtain old st1 st2 where old: "GetAudience st (ua_Aud msg) = Some old" "aud_Admin old = ua_Admin msg"
    and ren: "rename_audience x msg old
      \<lparr>Aud = ua_Aud msg, aud_Key = ua_Key msg, aud_Admin = ua_NewAdmin msg\<rparr> st = Inr (a, st1)"
    and tr: "transfer_claim x msg a st1 = Inr st2" and st': "st' = SetAudience a st2"
    using run by (rule UpdateAudience_InrD)
  have mid: "Aud a \<in> N" "claimed x st1 (Aud a) (ua_Admin msg)" "claims_ok x N (RemoveAudience (Aud a) st1)"
    using claims_ok_rename [OF ren ok inj old(1) stored_name [OF inv old(1)] old(2) names] by auto
  have admin: "aud_Admin a = ua_NewAdmin msg"
    using rename_audience_inv [OF ren inv] by simp
  from tr show ?thesis
  proof (cases rule: transfer_claim_cases)
    case same
    then show ?thesis
      using mid admin by (simp add: claims_ok_def st')
  next
    case (moved addr)
    have "jk_AccAddressFromBech32 x (AccAddress_String x addr) = jk_AccAddressFromBech32 x (ua_NewAdmin msg)"
      using laws moved(2) by (simp add: bech32_laws_def)
    moreover have "jk_Sum256 x c \<noteq> jk_Sum256 x (Aud a)" if "c \<in> N" "c \<noteq> Aud a" for c
      using that mid(1) inj_on_eq_iff [OF inj] by blast
    ultimately show ?thesis
      using mid moved(3) admin by (simp add: claims_ok_def st')
  qed
qed

lemma claims_ok_step:
  assumes run: "jwk_step x cg m st = Inr st'" and inv: "jwk_inv x st" and ok: "claims_ok x N st"
    and inj: "inj_on (jk_Sum256 x) N" and laws: "bech32_laws x"
    and m: "audience_names (snd m) \<subseteq> N" "\<not> deletes_claim (snd m)"
  shows "claims_ok x N st'"
proof (cases m)
  case (Pair g msg)
  show ?thesis
  proof (cases msg)
    case (Create_claim c)
    then obtain addr where "GetAudienceClaim st (cc_AudHash c) = None" "st' = SetAudienceClaim x (cc_AudHash c) addr st"
      using run by (auto simp: Pair CreateAudienceClaim_def)
    moreover from this(1) have "jk_Sum256 x a \<noteq> cc_AudHash c" if "GetAudience st a = Some b" for a b
      using claims_okD [OF ok that] by (auto simp: claimed_def)
    ultimately show ?thesis
      using ok by (simp add: claims_ok_def)
  next
    case (Create_audience c)
    then have "claimed x st (ca_Aud c) (ca_Admin c)"
      "st' = SetAudience \<lparr>Aud = ca_Aud c, aud_Key = ca_Key c, aud_Admin = ca_Admin c\<rparr> st"
      using run by (auto simp: Pair CreateAudience_def Let_def own_claim_iff claimed_def)
    then show ?thesis
      using ok m(1) by (simp add: claims_ok_def Pair Create_audience)
  next
    case (Update_audience u)
    then obtain a where upd: "UpdateAudience x u st = Inr (a, st')"
      using run by (auto simp: Pair)
    show ?thesis
      by (rule claims_ok_update [OF upd inv ok inj _ laws]) (use m(1) in \<open>simp add: Pair Update_audience\<close>)
  next
    case (Delete_audience d)
    then have "st' = RemoveAudienceClaim (jk_Sum256 x (da_Aud d)) (RemoveAudience (da_Aud d) st)" "da_Aud d \<in> N"
      using run m(1) by (auto simp: Pair DeleteAudience_def split: option.splits)
    moreover from this(2) have "jk_Sum256 x c \<noteq> jk_Sum256 x (da_Aud d)" if "c \<in> N" "c \<noteq> da_Aud d" for c
      using that inj_on_eq_iff [OF inj] by blast
    ultimately show ?thesis
      using ok by (simp add: claims_ok_def)
  qed (use m(2) in \<open>simp add: Pair\<close>)
qed

text \<open>Runs of messages that spare the claims, over the names in \<open>N\<close>.\<close>

lemma claims_ok_runs:
  assumes "jwk_inv x st" and "claims_ok x N st" and "inj_on (jk_Sum256 x) N" and "bech32_laws x"
    and "list_all (\<lambda>m. audience_names (snd m) \<subseteq> N \<and> \<not> deletes_claim (snd m)) ms"
  shows "claims_ok x N (run_msgs (jwk_step x cg) ms st)"
  using assms(1,2,5)
proof (induction ms arbitrary: st)
  case (Cons m ms)
  have "claims_ok x N (deliver (jwk_step x cg) m st)"
  proof (cases "jwk_step x cg m st")
    case (Inr st')
    then show ?thesis
      using claims_ok_step [OF Inr Cons.prems(1,2) assms(3,4)] Cons.prems(3) by (simp add: deliver_def)
  qed (simp add: deliver_def Cons.prems(2))
  then show ?case
    using Cons jwk_runs.deliver_keeps [OF Cons.prems(1), of cg m] by simp
qed simp

section \<open>Token queries\<close>

lemma compact_only_iff:
  "compact_only s = Inr () \<longleftrightarrow> (\<exists>c r. TrimLeftSpace s = c # r \<and> c \<noteq> CHR ''{'')"
proof -
  have "TrimLeftSpace [] = []"
    by (simp add: TrimLeftSpace.simps [of "[]"] leading_space_def space_seqs_def HasPrefix_def)
  then show ?thesis
    by (cases "TrimLeftSpace s") (auto simp: compact_only_def Let_def)
qed

lemma compact_only_not_panic: "\<not> is_panic (compact_only s)"
  by (cases "TrimLeftSpace s") (simp_all add: compact_only_def Let_def is_panic_bindr is_panic_ensure)

lemma stored_key_Inr_iff:
  "stored_key x st aud = Inr (a, key) \<longleftrightarrow>
     GetAudience st aud = Some a \<and> ParseKey x (aud_Key a) = Inr key \<and> ValidateJWKKeySize x key = Inr ()"
  by (auto simp: stored_key_def split: option.split)

lemma offset_exact:
  assumes "validateTimeOffset t = Inr ()"
  shows "sint t = int (unat t) \<and> 0 < unat t"
proof -
  have t: "t \<noteq> 0" "uint t \<le> 9223372036854775807"
    using assms by (simp_all add: validateTimeOffset_def not_less word_le_def)
  have "- (2 ^ 63) \<le> uint t"
    by (rule order_trans [OF _ uint_ge_0]) simp
  then have "sint t = uint t"
    unfolding sint_uint using t(2) by (intro signed_take_bit_int_eq_self) simp_all
  then show ?thesis
    using t(1) by (simp add: unat_gt_0)
qed

text \<open>The keys a validated store hands to the library have an accepted algorithm that fits them in
  the sense of \<open>alg_fits\<close>.\<close>

lemma stored_key_ok:
  assumes "jwk_inv x st" and "ParseKey x [] = Inl e" and "stored_key x st aud = Inr (a, key)"
  shows "\<exists>alg. SignatureAlgorithm_Accept x (key_Algorithm x key) = Inr alg \<and> alg_fits alg (key_KeyType x key)
    \<and> length (aud_Key a) \<le> MaxJWKKeySize"
proof -
  have "audience_ok x (AudienceKey aud) a"
    using assms(1,3) unfolding stored_key_Inr_iff GetAudience_def jwk_inv_def by blast
  then show ?thesis
    using assms(2,3) by (auto simp: audience_ok_def key_ok_def stored_key_Inr_iff)
qed

lemma parse_token_Inr_iff:
  "parse_token x st t req = Inr token \<longleftrightarrow>
     (\<exists>a key. stored_key x st (qj_Aud req) = Inr (a, key) \<and> compact_only (qj_SigBytes req) = Inr ()
        \<and> jwt_Parse x (qj_SigBytes req) (key_Algorithm x key) key (qj_Aud req) (qj_Sub req) (jwt_clock st t) = Inr token)"
  by (auto simp: parse_token_def)

text \<open>Sorting by distinct keys forgets the order, and the sort is stable for the others.\<close>

lemma filter_key_visits:
  assumes "mset ys = mset zs" and "distinct (map f ys)"
  shows "filter (\<lambda>y. f y = k) ys = filter (\<lambda>y. f y = k) zs"
proof (cases "\<exists>y \<in> set ys. f y = k")
  case True
  then obtain y where y: "y \<in> set ys" "f y = k" by blast
  have "distinct (map f zs)"
    using assms by (metis mset_eq_imp_distinct_iff mset_map)
  moreover have "filter (\<lambda>y. f y = k) xs = [y]" if "y \<in> set xs" "distinct (map f xs)" for xs
    using that y(2) by (induction xs) (auto simp: filter_empty_conv image_iff)
  ultimately show ?thesis
    using assms y(1) by (metis set_mset_mset)
next
  case False
  then have "\<not> (\<exists>y \<in> set zs. f y = k)"
    using assms(1) by (metis set_mset_mset)
  with False show ?thesis
    by (auto simp: filter_empty_conv)
qed

lemma sort_key_visits:
  assumes "mset ys = mset zs" and "distinct (map f ys)"
  shows "sort_key f (xs @ ys) = sort_key f (xs @ zs)"
proof (rule properties_for_sort_key)
  show "mset (sort_key f (xs @ zs)) = mset (xs @ ys)"
    using assms(1) by simp
  have "filter (\<lambda>y. f y = k) (sort_key f (xs @ zs)) = filter (\<lambda>y. f y = k) (xs @ ys)" for k
    using filter_key_visits [OF assms] by (simp add: sort_key_stable)
  then show "filter (\<lambda>y. f k = f y) (sort_key f (xs @ zs)) = filter (\<lambda>y. f k = f y) (xs @ ys)" for k
    by (simp add: eq_commute [of "f k"])
qed simp

section \<open>An instance\<close>

text \<open>Keys are their own text, addresses their spelling, the hash the name padded to 32 bytes; the
  token library accepts the text \<open>a.b.c\<close>.\<close>

definition demo_jx :: "string jwk_ext" where
  "demo_jx = \<lparr>ParseKey = (\<lambda>k. if k = [] then Inl (External ''json'') else Inr k),
     key_Raw = (\<lambda>_. Inr (RSA_Public 5)), key_KeyType = (\<lambda>_. ''RSA''), key_Algorithm = (\<lambda>_. ''RS256''),
     SignatureAlgorithm_Accept = Inr,
     jwt_Parse = (\<lambda>bz alg key aud sub clock. if bz = ''a.b.c''
        then Inr \<lparr>tk_Issuer = ''i'', tk_Subject = sub, tk_Audience = [aud], tk_Expiration = None, tk_NotBefore = None,
               tk_IssuedAt = None, tk_JwtID = [],
               tk_PrivateClaims = [(''z'', Claim_string ''1''), (''b'', Claim_bytes ''2'')]\<rparr>
        else Inl (GoPanic ''nil'')),
     jws_Verify = (\<lambda>bz alg key. Inr bz), json_strings = concat,
     jk_Sum256 = (\<lambda>b. b @ replicate (32 - length b) (CHR 0x00)),
     jk_AccAddressFromBech32 = Inr, AccAddress_String = id\<rparr>"

definition demo_meter :: "nat \<Rightarrow> u64 \<Rightarrow> nat result" where
  "demo_meter g c = Inr (g + unat c)"

definition demo_jst :: jwk_state where
  "demo_jst = \<lparr>Audiences = [(''a/'', \<lparr>Aud = ''a'', aud_Key = ''k'', aud_Admin = ''A''\<rparr>)],
     AudienceClaims = [(CHR ''a'' # replicate 31 (CHR 0x00) @ ''/'', \<lparr>Signer = ''A''\<rparr>)],
     st_TimeOffset = Some 30, st_DeploymentGas = Some 10\<rparr>"

lemma demo_key_ok: "key_ok demo_jx ''k''"
proof -
  have "ValidateJWKKeySize demo_jx ''k'' = Inr ()"
    by (simp add: ValidateJWKKeySize_def demo_jx_def BitLen_def nat_bits.simps MaxRSAKeyBits_def)
  moreover have "alg_fits ''RS256'' ''RSA''"
    by (simp add: alg_fits_def symmetric_or_none_def)
  ultimately show ?thesis
    by (simp add: key_ok_def MaxJWKKeySize_def) (simp add: demo_jx_def)
qed

lemma demo_jst_inv: "jwk_inv demo_jx demo_jst"
proof -
  have "audience_ok demo_jx ''a/'' \<lparr>Aud = ''a'', aud_Key = ''k'', aud_Admin = ''A''\<rparr>"
    using demo_key_ok by (simp add: audience_ok_def AudienceKey_def) (simp add: demo_jx_def)
  then show ?thesis
    by (simp add: jwk_inv_def demo_jst_def kv_wf_def kv_get_def
        Validate_jwk_params_def validateDeploymentGas_def validateTimeOffset_def)
qed

text \<open>The admin claims the name \<open>b\<close> and moves the audience \<open>a\<close> there, to another admin.\<close>

definition demo_rename :: "(nat \<times> jwk_msg) list" where
  "demo_rename =
     [(0, Create_claim \<lparr>cc_Admin = ''A'', cc_AudHash = CHR ''b'' # replicate 31 (CHR 0x00)\<rparr>),
      (0, Update_audience \<lparr>ua_NewAdmin = ''B'', ua_Admin = ''A'', ua_Aud = ''a'', ua_Key = ''k'', ua_NewAud = ''b''\<rparr>)]"

lemma demo_jst_gets:
  "GetAudience demo_jst ''a'' = Some \<lparr>Aud = ''a'', aud_Key = ''k'', aud_Admin = ''A''\<rparr>"
  "a \<noteq> ''a'' \<Longrightarrow> GetAudience demo_jst a = None"
  "GetAudienceClaim demo_jst (CHR ''a'' # replicate 31 (CHR 0x00)) = Some \<lparr>Signer = ''A''\<rparr>"
  "GetAudienceClaim demo_jst (CHR ''b'' # replicate 31 (CHR 0x00)) = None"
  by (simp_all add: demo_jst_def GetAudience_def GetAudienceClaim_def AudienceKey_def AudienceClaimKey_def kv_get_def)

lemma demo_jx_simps:
  "jk_AccAddressFromBech32 demo_jx = Inr" "AccAddress_String demo_jx = id"
  "jk_Sum256 demo_jx ''a'' = CHR ''a'' # replicate 31 (CHR 0x00)"
  "jk_Sum256 demo_jx ''b'' = CHR ''b'' # replicate 31 (CHR 0x00)"
  by (simp_all add: demo_jx_def)

lemma demo_renamed:
  "GetAudience (run_msgs (jwk_step demo_jx demo_meter) demo_rename demo_jst) ''b''
     = Some \<lparr>Aud = ''b'', aud_Key = ''k'', aud_Admin = ''B''\<rparr>"
proof -
  define st where "st = SetAudienceClaim demo_jx (CHR ''b'' # replicate 31 (CHR 0x00)) ''A'' demo_jst"
  define m1 m2 where "m1 = hd demo_rename" and "m2 = last demo_rename"
  have ms: "demo_rename = [m1, m2]"
    by (simp add: demo_rename_def m1_def m2_def)
  have s1: "jwk_step demo_jx demo_meter m1 demo_jst = Inr st"
    by (simp add: demo_rename_def m1_def ValidateBasic_MsgCreateAudienceClaim_def CreateAudienceClaim_def demo_jst_gets
        GetDeploymentGas_def demo_meter_def jwk_address_def demo_jx_simps st_def) (simp add: demo_jst_def)
  have "validate_msg_key demo_jx ''k'' = Inr ()"
    using demo_key_ok by (simp add: validate_msg_key_iff MaxJWKKeySize_def)
  then have s2: "jwk_step demo_jx demo_meter m2 st
    = Inr (SetAudience \<lparr>Aud = ''b'', aud_Key = ''k'', aud_Admin = ''B''\<rparr>
        (SetAudienceClaim demo_jx (jk_Sum256 demo_jx ''b'') ''B'' (RemoveAudienceClaim (jk_Sum256 demo_jx ''b'')
          (RemoveAudienceClaim (jk_Sum256 demo_jx ''a'') (RemoveAudience ''a'' st)))))"
    by (simp add: demo_rename_def m2_def ValidateBasic_MsgUpdateAudience_def MaxJWKKeySize_def MaxAudSize_def jwk_address_def
        UpdateAudience_def rename_audience_def transfer_claim_def own_claim_def demo_jst_gets demo_jx_simps st_def Let_def)
  show ?thesis
    by (simp add: ms deliver_def s1 s2 del: jwk_step.simps)
qed

lemma demo_bech32: "bech32_laws demo_jx"
  by (simp add: bech32_laws_def demo_jx_simps)

lemma demo_claims: "claims_ok demo_jx {''a'', ''b''} demo_jst"
  unfolding claims_ok_def claimed_def
proof (intro allI impI)
  fix a b
  assume get: "GetAudience demo_jst a = Some b"
  then have "a = ''a''"
    using demo_jst_gets(2) [of a] by auto
  then show "a \<in> {''a'', ''b''} \<and> (\<exists>c. GetAudienceClaim demo_jst (jk_Sum256 demo_jx a) = Some c
      \<and> jk_AccAddressFromBech32 demo_jx (Signer c) = jk_AccAddressFromBech32 demo_jx (aud_Admin b))"
    using get by (auto simp: demo_jst_gets demo_jx_simps)
qed

text \<open>
  Without the assumption that claims are not deleted on their own the claim of another account can
  go: the admin of \<open>a\<close> gives up the claim and keeps the audience, somebody else claims the free hash,
  and deleting the audience removes that claim.
\<close>

lemma orphan_audience_drops_claim:
  "let h = CHR ''a'' # replicate 31 (CHR 0x00);
       ms = [(0 :: nat, Delete_claim \<lparr>dc_Admin = ''A'', dc_AudHash = h\<rparr>),
             (0, Create_claim \<lparr>cc_Admin = ''B'', cc_AudHash = h\<rparr>)];
       end = ms @ [(0, Delete_audience \<lparr>da_Admin = ''A'', da_Aud = ''a''\<rparr>)]
   in GetAudienceClaim (run_msgs (jwk_step demo_jx demo_meter) ms demo_jst) h = Some \<lparr>Signer = ''B''\<rparr>
      \<and> GetAudienceClaim (run_msgs (jwk_step demo_jx demo_meter) end demo_jst) h = None"
proof -
  have gas: "st_DeploymentGas (RemoveAudienceClaim h st) = st_DeploymentGas st" for h st
    by (simp add: RemoveAudienceClaim_def)
  have "st_DeploymentGas demo_jst = Some 10"
    by (simp add: demo_jst_def)
  then show ?thesis
    by (simp add: Let_def deliver_def ValidateBasic_MsgDeleteAudienceClaim_def ValidateBasic_MsgCreateAudienceClaim_def
        ValidateBasic_MsgDeleteAudience_def jwk_address_def demo_jx_simps DeleteAudienceClaim_def CreateAudienceClaim_def
        DeleteAudience_def demo_jst_gets GetDeploymentGas_def gas demo_meter_def)
qed

text \<open>An export carries no claims, so an import starts without any.\<close>

lemma jwk_import_forgets_claims:
  assumes "ExportGenesis_jwk st = Inr gs" and "InitGenesis_jwk gs jwk_empty = Inr st'"
  shows "AudienceClaims st' = []"
proof -
  have "AudienceClaims (fold SetAudience as s) = AudienceClaims s" for as s
    by (induction as arbitrary: s) (simp_all add: SetAudience_def)
  then show ?thesis
    using assms(2) by (auto simp: InitGenesis_jwk_def SetParams_jwk_def jwk_empty_def)
qed

section \<open>Properties\<close>

text \<open>C29: A module started from a genesis state that \<open>Validate\<close> accepts and driven by any messages keeps
  every audience filed under its own name with an admin that is an address and a key that is empty
  (from genesis) or a parsable, bounded key with an accepted, not symmetric algorithm that fits it,
  and keeps its parameters valid.\<close>

theorem jwk_invariant_from_genesis:
  assumes "Validate_GenesisState_jwk x gs = Inr ()"
  shows "\<exists>st. InitGenesis_jwk gs jwk_empty = Inr st \<and> jwk_inv x (run_msgs (jwk_step x cg) ms st)"
proof -
  let ?st = "fold SetAudience (AudienceList gs) jwk_empty"
  obtain seen where audiences: "fold_each (validate_genesis_audience x) (AudienceList gs) [] = Inr seen"
    and params: "Validate_jwk_params (gj_Params gs) = Inr ()"
    using assms by (auto simp: Validate_GenesisState_jwk_def)
  have "kv_wf (Audiences ?st) \<and> (\<forall>k a. kv_get (Audiences ?st) k = Some a \<longrightarrow> audience_ok x k a)
    \<and> AudienceClaims ?st = AudienceClaims jwk_empty"
    by (rule genesis_audiences [OF audiences]) (simp_all add: jwk_empty_def)
  moreover define st where "st = ?st\<lparr>st_DeploymentGas := Some (DeploymentGas (gj_Params gs)),
    st_TimeOffset := Some (TimeOffset (gj_Params gs))\<rparr>"
  ultimately have "jwk_inv x st"
    using params by (simp add: jwk_inv_def jwk_empty_def Validate_jwk_params_def)
  moreover have "InitGenesis_jwk gs jwk_empty = Inr st"
    using params by (simp add: InitGenesis_jwk_def SetParams_jwk_def Validate_jwk_params_def st_def must_def)
  ultimately show ?thesis
    using jwk_runs.run_keeps by blast
qed

theorem jwk_invariant_from_genesis_witness:
  "\<exists>st. InitGenesis_jwk DefaultGenesis_jwk jwk_empty = Inr st
     \<and> jwk_inv demo_jx (run_msgs (jwk_step demo_jx demo_meter)
         [(0, Create_claim \<lparr>cc_Admin = ''A'', cc_AudHash = replicate 32 (CHR ''h'')\<rparr>)] st)"
  by (rule jwk_invariant_from_genesis)
    (simp add: Validate_GenesisState_jwk_def DefaultGenesis_jwk_def DefaultParams_jwk_def NewParams_jwk_def
      Validate_jwk_params_def validateDeploymentGas_def validateTimeOffset_def)

text \<open>C27: Over any messages, an audience changes or disappears only by a message of its admin, and a free
  name is taken only by a message of the holder of the claim on its hash.\<close>

theorem audience_change_needs_right:
  assumes inv: "jwk_inv x st" and change: "GetAudience (run_msgs (jwk_step x cg) ms st) a \<noteq> GetAudience st a"
  shows "\<exists>ms1 m ms2. ms = ms1 @ m # ms2 \<and> GetAudience (run_msgs (jwk_step x cg) ms1 st) a = GetAudience st a
    \<and> may_change x (run_msgs (jwk_step x cg) ms1 st) a (jwk_signer (snd m))"
  using audience_changes.run_guarded [OF change] jwk_runs.run_keeps [OF inv] by blast

theorem audience_change_needs_right_witness:
  "\<exists>ms1 m ms2. [(0, Delete_audience \<lparr>da_Admin = ''A'', da_Aud = ''a''\<rparr>)] = ms1 @ m # ms2
    \<and> GetAudience (run_msgs (jwk_step demo_jx demo_meter) ms1 demo_jst) ''a'' = GetAudience demo_jst ''a''
    \<and> may_change demo_jx (run_msgs (jwk_step demo_jx demo_meter) ms1 demo_jst) ''a'' (jwk_signer (snd m))"
  by (rule audience_change_needs_right [OF demo_jst_inv])
    (simp add: deliver_def ValidateBasic_MsgDeleteAudience_def jwk_address_def demo_jx_def DeleteAudience_def
      demo_jst_def GetAudience_def AudienceKey_def kv_get_def kv_del_def RemoveAudience_def RemoveAudienceClaim_def)

text \<open>C28: As long as nobody deletes a claim on its own and the hash has no collision among the names in
  use, every audience keeps a claim of its admin's address, through renaming and transfer.\<close>

theorem claims_follow_audiences:
  assumes "jwk_inv x st" and "claims_ok x N st" and "inj_on (jk_Sum256 x) N" and "bech32_laws x"
    and "list_all (\<lambda>m. audience_names (snd m) \<subseteq> N \<and> \<not> deletes_claim (snd m)) ms"
    and "GetAudience (run_msgs (jwk_step x cg) ms st) a = Some b"
  shows "\<exists>c. GetAudienceClaim (run_msgs (jwk_step x cg) ms st) (jk_Sum256 x a) = Some c
    \<and> jk_AccAddressFromBech32 x (Signer c) = jk_AccAddressFromBech32 x (aud_Admin b)"
  using claims_ok_runs [OF assms(1-5)] assms(6) unfolding claims_ok_def claimed_def by blast

theorem claims_follow_audiences_witness:
  "\<exists>c. GetAudienceClaim (run_msgs (jwk_step demo_jx demo_meter) demo_rename demo_jst) (jk_Sum256 demo_jx ''b'') = Some c
    \<and> jk_AccAddressFromBech32 demo_jx (Signer c) = jk_AccAddressFromBech32 demo_jx ''B''"
  using claims_follow_audiences [OF demo_jst_inv demo_claims _ demo_bech32 _ demo_renamed]
  by (simp add: inj_on_def demo_jx_simps demo_rename_def)

text \<open>C26: An answer of \<open>ValidateJWT\<close> means that the audience is stored, that the library accepted the
  text, which is not a JSON serialization, for the audience's own key under its own algorithm, which
  is accepted and not symmetric, for the audience and subject of the request and at the block time
  moved forward by exactly the configured offset; the answer holds exactly the private claims of
  that token, by name.\<close>

theorem ValidateJWT_sound:
  assumes inv: "jwk_inv x st" and parser: "ParseKey x [] = Inl e" and visits: "\<And>l. mset (visit l) = mset l"
    and run: "ValidateJWT x visit st t (Some req) = Inr claims"
  shows "\<exists>a key alg off token.
    GetAudience st (qj_Aud req) = Some a \<and> ParseKey x (aud_Key a) = Inr key \<and> ValidateJWKKeySize x key = Inr ()
    \<and> SignatureAlgorithm_Accept x (key_Algorithm x key) = Inr alg \<and> alg_fits alg (key_KeyType x key)
    \<and> TrimLeftSpace (qj_SigBytes req) \<noteq> [] \<and> hd (TrimLeftSpace (qj_SigBytes req)) \<noteq> CHR ''{''
    \<and> st_TimeOffset st = Some off \<and> 0 < unat off
    \<and> jwt_Parse x (qj_SigBytes req) (key_Algorithm x key) key (qj_Aud req) (qj_Sub req) (Inr (t + int (unat off))) = Inr token
    \<and> sorted (map fst claims) \<and> mset claims = mset (map (\<lambda>(k, v). (k, claim_text v)) (tk_PrivateClaims token))"
proof -
  obtain token where token: "parse_token x st t req = Inr token"
    and claims: "claims = sort_key fst (map (\<lambda>(k, v). (k, claim_text v)) (visit (tk_PrivateClaims token)))"
    using run by (auto simp: ValidateJWT_def Let_def)
  obtain a key where key: "stored_key x st (qj_Aud req) = Inr (a, key)" and compact: "compact_only (qj_SigBytes req) = Inr ()"
    and parsed: "jwt_Parse x (qj_SigBytes req) (key_Algorithm x key) key (qj_Aud req) (qj_Sub req) (jwt_clock st t) = Inr token"
    using token by (auto simp: parse_token_Inr_iff)
  obtain off where off: "st_TimeOffset st = Some off" "validateTimeOffset off = Inr ()"
    using inv by (auto simp: jwk_inv_def Validate_jwk_params_def)
  then have "jwt_clock st t = Inr (t + int (unat off))" "0 < unat off"
    using offset_exact [OF off(2)] by (simp_all add: jwt_clock_def GetTimeOffset_def)
  moreover have "sorted (map fst claims)" "mset claims = mset (map (\<lambda>(k, v). (k, claim_text v)) (tk_PrivateClaims token))"
    by (simp_all add: claims visits)
  ultimately show ?thesis
    using stored_key_ok [OF inv parser key] key compact parsed off(1)
    by (auto simp: stored_key_Inr_iff compact_only_iff)
qed

theorem ValidateJWT_sound_witness:
  "ValidateJWT demo_jx rev demo_jst 100 (Some \<lparr>qj_Aud = ''a'', qj_Sub = ''s'', qj_SigBytes = ''a.b.c''\<rparr>)
     = Inr [(''b'', ''2''), (''z'', ''1'')]
   \<and> (\<exists>a. GetAudience demo_jst ''a'' = Some a)"
proof -
  have "stored_key demo_jx demo_jst ''a'' = Inr (\<lparr>Aud = ''a'', aud_Key = ''k'', aud_Admin = ''A''\<rparr>, ''k'')"
    by (simp add: stored_key_Inr_iff demo_jst_gets)
      (simp add: demo_jx_def ValidateJWKKeySize_def BitLen_def nat_bits.simps MaxRSAKeyBits_def)
  moreover have "compact_only ''a.b.c'' = Inr ()"
    by code_simp
  ultimately have run: "ValidateJWT demo_jx rev demo_jst 100 (Some \<lparr>qj_Aud = ''a'', qj_Sub = ''s'', qj_SigBytes = ''a.b.c''\<rparr>)
     = Inr [(''b'', ''2''), (''z'', ''1'')]"
    by (simp add: ValidateJWT_def parse_token_def) (simp add: demo_jx_def claim_text_def recover_as_def less_char_def)
  have "\<And>l :: (string \<times> claim_value) list. mset (rev l) = mset l" "ParseKey demo_jx [] = Inl (External ''json'')"
    by (simp_all add: demo_jx_def)
  from ValidateJWT_sound [OF demo_jst_inv this(2,1) run] show ?thesis
    using run by auto
qed

text \<open>The answers of \<open>ValidateJWT\<close> and \<open>DecodeJWT\<close> do not depend on the order in which the Go runtime
  visits the map of private claims: every node of the network computes the same answer.\<close>

theorem token_answers_deterministic:
  assumes maps: "\<And>bz alg key aud sub clock token.
      jwt_Parse x bz alg key aud sub clock = Inr token \<Longrightarrow> distinct (map fst (tk_PrivateClaims token))"
    and v: "\<And>l. mset (v l) = mset l" and w: "\<And>l. mset (w l) = mset l"
  shows "ValidateJWT x v st t req = ValidateJWT x w st t req \<and> DecodeJWT x v st t req = DecodeJWT x w st t req"
proof -
  let ?text = "map (\<lambda>(k, v). (k, claim_text v))"
  have same: "sort_key fst (std @ ?text (v (tk_PrivateClaims token))) = sort_key fst (std @ ?text (w (tk_PrivateClaims token)))"
    if "parse_token x st t r = Inr token" for r token std
  proof (rule sort_key_visits)
    have "distinct (map fst (tk_PrivateClaims token))"
      using that maps by (auto simp: parse_token_Inr_iff)
    then have "distinct (map fst (v (tk_PrivateClaims token)))"
      by (metis mset_eq_imp_distinct_iff mset_map v)
    then show "distinct (map fst (?text (v (tk_PrivateClaims token))))"
      by (simp add: case_prod_beta comp_def)
  qed (simp add: v w)
  from same [of _ _ "[]"] same show ?thesis
    by (cases req; cases "parse_token x st t (the req)") (simp_all add: ValidateJWT_def DecodeJWT_def Let_def)
qed

theorem token_answers_deterministic_witness:
  "DecodeJWT demo_jx id demo_jst 100 (Some \<lparr>qj_Aud = ''a'', qj_Sub = ''s'', qj_SigBytes = ''a.b.c''\<rparr>)
     = DecodeJWT demo_jx rev demo_jst 100 (Some \<lparr>qj_Aud = ''a'', qj_Sub = ''s'', qj_SigBytes = ''a.b.c''\<rparr>)"
proof -
  have maps: "distinct (map fst (tk_PrivateClaims token))" if "jwt_Parse demo_jx bz alg key aud sub clock = Inr token"
    for bz alg key aud sub clock token
    using that by (auto simp: demo_jx_def split: if_splits)
  show ?thesis
    using token_answers_deterministic [where x = demo_jx and v = id and w = rev] maps by simp
qed

end
