(* ===== verification/Globalfee.thy ===== *)
theory Globalfee
  imports Sdk Go_Std "HOL-Library.Multiset"
begin

text \<open>
  \<open>x/globalfee\<close>: the chain-wide minimum gas prices, their parameters and genesis, and the ante decorator
  that sets the fee a transaction must carry.  Decimal amounts are their numerators over \<open>10^18\<close>.  The
  SDK's coin functions, the address of a message's type and the parameter subspace's encoding are
  arguments; so is the order in which Go visits a map.
\<close>

section \<open>Outside code\<close>

record 'm fee_ext =
  DecCoins_Sort :: "coins \<Rightarrow> coins"
  DecCoins_AmountOf :: "coins \<Rightarrow> string \<Rightarrow> int result"
  DecCoins_IsZero :: "coins \<Rightarrow> bool"
  NewDecCoinFromDec :: "string \<Rightarrow> int \<Rightarrow> coin result"
  ValidateDenom :: "string \<Rightarrow> unit result"
  FeeCoins_IsZero :: "coins \<Rightarrow> bool"
  MsgTypeURL :: "'m option \<Rightarrow> string"
  visit_map :: "string list \<Rightarrow> string list"

text \<open>Prices as the parameter check leaves them: one non-negative amount per valid denomination.\<close>

definition price_list :: "'m fee_ext \<Rightarrow> coins \<Rightarrow> bool" where
  "price_list x cs \<longleftrightarrow>
     distinct (map fst cs) \<and> (\<forall>c \<in> set cs. ValidateDenom x (fst c) = Inr () \<and> 0 \<le> snd c)"

definition fee_laws :: "'m fee_ext \<Rightarrow> bool" where
  "fee_laws x \<longleftrightarrow>
     (\<forall>cs. mset (DecCoins_Sort x cs) = mset cs \<and> sorted (map fst (DecCoins_Sort x cs)))
     \<and> (\<forall>cs d. price_list x cs \<longrightarrow> sorted (map fst cs) \<longrightarrow> ValidateDenom x d = Inr ()
          \<longrightarrow> DecCoins_AmountOf x cs d = Inr (amount_of cs d))
     \<and> (\<forall>cs. DecCoins_IsZero x cs \<longleftrightarrow> (\<forall>c \<in> set cs. snd c = 0))
     \<and> (\<forall>d a. ValidateDenom x d = Inr () \<longrightarrow> 0 \<le> a \<longrightarrow> NewDecCoinFromDec x d a = Inr (d, a))
     \<and> (\<forall>ds. mset (visit_map x ds) = mset ds)"

section \<open>Parameters (types/params.go)\<close>

record fee_params =
  MinimumGasPrices :: coins
  BypassMinFeeMsgTypes :: "string list"
  MaxTotalBypassMinFeeMsgGasUsage :: u64

definition DefaultMinGasPrices :: coins where "DefaultMinGasPrices = []"
definition DefaultmaxTotalBypassMinFeeMsgGasUsage :: u64 where "DefaultmaxTotalBypassMinFeeMsgGasUsage = 1000000"

definition DefaultBypassMinFeeMsgTypes :: "string list" where
  "DefaultBypassMinFeeMsgTypes =
     [''/xion.v1.MsgSend'', ''/xion.v1.MsgMultiSend'', ''/xion.jwk.v1.MsgDeleteAudience'',
      ''/xion.jwk.v1.MsgDeleteAudienceClaim'', ''/cosmos.authz.v1beta1.MsgRevoke'',
      ''/cosmos.feegrant.v1beta1.MsgRevokeAllowance'']"

definition DefaultParams_fee :: fee_params where
  "DefaultParams_fee =
     \<lparr>MinimumGasPrices = DefaultMinGasPrices, BypassMinFeeMsgTypes = DefaultBypassMinFeeMsgTypes,
      MaxTotalBypassMinFeeMsgGasUsage = DefaultmaxTotalBypassMinFeeMsgGasUsage\<rparr>"

text \<open>The loop of \<open>DecCoins.Validate\<close>: position, last denomination and the denominations seen.\<close>

fun validate_dec_coins :: "'m fee_ext \<Rightarrow> nat \<Rightarrow> string \<Rightarrow> string set \<Rightarrow> coins \<Rightarrow> unit result" where
  "validate_dec_coins x i lowDenom seenDenoms [] = Inr ()"
| "validate_dec_coins x i lowDenom seenDenoms (coin # coins) =
     bindr (ensure (\<not> fst coin \<in> seenDenoms) (Plain ''duplicate denomination'')) (\<lambda>_.
     bindr (ValidateDenom x (fst coin)) (\<lambda>_.
     bindr (ensure (\<not> (i \<noteq> 0 \<and> fst coin \<le> lowDenom)) (Plain ''denomination is not sorted'')) (\<lambda>_.
     bindr (ensure (\<not> snd coin < 0) (Plain ''amount is negative'')) (\<lambda>_.
     validate_dec_coins x (Suc i) (fst coin) (insert (fst coin) seenDenoms) coins))))"

definition Validate_DecCoins :: "'m fee_ext \<Rightarrow> coins \<Rightarrow> unit result" where
  "Validate_DecCoins x coins =
     (if length coins = 0 then Inr () else validate_dec_coins x 0 [] {} coins)"

definition validateMinimumGasPrices :: "'m fee_ext \<Rightarrow> coins \<Rightarrow> unit result" where
  "validateMinimumGasPrices x v = Validate_DecCoins x v"

definition validateBypassMinFeeMsgTypes :: "'m fee_ext \<Rightarrow> string list \<Rightarrow> unit result" where
  "validateBypassMinFeeMsgTypes x bypassMinFeeMsgTypes =
     for_each bypassMinFeeMsgTypes (\<lambda>msgType.
       bindr (ensure (\<not> msgType = []) (Plain ''invalid empty bypass msg type'')) (\<lambda>_.
       ensure (HasPrefix msgType (MsgTypeURL x None)) (Plain ''invalid bypass msg type name'')))"

definition validateMaxTotalBypassMinFeeMsgGasUsage :: "u64 \<Rightarrow> unit result" where
  "validateMaxTotalBypassMinFeeMsgGasUsage v = Inr ()"

definition ValidateBasic_fee_params :: "'m fee_ext \<Rightarrow> fee_params \<Rightarrow> unit result" where
  "ValidateBasic_fee_params x p =
     bindr (validateMinimumGasPrices x (MinimumGasPrices p)) (\<lambda>_.
     bindr (validateBypassMinFeeMsgTypes x (BypassMinFeeMsgTypes p)) (\<lambda>_.
     validateMaxTotalBypassMinFeeMsgGasUsage (MaxTotalBypassMinFeeMsgGasUsage p)))"

text \<open>The subspace: each parameter is absent until it is set.  \<open>SetParamSet\<close> validates and writes the
  pairs in order and panics on an invalid value; \<open>Get\<close> panics on an absent one.\<close>

record fee_state =
  ps_MinGasPrices :: "coins option"
  ps_BypassMsgTypes :: "string list option"
  ps_MaxGasUsage :: "u64 option"

definition SetParamSet_fee :: "'m fee_ext \<Rightarrow> fee_params \<Rightarrow> fee_state \<Rightarrow> fee_state result" where
  "SetParamSet_fee x p st =
     bindr (must (validateMinimumGasPrices x (MinimumGasPrices p))) (\<lambda>_.
     bindr (must (validateBypassMinFeeMsgTypes x (BypassMinFeeMsgTypes p))) (\<lambda>_.
     bindr (must (validateMaxTotalBypassMinFeeMsgGasUsage (MaxTotalBypassMinFeeMsgGasUsage p))) (\<lambda>_.
     Inr \<lparr>ps_MinGasPrices = Some (MinimumGasPrices p), ps_BypassMsgTypes = Some (BypassMinFeeMsgTypes p),
          ps_MaxGasUsage = Some (MaxTotalBypassMinFeeMsgGasUsage p)\<rparr>)))"

definition param_get :: "'a option \<Rightarrow> 'a result" where
  "param_get v = (case v of None \<Rightarrow> Inl (GoPanic ''unmarshal'') | Some a \<Rightarrow> Inr a)"

definition GetParamSet_fee :: "fee_state \<Rightarrow> fee_params result" where
  "GetParamSet_fee st =
     bindr (param_get (ps_MinGasPrices st)) (\<lambda>m.
     bindr (param_get (ps_BypassMsgTypes st)) (\<lambda>b.
     bindr (param_get (ps_MaxGasUsage st)) (\<lambda>g.
     Inr \<lparr>MinimumGasPrices = m, BypassMinFeeMsgTypes = b, MaxTotalBypassMinFeeMsgGasUsage = g\<rparr>)))"

section \<open>Genesis, query and migration\<close>

definition DefaultGenesisState_fee :: fee_params where
  "DefaultGenesisState_fee = DefaultParams_fee"

definition ValidateGenesis_fee :: "'m fee_ext \<Rightarrow> fee_params \<Rightarrow> unit result" where
  "ValidateGenesis_fee x data = ValidateBasic_fee_params x data"

definition InitGenesis_fee :: "'m fee_ext \<Rightarrow> fee_params \<Rightarrow> fee_state \<Rightarrow> fee_state result" where
  "InitGenesis_fee x genesisState st = SetParamSet_fee x genesisState st"

definition ExportGenesis_fee :: "fee_state \<Rightarrow> fee_params result" where
  "ExportGenesis_fee st = GetParamSet_fee st"

definition query_Params_fee :: "fee_state \<Rightarrow> unit option \<Rightarrow> fee_params result" where
  "query_Params_fee st req =
     (case req of
        None \<Rightarrow> Inl (Plain ''invalid request'')
      | Some _ \<Rightarrow> Inr
          \<lparr>MinimumGasPrices = (case ps_MinGasPrices st of None \<Rightarrow> [] | Some v \<Rightarrow> v),
           BypassMinFeeMsgTypes = (case ps_BypassMsgTypes st of None \<Rightarrow> [] | Some v \<Rightarrow> v),
           MaxTotalBypassMinFeeMsgGasUsage = (case ps_MaxGasUsage st of None \<Rightarrow> 0 | Some v \<Rightarrow> v)\<rparr>)"

definition MigrateStore_fee :: "'m fee_ext \<Rightarrow> fee_state \<Rightarrow> fee_state result" where
  "MigrateStore_fee x st =
     bindr (param_get (ps_MinGasPrices st)) (\<lambda>oldGlobalMinGasPrices.
     SetParamSet_fee x
       \<lparr>MinimumGasPrices = oldGlobalMinGasPrices,
        BypassMinFeeMsgTypes = BypassMinFeeMsgTypes DefaultParams_fee,
        MaxTotalBypassMinFeeMsgGasUsage = MaxTotalBypassMinFeeMsgGasUsage DefaultParams_fee\<rparr> st)"

section \<open>Coin arithmetic (ante/fee_utils.go)\<close>

text \<open>Binary search by denomination; \<open>None\<close> where the code returns false.\<close>

function Find :: "coins \<Rightarrow> string \<Rightarrow> coin option" where
  "Find coins denom =
     (if length coins = 0 then None
      else if length coins = 1
      then (let coin = coins ! 0 in if fst coin = denom then Some coin else None)
      else
        let midIdx = length coins div 2; coin = coins ! midIdx in
        if denom < fst coin then Find (take midIdx coins) denom
        else if denom = fst coin then Some coin
        else Find (drop (midIdx + 1) coins) denom)"
  by pat_completeness auto
termination
  by (relation "measure (\<lambda>(coins, _). length coins)") auto

declare Find.simps [simp del]

definition CombinedFeeRequirement :: "'m fee_ext \<Rightarrow> coins \<Rightarrow> coins \<Rightarrow> coins result" where
  "CombinedFeeRequirement x globalFees0 minGasPrices0 =
     bindr (ensure (\<not> length globalFees0 = 0) (SdkErr ''ErrNotFound'')) (\<lambda>_.
     if length minGasPrices0 = 0 then Inr globalFees0
     else
       let globalFees = DecCoins_Sort x globalFees0;
           minGasPrices = DecCoins_Sort x minGasPrices0;
           allFees = map (\<lambda>fee. case Find minGasPrices (fst fee) of
                            Some c \<Rightarrow> if snd c > snd fee then c else fee
                          | None \<Rightarrow> fee) globalFees
       in Inr (DecCoins_Sort x allFees))"

text \<open>The body of the last loop of \<open>MaxCoins\<close>.\<close>

definition max_coin :: "'m fee_ext \<Rightarrow> coins \<Rightarrow> coins \<Rightarrow> string \<Rightarrow> coin result" where
  "max_coin x a b denom =
     bindr (DecCoins_AmountOf x a denom) (\<lambda>amountA.
     bindr (DecCoins_AmountOf x b denom) (\<lambda>amountB.
     let maxAmount = (if amountB > amountA then amountB else amountA) in
     NewDecCoinFromDec x denom maxAmount))"

definition MaxCoins :: "'m fee_ext \<Rightarrow> coins \<Rightarrow> coins \<Rightarrow> coins result" where
  "MaxCoins x a0 b0 =
     (let a = DecCoins_Sort x a0; b = DecCoins_Sort x b0;
          denoms = visit_map x (remdups (map fst a @ map fst b)) in
      bindr (map_each (max_coin x a b) denoms) (\<lambda>result. Inr (DecCoins_Sort x result)))"

definition DenomsSubsetOf :: "'m fee_ext \<Rightarrow> coins \<Rightarrow> coins \<Rightarrow> bool result" where
  "DenomsSubsetOf x a b =
     (if length a > length b then Inr False
      else fold_each (\<lambda>coin ok. if \<not> ok then Inr False
             else bindr (DecCoins_AmountOf x b (fst coin)) (\<lambda>amount. Inr (\<not> amount = 0))) a True)"

definition IsAllGT :: "'m fee_ext \<Rightarrow> coins \<Rightarrow> coins \<Rightarrow> bool result" where
  "IsAllGT x a b =
     (if length a = 0 then Inr False
      else if length b = 0 then Inr True
      else
        bindr (DenomsSubsetOf x b a) (\<lambda>sub.
        if \<not> sub then Inr False
        else fold_each (\<lambda>coinB ok. if \<not> ok then Inr False
               else bindr (DecCoins_AmountOf x a (fst coinB)) (\<lambda>amountA. Inr (amountA > snd coinB))) b True))"

section \<open>The ante decorator (ante/fee.go)\<close>

record fee_ctx =
  MinGasPrices :: coins
  IsCheckTx :: bool

record 'm fee_tx =
  GetMsgs :: "'m list"
  GetGas :: u64
  GetFee :: coins

datatype 'm any_tx = FeeTx "'m fee_tx" | Not_FeeTx

text \<open>\<open>StakingKeeperBondDenom\<close> is the result of the closure the decorator holds, which may panic.\<close>

definition DefaultZeroGlobalFee :: "'m fee_ext \<Rightarrow> string result \<Rightarrow> coins result" where
  "DefaultZeroGlobalFee x StakingKeeperBondDenom =
     bindr StakingKeeperBondDenom (\<lambda>bondDenom.
     bindr (ensure (\<not> bondDenom = []) (Plain ''empty staking bond denomination'')) (\<lambda>_.
     bindr (NewDecCoinFromDec x bondDenom 0) (\<lambda>c. Inr [c])))"

definition GetGlobalFee :: "'m fee_ext \<Rightarrow> string result \<Rightarrow> fee_state \<Rightarrow> coins result" where
  "GetGlobalFee x bondDenom st =
     (let globalMinGasPrices = (case ps_MinGasPrices st of None \<Rightarrow> [] | Some v \<Rightarrow> v) in
      bindr (if length globalMinGasPrices = 0 then DefaultZeroGlobalFee x bondDenom else Inr globalMinGasPrices)
        (\<lambda>prices. Inr (DecCoins_Sort x prices)))"

definition GetMinGasPrice :: "'m fee_ext \<Rightarrow> fee_ctx \<Rightarrow> coins" where
  "GetMinGasPrice x ctx =
     (if DecCoins_IsZero x (MinGasPrices ctx) then [] else DecCoins_Sort x (MinGasPrices ctx))"

definition GetTxFeeRequired :: "'m fee_ext \<Rightarrow> string result \<Rightarrow> fee_state \<Rightarrow> fee_ctx \<Rightarrow> coins result" where
  "GetTxFeeRequired x bondDenom st ctx =
     bindr (GetGlobalFee x bondDenom st) (\<lambda>globalFees.
     if \<not> IsCheckTx ctx then Inr globalFees
     else MaxCoins x (GetMinGasPrice x ctx) globalFees)"

definition GetBypassMsgTypes :: "fee_state \<Rightarrow> string list" where
  "GetBypassMsgTypes st = (case ps_BypassMsgTypes st of None \<Rightarrow> [] | Some res \<Rightarrow> res)"

definition GetMaxTotalBypassMinFeeMsgGasUsage :: "fee_state \<Rightarrow> u64" where
  "GetMaxTotalBypassMinFeeMsgGasUsage st =
     (case ps_MaxGasUsage st of None \<Rightarrow> DefaultmaxTotalBypassMinFeeMsgGasUsage | Some res \<Rightarrow> res)"

definition ContainsOnlyBypassMinFeeMsgs :: "'m fee_ext \<Rightarrow> fee_state \<Rightarrow> 'm list \<Rightarrow> bool" where
  "ContainsOnlyBypassMinFeeMsgs x st msgs =
     list_all (\<lambda>msg. MsgTypeURL x (Some msg) \<in> set (GetBypassMsgTypes st)) msgs"

text \<open>The check of the fee denominations of a bypass transaction.\<close>

definition bypass_denoms_ok :: "'m fee_ext \<Rightarrow> string result \<Rightarrow> fee_state \<Rightarrow> coins \<Rightarrow> unit result" where
  "bypass_denoms_ok x bondDenom st feeCoins =
     (if \<not> FeeCoins_IsZero x feeCoins then
        bindr (GetGlobalFee x bondDenom st) (\<lambda>globalFees.
        if \<not> DecCoins_IsZero x globalFees
        then for_each feeCoins (\<lambda>feeCoin.
               ensure (list_ex (\<lambda>globalFee. fst feeCoin = fst globalFee) globalFees) (SdkErr ''ErrInvalidCoins''))
        else Inr ())
      else Inr ())"

definition AnteHandle ::
  "'m fee_ext \<Rightarrow> string result \<Rightarrow> fee_state \<Rightarrow> fee_ctx \<Rightarrow> 'm any_tx \<Rightarrow> bool
     \<Rightarrow> (fee_ctx \<Rightarrow> 'm any_tx \<Rightarrow> bool \<Rightarrow> 'r result) \<Rightarrow> 'r result" where
  "AnteHandle x bondDenom st ctx tx simulate next =
     (case tx of
        Not_FeeTx \<Rightarrow> Inl (SdkErr ''ErrTxDecode'')
      | FeeTx feeTx \<Rightarrow>
          if simulate then next ctx tx simulate
          else if ContainsOnlyBypassMinFeeMsgs x st (GetMsgs feeTx) then
            bindr (ensure (\<not> GetGas feeTx > GetMaxTotalBypassMinFeeMsgGasUsage st) (SdkErr ''ErrInsufficientFee'')) (\<lambda>_.
            bindr (bypass_denoms_ok x bondDenom st (GetFee feeTx)) (\<lambda>_.
            if FeeCoins_IsZero x (GetFee feeTx) \<and> \<not> DecCoins_IsZero x (MinGasPrices ctx)
            then next (ctx\<lparr>MinGasPrices := []\<rparr>) tx simulate
            else next ctx tx simulate))
          else
            bindr (GetTxFeeRequired x bondDenom st ctx) (\<lambda>feeRequired.
            next (ctx\<lparr>MinGasPrices := feeRequired\<rparr>) tx simulate))"

end
