(* ===== verification/Globalfee_Props.thy ===== *)
theory Globalfee_Props
  imports Globalfee
begin

text \<open>
  Correctness of \<open>x/globalfee\<close>: what the parameter check admits, that the merge of two price lists is
  their maximum whatever order Go visits its map in, and the price the decorator demands.
\<close>

section \<open>Price lists\<close>

lemma fee_laws_sort: "fee_laws x \<Longrightarrow> mset (DecCoins_Sort x cs) = mset cs" "fee_laws x \<Longrightarrow> sorted (map fst (DecCoins_Sort x cs))"
  by (simp_all add: fee_laws_def)

lemma fee_laws_amount:
  "fee_laws x \<Longrightarrow> price_list x cs \<Longrightarrow> sorted (map fst cs) \<Longrightarrow> ValidateDenom x d = Inr ()
     \<Longrightarrow> DecCoins_AmountOf x cs d = Inr (amount_of cs d)"
  by (simp add: fee_laws_def)

lemma fee_laws_zero: "fee_laws x \<Longrightarrow> DecCoins_IsZero x cs \<longleftrightarrow> (\<forall>c \<in> set cs. snd c = 0)"
  by (simp add: fee_laws_def)

lemma fee_laws_new: "fee_laws x \<Longrightarrow> ValidateDenom x d = Inr () \<Longrightarrow> 0 \<le> a \<Longrightarrow> NewDecCoinFromDec x d a = Inr (d, a)"
  by (simp add: fee_laws_def)

lemma fee_laws_visit: "fee_laws x \<Longrightarrow> mset (visit_map x ds) = mset ds"
  by (simp add: fee_laws_def)

lemma price_list_mset: "mset as = mset bs \<Longrightarrow> price_list x as \<longleftrightarrow> price_list x bs"
  unfolding price_list_def by (metis mset_eq_imp_distinct_iff mset_map set_mset_mset)

lemma amount_of_mset: "mset as = mset bs \<Longrightarrow> amount_of as d = amount_of bs d"
proof -
  assume "mset as = mset bs"
  moreover have "amount_of cs d = sum_mset (image_mset snd (filter_mset (\<lambda>c. fst c = d) (mset cs)))" for cs
    by (induction cs) auto
  ultimately show ?thesis
    by simp
qed

lemma sort_prices:
  assumes "fee_laws x"
  shows "price_list x (DecCoins_Sort x cs) = price_list x cs" "amount_of (DecCoins_Sort x cs) d = amount_of cs d"
    "set (DecCoins_Sort x cs) = set cs" "length (DecCoins_Sort x cs) = length cs"
  using price_list_mset [OF fee_laws_sort(1) [OF assms]] amount_of_mset [OF fee_laws_sort(1) [OF assms]]
    mset_eq_setD [OF fee_laws_sort(1) [OF assms]] mset_eq_length [OF fee_laws_sort(1) [OF assms]]
  by blast+

lemma distinct_amount: "distinct ds \<Longrightarrow> d \<in> set ds \<Longrightarrow> amount_of (map (\<lambda>d. (d, g d)) ds) d = g d"
proof (induction ds)
  case (Cons e ds)
  then show ?case
    by (cases "e = d") (auto simp: amount_of_absent image_iff)
qed simp

lemma price_list_amount: "price_list x cs \<Longrightarrow> (d, a) \<in> set cs \<Longrightarrow> amount_of cs d = a"
proof (induction cs)
  case (Cons c cs)
  show ?case
  proof (cases "c = (d, a)")
    case True
    then have "d \<notin> fst ` set cs"
      using Cons.prems(1) by (auto simp: price_list_def)
    then show ?thesis
      using True by (simp add: amount_of_absent)
  next
    case False
    then have "(d, a) \<in> set cs"
      using Cons.prems by auto
    moreover from this have "d \<in> fst ` set cs"
      by (rule image_eqI [rotated]) simp
    then have "fst c \<noteq> d"
      using Cons.prems(1) by (auto simp: price_list_def)
    ultimately show ?thesis
      using Cons by (simp add: price_list_def)
  qed
qed simp

lemma price_list_entry: "price_list x cs \<Longrightarrow> c \<in> set cs \<Longrightarrow> amount_of cs (fst c) = snd c"
  by (simp add: price_list_amount)

lemma price_list_amount_nonneg: "price_list x cs \<Longrightarrow> 0 \<le> amount_of cs d"
proof (cases "d \<in> fst ` set cs")
  case True
  assume cs: "price_list x cs"
  from True obtain a where "(d, a) \<in> set cs" by auto
  moreover from this cs have "0 \<le> a" by (auto simp: price_list_def)
  ultimately show ?thesis
    using price_list_amount [OF cs] by simp
qed (simp add: amount_of_absent)

text \<open>A sorted list with one entry per denomination is determined by its entries.\<close>

lemma sorted_prices_unique:
  assumes "sorted (map fst as)" and "distinct (map fst as)"
  shows "as = map (\<lambda>d. (d, amount_of as d)) (sorted_list_of_set (fst ` set as))"
proof -
  have "map fst as = sorted_list_of_set (fst ` set as)"
    using assms by (metis list.set_map sorted_list_of_set.idem_if_sorted_distinct)
  moreover have "as = map (\<lambda>d. (d, amount_of as d)) (map fst as)"
    using assms(2)
  proof (induction as)
    case (Cons a as)
    have "(if fst a = d then snd a else 0) + amount_of as d = amount_of as d" if "d \<in> fst ` set as" for d
      using that Cons.prems by auto
    then have "map (\<lambda>d. (d, amount_of (a # as) d)) (map fst as) = as"
      using Cons by (intro nth_equalityI) (auto simp: list_eq_iff_nth_eq [of as])
    then show ?case
      using Cons.prems by (simp add: amount_of_absent comp_def)
  qed simp
  ultimately show ?thesis
    by simp
qed

lemma sorted_prices_eq:
  fixes as :: coins
  assumes "mset as = mset bs" and "sorted (map fst as)" "distinct (map fst as)" and "sorted (map fst bs)" "distinct (map fst bs)"
  shows "as = bs"
proof -
  have "as = map (\<lambda>d. (d, amount_of as d)) (sorted_list_of_set (fst ` set as))"
    by (rule sorted_prices_unique [OF assms(2,3)])
  also have "\<dots> = map (\<lambda>d. (d, amount_of bs d)) (sorted_list_of_set (fst ` set bs))"
    by (simp add: amount_of_mset [OF assms(1)] mset_eq_setD [OF assms(1)])
  also have "\<dots> = bs"
    by (rule sorted_prices_unique [OF assms(4,5), symmetric])
  finally show ?thesis .
qed

lemma sort_sorted:
  assumes "fee_laws x" and "sorted (map fst cs)" and "distinct (map fst cs)"
  shows "DecCoins_Sort x cs = cs"
proof (rule sorted_prices_eq)
  show "mset (DecCoins_Sort x cs) = mset cs"
    by (rule fee_laws_sort(1) [OF assms(1)])
  then have "mset (map fst (DecCoins_Sort x cs)) = mset (map fst cs)"
    by simp
  then show "distinct (map fst (DecCoins_Sort x cs))"
    using assms(3) mset_eq_imp_distinct_iff by blast
qed (use assms fee_laws_sort(2) in blast)+

section \<open>Parameters\<close>

lemma validate_dec_coins_iff:
  "validate_dec_coins x i low seen cs = Inr () \<longleftrightarrow>
     sorted_wrt (<) (map fst cs) \<and> list_all (\<lambda>c. ValidateDenom x (fst c) = Inr () \<and> 0 \<le> snd c) cs
     \<and> fst ` set cs \<inter> seen = {} \<and> (i = 0 \<or> (\<forall>c \<in> set cs. low < fst c))"
proof (induction cs arbitrary: i low seen)
  case (Cons c cs)
  have "fst ` set cs \<inter> insert (fst c) seen = {} \<and> (\<forall>e \<in> set cs. fst c < fst e)
    \<longleftrightarrow> fst ` set cs \<inter> seen = {} \<and> (\<forall>e \<in> set cs. fst c < fst e)"
    by auto
  moreover have "(\<forall>e \<in> set (c # cs). low < fst e) \<longleftrightarrow> low < fst c" if "\<forall>e \<in> set cs. fst c < fst e"
    using that by (auto intro: less_trans)
  ultimately show ?case
    by (simp add: Cons.IH not_le not_less) blast
qed simp

lemma Validate_DecCoins_iff: "Validate_DecCoins x cs = Inr () \<longleftrightarrow> price_list x cs \<and> sorted (map fst cs)"
proof -
  have "Validate_DecCoins x cs = validate_dec_coins x 0 [] {} cs"
    by (cases cs) (simp_all add: Validate_DecCoins_def)
  then show ?thesis
    by (auto simp: validate_dec_coins_iff price_list_def list_all_iff strict_sorted_iff)
qed

definition bypass_ok :: "'m fee_ext \<Rightarrow> string list \<Rightarrow> bool" where
  "bypass_ok x ts \<longleftrightarrow> (\<forall>t \<in> set ts. t \<noteq> [] \<and> HasPrefix t (MsgTypeURL x None))"

lemma ValidateBasic_fee_params_iff:
  "ValidateBasic_fee_params x p = Inr () \<longleftrightarrow>
     price_list x (MinimumGasPrices p) \<and> sorted (map fst (MinimumGasPrices p)) \<and> bypass_ok x (BypassMinFeeMsgTypes p)"
  by (auto simp: ValidateBasic_fee_params_def validateMinimumGasPrices_def Validate_DecCoins_iff bypass_ok_def
      validateBypassMinFeeMsgTypes_def validateMaxTotalBypassMinFeeMsgGasUsage_def)

lemma InitGenesis_fee_Inr_iff:
  "InitGenesis_fee x p st0 = Inr st \<longleftrightarrow>
     ValidateBasic_fee_params x p = Inr ()
     \<and> st = \<lparr>ps_MinGasPrices = Some (MinimumGasPrices p), ps_BypassMsgTypes = Some (BypassMinFeeMsgTypes p),
             ps_MaxGasUsage = Some (MaxTotalBypassMinFeeMsgGasUsage p)\<rparr>"
  by (auto simp: InitGenesis_fee_def SetParamSet_fee_def ValidateBasic_fee_params_def)

section \<open>Merging prices\<close>

lemma MaxCoins_exact:
  assumes laws: "fee_laws x" and a: "price_list x a" and b: "price_list x b"
  shows "MaxCoins x a b = Inr (map (\<lambda>d. (d, max (amount_of a d) (amount_of b d)))
      (sorted_list_of_set (fst ` set a \<union> fst ` set b)))"
proof -
  let ?a = "DecCoins_Sort x a" and ?b = "DecCoins_Sort x b"
  let ?f = "\<lambda>d. (d, max (amount_of a d) (amount_of b d))"
  let ?D = "fst ` set a \<union> fst ` set b"
  define ds where "ds = visit_map x (remdups (map fst ?a @ map fst ?b))"
  have m: "mset ds = mset (remdups (map fst ?a @ map fst ?b))"
    unfolding ds_def by (rule fee_laws_visit [OF laws])
  have ds: "set ds = ?D" "distinct ds"
    using mset_eq_setD [OF m] mset_eq_imp_distinct_iff [OF m] by (simp_all add: sort_prices(3) [OF laws])
  have valid: "ValidateDenom x d = Inr ()" if "d \<in> ?D" for d
    using that a b by (auto simp: price_list_def)
  have "max_coin x ?a ?b d = Inr (?f d)" if "d \<in> set ds" for d
  proof -
    have "DecCoins_AmountOf x ?a d = Inr (amount_of a d)" "DecCoins_AmountOf x ?b d = Inr (amount_of b d)"
      using that ds(1) valid a b fee_laws_amount [OF laws] by (simp_all add: sort_prices [OF laws] fee_laws_sort [OF laws])
    moreover have "NewDecCoinFromDec x d (max (amount_of a d) (amount_of b d)) = Inr (?f d)"
      using that ds(1) valid price_list_amount_nonneg [OF a] by (intro fee_laws_new [OF laws]) (auto simp: le_max_iff_disj)
    ultimately show ?thesis
      by (auto simp: max_coin_def Let_def max_def split: if_splits)
  qed
  then have "map_each (max_coin x ?a ?b) ds = Inr (map ?f ds)"
    by (induction ds) auto
  then have run: "MaxCoins x a b = Inr (DecCoins_Sort x (map ?f ds))"
    by (simp add: MaxCoins_def Let_def ds_def)
  let ?r = "DecCoins_Sort x (map ?f ds)"
  have r: "mset (map fst ?r) = mset ds"
    by (simp add: fee_laws_sort(1) [OF laws] multiset.map_comp comp_def)
  then have dist: "distinct (map fst ?r)" and keys: "fst ` set ?r = ?D"
    using ds mset_eq_setD [OF r] mset_eq_imp_distinct_iff [OF r] by simp_all
  have "amount_of ?r d = max (amount_of a d) (amount_of b d)" if "d \<in> ?D" for d
    using that ds by (subst sort_prices(2) [OF laws]) (simp add: distinct_amount)
  then have "map (\<lambda>d. (d, amount_of ?r d)) (sorted_list_of_set ?D) = map ?f (sorted_list_of_set ?D)"
    by (intro map_cong) simp_all
  with sorted_prices_unique [OF fee_laws_sort(2) [OF laws] dist] have "?r = map ?f (sorted_list_of_set ?D)"
    unfolding keys by (rule trans)
  with run show ?thesis
    by simp
qed

text \<open>The binary search finds the entry of a denomination in a strictly sorted list.\<close>

lemma Find_short: "Find [] d = None" "Find [c] d = (if fst c = d then Some c else None)"
  by (subst Find.simps, simp)+

lemma Find_iff: "sorted_wrt (<) (map fst cs) \<Longrightarrow> Find cs d = Some c \<longleftrightarrow> c \<in> set cs \<and> fst c = d"
proof (induction cs d rule: Find.induct)
  case (1 cs d)
  show ?case
  proof (cases "length cs \<le> 1")
    case True
    then consider "cs = []" | c where "cs = [c]"
      by (cases cs rule: list.exhaust) auto
    then show ?thesis
      by cases (auto simp: Find_short)
  next
    case False
    define m where "m = length cs div 2"
    let ?l = "take m cs" and ?r = "drop (m + 1) cs"
    have m: "m < length cs" and len: "length cs \<noteq> 0" "length cs \<noteq> 1"
      using False by (auto simp: m_def)
    have cs: "cs = ?l @ cs ! m # ?r"
      unfolding Suc_eq_plus1 [symmetric] by (rule id_take_nth_drop [OF m])
    have "sorted_wrt (<) (map fst (?l @ cs ! m # ?r))"
      using 1(3) arg_cong [OF cs, of "\<lambda>cs. sorted_wrt (<) (map fst cs)"] by (rule back_subst)
    then have parts: "sorted_wrt (<) (map fst ?l)" "sorted_wrt (<) (map fst ?r)"
      "\<forall>c \<in> set ?l. fst c < fst (cs ! m)" "\<forall>c \<in> set ?r. fst (cs ! m) < fst c"
      by (auto simp: sorted_wrt_append)
    have set: "set cs = set ?l \<union> {cs ! m} \<union> set ?r"
      by (rule trans [OF arg_cong [OF cs, of set]]) simp
    have step: "Find cs d = (if d < fst (cs ! m) then Find ?l d else if d = fst (cs ! m) then Some (cs ! m) else Find ?r d)"
      using len by (subst Find.simps) (simp add: Let_def m_def)
    have left: "c \<in> set cs \<longleftrightarrow> c \<in> set ?l" if "fst c = d" "d < fst (cs ! m)"
      unfolding set using that parts(4) less_asym by blast
    have right: "c \<in> set cs \<longleftrightarrow> c \<in> set ?r" if "fst c = d" "fst (cs ! m) < d"
      unfolding set using that parts(3) less_asym by blast
    have mid: "c \<in> set cs \<longleftrightarrow> c = cs ! m" if "fst c = d" "d = fst (cs ! m)"
      unfolding set using that parts(3,4) by (metis UnE UnI1 UnI2 less_irrefl singletonD singletonI)
    consider (l) "d < fst (cs ! m)" | (m) "d = fst (cs ! m)" | (r) "fst (cs ! m) < d"
      by (rule linorder_cases)
    then show ?thesis
    proof cases
      case l
      then have "Find ?l d = Some c \<longleftrightarrow> c \<in> set ?l \<and> fst c = d"
        using "1.IH"(1) [OF len m_def refl l parts(1)] by blast
      then show ?thesis
        using step l left by auto
    next
      case m
      then show ?thesis
        using step mid by auto
    next
      case r
      then have "\<not> d < fst (cs ! m)" "d \<noteq> fst (cs ! m)" by auto
      moreover from this have "Find ?r d = Some c \<longleftrightarrow> c \<in> set ?r \<and> fst c = d"
        using "1.IH"(2) [OF len m_def refl _ _ parts(2)] by blast
      ultimately show ?thesis
        using step r right by auto
    qed
  qed
qed

lemma CombinedFeeRequirement_prices:
  assumes laws: "fee_laws x" and g: "price_list x g" "g \<noteq> []" and l: "price_list x l" "l \<noteq> []"
  shows "CombinedFeeRequirement x g l
    = Inr (map (\<lambda>d. (d, max (amount_of g d) (amount_of l d))) (sorted_list_of_set (fst ` set g)))"
proof -
  let ?g = "DecCoins_Sort x g" and ?l = "DecCoins_Sort x l"
  let ?f = "\<lambda>d. (d, max (amount_of g d) (amount_of l d))"
  let ?pick = "\<lambda>fee. case Find ?l (fst fee) of Some c \<Rightarrow> if snd c > snd fee then c else fee | None \<Rightarrow> fee"
  have ordered: "sorted_wrt (<) (map fst (DecCoins_Sort x cs))" if "price_list x cs" for cs
    using that sort_prices(1) [OF laws, of cs] fee_laws_sort(2) [OF laws, of cs] by (simp add: strict_sorted_iff price_list_def)
  have pick: "?pick fee = ?f (fst fee)" if "fee \<in> set g" for fee
  proof -
    have fee: "amount_of g (fst fee) = snd fee" "0 \<le> snd fee"
      using that price_list_entry [OF g(1) that] g(1) by (auto simp: price_list_def)
    show ?thesis
    proof (cases "Find ?l (fst fee)")
      case None
      then have "\<And>c. c \<in> set l \<Longrightarrow> fst c \<noteq> fst fee"
        using Find_iff [OF ordered [OF l(1)], of "fst fee"] by (auto simp: sort_prices(3) [OF laws])
      then have "amount_of l (fst fee) = 0"
        by (intro amount_of_absent) (metis imageE)
      then show ?thesis
        using None fee by (cases fee) (simp add: max_def)
    next
      case (Some c)
      then have c: "c \<in> set l" "fst c = fst fee"
        using Find_iff [OF ordered [OF l(1)]] by (auto simp: sort_prices(3) [OF laws])
      then have "amount_of l (fst fee) = snd c"
        using price_list_entry [OF l(1) c(1)] by simp
      then show ?thesis
        using Some fee c by (cases fee; cases c) (auto simp: max_def)
    qed
  qed
  have "sorted_list_of_set (set (map fst ?g)) = map fst ?g"
    using ordered [OF g(1)] by (intro sorted_list_of_set.idem_if_sorted_distinct) (simp_all add: strict_sorted_iff)
  then have keys: "sorted_list_of_set (fst ` set g) = map fst ?g"
    by (simp add: sort_prices(3) [OF laws])
  have "map ?pick ?g = map (\<lambda>fee. ?f (fst fee)) ?g"
    using pick by (intro map_cong) (simp_all add: sort_prices(3) [OF laws])
  also have "\<dots> = map ?f (sorted_list_of_set (fst ` set g))"
    by (simp add: keys comp_def)
  finally have all: "map ?pick ?g = map ?f (sorted_list_of_set (fst ` set g))" .
  have "DecCoins_Sort x (map ?f (sorted_list_of_set (fst ` set g))) = map ?f (sorted_list_of_set (fst ` set g))"
    by (rule sort_sorted [OF laws]) (simp_all add: comp_def)
  then show ?thesis
    using g(2) l(2) all by (simp add: CombinedFeeRequirement_def Let_def)
qed

section \<open>The decorator\<close>

text \<open>The prices of the parameters, zero in the bond denomination when none are set.\<close>

definition global_prices :: "string \<Rightarrow> fee_params \<Rightarrow> coins" where
  "global_prices bond p = (if MinimumGasPrices p = [] then [(bond, 0)] else MinimumGasPrices p)"

lemma GetGlobalFee_exact:
  assumes laws: "fee_laws x" and init: "InitGenesis_fee x p st0 = Inr st"
    and bond: "bond \<noteq> []" "ValidateDenom x bond = Inr ()"
  shows "GetGlobalFee x (Inr bond) st = Inr (global_prices bond p)" "price_list x (global_prices bond p)"
    "sorted (map fst (global_prices bond p))"
proof -
  have p: "price_list x (MinimumGasPrices p)" "sorted (map fst (MinimumGasPrices p))"
    and st: "ps_MinGasPrices st = Some (MinimumGasPrices p)"
    using init by (simp_all add: InitGenesis_fee_Inr_iff ValidateBasic_fee_params_iff)
  then show prices: "price_list x (global_prices bond p)" "sorted (map fst (global_prices bond p))"
    using bond by (simp_all add: global_prices_def price_list_def)
  then have "DecCoins_Sort x (global_prices bond p) = global_prices bond p"
    by (intro sort_sorted [OF laws]) (simp_all add: price_list_def)
  then show "GetGlobalFee x (Inr bond) st = Inr (global_prices bond p)"
    using st bond fee_laws_new [OF laws bond(2)]
    by (cases "MinimumGasPrices p = []") (simp_all add: GetGlobalFee_def DefaultZeroGlobalFee_def global_prices_def)
qed

lemma global_prices_amount [simp]: "amount_of (global_prices bond p) d = amount_of (MinimumGasPrices p) d"
  by (simp add: global_prices_def)

lemma GetMinGasPrice_amount:
  assumes "fee_laws x" and "price_list x (MinGasPrices ctx)"
  shows "price_list x (GetMinGasPrice x ctx) \<and> amount_of (GetMinGasPrice x ctx) d = amount_of (MinGasPrices ctx) d"
proof (cases "DecCoins_IsZero x (MinGasPrices ctx)")
  case True
  then show ?thesis
    using fee_laws_zero [OF assms(1)] amount_of_zeros [of "MinGasPrices ctx" d]
    by (simp add: GetMinGasPrice_def price_list_def)
qed (simp add: GetMinGasPrice_def sort_prices [OF assms(1)] assms(2))

text \<open>The maximum of two price lists as \<open>MaxCoins\<close> returns it.\<close>

definition max_prices :: "coins \<Rightarrow> coins \<Rightarrow> coins" where
  "max_prices a b = map (\<lambda>d. (d, max (amount_of a d) (amount_of b d))) (sorted_list_of_set (fst ` set a \<union> fst ` set b))"

lemma max_prices_facts:
  assumes "price_list x a" and "price_list x b"
  shows "price_list x (max_prices a b)" "sorted (map fst (max_prices a b))"
    "amount_of (max_prices a b) d = max (amount_of a d) (amount_of b d)" "fst ` set (max_prices a b) = fst ` set a \<union> fst ` set b"
proof -
  show keys: "fst ` set (max_prices a b) = fst ` set a \<union> fst ` set b"
    by (simp add: max_prices_def image_image)
  show "price_list x (max_prices a b)" "sorted (map fst (max_prices a b))"
    using assms price_list_amount_nonneg [OF assms(1)]
    by (auto simp: price_list_def max_prices_def comp_def le_max_iff_disj)
  show "amount_of (max_prices a b) d = max (amount_of a d) (amount_of b d)"
  proof (cases "d \<in> fst ` set a \<union> fst ` set b")
    case True
    then show ?thesis
      unfolding max_prices_def by (intro distinct_amount) simp_all
  next
    case False
    then show ?thesis
      using keys by (simp add: amount_of_absent)
  qed
qed

lemma GetTxFeeRequired_exact:
  assumes laws: "fee_laws x" and init: "InitGenesis_fee x p st0 = Inr st"
    and bond: "bond \<noteq> []" "ValidateDenom x bond = Inr ()" and local: "price_list x (MinGasPrices ctx)"
  shows "GetTxFeeRequired x (Inr bond) st ctx
    = Inr (if IsCheckTx ctx then max_prices (GetMinGasPrice x ctx) (global_prices bond p) else global_prices bond p)"
  using MaxCoins_exact [OF laws conjunct1 [OF GetMinGasPrice_amount [OF laws local]] GetGlobalFee_exact(2) [OF laws init bond]]
  by (simp add: GetTxFeeRequired_def GetGlobalFee_exact(1) [OF laws init bond] max_prices_def)

text \<open>The required prices: what they are for each denomination.\<close>

lemma required_prices:
  assumes laws: "fee_laws x" and init: "InitGenesis_fee x p st0 = Inr st"
    and bond: "bond \<noteq> []" "ValidateDenom x bond = Inr ()" and local: "price_list x (MinGasPrices ctx)"
  shows "\<exists>req. GetTxFeeRequired x (Inr bond) st ctx = Inr req \<and> price_list x req \<and> sorted (map fst req)
    \<and> (\<forall>d. amount_of req d =
         (if IsCheckTx ctx then max (amount_of (MinGasPrices ctx) d) (amount_of (MinimumGasPrices p) d)
          else amount_of (MinimumGasPrices p) d))"
proof -
  let ?local = "GetMinGasPrice x ctx" and ?global = "global_prices bond p"
  let ?req = "if IsCheckTx ctx then max_prices ?local ?global else ?global"
  have local': "price_list x ?local" "\<And>d. amount_of ?local d = amount_of (MinGasPrices ctx) d"
    using GetMinGasPrice_amount [OF laws local] by blast+
  note global = GetGlobalFee_exact(2,3) [OF laws init bond]
  have "price_list x ?req" "sorted (map fst ?req)"
    using max_prices_facts(1,2) [OF local'(1) global(1)] global by simp_all
  moreover have "amount_of ?req d =
         (if IsCheckTx ctx then max (amount_of (MinGasPrices ctx) d) (amount_of (MinimumGasPrices p) d)
          else amount_of (MinimumGasPrices p) d)" for d
    using max_prices_facts(3) [OF local'(1) global(1)] local'(2) by simp
  ultimately show ?thesis
    using GetTxFeeRequired_exact [OF laws init bond local] by (intro exI [of _ ?req]) blast
qed

section \<open>An instance\<close>

definition ref_fee :: "string fee_ext" where
  "ref_fee =
     \<lparr>DecCoins_Sort = sort_key fst,
      DecCoins_AmountOf = (\<lambda>cs d. if d = [] then Inl (GoPanic ''denom'') else Inr (amount_of cs d)),
      DecCoins_IsZero = list_all (\<lambda>c. snd c = 0),
      NewDecCoinFromDec = (\<lambda>d a. if d = [] \<or> a < 0 then Inl (GoPanic ''coin'') else Inr (d, a)),
      ValidateDenom = (\<lambda>d. if d = [] then Inl (Plain ''denom'') else Inr ()),
      FeeCoins_IsZero = list_all (\<lambda>c. snd c = 0),
      MsgTypeURL = (\<lambda>m. case m of None \<Rightarrow> ''/'' | Some s \<Rightarrow> CHR ''/'' # s),
      visit_map = rev\<rparr>"

lemma ref_fee_laws: "fee_laws ref_fee"
  by (simp add: fee_laws_def ref_fee_def list_all_iff)

definition demo_fee_params :: fee_params where
  "demo_fee_params = \<lparr>MinimumGasPrices = [(''ux'', 5)], BypassMinFeeMsgTypes = [''/free''], MaxTotalBypassMinFeeMsgGasUsage = 100\<rparr>"

definition demo_fee_state :: fee_state where
  "demo_fee_state = \<lparr>ps_MinGasPrices = Some [(''ux'', 5)], ps_BypassMsgTypes = Some [''/free''], ps_MaxGasUsage = Some 100\<rparr>"

lemma demo_fee_init: "InitGenesis_fee ref_fee demo_fee_params st0 = Inr demo_fee_state"
  by (simp add: InitGenesis_fee_Inr_iff ValidateBasic_fee_params_iff demo_fee_params_def demo_fee_state_def price_list_def
      bypass_ok_def HasPrefix_def ref_fee_def)

section \<open>Properties\<close>

text \<open>\<open>MaxCoins\<close> computes the denomination-wise maximum of two price lists: its result is sorted, has
  one entry for every denomination of either list with the larger of the two amounts (an absent one
  counts as zero), and is the same whatever order Go visits the map of denominations in.\<close>

theorem MaxCoins_is_maximum:
  assumes "fee_laws x" and "price_list x a" and "price_list x b" and "\<And>ds. mset (v ds) = mset ds"
  shows "\<exists>r. MaxCoins x a b = Inr r \<and> MaxCoins (x\<lparr>visit_map := v\<rparr>) a b = Inr r
    \<and> price_list x r \<and> sorted (map fst r) \<and> fst ` set r = fst ` set a \<union> fst ` set b
    \<and> (\<forall>d. amount_of r d = max (amount_of a d) (amount_of b d))"
proof -
  have "fee_laws (x\<lparr>visit_map := v\<rparr>)"
    using assms(1,4) by (simp add: fee_laws_def price_list_def)
  moreover have "price_list (x\<lparr>visit_map := v\<rparr>) c = price_list x c" for c
    by (simp add: price_list_def)
  ultimately have "MaxCoins (x\<lparr>visit_map := v\<rparr>) a b = Inr (max_prices a b)"
    using MaxCoins_exact [of "x\<lparr>visit_map := v\<rparr>" a b] assms(2,3) by (simp add: max_prices_def)
  moreover have "MaxCoins x a b = Inr (max_prices a b)"
    using MaxCoins_exact [OF assms(1-3)] by (simp add: max_prices_def)
  ultimately show ?thesis
    using max_prices_facts [OF assms(2,3)] by auto
qed

theorem MaxCoins_is_maximum_witness:
  "MaxCoins ref_fee [(''b'', 2), (''a'', 1)] [(''c'', 4), (''b'', 3)] = Inr [(''a'', 1), (''b'', 3), (''c'', 4)]
   \<and> (\<exists>r. MaxCoins (ref_fee\<lparr>visit_map := id\<rparr>) [(''b'', 2), (''a'', 1)] [(''c'', 4), (''b'', 3)] = Inr r
        \<and> amount_of r ''b'' = 3)"
proof -
  have run: "MaxCoins ref_fee [(''b'', 2), (''a'', 1)] [(''c'', 4), (''b'', 3)] = Inr [(''a'', 1), (''b'', 3), (''c'', 4)]"
    by (simp add: MaxCoins_def Let_def ref_fee_def max_coin_def less_char_def)
  moreover have "price_list ref_fee [(''b'', 2), (''a'', 1)]" "price_list ref_fee [(''c'', 4), (''b'', 3)]"
    by (simp_all add: price_list_def ref_fee_def)
  ultimately show ?thesis
    using MaxCoins_is_maximum [OF ref_fee_laws, of "[(''b'', 2), (''a'', 1)]" "[(''c'', 4), (''b'', 3)]" id] by auto
qed

text \<open>C30: With parameters imported at genesis, a transaction that is not a bypass one goes on with exactly
  these minimum gas prices: in \<open>DeliverTx\<close> the global ones, in \<open>CheckTx\<close> for every denomination the larger of
  the global and the node's own.  So no node can let a transaction in below the global price, and the
  decorator neither fails nor panics.\<close>

theorem AnteHandle_price:
  assumes laws: "fee_laws x" and init: "InitGenesis_fee x p st0 = Inr st"
    and bond: "bond \<noteq> []" "ValidateDenom x bond = Inr ()" and local: "price_list x (MinGasPrices ctx)"
    and tx: "\<not> ContainsOnlyBypassMinFeeMsgs x st (GetMsgs tx)"
  shows "\<exists>req. AnteHandle x (Inr bond) st ctx (FeeTx tx) False next = next (ctx\<lparr>MinGasPrices := req\<rparr>) (FeeTx tx) False
    \<and> price_list x req \<and> sorted (map fst req)
    \<and> (\<forall>d. amount_of req d =
         (if IsCheckTx ctx then max (amount_of (MinGasPrices ctx) d) (amount_of (MinimumGasPrices p) d)
          else amount_of (MinimumGasPrices p) d))"
proof -
  obtain req where "GetTxFeeRequired x (Inr bond) st ctx = Inr req" "price_list x req" "sorted (map fst req)"
    "\<And>d. amount_of req d =
         (if IsCheckTx ctx then max (amount_of (MinGasPrices ctx) d) (amount_of (MinimumGasPrices p) d)
          else amount_of (MinimumGasPrices p) d)"
    using required_prices [OF laws init bond local] by blast
  then show ?thesis
    by (intro exI [of _ req]) (simp add: AnteHandle_def tx)
qed

theorem AnteHandle_price_witness:
  "\<exists>req. AnteHandle ref_fee (Inr ''ux'') demo_fee_state \<lparr>MinGasPrices = [(''ux'', 7)], IsCheckTx = True\<rparr>
       (FeeTx \<lparr>GetMsgs = [''send''], GetGas = 10, GetFee = []\<rparr>) False (\<lambda>ctx _ _. Inr (MinGasPrices ctx)) = Inr req
     \<and> amount_of req ''ux'' = 7"
proof -
  have "\<not> ContainsOnlyBypassMinFeeMsgs ref_fee demo_fee_state [''send'']"
    by (simp add: ContainsOnlyBypassMinFeeMsgs_def GetBypassMsgTypes_def demo_fee_state_def ref_fee_def)
  moreover have "price_list ref_fee [(''ux'', 7)]" "ValidateDenom ref_fee ''ux'' = Inr ()"
    by (simp_all add: price_list_def ref_fee_def)
  ultimately show ?thesis
    using AnteHandle_price [OF ref_fee_laws demo_fee_init, of "''ux''"
        "\<lparr>MinGasPrices = [(''ux'', 7)], IsCheckTx = True\<rparr>" "\<lparr>GetMsgs = [''send''], GetGas = 10, GetFee = []\<rparr>"
        "\<lambda>ctx _ _. Inr (MinGasPrices ctx)"]
    by (auto simp: demo_fee_params_def)
qed

text \<open>C31: A transaction of bypass messages only is refused exactly when its gas limit is above the bypass
  maximum (outright: a sufficient fee does not help it, unlike what the tests of the decorator
  describe), or when it carries a fee in a denomination without a global price while some global price
  is positive; otherwise it goes on, without minimum prices if it carries no fee and with the node's
  own prices if it does.\<close>

theorem AnteHandle_bypass:
  assumes laws: "fee_laws x" and init: "InitGenesis_fee x p st0 = Inr st"
    and bond: "bond \<noteq> []" "ValidateDenom x bond = Inr ()"
    and tx: "ContainsOnlyBypassMinFeeMsgs x st (GetMsgs tx)"
  shows "AnteHandle x (Inr bond) st ctx (FeeTx tx) False next =
    (if unat (GetGas tx) > unat (MaxTotalBypassMinFeeMsgGasUsage p) then Inl (SdkErr ''ErrInsufficientFee'')
     else if \<not> FeeCoins_IsZero x (GetFee tx) \<and> (\<exists>c \<in> set (MinimumGasPrices p). 0 < snd c)
             \<and> \<not> fst ` set (GetFee tx) \<subseteq> fst ` set (MinimumGasPrices p)
     then Inl (SdkErr ''ErrInvalidCoins'')
     else if FeeCoins_IsZero x (GetFee tx) \<and> (\<exists>c \<in> set (MinGasPrices ctx). snd c \<noteq> 0)
     then next (ctx\<lparr>MinGasPrices := []\<rparr>) (FeeTx tx) False
     else next ctx (FeeTx tx) False)"
proof -
  have p: "price_list x (MinimumGasPrices p)" and gas: "GetMaxTotalBypassMinFeeMsgGasUsage st = MaxTotalBypassMinFeeMsgGasUsage p"
    using init by (simp_all add: InitGenesis_fee_Inr_iff ValidateBasic_fee_params_iff GetMaxTotalBypassMinFeeMsgGasUsage_def)
  have priced: "DecCoins_IsZero x (global_prices bond p) \<longleftrightarrow> \<not> (\<exists>c \<in> set (MinimumGasPrices p). 0 < snd c)"
    using p by (force simp: fee_laws_zero [OF laws] global_prices_def price_list_def)
  have ex: "list_ex (\<lambda>g. d = fst g) gs \<longleftrightarrow> d \<in> fst ` set gs" for d and gs :: coins
    by (auto simp: list_ex_iff)
  have denoms: "for_each fees (\<lambda>feeCoin. ensure (list_ex (\<lambda>globalFee. fst feeCoin = fst globalFee) gs) e)
      = (if fst ` set fees \<subseteq> fst ` set gs then Inr () else Inl e)" for fees gs :: coins and e
    by (induction fees) (simp_all add: ex ensure_def)
  have fees: "bypass_denoms_ok x (Inr bond) st (GetFee tx) =
    (if \<not> FeeCoins_IsZero x (GetFee tx) \<and> (\<exists>c \<in> set (MinimumGasPrices p). 0 < snd c)
        \<and> \<not> fst ` set (GetFee tx) \<subseteq> fst ` set (MinimumGasPrices p)
     then Inl (SdkErr ''ErrInvalidCoins'') else Inr ())"
    unfolding bypass_denoms_ok_def GetGlobalFee_exact(1) [OF laws init bond] denoms bindr.simps priced
    by (auto simp: global_prices_def)
  show ?thesis
    by (simp add: AnteHandle_def tx gas fees word_less_nat_alt fee_laws_zero [OF laws])
qed

theorem AnteHandle_bypass_witness:
  "AnteHandle ref_fee (Inr ''ux'') demo_fee_state \<lparr>MinGasPrices = [(''ux'', 7)], IsCheckTx = True\<rparr>
     (FeeTx \<lparr>GetMsgs = [''free''], GetGas = 10, GetFee = []\<rparr>) False (\<lambda>ctx _ _. Inr (MinGasPrices ctx)) = Inr []
   \<and> AnteHandle ref_fee (Inr ''ux'') demo_fee_state \<lparr>MinGasPrices = [], IsCheckTx = True\<rparr>
     (FeeTx \<lparr>GetMsgs = [''free''], GetGas = 10, GetFee = [(''z'', 1)]\<rparr>) False (\<lambda>ctx _ _. Inr (MinGasPrices ctx))
     = Inl (SdkErr ''ErrInvalidCoins'')"
proof -
  have "ContainsOnlyBypassMinFeeMsgs ref_fee demo_fee_state [''free'']" "ValidateDenom ref_fee ''ux'' = Inr ()"
    "FeeCoins_IsZero ref_fee []" "\<not> FeeCoins_IsZero ref_fee [(''z'', 1)]"
    by (simp_all add: ContainsOnlyBypassMinFeeMsgs_def GetBypassMsgTypes_def demo_fee_state_def ref_fee_def)
  then show ?thesis
    by (subst (1 2) AnteHandle_bypass [OF ref_fee_laws demo_fee_init]) (simp_all add: demo_fee_params_def)
qed

text \<open>\<open>CombinedFeeRequirement\<close>, with its binary search, prices exactly the global denominations, each at
  the larger of the global and the local amount; a denomination only the node prices is left out.\<close>

theorem CombinedFeeRequirement_exact:
  assumes "fee_laws x" and "price_list x g" and "price_list x l" and "g \<noteq> []" and "l \<noteq> []"
  shows "\<exists>r. CombinedFeeRequirement x g l = Inr r \<and> sorted (map fst r) \<and> fst ` set r = fst ` set g
    \<and> (\<forall>d \<in> fst ` set g. amount_of r d = max (amount_of g d) (amount_of l d))"
proof -
  let ?r = "map (\<lambda>d. (d, max (amount_of g d) (amount_of l d))) (sorted_list_of_set (fst ` set g))"
  have "amount_of ?r d = max (amount_of g d) (amount_of l d)" if "d \<in> fst ` set g" for d
    using that by (intro distinct_amount) simp_all
  moreover have "sorted (map fst ?r)" "fst ` set ?r = fst ` set g"
    by (simp_all add: comp_def image_image)
  ultimately show ?thesis
    using CombinedFeeRequirement_prices [OF assms(1,2,4,3,5)] by (intro exI [of _ ?r]) blast
qed

theorem CombinedFeeRequirement_exact_witness:
  "\<exists>r. CombinedFeeRequirement ref_fee [(''a'', 1), (''b'', 2)] [(''b'', 3), (''c'', 4)] = Inr r
     \<and> fst ` set r = {''a'', ''b''} \<and> amount_of r ''b'' = 3"
proof -
  have "price_list ref_fee [(''a'', 1), (''b'', 2)]" "price_list ref_fee [(''b'', 3), (''c'', 4)]"
    by (simp_all add: price_list_def ref_fee_def)
  then show ?thesis
    using CombinedFeeRequirement_exact [OF ref_fee_laws, of "[(''a'', 1), (''b'', 2)]" "[(''b'', 3), (''c'', 4)]"] by auto
qed

end
