(* ===== verification/Webauthn.thy ===== *)
theory Webauthn
  imports Xion_Platform
begin

text \<open>
  The WebAuthn queries of \<open>x/xion\<close> (\<open>types/webauthn.go\<close>, \<open>keeper/grpc_query.go\<close>).  The WebAuthn
  library and the decoders the queries hand their payload to (URL, JSON, CBOR, X.509) are the
  record \<open>webauthn_ext\<close>, an argument of every operation; each of its fields may fail and may
  panic.  Times are nanoseconds since Go's zero time.  The last section has what the operations
  guarantee whatever these decoders do.
\<close>

section \<open>Data\<close>

text \<open>A value of a decoded attestation statement (\<open>map[string]interface{}\<close>).\<close>

datatype att_value =
    AttText string
  | AttBytes bytes
  | AttList "att_value list"
  | AttOther

type_synonym att_statement = "(string \<times> att_value) list"

text \<open>
  A parsed registration: the attestation format and statement (\<open>None\<close> is the nil map), the raw
  client data, and what only the library reads.
\<close>

record 'p parsed_creation =
  pc_Format :: string
  pc_AttStatement :: "att_statement option"
  pc_ClientDataJSON :: bytes
  pc_rest :: 'p

record rp_url =
  url_Host :: string
  url_String :: string

record certificate =
  NotBefore :: int
  NotAfter :: int

record webauthn_config =
  RPID :: string
  RPDisplayName :: string
  RPOrigins :: "string list"
  RPTopOrigins :: "string list"
  RPTopOriginVerificationMode :: string
  AttestationPreference :: string
  AS_UserVerification :: string
  AS_ResidentKey :: string

datatype cose_alg = AlgES256K | AlgES256 | AlgEdDSA | AlgRS256

record session_data =
  sd_Challenge :: string
  sd_UserID :: bytes
  sd_UserVerification :: string
  sd_RelyingPartyID :: string
  sd_Expires :: int
  sd_CredParams :: "(string \<times> cose_alg) list"
  sd_AllowedCredentialIDs :: "bytes list"

text \<open>The pointer \<open>Credential\<close> is nil during a registration.\<close>

record 'c SmartContractUser =
  scu_Address :: string
  scu_Credential :: "'c option"

definition WebAuthnID :: "'c SmartContractUser \<Rightarrow> bytes" where
  "WebAuthnID s = scu_Address s"

definition WebAuthnName :: "'c SmartContractUser \<Rightarrow> string" where
  "WebAuthnName s = scu_Address s"

definition WebAuthnDisplayName :: "'c SmartContractUser \<Rightarrow> string" where
  "WebAuthnDisplayName s = WebAuthnName s"

definition WebAuthnCredentials :: "'c SmartContractUser \<Rightarrow> 'c list result" where
  "WebAuthnCredentials s =
     (case scu_Credential s of None \<Rightarrow> Inl (GoPanic ''nil pointer dereference'') | Some c \<Rightarrow> Inr [c])"

definition WebAuthnIcon :: "'c SmartContractUser \<Rightarrow> string" where
  "WebAuthnIcon s = ''''"

record ('p, 'a, 'c) webauthn_ext =
  wx_url_Parse :: "string \<Rightarrow> rp_url result"
  wx_New :: "webauthn_config \<Rightarrow> webauthn_config result"
  wx_Verify :: "'p parsed_creation \<Rightarrow> string \<Rightarrow> bool \<Rightarrow> bool \<Rightarrow> string \<Rightarrow> string list \<Rightarrow> string list
    \<Rightarrow> string \<Rightarrow> (string \<times> cose_alg) list \<Rightarrow> unit result"
  wx_Sum256 :: "bytes \<Rightarrow> bytes"
  wx_NewCredential :: "bytes \<Rightarrow> 'p parsed_creation \<Rightarrow> 'c result"
  wx_ValidateLogin :: "webauthn_config \<Rightarrow> 'c SmartContractUser \<Rightarrow> session_data \<Rightarrow> 'a \<Rightarrow> 'c result"
  wx_CredentialID :: "'c \<Rightarrow> bytes"
  wx_ParseCertificate :: "bytes \<Rightarrow> certificate result"
  wx_ParseCreation :: "bytes \<Rightarrow> 'p parsed_creation result"
  wx_ParseRequest :: "bytes \<Rightarrow> 'a result"
  wx_DecodeCreation :: "bytes \<Rightarrow> (bytes \<times> bytes) result"
  wx_DecodeClientData :: "bytes \<Rightarrow> unit result"
  wx_DecodeAttestation :: "bytes \<Rightarrow> bytes result"
  wx_DecodeAssertion :: "bytes \<Rightarrow> bytes result"
  wx_UnmarshalCredential :: "bytes \<Rightarrow> 'c result"
  wx_MarshalCredential :: "'c \<Rightarrow> bytes result"
  wx_HasExtensions :: "char \<Rightarrow> bool"

definition attestationFormatNone :: string where
  "attestationFormatNone = ''none''"

definition MaxWebAuthDataSize :: nat where
  "MaxWebAuthDataSize = 64 * 1024"

section \<open>Certificates at block time\<close>

definition ErrInvalidAttestation :: go_error where
  "ErrInvalidAttestation = External ''invalid_attestation''"

definition ErrBadRequest :: go_error where
  "ErrBadRequest = External ''invalid_request''"

text \<open>One entry of \<open>x5c\<close>; an entry that is not a byte string is passed over.\<close>

fun check_x5c_entry :: "('p, 'a, 'c) webauthn_ext \<Rightarrow> int \<Rightarrow> att_value \<Rightarrow> unit result" where
  "check_x5c_entry x blockTime (AttBytes b) =
     bindr (wrap_as ErrInvalidAttestation (wx_ParseCertificate x b)) (\<lambda>cert.
     ensure (\<not> (blockTime < NotBefore cert \<or> blockTime > NotAfter cert)) ErrInvalidAttestation)"
| "check_x5c_entry x blockTime _ = Inr ()"

definition validateCertificatesWithBlockTime ::
  "('p, 'a, 'c) webauthn_ext \<Rightarrow> 'p parsed_creation \<Rightarrow> int \<Rightarrow> unit result" where
  "validateCertificatesWithBlockTime x parsedResponse blockTime =
     (case pc_AttStatement parsedResponse of
        None \<Rightarrow> Inr ()
      | Some attStmt \<Rightarrow>
          if pc_Format parsedResponse = attestationFormatNone then Inr ()
          else if map_of attStmt ''fmt'' = Some (AttText attestationFormatNone) then Inr ()
          else (case map_of attStmt ''x5c'' of
                  Some (AttList certs) \<Rightarrow> for_each certs (check_x5c_entry x blockTime)
                | _ \<Rightarrow> Inr ()))"

section \<open>Registration and authentication (types/webauthn.go)\<close>

text \<open>The statement is dropped and the format set to none before the library sees the response.\<close>

definition strip_attestation :: "'p parsed_creation \<Rightarrow> 'p parsed_creation" where
  "strip_attestation p = p\<lparr> pc_AttStatement := None, pc_Format := attestationFormatNone \<rparr>"

definition CreateCredential ::
  "('p, 'a, 'c) webauthn_ext \<Rightarrow> webauthn_config \<Rightarrow> int \<Rightarrow> 'c SmartContractUser \<Rightarrow> session_data
     \<Rightarrow> 'p parsed_creation \<Rightarrow> 'c result" where
  "CreateCredential x cfg blockTime user session parsedResponse =
     bindr (ensure (WebAuthnID user = sd_UserID session) ErrBadRequest) (\<lambda>_.
     bindr (ensure (\<not> (sd_Expires session \<noteq> 0 \<and> sd_Expires session < blockTime)) ErrBadRequest) (\<lambda>_.
     let shouldVerifyUser = (sd_UserVerification session = ''required'') in
     bindr (validateCertificatesWithBlockTime x parsedResponse blockTime) (\<lambda>_.
     let parsedResponse = strip_attestation parsedResponse in
     bindr (wx_Verify x parsedResponse (sd_Challenge session) shouldVerifyUser False (RPID cfg)
              (RPOrigins cfg) (RPTopOrigins cfg) (RPTopOriginVerificationMode cfg)
              (sd_CredParams session)) (\<lambda>_.
     wx_NewCredential x (wx_Sum256 x (pc_ClientDataJSON parsedResponse)) parsedResponse))))"

definition registration_config :: "rp_url \<Rightarrow> webauthn_config" where
  "registration_config rp =
     \<lparr> RPID = url_Host rp, RPDisplayName = url_String rp, RPOrigins = [url_String rp],
       RPTopOrigins = [url_String rp], RPTopOriginVerificationMode = ''ignore'',
       AttestationPreference = ''none'', AS_UserVerification = ''preferred'',
       AS_ResidentKey = ''preferred'' \<rparr>"

definition registration_session :: "rp_url \<Rightarrow> 'c SmartContractUser \<Rightarrow> string \<Rightarrow> session_data" where
  "registration_session rp user challenge =
     \<lparr> sd_Challenge = challenge, sd_UserID = WebAuthnID user, sd_UserVerification = ''preferred'',
       sd_RelyingPartyID = url_Host rp, sd_Expires = 0,
       sd_CredParams = [(''public-key'', AlgES256K), (''public-key'', AlgES256),
                        (''public-key'', AlgEdDSA), (''public-key'', AlgRS256)],
       sd_AllowedCredentialIDs = [] \<rparr>"

definition VerifyRegistration ::
  "('p, 'a, 'c) webauthn_ext \<Rightarrow> int \<Rightarrow> rp_url \<Rightarrow> string \<Rightarrow> string \<Rightarrow> 'p parsed_creation \<Rightarrow> 'c result" where
  "VerifyRegistration x blockTime rp contractAddr challenge credentialCreationData =
     bindr (wx_New x (registration_config rp)) (\<lambda>cfg.
     let smartContractUser = \<lparr> scu_Address = contractAddr, scu_Credential = None \<rparr> in
     CreateCredential x cfg blockTime smartContractUser
       (registration_session rp smartContractUser challenge) credentialCreationData)"

definition authentication_config :: "rp_url \<Rightarrow> webauthn_config" where
  "authentication_config rp =
     \<lparr> RPID = url_Host rp, RPDisplayName = url_String rp, RPOrigins = [url_String rp],
       RPTopOrigins = [], RPTopOriginVerificationMode = '''', AttestationPreference = '''',
       AS_UserVerification = '''', AS_ResidentKey = '''' \<rparr>"

definition authentication_session :: "'c SmartContractUser \<Rightarrow> string \<Rightarrow> bytes \<Rightarrow> session_data" where
  "authentication_session user challenge credID =
     \<lparr> sd_Challenge = challenge, sd_UserID = WebAuthnID user, sd_UserVerification = ''preferred'',
       sd_RelyingPartyID = '''', sd_Expires = 0, sd_CredParams = [],
       sd_AllowedCredentialIDs = [credID] \<rparr>"

definition VerifyAuthentication ::
  "('p, 'a, 'c) webauthn_ext \<Rightarrow> rp_url \<Rightarrow> string \<Rightarrow> string \<Rightarrow> 'c \<Rightarrow> 'a \<Rightarrow> bool result" where
  "VerifyAuthentication x rp contractAddr challenge credential credentialAssertionData =
     bindr (wx_New x (authentication_config rp)) (\<lambda>cfg.
     let smartContractUser = \<lparr> scu_Address = contractAddr, scu_Credential = Some credential \<rparr> in
     bindr (wx_ValidateLogin x cfg smartContractUser
              (authentication_session smartContractUser challenge (wx_CredentialID x credential))
              credentialAssertionData) (\<lambda>_.
     Inr True))"

section \<open>Queries (keeper/grpc_query.go)\<close>

record QueryWebAuthNVerifyRegisterRequest =
  wr_Addr :: string
  wr_Challenge :: string
  wr_Rp :: string
  wr_Data :: bytes

record QueryWebAuthNVerifyAuthenticateRequest =
  wa_Addr :: string
  wa_Challenge :: string
  wa_Rp :: string
  wa_Credential :: bytes
  wa_Data :: bytes

text \<open>
  The check of the authenticator data: relying party hash, flags and counter are sliced off the
  first 37 bytes; \<open>remaining\<close> and the length are Go ints.
\<close>

definition validateAttestation :: "('p, 'a, 'c) webauthn_ext \<Rightarrow> bytes \<Rightarrow> unit result" where
  "validateAttestation x rawAuthData =
     (let minAuthDataLength = 37 in
      bindr (ensure (\<not> minAuthDataLength > length rawAuthData)
               (Plain ''expected data greater than 37 bytes'')) (\<lambda>_.
      bindr (go_slice rawAuthData 0 32) (\<lambda>rpIDHash.
      bindr (go_index rawAuthData 32) (\<lambda>flags.
      bindr (go_slice rawAuthData 33 37) (\<lambda>counter.
      let remaining = int (length rawAuthData) - int minAuthDataLength in
      if wx_HasExtensions x flags
      then ensure (\<not> (remaining \<noteq> 0 \<and> int (length rawAuthData) - remaining > int (length rawAuthData)))
             (Plain ''raw auth data seems to be malformed'')
      else Inr ())))))"

definition validateCredentialCreation :: "('p, 'a, 'c) webauthn_ext \<Rightarrow> bytes \<Rightarrow> unit result" where
  "validateCredentialCreation x body =
     bindr (wx_DecodeCreation x body) (\<lambda>(clientDataJSON, attestationObject).
     bindr (wx_DecodeClientData x clientDataJSON) (\<lambda>_.
     bindr (wx_DecodeAttestation x attestationObject) (\<lambda>rawAuthData.
     validateAttestation x rawAuthData)))"

definition validateCredentialRequest :: "('p, 'a, 'c) webauthn_ext \<Rightarrow> bytes \<Rightarrow> unit result" where
  "validateCredentialRequest x body =
     bindr (wx_DecodeAssertion x body) (\<lambda>authenticatorData.
     validateAttestation x authenticatorData)"

definition WebAuthNVerifyRegister ::
  "('p, 'a, 'c) webauthn_ext \<Rightarrow> int \<Rightarrow> QueryWebAuthNVerifyRegisterRequest \<Rightarrow> bytes result" where
  "WebAuthNVerifyRegister x blockTime request =
     (if length (wr_Data request) > MaxWebAuthDataSize then Inl ErrWebAuthDataTooLarge
      else recover_as ErrNoValidWebAuth (
        bindr (wx_url_Parse x (wr_Rp request)) (\<lambda>rp.
        bindr (wrap_as ErrNoValidWebAuth (validateCredentialCreation x (wr_Data request))) (\<lambda>_.
        bindr (wrap_as ErrNoValidWebAuth (wx_ParseCreation x (wr_Data request))) (\<lambda>data.
        bindr (wrap_as ErrNoValidWebAuth
                 (VerifyRegistration x blockTime rp (wr_Addr request) (wr_Challenge request) data)) (\<lambda>credential.
        wx_MarshalCredential x credential))))))"

definition WebAuthNVerifyAuthenticate ::
  "('p, 'a, 'c) webauthn_ext \<Rightarrow> QueryWebAuthNVerifyAuthenticateRequest \<Rightarrow> unit result" where
  "WebAuthNVerifyAuthenticate x request =
     (if length (wa_Data request) > MaxWebAuthDataSize then Inl ErrWebAuthDataTooLarge
      else if length (wa_Credential request) > MaxWebAuthDataSize then Inl ErrWebAuthDataTooLarge
      else recover_as ErrNoValidWebAuth (
        bindr (wx_url_Parse x (wa_Rp request)) (\<lambda>rp.
        bindr (wrap_as ErrNoValidWebAuth (validateCredentialRequest x (wa_Data request))) (\<lambda>_.
        bindr (wrap_as ErrNoValidWebAuth (wx_ParseRequest x (wa_Data request))) (\<lambda>data.
        bindr (wx_UnmarshalCredential x (wa_Credential request)) (\<lambda>credential.
        bindr (VerifyAuthentication x rp (wa_Addr request) (wa_Challenge request) credential data) (\<lambda>_.
        Inr ())))))))"

definition query_PlatformPercentage :: "'b xion_state \<Rightarrow> u64 result" where
  "query_PlatformPercentage st =
     (let p = GetPlatformPercentage st in
      if 0 \<le> p \<and> p \<le> MaxUint64 then Inr (word_of_int p) else Inl (GoPanic ''Uint64() out of bounds''))"

definition query_PlatformMinimum :: "'b xion_state \<Rightarrow> coins result" where
  "query_PlatformMinimum st = Inr (GetPlatformMinimums st)"

section \<open>What the queries guarantee\<close>

text \<open>
  The certificates of a response at a block time: there is no statement, or the response says it
  has no attestation, or every byte string of \<open>x5c\<close> is a certificate that is valid then.
\<close>

definition certificates_valid :: "('p, 'a, 'c) webauthn_ext \<Rightarrow> 'p parsed_creation \<Rightarrow> int \<Rightarrow> bool" where
  "certificates_valid x p t \<longleftrightarrow>
     (case pc_AttStatement p of
        None \<Rightarrow> True
      | Some stmt \<Rightarrow>
          pc_Format p = ''none'' \<or> map_of stmt ''fmt'' = Some (AttText ''none'')
          \<or> (\<forall>certs b. map_of stmt ''x5c'' = Some (AttList certs) \<and> AttBytes b \<in> set certs \<longrightarrow>
               (\<exists>c. wx_ParseCertificate x b = Inr c \<and> NotBefore c \<le> t \<and> t \<le> NotAfter c)))"

text \<open>The authenticator data a payload carries.\<close>

definition creation_auth_data :: "('p, 'a, 'c) webauthn_ext \<Rightarrow> bytes \<Rightarrow> bytes \<Rightarrow> bool" where
  "creation_auth_data x body raw \<longleftrightarrow>
     (\<exists>cd att. wx_DecodeCreation x body = Inr (cd, att) \<and> wx_DecodeClientData x cd = Inr ()
        \<and> wx_DecodeAttestation x att = Inr raw)"

lemma validateAttestation_exact:
  "validateAttestation x raw =
     (if 37 \<le> length raw then Inr () else Inl (Plain ''expected data greater than 37 bytes''))"
  by (simp add: validateAttestation_def Let_def)

lemma check_x5c_entry_iff:
  "check_x5c_entry x t v = Inr () \<longleftrightarrow>
     (\<forall>b. v = AttBytes b \<longrightarrow> (\<exists>c. wx_ParseCertificate x b = Inr c \<and> NotBefore c \<le> t \<and> t \<le> NotAfter c))"
  by (cases v) (auto simp: not_less)

lemma validateCertificates_iff:
  "validateCertificatesWithBlockTime x p t = Inr () \<longleftrightarrow> certificates_valid x p t"
  by (auto simp: validateCertificatesWithBlockTime_def certificates_valid_def attestationFormatNone_def
      check_x5c_entry_iff split: option.splits att_value.splits)

lemma validateCredentialCreation_iff:
  "validateCredentialCreation x body = Inr () \<longleftrightarrow> (\<exists>raw. creation_auth_data x body raw \<and> 37 \<le> length raw)"
  by (auto simp: validateCredentialCreation_def creation_auth_data_def validateAttestation_exact)

lemma validateCredentialRequest_iff:
  "validateCredentialRequest x body = Inr () \<longleftrightarrow> (\<exists>raw. wx_DecodeAssertion x body = Inr raw \<and> 37 \<le> length raw)"
  by (auto simp: validateCredentialRequest_def validateAttestation_exact)

text \<open>What the library is asked to verify in a registration, after the statement is stripped.\<close>

definition registered ::
  "('p, 'a, 'c) webauthn_ext \<Rightarrow> rp_url \<Rightarrow> string \<Rightarrow> 'p parsed_creation \<Rightarrow> 'c \<Rightarrow> bool" where
  "registered x rp challenge p cred \<longleftrightarrow>
     (\<exists>cfg. wx_New x (registration_config rp) = Inr cfg
        \<and> wx_Verify x p challenge False False (RPID cfg) (RPOrigins cfg) (RPTopOrigins cfg)
            (RPTopOriginVerificationMode cfg)
            [(''public-key'', AlgES256K), (''public-key'', AlgES256), (''public-key'', AlgEdDSA),
             (''public-key'', AlgRS256)] = Inr ()
        \<and> wx_NewCredential x (wx_Sum256 x (pc_ClientDataJSON p)) p = Inr cred)"

lemma VerifyRegistration_bindr:
  "VerifyRegistration x t rp addr challenge p =
     bindr (wx_New x (registration_config rp)) (\<lambda>cfg.
     bindr (validateCertificatesWithBlockTime x p t) (\<lambda>_.
     bindr (wx_Verify x (strip_attestation p) challenge False False (RPID cfg) (RPOrigins cfg)
       (RPTopOrigins cfg) (RPTopOriginVerificationMode cfg)
       [(''public-key'', AlgES256K), (''public-key'', AlgES256), (''public-key'', AlgEdDSA),
        (''public-key'', AlgRS256)]) (\<lambda>_.
     wx_NewCredential x (wx_Sum256 x (pc_ClientDataJSON (strip_attestation p))) (strip_attestation p))))"
  by (simp add: VerifyRegistration_def CreateCredential_def registration_session_def Let_def)

lemma VerifyRegistration_Inr_iff:
  "VerifyRegistration x t rp addr challenge p = Inr cred \<longleftrightarrow>
     certificates_valid x p t \<and> registered x rp challenge (strip_attestation p) cred"
  by (auto simp: VerifyRegistration_bindr registered_def
      simp flip: validateCertificates_iff)

text \<open>
  A concrete library for the examples: a payload is its own client data, attestation object and
  authenticator data; a registration carries one certificate, valid from 10 to 20; the login is
  accepted when the assertion repeats the challenge.
\<close>

definition demo_creation :: "bytes \<Rightarrow> unit parsed_creation" where
  "demo_creation b =
     \<lparr> pc_Format = ''packed'', pc_AttStatement = Some [(''x5c'', AttList [AttBytes ''cert''])],
       pc_ClientDataJSON = b, pc_rest = () \<rparr>"

definition demo_wx :: "(unit, bytes, bytes) webauthn_ext" where
  "demo_wx =
     \<lparr> wx_url_Parse = (\<lambda>s. Inr \<lparr> url_Host = s, url_String = s \<rparr>),
       wx_New = Inr,
       wx_Verify = (\<lambda>p ch _ _ _ _ _ _ _. if pc_AttStatement p = None then Inr () else Inl (GoPanic ''network'')),
       wx_Sum256 = id,
       wx_NewCredential = (\<lambda>h p. Inr h),
       wx_ValidateLogin = (\<lambda>cfg u s a. if take 1 a = take 1 (sd_Challenge s) then Inr a else Inl (External ''challenge'')),
       wx_CredentialID = id,
       wx_ParseCertificate = (\<lambda>b. Inr \<lparr> NotBefore = 10, NotAfter = 20 \<rparr>),
       wx_ParseCreation = (\<lambda>b. Inr (demo_creation b)),
       wx_ParseRequest = Inr,
       wx_DecodeCreation = (\<lambda>b. Inr (b, b)),
       wx_DecodeClientData = (\<lambda>b. Inr ()),
       wx_DecodeAttestation = Inr,
       wx_DecodeAssertion = Inr,
       wx_UnmarshalCredential = Inr,
       wx_MarshalCredential = Inr,
       wx_HasExtensions = (\<lambda>c. c = CHR ''x'') \<rparr>"

lemma demo_wx_simps [simp]:
  "wx_url_Parse demo_wx s = Inr \<lparr> url_Host = s, url_String = s \<rparr>"
  "wx_New demo_wx cfg = Inr cfg"
  "wx_Verify demo_wx p ch b1 b2 i os ts m cs = (if pc_AttStatement p = None then Inr () else Inl (GoPanic ''network''))"
  "wx_Sum256 demo_wx d = d"
  "wx_NewCredential demo_wx h p = Inr h"
  "wx_ParseCertificate demo_wx d = Inr \<lparr> NotBefore = 10, NotAfter = 20 \<rparr>"
  "wx_ParseCreation demo_wx d = Inr (demo_creation d)"
  "wx_DecodeCreation demo_wx d = Inr (d, d)"
  "wx_DecodeClientData demo_wx d = Inr ()"
  "wx_DecodeAttestation demo_wx d = Inr d"
  "wx_MarshalCredential demo_wx d = Inr d"
  by (simp_all add: demo_wx_def)

text \<open>C32: A registration query answers with \<open>bz\<close> exactly when the payload is at most 64 KB, carries at
  least 37 bytes of authenticator data and parses, its certificates are valid at the block time,
  and the library accepts the response, stripped of its attestation statement, for the request's
  challenge and relying party; \<open>bz\<close> is then the encoding of the credential made from it.
\<close>

theorem WebAuthNVerifyRegister_exact:
  "WebAuthNVerifyRegister x t req = Inr bz \<longleftrightarrow>
     length (wr_Data req) \<le> 65536
     \<and> (\<exists>rp raw p cred.
          wx_url_Parse x (wr_Rp req) = Inr rp
          \<and> creation_auth_data x (wr_Data req) raw \<and> 37 \<le> length raw
          \<and> wx_ParseCreation x (wr_Data req) = Inr p
          \<and> certificates_valid x p t
          \<and> registered x rp (wr_Challenge req) (strip_attestation p) cred
          \<and> wx_MarshalCredential x cred = Inr bz)"
  by (auto simp: WebAuthNVerifyRegister_def MaxWebAuthDataSize_def validateCredentialCreation_iff
      VerifyRegistration_Inr_iff not_less)

text \<open>An authentication query succeeds exactly when both payloads are at most 64 KB, the assertion
  carries at least 37 bytes of authenticator data and parses, the credential decodes, and the
  library accepts the login of the user that has the given address and this credential alone, for
  the request's challenge and relying party and no other allowed credential.
\<close>

theorem WebAuthNVerifyAuthenticate_exact:
  "WebAuthNVerifyAuthenticate x req = Inr () \<longleftrightarrow>
     length (wa_Data req) \<le> 65536 \<and> length (wa_Credential req) \<le> 65536
     \<and> (\<exists>rp raw data cred cfg c.
          wx_url_Parse x (wa_Rp req) = Inr rp
          \<and> wx_DecodeAssertion x (wa_Data req) = Inr raw \<and> 37 \<le> length raw
          \<and> wx_ParseRequest x (wa_Data req) = Inr data
          \<and> wx_UnmarshalCredential x (wa_Credential req) = Inr cred
          \<and> wx_New x (authentication_config rp) = Inr cfg
          \<and> wx_ValidateLogin x cfg \<lparr> scu_Address = wa_Addr req, scu_Credential = Some cred \<rparr>
              \<lparr> sd_Challenge = wa_Challenge req, sd_UserID = wa_Addr req,
                sd_UserVerification = ''preferred'', sd_RelyingPartyID = '''', sd_Expires = 0,
                sd_CredParams = [], sd_AllowedCredentialIDs = [wx_CredentialID x cred] \<rparr> data = Inr c)"
  by (auto simp: WebAuthNVerifyAuthenticate_def MaxWebAuthDataSize_def validateCredentialRequest_iff
      VerifyAuthentication_def authentication_session_def WebAuthnID_def Let_def not_less)

text \<open>Whatever the library and the decoders do, a panic included, neither query panics, and a
  payload of more than 64 KB is refused with \<open>ErrWebAuthDataTooLarge\<close> before any of them runs: the
  answer is the same for any two libraries.
\<close>

theorem webauthn_queries_never_panic:
  assumes "65536 < length (wr_Data big)"
    and "65536 < length (wa_Data huge) \<or> 65536 < length (wa_Credential huge)"
  shows "\<not> is_panic (WebAuthNVerifyRegister x t req) \<and> \<not> is_panic (WebAuthNVerifyAuthenticate x areq)
    \<and> WebAuthNVerifyRegister x t big = Inl ErrWebAuthDataTooLarge
    \<and> WebAuthNVerifyAuthenticate x huge = Inl ErrWebAuthDataTooLarge"
  using assms
  by (auto simp: WebAuthNVerifyRegister_def WebAuthNVerifyAuthenticate_def MaxWebAuthDataSize_def
      xion_error_defs intro!: recover_as_not_panic)

theorem webauthn_queries_never_panic_witness:
  "\<not> is_panic (WebAuthNVerifyRegister demo_wx 5
      \<lparr> wr_Addr = ''a'', wr_Challenge = ''c'', wr_Rp = ''r'', wr_Data = ''short'' \<rparr>)
   \<and> WebAuthNVerifyRegister demo_wx 5
       \<lparr> wr_Addr = ''a'', wr_Challenge = ''c'', wr_Rp = ''r'', wr_Data = replicate 65537 CHR ''x'' \<rparr>
     = Inl ErrWebAuthDataTooLarge"
  using webauthn_queries_never_panic
    [of "\<lparr> wr_Addr = ''a'', wr_Challenge = ''c'', wr_Rp = ''r'', wr_Data = replicate 65537 CHR ''x'' \<rparr>"
        "\<lparr> wa_Addr = ''a'', wa_Challenge = ''c'', wa_Rp = ''r'', wa_Credential = [],
           wa_Data = replicate 65537 CHR ''x'' \<rparr>" demo_wx 5
        "\<lparr> wr_Addr = ''a'', wr_Challenge = ''c'', wr_Rp = ''r'', wr_Data = ''short'' \<rparr>"]
  by simp

text \<open>C33: The outcome of a registration depends on the attestation statement, the format and the block
  time only through the certificate check: two responses that agree otherwise, each with
  certificates valid at its own block time, have the same outcome on every node; a response whose
  certificates are not valid at the block time is never accepted.
\<close>

theorem registration_independent_of_statement:
  assumes "strip_attestation p = strip_attestation q"
    and "certificates_valid x p t" and "certificates_valid x q t'"
  shows "VerifyRegistration x t rp addr challenge p = VerifyRegistration x t' rp addr challenge q
    \<and> (VerifyRegistration x t rp addr challenge r = Inr cred \<longrightarrow> certificates_valid x r t)"
proof -
  have p: "validateCertificatesWithBlockTime x p t = Inr ()"
    and q: "validateCertificatesWithBlockTime x q t' = Inr ()"
    using assms by (simp_all add: validateCertificates_iff)
  have "VerifyRegistration x t rp addr challenge p = VerifyRegistration x t' rp addr challenge q"
    unfolding VerifyRegistration_bindr p q assms(1) ..
  then show ?thesis
    by (simp add: VerifyRegistration_Inr_iff)
qed

lemma demo_certificates:
  "certificates_valid demo_wx (demo_creation b) t \<longleftrightarrow> 10 \<le> t \<and> t \<le> 20"
  "certificates_valid demo_wx (strip_attestation (demo_creation b)) t"
  by (auto simp: certificates_valid_def demo_creation_def strip_attestation_def)

theorem registration_independent_of_statement_witness:
  "VerifyRegistration demo_wx 15 \<lparr> url_Host = ''h'', url_String = ''u'' \<rparr> ''a'' ''c'' (demo_creation ''d'')
     = VerifyRegistration demo_wx 99 \<lparr> url_Host = ''h'', url_String = ''u'' \<rparr> ''a'' ''c''
         (strip_attestation (demo_creation ''d''))
   \<and> VerifyRegistration demo_wx 21 \<lparr> url_Host = ''h'', url_String = ''u'' \<rparr> ''a'' ''c'' (demo_creation ''e'') \<noteq> Inr ''e''"
proof -
  let ?rp = "\<lparr> url_Host = ''h'', url_String = ''u'' \<rparr>"
  have idem: "strip_attestation (strip_attestation p) = strip_attestation p" for p :: "unit parsed_creation"
    by (simp add: strip_attestation_def)
  show ?thesis
    using registration_independent_of_statement
        [of "demo_creation ''d''" "strip_attestation (demo_creation ''d'')" demo_wx 15 99 ?rp "''a''" "''c''"]
      registration_independent_of_statement
        [of "strip_attestation (demo_creation ''d'')" "demo_creation ''d''" demo_wx 21 15
            ?rp "''a''" "''c''" "demo_creation ''e''" "''e''"]
    by (simp add: demo_certificates idem)
qed

end
