(* ===== verification/Wasm_Binding.thy ===== *)
theory Wasm_Binding
  imports Webauthn Go_Std
begin

text \<open>
  The queries a contract may make of the chain (\<open>wasmbindings/\<close>): the table of allowed paths, the
  JSON and the protobuf dispatcher.  The query router, the codec and the generated message types
  are the record \<open>wasm_ext\<close>.  A factory is the name of the message type it makes a fresh instance
  of, so that no two queries share an instance.
\<close>

section \<open>The table (stargate_whitelist.go)\<close>

type_synonym whitelist = "(string, string) kv"

definition setWhitelistedQuery :: "string \<Rightarrow> string \<Rightarrow> whitelist \<Rightarrow> whitelist" where
  "setWhitelistedQuery queryPath factory wl = kv_set queryPath factory wl"

definition init_queries :: "(string \<times> string) list" where
  "init_queries =
     [
      (''/cosmos.auth.v1beta1.Query/Account'', ''authtypes.QueryAccountResponse''),
      (''/cosmos.auth.v1beta1.Query/Params'', ''authtypes.QueryParamsResponse''),
      (''/cosmos.auth.v1beta1.Query/ModuleAccounts'', ''authtypes.QueryModuleAccountsResponse''),
      (''/cosmos.authz.v1beta1.Query/Grants'', ''authztypes.QueryGrantsResponse''),
      (''/cosmos.bank.v1beta1.Query/Balance'', ''banktypes.QueryBalanceResponse''),
      (''/cosmos.bank.v1beta1.Query/DenomMetadata'', ''banktypes.QueryDenomMetadataResponse''),
      (''/cosmos.bank.v1beta1.Query/DenomsMetadata'', ''banktypes.QueryDenomsMetadataResponse''),
      (''/cosmos.bank.v1beta1.Query/Params'', ''banktypes.QueryParamsResponse''),
      (''/cosmos.bank.v1beta1.Query/SupplyOf'', ''banktypes.QuerySupplyOfResponse''),
      (''/cosmos.distribution.v1beta1.Query/Params'', ''distributiontypes.QueryParamsResponse''),
      (''/cosmos.distribution.v1beta1.Query/DelegatorWithdrawAddress'', ''distributiontypes.QueryDelegatorWithdrawAddressResponse''),
      (''/cosmos.distribution.v1beta1.Query/ValidatorCommission'', ''distributiontypes.QueryValidatorCommissionResponse''),
      (''/cosmos.feegrant.v1beta1.Query/Allowance'', ''feegranttypes.QueryAllowanceResponse''),
      (''/cosmos.feegrant.v1beta1.Query/AllowancesByGranter'', ''feegranttypes.QueryAllowancesByGranterResponse''),
      (''/cosmos.gov.v1beta1.Query/Deposit'', ''govtypesv1.QueryDepositResponse''),
      (''/cosmos.gov.v1beta1.Query/Params'', ''govtypesv1.QueryParamsResponse''),
      (''/cosmos.gov.v1beta1.Query/Vote'', ''govtypesv1.QueryVoteResponse''),
      (''/cosmos.slashing.v1beta1.Query/Params'', ''slashingtypes.QueryParamsResponse''),
      (''/cosmos.slashing.v1beta1.Query/SigningInfo'', ''slashingtypes.QuerySigningInfoResponse''),
      (''/cosmos.staking.v1beta1.Query/Delegation'', ''stakingtypes.QueryDelegationResponse''),
      (''/cosmos.staking.v1beta1.Query/Params'', ''stakingtypes.QueryParamsResponse''),
      (''/cosmos.staking.v1beta1.Query/Validator'', ''stakingtypes.QueryValidatorResponse''),
      (''/xion.v1.Query/WebAuthNVerifyRegister'', ''xiontypes.QueryWebAuthNVerifyRegisterResponse''),
      (''/xion.v1.Query/WebAuthNVerifyAuthenticate'', ''xiontypes.QueryWebAuthNVerifyAuthenticateResponse''),
      (''/xion.jwk.v1.Query/AudienceAll'', ''jwktypes.QueryAllAudienceResponse''),
      (''/xion.jwk.v1.Query/Audience'', ''jwktypes.QueryGetAudienceResponse''),
      (''/xion.jwk.v1.Query/Params'', ''jwktypes.QueryParamsResponse''),
      (''/xion.jwk.v1.Query/ValidateJWT'', ''jwktypes.QueryValidateJWTResponse''),
      (''/xion.dkim.v1.Query/DkimPubKeys'', ''dkimtypes.QueryDkimPubKeysResponse''),
      (''/xion.dkim.v1.Query/Params'', ''dkimtypes.QueryParamsResponse''),
      (''/xion.dkim.v1.Query/DkimPubKey'', ''dkimtypes.QueryDkimPubKeyResponse''),
      (''/xion.dkim.v1.Query/Authenticate'', ''dkimtypes.AuthenticateResponse''),
      (''/xion.zk.v1.Query/ProofVerify'', ''zktypes.ProofVerifyResponse''),
      (''/xion.zk.v1.Query/ProofVerifyUltraHonk'', ''zktypes.ProofVerifyUltraHonkResponse''),
      (''/xion.zk.v1.Query/ProofVerifyGnark'', ''zktypes.ProofVerifyGnarkResponse'')]"

definition stargateWhitelist :: whitelist where
  "stargateWhitelist = fold (\<lambda>(p, f). setWhitelistedQuery p f) init_queries []"

text \<open>\<open>wasmvmtypes.UnsupportedRequest\<close> and \<open>wasmvmtypes.Unknown\<close>.\<close>

definition UnsupportedRequest :: go_error where "UnsupportedRequest = External ''unsupported request''"
definition UnknownError :: go_error where "UnknownError = External ''unknown''"

record ('ctx, 'm) wasm_ext =
  qx_Route :: "string \<Rightarrow> ('ctx \<Rightarrow> bytes \<Rightarrow> string \<Rightarrow> bytes option result) option"
  qx_New :: "string \<Rightarrow> 'm"
  qx_Unmarshal :: "bytes \<Rightarrow> 'm \<Rightarrow> 'm result"
  qx_MarshalJSON :: "'m \<Rightarrow> bytes result"
  qx_proto_Unmarshal :: "bytes \<Rightarrow> 'm \<Rightarrow> 'm result"

definition GetWhitelistedQuery :: "('ctx, 'm) wasm_ext \<Rightarrow> string \<Rightarrow> 'm result" where
  "GetWhitelistedQuery x queryPath =
     (case kv_get stargateWhitelist queryPath of
        None \<Rightarrow> Inl UnsupportedRequest
      | Some factory \<Rightarrow> Inr (qx_New x factory))"

section \<open>The dispatchers (query_plugin.go, grpc_plugin.go)\<close>

record wasm_query =
  wq_Path :: string
  wq_Data :: bytes

definition ConvertProtoToJSONMarshal :: "('ctx, 'm) wasm_ext \<Rightarrow> 'm \<Rightarrow> bytes \<Rightarrow> bytes result" where
  "ConvertProtoToJSONMarshal x protoResponseType bz =
     bindr (wrap_as UnknownError (qx_Unmarshal x bz protoResponseType)) (\<lambda>m.
     wrap_as UnknownError (qx_MarshalJSON x m))"

text \<open>The part both dispatchers share in their text: allowed, routed, answered with a value.\<close>

definition run_route :: "('ctx, 'm) wasm_ext \<Rightarrow> 'ctx \<Rightarrow> wasm_query \<Rightarrow> bytes result" where
  "run_route x ctx request =
     bindr (case qx_Route x (wq_Path request) of
              None \<Rightarrow> Inl UnsupportedRequest
            | Some route \<Rightarrow> route ctx (wq_Data request) (wq_Path request)) (\<lambda>value.
     case value of
       None \<Rightarrow> Inl (Plain ''res returned from abci query route is nil'')
     | Some bz \<Rightarrow> Inr bz)"

definition StargateQuerier :: "('ctx, 'm) wasm_ext \<Rightarrow> 'ctx \<Rightarrow> wasm_query \<Rightarrow> bytes result" where
  "StargateQuerier x ctx request =
     bindr (GetWhitelistedQuery x (wq_Path request)) (\<lambda>protoResponseType.
     bindr (run_route x ctx request) (\<lambda>value.
     ConvertProtoToJSONMarshal x protoResponseType value))"

definition GrpcQuerier :: "('ctx, 'm) wasm_ext \<Rightarrow> 'ctx \<Rightarrow> wasm_query \<Rightarrow> 'm result" where
  "GrpcQuerier x ctx request =
     bindr (GetWhitelistedQuery x (wq_Path request)) (\<lambda>protoResponse.
     bindr (run_route x ctx request) (\<lambda>value.
     qx_proto_Unmarshal x value protoResponse))"

section \<open>What a contract can reach\<close>

lemma init_queries_paths: "distinct (map fst init_queries)"
  by code_simp

lemma init_queries_services: "list_all (\<lambda>(p, f). Contains p ''.Query/'') init_queries"
  by code_simp

lemma kv_get_fold_set:
  "distinct (map fst es) \<Longrightarrow>
     kv_get (fold (\<lambda>(p, f). setWhitelistedQuery p f) es s) k
       = (case map_of es k of None \<Rightarrow> kv_get s k | Some f \<Rightarrow> Some f)"
proof (induction es arbitrary: s)
  case (Cons e es)
  then have "map_of es (fst e) = None"
    by (simp add: map_of_eq_None_iff image_iff)
  then show ?case
    using Cons by (cases e) (auto simp: setWhitelistedQuery_def split: option.splits)
qed simp

lemma whitelist_get: "kv_get stargateWhitelist p = Some f \<longleftrightarrow> (p, f) \<in> set init_queries"
proof -
  have "kv_get stargateWhitelist p = map_of init_queries p"
    unfolding stargateWhitelist_def kv_get_fold_set [OF init_queries_paths]
    by (simp split: option.splits)
  then show ?thesis
    by (simp add: map_of_eq_Some_iff init_queries_paths)
qed

lemma GetWhitelistedQuery_Inr_iff:
  "GetWhitelistedQuery x p = Inr m \<longleftrightarrow> (\<exists>f. (p, f) \<in> set init_queries \<and> m = qx_New x f)"
  by (auto simp: GetWhitelistedQuery_def simp flip: whitelist_get split: option.splits)

lemma GetWhitelistedQuery_refused:
  "p \<notin> fst ` set init_queries \<Longrightarrow> GetWhitelistedQuery x p = Inl UnsupportedRequest"
  by (force simp: GetWhitelistedQuery_def whitelist_get split: option.splits)

lemma run_route_Inr_iff:
  "run_route x ctx q = Inr bz \<longleftrightarrow>
     (\<exists>route. qx_Route x (wq_Path q) = Some route \<and> route ctx (wq_Data q) (wq_Path q) = Inr (Some bz))"
  by (auto simp: run_route_def split: option.splits)

lemma Contains_query: "(p, f) \<in> set init_queries \<Longrightarrow> Contains p ''.Query/''"
  using init_queries_services by (auto simp: list_all_iff)

text \<open>A concrete router and codec: one route echoes the data, messages are a type name and bytes.\<close>

definition demo_qx :: "(unit, string \<times> bytes) wasm_ext" where
  "demo_qx =
     \<lparr> qx_Route = (\<lambda>p. Some (\<lambda>_ d _. Inr (Some d))),
       qx_New = (\<lambda>f. (f, [])),
       qx_Unmarshal = (\<lambda>b m. Inr (fst m, b)),
       qx_MarshalJSON = (\<lambda>m. Inr (fst m @ snd m)),
       qx_proto_Unmarshal = (\<lambda>b m. Inr (fst m, b)) \<rparr>"

text \<open>C34: A contract reaches only the paths of the table, all of them methods of a query service.  The
  JSON dispatcher answers \<open>bz\<close> exactly when the path is listed, the router answers with a value,
  and \<open>bz\<close> is the JSON of what the chain's codec reads from that value into a fresh message of the
  listed type; the protobuf dispatcher answers \<open>m\<close> exactly when the path is listed, the router
  answers with a value, and \<open>m\<close> is what the protobuf library reads from it into such a message; on
  any other path both dispatchers refuse whatever the router would do.
\<close>

theorem contract_queries_confined:
  assumes "other \<notin> fst ` set init_queries"
  shows "(StargateQuerier x ctx q = Inr bz \<longleftrightarrow>
      (\<exists>f route value m.
         (wq_Path q, f) \<in> set init_queries \<and> Contains (wq_Path q) ''.Query/''
         \<and> qx_Route x (wq_Path q) = Some route
         \<and> route ctx (wq_Data q) (wq_Path q) = Inr (Some value)
         \<and> qx_Unmarshal x value (qx_New x f) = Inr m
         \<and> qx_MarshalJSON x m = Inr bz))
    \<and> (GrpcQuerier x ctx q = Inr msg \<longleftrightarrow>
      (\<exists>f route value.
         (wq_Path q, f) \<in> set init_queries \<and> Contains (wq_Path q) ''.Query/''
         \<and> qx_Route x (wq_Path q) = Some route
         \<and> route ctx (wq_Data q) (wq_Path q) = Inr (Some value)
         \<and> qx_proto_Unmarshal x value (qx_New x f) = Inr msg))
    \<and> StargateQuerier y ctx \<lparr> wq_Path = other, wq_Data = d \<rparr> = Inl UnsupportedRequest
    \<and> GrpcQuerier y ctx \<lparr> wq_Path = other, wq_Data = d \<rparr> = Inl UnsupportedRequest"
proof (intro conjI)
  show "StargateQuerier x ctx q = Inr bz \<longleftrightarrow>
      (\<exists>f route value m.
         (wq_Path q, f) \<in> set init_queries \<and> Contains (wq_Path q) ''.Query/''
         \<and> qx_Route x (wq_Path q) = Some route
         \<and> route ctx (wq_Data q) (wq_Path q) = Inr (Some value)
         \<and> qx_Unmarshal x value (qx_New x f) = Inr m
         \<and> qx_MarshalJSON x m = Inr bz)"
    using Contains_query
    by (auto simp: StargateQuerier_def GetWhitelistedQuery_Inr_iff run_route_Inr_iff
        ConvertProtoToJSONMarshal_def)
  show "GrpcQuerier x ctx q = Inr msg \<longleftrightarrow>
      (\<exists>f route value.
         (wq_Path q, f) \<in> set init_queries \<and> Contains (wq_Path q) ''.Query/''
         \<and> qx_Route x (wq_Path q) = Some route
         \<and> route ctx (wq_Data q) (wq_Path q) = Inr (Some value)
         \<and> qx_proto_Unmarshal x value (qx_New x f) = Inr msg)"
    using Contains_query by (auto simp: GrpcQuerier_def GetWhitelistedQuery_Inr_iff run_route_Inr_iff)
  show "StargateQuerier y ctx \<lparr> wq_Path = other, wq_Data = d \<rparr> = Inl UnsupportedRequest"
    and "GrpcQuerier y ctx \<lparr> wq_Path = other, wq_Data = d \<rparr> = Inl UnsupportedRequest"
    by (simp_all add: StargateQuerier_def GrpcQuerier_def GetWhitelistedQuery_refused [OF assms])
qed

lemma demo_paths:
  "''/cosmos.bank.v1beta1.Msg/Send'' \<notin> fst ` set init_queries"
  "(''/xion.dkim.v1.Query/Params'', ''dkimtypes.QueryParamsResponse'') \<in> set init_queries"
  by code_simp+

theorem contract_queries_confined_witness:
  "StargateQuerier demo_qx () \<lparr> wq_Path = ''/cosmos.bank.v1beta1.Msg/Send'', wq_Data = ''d'' \<rparr>
     = Inl UnsupportedRequest
   \<and> StargateQuerier demo_qx () \<lparr> wq_Path = ''/xion.dkim.v1.Query/Params'', wq_Data = ''d'' \<rparr>
     = Inr (''dkimtypes.QueryParamsResponse'' @ ''d'')
   \<and> GrpcQuerier demo_qx () \<lparr> wq_Path = ''/xion.dkim.v1.Query/Params'', wq_Data = ''d'' \<rparr>
     = Inr (''dkimtypes.QueryParamsResponse'', ''d'')"
proof -
  let ?q = "\<lparr> wq_Path = ''/xion.dkim.v1.Query/Params'', wq_Data = ''d'' \<rparr>"
  have "(wq_Path ?q, ''dkimtypes.QueryParamsResponse'') \<in> set init_queries" "Contains (wq_Path ?q) ''.Query/''"
    using demo_paths(2) Contains_query by simp_all
  then show ?thesis
    using contract_queries_confined [OF demo_paths(1), of demo_qx "()" ?q "''dkimtypes.QueryParamsResponse'' @ ''d''"
        "(''dkimtypes.QueryParamsResponse'', ''d'')" demo_qx "''d''"]
    by (fastforce simp: demo_qx_def)
qed

text \<open>
  The registration query as the router serves it: the generated service code reads the request,
  calls the keeper at the block time of the context and writes the response.
\<close>

definition register_route ::
  "('p, 'a, 'c) webauthn_ext \<Rightarrow> ('ctx \<Rightarrow> int) \<Rightarrow> (bytes \<Rightarrow> QueryWebAuthNVerifyRegisterRequest result)
     \<Rightarrow> (bytes \<Rightarrow> bytes) \<Rightarrow> 'ctx \<Rightarrow> bytes \<Rightarrow> string \<Rightarrow> bytes option result" where
  "register_route wx blockTime dec enc ctx data path =
     bindr (dec data) (\<lambda>req.
     bindr (WebAuthNVerifyRegister wx (blockTime ctx) req) (\<lambda>credential.
     Inr (Some (enc credential))))"

lemma register_listed:
  "(''/xion.v1.Query/WebAuthNVerifyRegister'', ''xiontypes.QueryWebAuthNVerifyRegisterResponse'') \<in> set init_queries"
  by code_simp

lemma WebAuthNVerifyRegister_not_panic: "\<not> is_panic (WebAuthNVerifyRegister wx t req)"
  by (simp add: WebAuthNVerifyRegister_def xion_error_defs recover_as_not_panic)

lemma WebAuthNVerifyRegister_size: "WebAuthNVerifyRegister wx t req = Inr c \<Longrightarrow> length (wr_Data req) \<le> 65536"
  by (simp add: WebAuthNVerifyRegister_def MaxWebAuthDataSize_def split: if_splits)

text \<open>C35: A contract's WebAuthn registration query never panics the chain, whatever the WebAuthn
  library does with the payload, as long as the codec does not panic; and when it answers, the
  keeper accepted the decoded request at the block time, and the answer is the JSON of the
  credential the keeper returned.
\<close>

theorem contract_registration_query:
  assumes "qx_Route x ''/xion.v1.Query/WebAuthNVerifyRegister'' = Some (register_route wx blockTime dec enc)"
    and "\<And>b. \<not> is_panic (dec b)" and "\<And>b m. \<not> is_panic (qx_Unmarshal x b m)"
    and "\<And>m. \<not> is_panic (qx_MarshalJSON x m)"
    and "q = \<lparr> wq_Path = ''/xion.v1.Query/WebAuthNVerifyRegister'', wq_Data = d \<rparr>"
  shows "\<not> is_panic (StargateQuerier x ctx q)
    \<and> (StargateQuerier x ctx q = Inr bz \<longleftrightarrow>
        (\<exists>req cred m. dec d = Inr req \<and> length (wr_Data req) \<le> 65536
           \<and> WebAuthNVerifyRegister wx (blockTime ctx) req = Inr cred
           \<and> qx_Unmarshal x (enc cred) (qx_New x ''xiontypes.QueryWebAuthNVerifyRegisterResponse'') = Inr m
           \<and> qx_MarshalJSON x m = Inr bz))"
proof
  let ?m = "qx_New x ''xiontypes.QueryWebAuthNVerifyRegisterResponse''"
  have listed: "GetWhitelistedQuery x (wq_Path q) = Inr ?m"
    using register_listed by (auto simp: assms(5) GetWhitelistedQuery_Inr_iff)
  have route: "run_route x ctx q =
      bindr (dec d) (\<lambda>req. bindr (WebAuthNVerifyRegister wx (blockTime ctx) req) (\<lambda>c. Inr (enc c)))"
    unfolding run_route_def assms(5) wasm_query.simps assms(1) option.case register_route_def
  proof (cases "dec d")
    case (Inr req)
    then show "bindr (bindr (dec d) (\<lambda>req. bindr (WebAuthNVerifyRegister wx (blockTime ctx) req) (\<lambda>c. Inr (Some (enc c)))))
        (case_option (Inl (Plain ''res returned from abci query route is nil'')) Inr)
      = bindr (dec d) (\<lambda>req. bindr (WebAuthNVerifyRegister wx (blockTime ctx) req) (\<lambda>c. Inr (enc c)))"
      by (cases "WebAuthNVerifyRegister wx (blockTime ctx) req") simp_all
  qed simp
  show "\<not> is_panic (StargateQuerier x ctx q)"
    unfolding StargateQuerier_def listed bindr.simps route ConvertProtoToJSONMarshal_def
    by (intro bindr_not_panic wrap_as_not_panic assms(2-4) WebAuthNVerifyRegister_not_panic)
      (simp_all add: UnknownError_def)
  show "StargateQuerier x ctx q = Inr bz \<longleftrightarrow>
      (\<exists>req cred m. dec d = Inr req \<and> length (wr_Data req) \<le> 65536
         \<and> WebAuthNVerifyRegister wx (blockTime ctx) req = Inr cred
         \<and> qx_Unmarshal x (enc cred) ?m = Inr m \<and> qx_MarshalJSON x m = Inr bz)"
    unfolding StargateQuerier_def listed bindr.simps(2) route ConvertProtoToJSONMarshal_def
    by (auto dest: WebAuthNVerifyRegister_size)
qed

definition demo_rx :: "(int, string \<times> bytes) wasm_ext" where
  "demo_rx =
     \<lparr> qx_Route = (\<lambda>p. Some (register_route demo_wx id
          (\<lambda>b. Inr \<lparr> wr_Addr = ''a'', wr_Challenge = ''c'', wr_Rp = ''r'', wr_Data = b \<rparr>) id)),
       qx_New = (\<lambda>f. (f, [])),
       qx_Unmarshal = (\<lambda>b m. Inr (fst m, b)),
       qx_MarshalJSON = (\<lambda>m. Inr (snd m)),
       qx_proto_Unmarshal = (\<lambda>b m. Inr (fst m, b)) \<rparr>"

lemma demo_registration:
  "WebAuthNVerifyRegister demo_wx 15
     \<lparr> wr_Addr = ''a'', wr_Challenge = ''c'', wr_Rp = ''r'', wr_Data = replicate 40 CHR ''k'' \<rparr>
   = Inr (replicate 40 CHR ''k'')"
  by (simp add: WebAuthNVerifyRegister_def MaxWebAuthDataSize_def validateCredentialCreation_iff
      creation_auth_data_def VerifyRegistration_Inr_iff certificates_valid_def registered_def
      strip_attestation_def demo_creation_def)

theorem contract_registration_query_witness:
  "StargateQuerier demo_rx 15
     \<lparr> wq_Path = ''/xion.v1.Query/WebAuthNVerifyRegister'', wq_Data = replicate 40 CHR ''k'' \<rparr>
   = Inr (replicate 40 CHR ''k'')"
  using contract_registration_query
    [of demo_rx demo_wx id "\<lambda>b. Inr \<lparr> wr_Addr = ''a'', wr_Challenge = ''c'', wr_Rp = ''r'', wr_Data = b \<rparr>" id
        "\<lparr> wq_Path = ''/xion.v1.Query/WebAuthNVerifyRegister'', wq_Data = replicate 40 CHR ''k'' \<rparr>"
        "replicate 40 CHR ''k''" 15 "replicate 40 CHR ''k''"]
    demo_registration
  by (simp add: demo_rx_def)

end
