(* ===== verification/Indexer.thy ===== *)
theory Indexer
  imports Sdk Go_Std
begin

text \<open>
  The indexer (\<open>indexer/\<close>): it follows the change set of every commit and keeps a copy of the
  chain's authz grants and fee allowances, with an index by grantee, for its own queries.  A
  collection of the indexer is a pair of byte-keyed stores, the entries and the references of the
  grantee index, under the key codecs of the collections library; the codecs, the protobuf codec,
  the address codec and the library's paginator are arguments (\<open>index_ext\<close>).  Log lines are left
  out.
\<close>

section \<open>Keys and collections\<close>

type_synonym triple = "address \<times> address \<times> string"

text \<open>An indexed map: entries and references, each in the byte order of its encoded keys.\<close>

record 'v indexed_map =
  im_main :: "(bytes, 'v) kv"
  im_refs :: "(bytes, unit) kv"

record ('g, 'f, 'auth, 'any) index_ext =
  kx_Encode3 :: "triple \<Rightarrow> bytes result"
  kx_Decode3 :: "bytes \<Rightarrow> triple result"
  kx_EncodeRef :: "address \<times> triple \<Rightarrow> bytes result"
  kx_DecodeRef :: "bytes \<Rightarrow> (address \<times> triple) result"
  kx_RefNonTerminal :: "nat \<Rightarrow> address \<times> triple \<Rightarrow> bytes result"
  kx_RefPrefix :: "address \<Rightarrow> bytes"
  kx_Encode2 :: "address \<times> address \<Rightarrow> bytes result"
  kx_Unmarshal_grant :: "bytes \<Rightarrow> 'g result"
  kx_Unmarshal_allowance :: "bytes \<Rightarrow> 'f result"
  kx_ParseAllowanceKey :: "bytes \<Rightarrow> (address \<times> address) result"
  kx_StringToBytes :: "string \<Rightarrow> address result"
  kx_BytesToString :: "address \<Rightarrow> string result"
  kx_GetAuthorization :: "'g \<Rightarrow> 'auth result"
  kx_NewAnyWithValue :: "'auth \<Rightarrow> 'any result"
  kx_Expiration :: "'g \<Rightarrow> int option"

definition ErrNotFound :: go_error where "ErrNotFound = External ''collections: not found''"

text \<open>
  The operations of \<open>collections.IndexedMap\<close> on an encoded key and the encoded references of its
  entry.  A reference depends on the key alone, so that replacing a value moves no reference.
\<close>

definition im_Get :: "'v indexed_map \<Rightarrow> bytes result \<Rightarrow> 'v result" where
  "im_Get m key =
     bindr key (\<lambda>b. case kv_get (im_main m) b of None \<Rightarrow> Inl ErrNotFound | Some v \<Rightarrow> Inr v)"

definition im_Has :: "'v indexed_map \<Rightarrow> bytes result \<Rightarrow> bool result" where
  "im_Has m key = bindr key (\<lambda>b. Inr (kv_has (im_main m) b))"

definition im_Set :: "bytes result \<Rightarrow> bytes result \<Rightarrow> 'v \<Rightarrow> 'v indexed_map \<Rightarrow> 'v indexed_map result" where
  "im_Set key ref v m =
     bindr key (\<lambda>b. bindr ref (\<lambda>r.
     Inr (m\<lparr> im_main := kv_set b v (im_main m), im_refs := kv_set r () (im_refs m) \<rparr>)))"

definition im_Remove :: "bytes result \<Rightarrow> bytes result \<Rightarrow> 'v indexed_map \<Rightarrow> 'v indexed_map result" where
  "im_Remove key ref m =
     bindr key (\<lambda>b. bindr ref (\<lambda>r.
     if kv_has (im_main m) b
     then Inr (m\<lparr> im_main := kv_del b (im_main m), im_refs := kv_del r (im_refs m) \<rparr>)
     else Inl ErrNotFound))"

section \<open>The grants of authz (authz_handler.go)\<close>

text \<open>A change of the chain's stores.\<close>

record StoreKVPair =
  kp_StoreKey :: string
  kp_Delete :: bool
  kp_Key :: bytes
  kp_Value :: bytes

text \<open>The reference of a grant: its grantee and its primary key.\<close>

definition grantee_ref :: "('g, 'f, 'auth, 'any) index_ext \<Rightarrow> triple \<Rightarrow> bytes result" where
  "grantee_ref x k = kx_EncodeRef x (fst (snd k), k)"

definition AuthzHandler_GetGrant ::
  "('g, 'f, 'auth, 'any) index_ext \<Rightarrow> address \<Rightarrow> address \<Rightarrow> string \<Rightarrow> 'g indexed_map \<Rightarrow> 'g result" where
  "AuthzHandler_GetGrant x granter grantee msgType m = im_Get m (kx_Encode3 x (granter, grantee, msgType))"

definition AuthzHandler_SetGrant ::
  "('g, 'f, 'auth, 'any) index_ext \<Rightarrow> address \<Rightarrow> address \<Rightarrow> string \<Rightarrow> 'g \<Rightarrow> 'g indexed_map
     \<Rightarrow> 'g indexed_map result" where
  "AuthzHandler_SetGrant x granter grantee msgType grant m =
     (let key = (granter, grantee, msgType) in im_Set (kx_Encode3 x key) (grantee_ref x key) grant m)"

text \<open>The nil address is the empty one.\<close>

definition parseGrantStoreKey :: "('g, 'f, 'auth, 'any) index_ext \<Rightarrow> bytes \<Rightarrow> triple result" where
  "parseGrantStoreKey x key =
     (if length key < 1 then Inr ([], [], [])
      else bindr (go_slice key 1 (length key)) (\<lambda>keyWithoutPrefix.
           case kx_Decode3 x keyWithoutPrefix of
             Inl (GoPanic s) \<Rightarrow> Inl (GoPanic s)
           | Inl _ \<Rightarrow> Inr ([], [], [])
           | Inr triple \<Rightarrow> Inr triple))"

definition AuthzHandler_HandleUpdate ::
  "('g, 'f, 'auth, 'any) index_ext \<Rightarrow> StoreKVPair \<Rightarrow> 'g indexed_map \<Rightarrow> 'g indexed_map result" where
  "AuthzHandler_HandleUpdate x pair m =
     bindr (parseGrantStoreKey x (kp_Key pair)) (\<lambda>(granterAddr, granteeAddr, msgType).
     if kp_Delete pair
     then let key = (granterAddr, granteeAddr, msgType) in
          bindr (im_Has m (kx_Encode3 x key)) (\<lambda>has.
          if \<not> has then Inr m
          else im_Remove (kx_Encode3 x key) (grantee_ref x key) m)
     else bindr (kx_Unmarshal_grant x (kp_Value pair)) (\<lambda>grant.
          AuthzHandler_SetGrant x granterAddr granteeAddr msgType grant m))"

section \<open>The allowances of feegrant (feegrant_handler.go)\<close>

text \<open>The reverse pair index refers to an allowance by grantee and granter.\<close>

definition allowance_ref :: "('g, 'f, 'auth, 'any) index_ext \<Rightarrow> address \<times> address \<Rightarrow> bytes result" where
  "allowance_ref x k = kx_Encode2 x (snd k, fst k)"

definition FeeGrantHandler_GetGrant ::
  "('g, 'f, 'auth, 'any) index_ext \<Rightarrow> address \<Rightarrow> address \<Rightarrow> 'f indexed_map \<Rightarrow> 'f result" where
  "FeeGrantHandler_GetGrant x granter grantee m = im_Get m (kx_Encode2 x (granter, grantee))"

definition FeeGrantHandler_SetGrant ::
  "('g, 'f, 'auth, 'any) index_ext \<Rightarrow> address \<Rightarrow> address \<Rightarrow> 'f \<Rightarrow> 'f indexed_map \<Rightarrow> 'f indexed_map result" where
  "FeeGrantHandler_SetGrant x granter grantee grant m =
     (let key = (granter, grantee) in im_Set (kx_Encode2 x key) (allowance_ref x key) grant m)"

definition FeeGrantHandler_HandleUpdate ::
  "('g, 'f, 'auth, 'any) index_ext \<Rightarrow> StoreKVPair \<Rightarrow> 'f indexed_map \<Rightarrow> 'f indexed_map result" where
  "FeeGrantHandler_HandleUpdate x pair m =
     bindr (kx_ParseAllowanceKey x (kp_Key pair)) (\<lambda>(granterAddr, granteeAddr).
     if kp_Delete pair
     then let key = (granterAddr, granteeAddr) in
          bindr (im_Has m (kx_Encode2 x key)) (\<lambda>has.
          if \<not> has then Inr m
          else im_Remove (kx_Encode2 x key) (allowance_ref x key) m)
     else bindr (kx_Unmarshal_allowance x (kp_Value pair)) (\<lambda>grant.
          FeeGrantHandler_SetGrant x granterAddr granteeAddr grant m))"

section \<open>Updates that never stop the node (safe_handlers.go)\<close>

text \<open>An error is logged and the collection stays; a panic is not caught.\<close>

definition log_error :: "'s \<Rightarrow> 's result \<Rightarrow> 's result" where
  "log_error m r = (case r of Inl (GoPanic s) \<Rightarrow> Inl (GoPanic s) | Inl _ \<Rightarrow> Inr m | Inr m' \<Rightarrow> Inr m')"

definition SafeAuthzHandlerUpdate ::
  "('g, 'f, 'auth, 'any) index_ext \<Rightarrow> StoreKVPair \<Rightarrow> 'g indexed_map \<Rightarrow> 'g indexed_map result" where
  "SafeAuthzHandlerUpdate x pair m =
     bindr (parseGrantStoreKey x (kp_Key pair)) (\<lambda>(granterAddr, granteeAddr, msgType).
     if kp_Delete pair
     then let key = (granterAddr, granteeAddr, msgType) in
          (case im_Has m (kx_Encode3 x key) of
             Inl (GoPanic s) \<Rightarrow> Inl (GoPanic s)
           | Inl _ \<Rightarrow> Inr m
           | Inr has \<Rightarrow>
               if \<not> has then Inr m
               else log_error m (im_Remove (kx_Encode3 x key) (grantee_ref x key) m))
     else (case kx_Unmarshal_grant x (kp_Value pair) of
             Inl (GoPanic s) \<Rightarrow> Inl (GoPanic s)
           | Inl _ \<Rightarrow> Inr m
           | Inr grant \<Rightarrow> log_error m (AuthzHandler_SetGrant x granterAddr granteeAddr msgType grant m)))"

text \<open>The addresses stay nil when the parser panics.\<close>

definition SafeFeeGrantHandlerUpdate ::
  "('g, 'f, 'auth, 'any) index_ext \<Rightarrow> StoreKVPair \<Rightarrow> 'f indexed_map \<Rightarrow> 'f indexed_map result" where
  "SafeFeeGrantHandlerUpdate x pair m =
     (if length (kp_Key pair) < 5 then Inr m
      else case kx_ParseAllowanceKey x (kp_Key pair) of
        Inl _ \<Rightarrow> Inr m
      | Inr (granterAddr, granteeAddr) \<Rightarrow>
          if kp_Delete pair
          then let key = (granterAddr, granteeAddr) in
               (case im_Has m (kx_Encode2 x key) of
                  Inl (GoPanic s) \<Rightarrow> Inl (GoPanic s)
                | Inl _ \<Rightarrow> Inr m
                | Inr has \<Rightarrow>
                    if \<not> has then Inr m
                    else log_error m (im_Remove (kx_Encode2 x key) (allowance_ref x key) m))
          else (case kx_Unmarshal_allowance x (kp_Value pair) of
                  Inl (GoPanic s) \<Rightarrow> Inl (GoPanic s)
                | Inl _ \<Rightarrow> Inr m
                | Inr grant \<Rightarrow> log_error m (FeeGrantHandler_SetGrant x granterAddr granteeAddr grant m)))"

section \<open>The listener (streaming.go, noop_service.go)\<close>

record ('g, 'f) StreamService =
  ss_authz :: "'g indexed_map"
  ss_feegrant :: "'f indexed_map"

definition GrantKey :: bytes where "GrantKey = [CHR 0x01]"
definition FeeAllowanceKeyPrefix :: bytes where "FeeAllowanceKeyPrefix = [CHR 0x00]"

text \<open>One change of a commit.  An error of a safe handler would be logged and passed over.\<close>

definition listen_pair ::
  "('g, 'f, 'auth, 'any) index_ext \<Rightarrow> StoreKVPair \<Rightarrow> ('g, 'f) StreamService
     \<Rightarrow> ('g, 'f) StreamService result" where
  "listen_pair x pair ss =
     (if kp_StoreKey pair = ''authz'' then
        if HasPrefix (kp_Key pair) GrantKey
        then log_error ss (bindr (SafeAuthzHandlerUpdate x pair (ss_authz ss)) (\<lambda>m. Inr (ss\<lparr> ss_authz := m \<rparr>)))
        else Inr ss
      else if kp_StoreKey pair = ''feegrant'' then
        if HasPrefix (kp_Key pair) FeeAllowanceKeyPrefix
        then log_error ss (bindr (SafeFeeGrantHandlerUpdate x pair (ss_feegrant ss)) (\<lambda>m. Inr (ss\<lparr> ss_feegrant := m \<rparr>)))
        else Inr ss
      else Inr ss)"

definition ListenCommit ::
  "('g, 'f, 'auth, 'any) index_ext \<Rightarrow> StoreKVPair list \<Rightarrow> ('g, 'f) StreamService
     \<Rightarrow> ('g, 'f) StreamService result" where
  "ListenCommit x changeSet ss = fold_each (listen_pair x) changeSet ss"

definition ListenFinalizeBlock :: "('g, 'f) StreamService \<Rightarrow> ('g, 'f) StreamService result" where
  "ListenFinalizeBlock ss = Inr ss"

section \<open>Indexing the current state (client/cli/indexer.go)\<close>

text \<open>
  The callbacks of the \<open>re-index\<close> command: an error is logged and ends the iteration.  The argument
  lists what the keepers' iterators visit; \<open>msgTypeURL\<close> is the type of an authorization.
\<close>

fun ReIndex_authz ::
  "('g, 'f, 'auth, 'any) index_ext \<Rightarrow> ('auth \<Rightarrow> string) \<Rightarrow> (address \<times> address \<times> 'g) list
     \<Rightarrow> 'g indexed_map \<Rightarrow> 'g indexed_map result" where
  "ReIndex_authz x msgTypeURL [] m = Inr m"
| "ReIndex_authz x msgTypeURL ((granterAddr, granteeAddr, grant) # gs) m =
     (case bindr (kx_GetAuthorization x grant) (\<lambda>authorization.
            AuthzHandler_SetGrant x granterAddr granteeAddr (msgTypeURL authorization) grant m) of
        Inl (GoPanic s) \<Rightarrow> Inl (GoPanic s)
      | Inl _ \<Rightarrow> Inr m
      | Inr m' \<Rightarrow> ReIndex_authz x msgTypeURL gs m')"

fun ReIndex_feegrant ::
  "('g, 'f, 'auth, 'any) index_ext \<Rightarrow> ('f \<Rightarrow> string) \<Rightarrow> ('f \<Rightarrow> string) \<Rightarrow> 'f list
     \<Rightarrow> 'f indexed_map \<Rightarrow> 'f indexed_map result" where
  "ReIndex_feegrant x granterOf granteeOf [] m = Inr m"
| "ReIndex_feegrant x granterOf granteeOf (grant # gs) m =
     (case bindr (kx_StringToBytes x (granterOf grant)) (\<lambda>granter.
            bindr (kx_StringToBytes x (granteeOf grant)) (\<lambda>grantee.
            FeeGrantHandler_SetGrant x granter grantee grant m)) of
        Inl (GoPanic s) \<Rightarrow> Inl (GoPanic s)
      | Inl _ \<Rightarrow> Inr m
      | Inr m' \<Rightarrow> ReIndex_feegrant x granterOf granteeOf gs m')"

end
