(* ===== verification/Indexer_Query.thy ===== *)
theory Indexer_Query
  imports Indexer
begin

text \<open>
  The indexer's queries (\<open>authz_querier.go\<close>, \<open>feegrant_querier.go\<close>, \<open>multi_raw.go\<close>).  The listing
  by grantee pages by hand: an iterator is the list of encoded references still ahead of it.  The
  other listings call the SDK's \<open>CollectionPaginate\<close>, an argument of the definitions that use it.
\<close>

section \<open>Requests and answers\<close>

record PageRequest =
  pq_Key :: bytes
  pq_Offset :: u64
  pq_Limit :: u64
  pq_CountTotal :: bool

text \<open>The nil next key is the empty one.\<close>

record PageResponse =
  ps_NextKey :: bytes
  ps_Total :: u64

record 'any GrantAuthorization =
  ga_Granter :: string
  ga_Grantee :: string
  ga_Authorization :: 'any
  ga_Expiration :: "int option"

record QueryGrantsRequest =
  gr_Granter :: string
  gr_Grantee :: string
  gr_MsgTypeUrl :: string
  gr_Pagination :: "PageRequest option"

record QueryPartyRequest =
  pa_Address :: string
  pa_Pagination :: "PageRequest option"

text \<open>\<open>TriplePrefix\<close> and \<open>TripleSuperPrefix\<close> of the collections library.\<close>

datatype triple_prefix = TriplePrefix address | TripleSuperPrefix address address

type_synonym ('g, 'r) triple_paginate =
  "'g indexed_map \<Rightarrow> PageRequest option \<Rightarrow> (triple \<Rightarrow> 'g \<Rightarrow> 'r result) \<Rightarrow> triple_prefix option
     \<Rightarrow> ('r list \<times> PageResponse) result"

type_synonym ('f, 'v, 'r) pair_paginate =
  "'f indexed_map \<Rightarrow> PageRequest option \<Rightarrow> (address \<times> address \<Rightarrow> 'v \<Rightarrow> 'r result) \<Rightarrow> address
     \<Rightarrow> ('r list \<times> PageResponse) result"

definition DefaultLimit :: u64 where "DefaultLimit = 100"

section \<open>Grants by granter and in general (authz_querier.go)\<close>

definition WithCollectionPaginationTriplePrefix :: "address \<Rightarrow> triple_prefix" where
  "WithCollectionPaginationTriplePrefix prefix = TriplePrefix prefix"

definition WithCollectionPaginationTriplePairPrefix :: "address \<Rightarrow> address \<Rightarrow> triple_prefix" where
  "WithCollectionPaginationTriplePairPrefix k1 k2 = TripleSuperPrefix k1 k2"

definition optional_address :: "('g, 'f, 'auth, 'any) index_ext \<Rightarrow> string \<Rightarrow> address result" where
  "optional_address x s = (if s \<noteq> '''' then kx_StringToBytes x s else Inr [])"

definition ParseGrantsRequestParams ::
  "('g, 'f, 'auth, 'any) index_ext \<Rightarrow> QueryGrantsRequest
     \<Rightarrow> (address \<times> address \<times> triple_prefix option) result" where
  "ParseGrantsRequestParams x req =
     bindr (optional_address x (gr_Granter req)) (\<lambda>granterAddr.
     bindr (optional_address x (gr_Grantee req)) (\<lambda>granteeAddr.
     Inr (granterAddr, granteeAddr,
       if gr_Granter req \<noteq> '''' \<and> gr_Grantee req \<noteq> ''''
       then Some (WithCollectionPaginationTriplePairPrefix granterAddr granteeAddr)
       else if gr_Granter req \<noteq> '''' then Some (WithCollectionPaginationTriplePrefix granterAddr)
       else None)))"

definition ParseGranterRequestParams ::
  "('g, 'f, 'auth, 'any) index_ext \<Rightarrow> QueryPartyRequest \<Rightarrow> address result" where
  "ParseGranterRequestParams x req = kx_StringToBytes x (pa_Address req)"

definition ParseGranteeRequestParams ::
  "('g, 'f, 'auth, 'any) index_ext \<Rightarrow> QueryPartyRequest \<Rightarrow> address result" where
  "ParseGranteeRequestParams x req = kx_StringToBytes x (pa_Address req)"

definition pack_authorization :: "('g, 'f, 'auth, 'any) index_ext \<Rightarrow> 'g \<Rightarrow> 'any result" where
  "pack_authorization x grant =
     bindr (kx_GetAuthorization x grant) (\<lambda>auth.
     wrap_as (Status ''Internal'') (kx_NewAnyWithValue x auth))"

definition TransformGrantToAuthorization ::
  "('g, 'f, 'auth, 'any) index_ext \<Rightarrow> triple \<Rightarrow> 'g \<Rightarrow> 'any GrantAuthorization result" where
  "TransformGrantToAuthorization x primaryKey grant =
     bindr (pack_authorization x grant) (\<lambda>anyValue.
     bindr (kx_BytesToString x (fst primaryKey)) (\<lambda>granter.
     bindr (kx_BytesToString x (fst (snd primaryKey))) (\<lambda>grantee.
     Inr \<lparr> ga_Granter = granter, ga_Grantee = grantee, ga_Authorization = anyValue,
           ga_Expiration = kx_Expiration x grant \<rparr>)))"

definition Grants ::
  "('g, 'f, 'auth, 'any) index_ext \<Rightarrow> ('g, 'g) triple_paginate \<Rightarrow> 'g indexed_map \<Rightarrow> QueryGrantsRequest
     \<Rightarrow> ('g list \<times> PageResponse) result" where
  "Grants x paginate m req =
     bindr (optional_address x (gr_Granter req)) (\<lambda>granterAddr.
     bindr (optional_address x (gr_Grantee req)) (\<lambda>granteeAddr.
     let prefixOpt =
       (if gr_Granter req \<noteq> '''' \<and> gr_Grantee req \<noteq> ''''
        then Some (WithCollectionPaginationTriplePairPrefix granterAddr granteeAddr)
        else if gr_Granter req \<noteq> '''' then Some (WithCollectionPaginationTriplePrefix granterAddr)
        else None) in
     paginate m (gr_Pagination req) (\<lambda>primaryKey grant. Inr grant) prefixOpt))"

definition GranterGrants ::
  "('g, 'f, 'auth, 'any) index_ext \<Rightarrow> ('g, 'any GrantAuthorization) triple_paginate \<Rightarrow> 'g indexed_map
     \<Rightarrow> QueryPartyRequest \<Rightarrow> ('any GrantAuthorization list \<times> PageResponse) result" where
  "GranterGrants x paginate m req =
     bindr (kx_StringToBytes x (pa_Address req)) (\<lambda>granterAddr.
     paginate m (pa_Pagination req)
       (\<lambda>primaryKey grant.
          bindr (kx_GetAuthorization x grant) (\<lambda>auth1.
          bindr (wrap_as (Status ''Internal'') (kx_NewAnyWithValue x auth1)) (\<lambda>anyValue.
          bindr (kx_BytesToString x (fst primaryKey)) (\<lambda>granter.
          bindr (kx_BytesToString x (fst (snd primaryKey))) (\<lambda>grantee.
          Inr \<lparr> ga_Granter = granter, ga_Grantee = grantee, ga_Authorization = anyValue,
                ga_Expiration = kx_Expiration x grant \<rparr>)))))
       (Some (WithCollectionPaginationTriplePrefix granterAddr)))"

section \<open>Grants by grantee (authz_querier.go)\<close>

text \<open>The answer for one grant of the grantee.\<close>

definition grantee_row ::
  "('g, 'f, 'auth, 'any) index_ext \<Rightarrow> 'g indexed_map \<Rightarrow> string \<Rightarrow> triple \<Rightarrow> 'any GrantAuthorization result" where
  "grantee_row x m grantee primaryKey =
     bindr (im_Get m (kx_Encode3 x primaryKey)) (\<lambda>grant.
     bindr (pack_authorization x grant) (\<lambda>anyValue.
     bindr (kx_BytesToString x (fst primaryKey)) (\<lambda>granter.
     Inr \<lparr> ga_Granter = granter, ga_Grantee = grantee, ga_Authorization = anyValue,
           ga_Expiration = kx_Expiration x grant \<rparr>)))"

text \<open>The collecting loops: answers so far, count and total, and the iterator where they stop.\<close>

fun collect_grants ::
  "('g, 'f, 'auth, 'any) index_ext \<Rightarrow> 'g indexed_map \<Rightarrow> string \<Rightarrow> u64 \<Rightarrow> u64 \<Rightarrow> u64
     \<Rightarrow> 'any GrantAuthorization list \<Rightarrow> bytes list
     \<Rightarrow> ('any GrantAuthorization list \<times> u64 \<times> bytes list) result" where
  "collect_grants x m grantee limit count tot grants [] = Inr (grants, tot, [])"
| "collect_grants x m grantee limit count tot grants (e # iter) =
     (if count < limit
      then bindr (kx_DecodeRef x e) (\<lambda>(_, primaryKey).
           bindr (grantee_row x m grantee primaryKey) (\<lambda>row.
           collect_grants x m grantee limit (count + 1) (tot + 1) (grants @ [row]) iter))
      else Inr (grants, tot, e # iter))"

fun collect_raw ::
  "('g, 'f, 'auth, 'any) index_ext \<Rightarrow> 'g indexed_map \<Rightarrow> string \<Rightarrow> address \<Rightarrow> u64 \<Rightarrow> u64 \<Rightarrow> u64
     \<Rightarrow> 'any GrantAuthorization list \<Rightarrow> bytes list
     \<Rightarrow> ('any GrantAuthorization list \<times> u64 \<times> bytes list) result" where
  "collect_raw x m grantee granteeAddr limit count tot grants [] = Inr (grants, tot, [])"
| "collect_raw x m grantee granteeAddr limit count tot grants (e # iter) =
     (if count < limit
      then bindr (kx_DecodeRef x e) (\<lambda>(k1, primaryKey).
           if k1 \<noteq> granteeAddr then collect_raw x m grantee granteeAddr limit count tot grants iter
           else bindr (grantee_row x m grantee primaryKey) (\<lambda>row.
                collect_raw x m grantee granteeAddr limit (count + 1) (tot + 1) (grants @ [row]) iter))
      else Inr (grants, tot, e # iter))"

text \<open>The next key is encoded into a buffer of 128 bytes.\<close>

definition next_key :: "('g, 'f, 'auth, 'any) index_ext \<Rightarrow> bytes list \<Rightarrow> bytes result" where
  "next_key x iter =
     (case iter of
        [] \<Rightarrow> Inr []
      | e # _ \<Rightarrow> bindr (kx_DecodeRef x e) (\<lambda>fullKey. kx_RefNonTerminal x 128 fullKey))"

fun count_raw ::
  "('g, 'f, 'auth, 'any) index_ext \<Rightarrow> address \<Rightarrow> u64 \<Rightarrow> bytes list \<Rightarrow> u64 result" where
  "count_raw x granteeAddr tot [] = Inr tot"
| "count_raw x granteeAddr tot (e # iter) =
     bindr (kx_DecodeRef x e) (\<lambda>(k1, _).
     count_raw x granteeAddr (if k1 = granteeAddr then tot + 1 else tot) iter)"

definition page_limit :: "PageRequest option \<Rightarrow> u64" where
  "page_limit pg = (case pg of None \<Rightarrow> DefaultLimit | Some p \<Rightarrow> if pq_Limit p > 0 then pq_Limit p else DefaultLimit)"

definition page_countTotal :: "PageRequest option \<Rightarrow> bool" where
  "page_countTotal pg = (case pg of None \<Rightarrow> False | Some p \<Rightarrow> pq_CountTotal p)"

text \<open>\<open>IterateRaw\<close> from a start key with no end, in ascending order.\<close>

definition MultiIterateRaw :: "'g indexed_map \<Rightarrow> bytes \<Rightarrow> bytes list" where
  "MultiIterateRaw m start = filter (\<lambda>k. start \<le> k) (map fst (im_refs m))"

definition granteeGrantsWithRawIteration ::
  "('g, 'f, 'auth, 'any) index_ext \<Rightarrow> 'g indexed_map \<Rightarrow> QueryPartyRequest \<Rightarrow> address \<Rightarrow> bytes
     \<Rightarrow> ('any GrantAuthorization list \<times> PageResponse) result" where
  "granteeGrantsWithRawIteration x m req granteeAddr start =
     (let limit = page_limit (pa_Pagination req); countTotal = page_countTotal (pa_Pagination req) in
      bindr (collect_raw x m (pa_Address req) granteeAddr limit 0 0 [] (MultiIterateRaw m start)) (\<lambda>(grants, tot, iter).
      bindr (next_key x iter) (\<lambda>nextKey.
      bindr (if countTotal then count_raw x granteeAddr tot iter else Inr 0) (\<lambda>tot.
      Inr (grants, \<lparr> ps_NextKey = nextKey, ps_Total = tot \<rparr>)))))"

text \<open>The iterator is moved to the first reference whose encoding is not below the key.\<close>

fun skip_to :: "('g, 'f, 'auth, 'any) index_ext \<Rightarrow> bytes \<Rightarrow> bytes list \<Rightarrow> bytes list result" where
  "skip_to x key [] = Inr []"
| "skip_to x key (e # iter) =
     bindr (kx_DecodeRef x e) (\<lambda>fullKey.
     bindr (kx_RefNonTerminal x 128 fullKey) (\<lambda>keyBytes.
     if keyBytes \<ge> key then Inr (e # iter) else skip_to x key iter))"

definition skip_start ::
  "('g, 'f, 'auth, 'any) index_ext \<Rightarrow> PageRequest option \<Rightarrow> bytes list \<Rightarrow> bytes list result" where
  "skip_start x pg iter =
     (case pg of
        None \<Rightarrow> Inr iter
      | Some p \<Rightarrow>
          if length (pq_Key p) > 0 then skip_to x (pq_Key p) iter
          else if pq_Offset p > 0 then Inr (drop (unat (pq_Offset p)) iter)
          else Inr iter)"

definition grantee_refs :: "('g, 'f, 'auth, 'any) index_ext \<Rightarrow> 'g indexed_map \<Rightarrow> address \<Rightarrow> bytes list" where
  "grantee_refs x m granteeAddr = filter (\<lambda>k. HasPrefix k (kx_RefPrefix x granteeAddr)) (map fst (im_refs m))"

definition GranteeGrants ::
  "('g, 'f, 'auth, 'any) index_ext \<Rightarrow> 'g indexed_map \<Rightarrow> QueryPartyRequest
     \<Rightarrow> ('any GrantAuthorization list \<times> PageResponse) result" where
  "GranteeGrants x m req =
     bindr (kx_StringToBytes x (pa_Address req)) (\<lambda>granteeAddr.
     let pagination = pa_Pagination req;
         key = (case pagination of None \<Rightarrow> [] | Some p \<Rightarrow> pq_Key p) in
     if length key > 0 then granteeGrantsWithRawIteration x m req granteeAddr key
     else bindr (skip_start x pagination (grantee_refs x m granteeAddr)) (\<lambda>iter.
          bindr (collect_grants x m (pa_Address req) (page_limit pagination) 0 0 [] iter) (\<lambda>(grants, tot, iter).
          bindr (next_key x iter) (\<lambda>nextKey.
          let tot = (if page_countTotal pagination then tot + of_nat (length iter) else 0) in
          Inr (grants, \<lparr> ps_NextKey = nextKey, ps_Total = tot \<rparr>)))))"

section \<open>Allowances (feegrant_querier.go)\<close>

record QueryAllowanceRequest =
  al_Granter :: string
  al_Grantee :: string

definition ParseAllowanceRequestParams ::
  "('g, 'f, 'auth, 'any) index_ext \<Rightarrow> QueryAllowanceRequest \<Rightarrow> (address \<times> address) result" where
  "ParseAllowanceRequestParams x req =
     bindr (kx_StringToBytes x (al_Granter req)) (\<lambda>granterAddr.
     bindr (kx_StringToBytes x (al_Grantee req)) (\<lambda>granteeAddr.
     Inr (granterAddr, granteeAddr)))"

definition ParseAllowancesRequestParams ::
  "('g, 'f, 'auth, 'any) index_ext \<Rightarrow> QueryPartyRequest \<Rightarrow> address result" where
  "ParseAllowancesRequestParams x req = kx_StringToBytes x (pa_Address req)"

definition ParseAllowancesByGranterRequestParams ::
  "('g, 'f, 'auth, 'any) index_ext \<Rightarrow> QueryPartyRequest \<Rightarrow> address result" where
  "ParseAllowancesByGranterRequestParams x req = kx_StringToBytes x (pa_Address req)"

text \<open>An allowance that is not there is an answer, not an error.\<close>

definition Allowance ::
  "('g, 'f, 'auth, 'any) index_ext \<Rightarrow> 'f indexed_map \<Rightarrow> QueryAllowanceRequest \<Rightarrow> 'f option result" where
  "Allowance x m req =
     bindr (kx_StringToBytes x (al_Granter req)) (\<lambda>granterAddr.
     bindr (kx_StringToBytes x (al_Grantee req)) (\<lambda>granteeAddr.
     case im_Get m (kx_Encode2 x (granterAddr, granteeAddr)) of
       Inl e \<Rightarrow> if e = ErrNotFound then Inr None else Inl e
     | Inr grant \<Rightarrow> Inr (Some grant)))"

definition Allowances ::
  "('g, 'f, 'auth, 'any) index_ext \<Rightarrow> ('f, unit, 'f) pair_paginate \<Rightarrow> 'f indexed_map \<Rightarrow> QueryPartyRequest
     \<Rightarrow> ('f list \<times> PageResponse) result" where
  "Allowances x paginate m req =
     bindr (kx_StringToBytes x (pa_Address req)) (\<lambda>granteeAddr.
     paginate m (pa_Pagination req)
       (\<lambda>key _. im_Get m (kx_Encode2 x (snd key, fst key))) granteeAddr)"

definition AllowancesByGranter ::
  "('g, 'f, 'auth, 'any) index_ext \<Rightarrow> ('f, 'f, 'f) pair_paginate \<Rightarrow> 'f indexed_map \<Rightarrow> QueryPartyRequest
     \<Rightarrow> ('f list \<times> PageResponse) result" where
  "AllowancesByGranter x paginate m req =
     bindr (kx_StringToBytes x (pa_Address req)) (\<lambda>granterAddr.
     paginate m (pa_Pagination req) (\<lambda>key grant. Inr grant) granterAddr)"

end
