(* ===== verification/Indexer_Props.thy ===== *)
theory Indexer_Props
  imports Indexer_Query
begin

text \<open>
  What the indexer guarantees.  First the laws of the key codecs; then the invariant that ties the
  references to the entries, kept by every commit; and the simulation that keeps the entries equal
  to the chain's own stores.
\<close>

section \<open>Laws of the codecs\<close>

text \<open>
  Encoding is undone by decoding, decoded keys can be encoded, and a reference starts with the
  prefix of its own grantee only.  An address has at most 255 bytes.
\<close>

definition key_laws :: "('g, 'f, 'auth, 'any) index_ext \<Rightarrow> bool" where
  "key_laws x \<longleftrightarrow>
     (\<forall>k b. kx_Encode3 x k = Inr b \<longrightarrow> kx_Decode3 x b = Inr k)
     \<and> (\<forall>p r. kx_EncodeRef x p = Inr r \<longrightarrow> kx_DecodeRef x r = Inr p)
     \<and> (\<forall>k k' b. kx_Encode2 x k = Inr b \<and> kx_Encode2 x k' = Inr b \<longrightarrow> k = k')
     \<and> (\<forall>p r g. kx_EncodeRef x p = Inr r \<and> length g \<le> 255 \<longrightarrow>
          HasPrefix r (kx_RefPrefix x g) = (fst p = g))
     \<and> (\<forall>s g. kx_StringToBytes x s = Inr g \<longrightarrow> length g \<le> 255)"

text \<open>What is read from a store key can be written again, and reading returns.\<close>

definition calm_laws :: "('g, 'f, 'auth, 'any) index_ext \<Rightarrow> bool" where
  "calm_laws x \<longleftrightarrow>
     (\<forall>b. \<not> is_panic (kx_Decode3 x b))
     \<and> (\<forall>v. \<not> is_panic (kx_Unmarshal_grant x v)) \<and> (\<forall>v. \<not> is_panic (kx_Unmarshal_allowance x v))
     \<and> (\<forall>b k. kx_Decode3 x b = Inr k \<longrightarrow> (\<exists>e r. kx_Encode3 x k = Inr e \<and> grantee_ref x k = Inr r))
     \<and> (\<exists>e r. kx_Encode3 x ([], [], []) = Inr e \<and> grantee_ref x ([], [], []) = Inr r)
     \<and> (\<forall>b k. kx_ParseAllowanceKey x b = Inr k \<longrightarrow>
          (\<exists>e r. kx_Encode2 x k = Inr e \<and> allowance_ref x k = Inr r))"

text \<open>
  The string at the end of a key is followed by a zero byte where more of the key could follow,
  and an encoding that does not fit the buffer is a run-time panic.
\<close>

definition nonterminal_law :: "('g, 'f, 'auth, 'any) index_ext \<Rightarrow> bool" where
  "nonterminal_law x \<longleftrightarrow>
     (\<forall>n p r. kx_EncodeRef x p = Inr r \<and> CHR 0x00 \<notin> set (snd (snd (snd p))) \<longrightarrow>
        (if length r < n then kx_RefNonTerminal x n p = Inr (r @ [CHR 0x00])
         else is_panic (kx_RefNonTerminal x n p)))"

lemma key_laws_D:
  assumes "key_laws x"
  shows "kx_Encode3 x k = Inr b \<Longrightarrow> kx_Decode3 x b = Inr k"
    and "kx_EncodeRef x p = Inr r \<Longrightarrow> kx_DecodeRef x r = Inr p"
    and "kx_Encode2 x q = Inr c \<Longrightarrow> kx_Encode2 x q' = Inr c \<Longrightarrow> q = q'"
    and "kx_EncodeRef x p = Inr r \<Longrightarrow> length g \<le> 255 \<Longrightarrow> HasPrefix r (kx_RefPrefix x g) \<longleftrightarrow> fst p = g"
    and "kx_StringToBytes x s = Inr g \<Longrightarrow> length g \<le> 255"
  using assms unfolding key_laws_def by blast+

text \<open>An encoding that tells keys apart.\<close>

definition faithful :: "('k \<Rightarrow> bytes result) \<Rightarrow> bool" where
  "faithful enc \<longleftrightarrow> (\<forall>k k' b. enc k = Inr b \<and> enc k' = Inr b \<longrightarrow> k = k')"

lemma faithfulD: "faithful enc \<Longrightarrow> enc k = Inr b \<Longrightarrow> enc k' = Inr b \<Longrightarrow> k = k'"
  unfolding faithful_def by blast

lemma faithful_keys:
  assumes "key_laws x"
  shows "faithful (kx_Encode3 x)" and "faithful (grantee_ref x)"
    and "faithful (kx_Encode2 x)" and "faithful (allowance_ref x)"
proof -
  show "faithful (kx_Encode3 x)"
    unfolding faithful_def by (metis key_laws_D(1) [OF assms] sum.inject(2))
  show "faithful (grantee_ref x)"
    unfolding faithful_def grantee_ref_def by (metis key_laws_D(2) [OF assms] prod.inject sum.inject(2))
  show "faithful (kx_Encode2 x)"
    unfolding faithful_def using key_laws_D(3) [OF assms] by blast
  show "faithful (allowance_ref x)"
    unfolding faithful_def allowance_ref_def using key_laws_D(3) [OF assms] by (metis prod.inject prod.collapse)
qed

section \<open>References follow entries\<close>

definition refs_ok :: "('k \<Rightarrow> bytes result) \<Rightarrow> ('k \<Rightarrow> bytes result) \<Rightarrow> 'v indexed_map \<Rightarrow> bool" where
  "refs_ok enc ref m \<longleftrightarrow>
     kv_wf (im_main m) \<and> kv_wf (im_refs m)
     \<and> (\<forall>b. kv_has (im_main m) b \<longrightarrow> (\<exists>k r. enc k = Inr b \<and> ref k = Inr r))
     \<and> (\<forall>r. kv_has (im_refs m) r \<longleftrightarrow> (\<exists>k b. enc k = Inr b \<and> kv_has (im_main m) b \<and> ref k = Inr r))"

text \<open>Setting and removing an entry under injective encodings.\<close>

lemma im_Set_refs:
  assumes "refs_ok enc ref m" and "enc k = Inr b" and "ref k = Inr r"
    and "faithful enc"
  shows "\<exists>m'. im_Set (enc k) (ref k) v m = Inr m' \<and> refs_ok enc ref m'"
proof -
  let ?m = "m\<lparr> im_main := kv_set b v (im_main m), im_refs := kv_set r () (im_refs m) \<rparr>"
  have refs: "kv_has (im_refs m) r' \<longleftrightarrow> (\<exists>k b. enc k = Inr b \<and> kv_has (im_main m) b \<and> ref k = Inr r')" for r'
    using assms(1) by (simp add: refs_ok_def)
  have "kv_has (im_refs ?m) r' \<longleftrightarrow> (\<exists>k b. enc k = Inr b \<and> kv_has (im_main ?m) b \<and> ref k = Inr r')" for r'
  proof -
    have "r' = r" if "enc k' = Inr b" "ref k' = Inr r'" for k'
      using that assms(3) faithfulD [OF assms(4) that(1) assms(2)] by simp
    then show ?thesis
      using assms(2,3) by (auto simp: refs)
  qed
  moreover have "\<exists>k r. enc k = Inr b' \<and> ref k = Inr r" if "kv_has (im_main ?m) b'" for b'
    using that assms(1,2,3) by (auto simp: refs_ok_def)
  ultimately have "refs_ok enc ref ?m"
    using assms(1) unfolding refs_ok_def by simp
  then show ?thesis
    by (simp add: im_Set_def assms(2,3))
qed

lemma im_Remove_refs:
  assumes "refs_ok enc ref m" and "enc k = Inr b" and "ref k = Inr r" and "kv_has (im_main m) b"
    and "faithful enc" and "faithful ref"
  shows "\<exists>m'. im_Remove (enc k) (ref k) m = Inr m' \<and> refs_ok enc ref m'"
proof -
  let ?m = "m\<lparr> im_main := kv_del b (im_main m), im_refs := kv_del r (im_refs m) \<rparr>"
  have refs: "kv_has (im_refs m) r' \<longleftrightarrow> (\<exists>k b. enc k = Inr b \<and> kv_has (im_main m) b \<and> ref k = Inr r')" for r'
    using assms(1) by (simp add: refs_ok_def)
  have "kv_has (im_refs ?m) r' \<longleftrightarrow> (\<exists>k b. enc k = Inr b \<and> kv_has (im_main ?m) b \<and> ref k = Inr r')" for r'
  proof -
    have "b' = b \<longleftrightarrow> r' = r" if "enc k' = Inr b'" "ref k' = Inr r'" for k' b'
      using that assms(2,3) faithfulD [OF assms(5), of k' b' k] faithfulD [OF assms(6), of k' r' k] by auto
    then show ?thesis
      by (auto simp: refs)
  qed
  then have "refs_ok enc ref ?m"
    using assms(1) unfolding refs_ok_def by simp
  then show ?thesis
    by (simp add: im_Remove_def assms(2-4))
qed

lemma refs_ok_empty: "refs_ok enc ref \<lparr> im_main = [], im_refs = [] \<rparr>"
  by (simp add: refs_ok_def kv_has_def)

definition index_inv :: "('g, 'f, 'auth, 'any) index_ext \<Rightarrow> ('g, 'f) StreamService \<Rightarrow> bool" where
  "index_inv x ss \<longleftrightarrow>
     refs_ok (kx_Encode3 x) (grantee_ref x) (ss_authz ss)
     \<and> refs_ok (kx_Encode2 x) (allowance_ref x) (ss_feegrant ss)"

section \<open>Every commit is followed\<close>

lemma parse_key_ok:
  assumes "calm_laws x"
  shows "\<exists>k e r. parseGrantStoreKey x key = Inr k \<and> kx_Encode3 x k = Inr e \<and> grantee_ref x k = Inr r"
proof (cases "length key < 1")
  case False
  have calm: "\<not> is_panic (kx_Decode3 x b)" for b
    using assms by (simp add: calm_laws_def)
  show ?thesis
  proof (cases "kx_Decode3 x (tl key)")
    case (Inl e)
    then have "parseGrantStoreKey x key = Inr ([], [], [])"
      using False calm [of "tl key"] by (cases e; cases key) (simp_all add: parseGrantStoreKey_def)
    then show ?thesis
      using assms by (auto simp: calm_laws_def)
  next
    case (Inr k)
    then have "parseGrantStoreKey x key = Inr k"
      using False by (cases key) (simp_all add: parseGrantStoreKey_def)
    then show ?thesis
      using assms Inr unfolding calm_laws_def by blast
  qed
qed (use assms in \<open>auto simp: parseGrantStoreKey_def calm_laws_def\<close>)

lemma log_error_Inr [simp]: "log_error m (Inr m') = Inr m'"
  by (simp add: log_error_def)

lemma SafeAuthz_total:
  assumes "key_laws x" and "calm_laws x" and "refs_ok (kx_Encode3 x) (grantee_ref x) m"
  shows "\<exists>m'. SafeAuthzHandlerUpdate x pair m = Inr m' \<and> refs_ok (kx_Encode3 x) (grantee_ref x) m'"
proof -
  obtain k e r where parse: "parseGrantStoreKey x (kp_Key pair) = Inr k"
    and enc: "kx_Encode3 x k = Inr e" and ref: "grantee_ref x k = Inr r"
    using parse_key_ok [OF assms(2)] by blast
  obtain g1 g2 t where k: "k = (g1, g2, t)"
    by (cases k)
  show ?thesis
  proof (cases "kp_Delete pair")
    case True
    then show ?thesis
      using im_Remove_refs [OF assms(3) enc ref _ faithful_keys(1,2) [OF assms(1)]]
        assms(3) enc
      by (auto simp: SafeAuthzHandlerUpdate_def parse k im_Has_def Let_def)
  next
    case False
    have "\<not> is_panic (kx_Unmarshal_grant x (kp_Value pair))"
      using assms(2) by (simp add: calm_laws_def)
    then show ?thesis
    proof (cases "kx_Unmarshal_grant x (kp_Value pair)")
      case (Inl e)
      then show ?thesis
        using False assms(3) \<open>\<not> is_panic _\<close>
        by (cases e) (simp_all add: SafeAuthzHandlerUpdate_def parse k)
    next
      case (Inr v)
      obtain m' where "im_Set (kx_Encode3 x k) (grantee_ref x k) v m = Inr m'" and "refs_ok (kx_Encode3 x) (grantee_ref x) m'"
        using im_Set_refs [OF assms(3) enc ref faithful_keys(1) [OF assms(1)]] by blast
      then show ?thesis
        using False Inr by (simp add: SafeAuthzHandlerUpdate_def parse k AuthzHandler_SetGrant_def Let_def)
    qed
  qed
qed

lemma SafeFeeGrant_total:
  assumes "key_laws x" and "calm_laws x" and "refs_ok (kx_Encode2 x) (allowance_ref x) m"
  shows "\<exists>m'. SafeFeeGrantHandlerUpdate x pair m = Inr m' \<and> refs_ok (kx_Encode2 x) (allowance_ref x) m'"
proof (cases "length (kp_Key pair) < 5 \<or> (\<exists>e. kx_ParseAllowanceKey x (kp_Key pair) = Inl e)")
  case False
  then obtain k where parse: "kx_ParseAllowanceKey x (kp_Key pair) = Inr k" and long: "\<not> length (kp_Key pair) < 5"
    by (metis sum.exhaust)
  obtain e r where enc: "kx_Encode2 x k = Inr e" and ref: "allowance_ref x k = Inr r"
    using assms(2) parse unfolding calm_laws_def by blast
  obtain g1 g2 where k: "k = (g1, g2)"
    by (cases k)
  show ?thesis
  proof (cases "kp_Delete pair")
    case True
    then show ?thesis
      using im_Remove_refs [OF assms(3) enc ref _ faithful_keys(3,4) [OF assms(1)]]
        assms(3) enc long
      by (auto simp: SafeFeeGrantHandlerUpdate_def parse k im_Has_def Let_def)
  next
    case False
    have "\<not> is_panic (kx_Unmarshal_allowance x (kp_Value pair))"
      using assms(2) by (simp add: calm_laws_def)
    then show ?thesis
    proof (cases "kx_Unmarshal_allowance x (kp_Value pair)")
      case (Inl e)
      then show ?thesis
        using False assms(3) long \<open>\<not> is_panic _\<close>
        by (cases e) (simp_all add: SafeFeeGrantHandlerUpdate_def parse k)
    next
      case (Inr v)
      obtain m' where "im_Set (kx_Encode2 x k) (allowance_ref x k) v m = Inr m'" and "refs_ok (kx_Encode2 x) (allowance_ref x) m'"
        using im_Set_refs [OF assms(3) enc ref faithful_keys(3) [OF assms(1)]] by blast
      then show ?thesis
        using False Inr long by (simp add: SafeFeeGrantHandlerUpdate_def parse k FeeGrantHandler_SetGrant_def Let_def)
    qed
  qed
qed (use assms(3) in \<open>auto simp: SafeFeeGrantHandlerUpdate_def\<close>)

lemma listen_pair_total:
  assumes "key_laws x" and "calm_laws x" and "index_inv x ss"
  shows "\<exists>ss'. listen_pair x pair ss = Inr ss' \<and> index_inv x ss'"
proof -
  have "\<exists>m'. SafeAuthzHandlerUpdate x pair (ss_authz ss) = Inr m' \<and> refs_ok (kx_Encode3 x) (grantee_ref x) m'"
    using assms by (intro SafeAuthz_total) (simp_all add: index_inv_def)
  moreover have "\<exists>m'. SafeFeeGrantHandlerUpdate x pair (ss_feegrant ss) = Inr m'
      \<and> refs_ok (kx_Encode2 x) (allowance_ref x) m'"
    using assms by (intro SafeFeeGrant_total) (simp_all add: index_inv_def)
  ultimately show ?thesis
    using assms(3) by (auto simp: listen_pair_def index_inv_def)
qed

text \<open>
  A listener beside the chain: each change it is told of is applied to the chain's stores and
  followed by the listener, and the relation between the two is kept over a whole change set.
\<close>

locale follower =
  fixes follow :: "'p \<Rightarrow> 'm \<Rightarrow> 'm result"
    and commit :: "'p \<Rightarrow> 'c \<Rightarrow> 'c"
    and fit :: "'p \<Rightarrow> bool"
    and rel :: "'c \<Rightarrow> 'm \<Rightarrow> bool"
  assumes follow_step: "fit p \<Longrightarrow> rel c m \<Longrightarrow> \<exists>m'. follow p m = Inr m' \<and> rel (commit p c) m'"
begin

lemma follow_run:
  "(\<And>p. p \<in> set ps \<Longrightarrow> fit p) \<Longrightarrow> rel c m \<Longrightarrow>
     \<exists>m'. fold_each follow ps m = Inr m' \<and> rel (fold commit ps c) m'"
proof (induction ps arbitrary: c m)
  case (Cons p ps)
  obtain m1 where "follow p m = Inr m1" and "rel (commit p c) m1"
    using follow_step [of p c m] Cons.prems by auto
  then show ?case
    using Cons.IH [of "commit p c" m1] Cons.prems(1) by simp
qed simp

end

text \<open>Any change set, well formed or not, is followed and keeps the invariant.\<close>

definition sound_index :: "('g, 'f, 'auth, 'any) index_ext \<Rightarrow> unit \<Rightarrow> ('g, 'f) StreamService \<Rightarrow> bool" where
  "sound_index x u ss \<longleftrightarrow> key_laws x \<and> calm_laws x \<and> index_inv x ss"

interpretation any_commit: follower "listen_pair x" "\<lambda>p u. u" "\<lambda>p. True" "sound_index x" for x
  by unfold_locales (auto simp: sound_index_def dest: listen_pair_total)

section \<open>The index mirrors the chain\<close>

type_synonym chain_stores = "string \<Rightarrow> (bytes, bytes) kv"

definition commit_change :: "StoreKVPair \<Rightarrow> chain_stores \<Rightarrow> chain_stores" where
  "commit_change pair c =
     c(kp_StoreKey pair :=
         (if kp_Delete pair then kv_del (kp_Key pair) (c (kp_StoreKey pair))
          else kv_set (kp_Key pair) (kp_Value pair) (c (kp_StoreKey pair))))"

text \<open>The value the chain holds under a key, decoded.\<close>

definition stored :: "(bytes \<Rightarrow> 'v result) \<Rightarrow> bytes option \<Rightarrow> 'v option" where
  "stored unmarshal v =
     (case v of None \<Rightarrow> None | Some b \<Rightarrow> (case unmarshal b of Inl _ \<Rightarrow> None | Inr g \<Rightarrow> Some g))"

definition proper :: "address \<times> address \<Rightarrow> bool" where
  "proper k \<longleftrightarrow> fst k \<noteq> [] \<and> snd k \<noteq> []"

text \<open>\<open>akey\<close> is the chain's store key of an allowance, which the parser reads back.\<close>

definition allowance_key_laws :: "('g, 'f, 'auth, 'any) index_ext \<Rightarrow> (address \<times> address \<Rightarrow> bytes) \<Rightarrow> bool" where
  "allowance_key_laws x akey \<longleftrightarrow>
     (\<forall>k b. kx_Encode2 x k = Inr b \<and> proper k \<longrightarrow>
        HasPrefix (akey k) FeeAllowanceKeyPrefix \<and> 5 \<le> length (akey k)
        \<and> kx_ParseAllowanceKey x (akey k) = Inr k)"

definition mirrors ::
  "('g, 'f, 'auth, 'any) index_ext \<Rightarrow> (address \<times> address \<Rightarrow> bytes) \<Rightarrow> chain_stores
     \<Rightarrow> ('g, 'f) StreamService \<Rightarrow> bool" where
  "mirrors x akey c ss \<longleftrightarrow>
     (\<forall>k b. kx_Encode3 x k = Inr b \<longrightarrow>
        kv_get (im_main (ss_authz ss)) b
          = stored (kx_Unmarshal_grant x) (kv_get (c ''authz'') (GrantKey @ b)))
     \<and> (\<forall>k b. kx_Encode2 x k = Inr b \<and> proper k \<longrightarrow>
        kv_get (im_main (ss_feegrant ss)) b
          = stored (kx_Unmarshal_allowance x) (kv_get (c ''feegrant'') (akey k)))"

lemma allowance_key_lawsD:
  assumes "allowance_key_laws x akey" and "kx_Encode2 x k = Inr b" and "proper k"
  shows "HasPrefix (akey k) FeeAllowanceKeyPrefix" and "5 \<le> length (akey k)"
    and "kx_ParseAllowanceKey x (akey k) = Inr k"
  using assms unfolding allowance_key_laws_def by blast+

lemma mirrorsD:
  assumes "mirrors x akey c ss"
  shows "kx_Encode3 x k = Inr b \<Longrightarrow> kv_get (im_main (ss_authz ss)) b
      = stored (kx_Unmarshal_grant x) (kv_get (c ''authz'') (GrantKey @ b))"
    and "kx_Encode2 x q = Inr e \<Longrightarrow> proper q \<Longrightarrow> kv_get (im_main (ss_feegrant ss)) e
      = stored (kx_Unmarshal_allowance x) (kv_get (c ''feegrant'') (akey q))"
  using assms unfolding mirrors_def by blast+

lemma mirrorsI:
  assumes "\<And>k b. kx_Encode3 x k = Inr b \<Longrightarrow> kv_get (im_main (ss_authz ss)) b
      = stored (kx_Unmarshal_grant x) (kv_get (c ''authz'') (GrantKey @ b))"
    and "\<And>q e. kx_Encode2 x q = Inr e \<Longrightarrow> proper q \<Longrightarrow> kv_get (im_main (ss_feegrant ss)) e
      = stored (kx_Unmarshal_allowance x) (kv_get (c ''feegrant'') (akey q))"
  shows "mirrors x akey c ss"
  using assms unfolding mirrors_def by blast

text \<open>A change the chain makes: a well-formed key, and a value of the module when it is written.\<close>

definition chain_change ::
  "('g, 'f, 'auth, 'any) index_ext \<Rightarrow> (address \<times> address \<Rightarrow> bytes) \<Rightarrow> StoreKVPair \<Rightarrow> bool" where
  "chain_change x akey pair \<longleftrightarrow>
     (kp_StoreKey pair = ''authz'' \<and> HasPrefix (kp_Key pair) GrantKey \<longrightarrow>
        (\<exists>k b r. kp_Key pair = GrantKey @ b \<and> kx_Encode3 x k = Inr b \<and> grantee_ref x k = Inr r)
        \<and> (\<not> kp_Delete pair \<longrightarrow> (\<exists>g. kx_Unmarshal_grant x (kp_Value pair) = Inr g)))
     \<and> (kp_StoreKey pair = ''feegrant'' \<and> HasPrefix (kp_Key pair) FeeAllowanceKeyPrefix \<longrightarrow>
        (\<exists>k b r. kp_Key pair = akey k \<and> proper k \<and> kx_Encode2 x k = Inr b \<and> allowance_ref x k = Inr r)
        \<and> (\<not> kp_Delete pair \<longrightarrow> (\<exists>f. kx_Unmarshal_allowance x (kp_Value pair) = Inr f)))"

text \<open>What a well-formed change does to the entries.\<close>

lemma SafeAuthz_entry:
  assumes "key_laws x" and "kp_Key pair = GrantKey @ b" and "kx_Encode3 x k = Inr b" and "grantee_ref x k = Inr r"
    and "kp_Delete pair \<or> kx_Unmarshal_grant x (kp_Value pair) = Inr g"
  shows "\<exists>m'. SafeAuthzHandlerUpdate x pair m = Inr m'
    \<and> kv_get (im_main m') = (kv_get (im_main m))(b := if kp_Delete pair then None else Some g)"
proof -
  have parse: "parseGrantStoreKey x (kp_Key pair) = Inr k"
    using assms(1-3) by (simp add: parseGrantStoreKey_def GrantKey_def key_laws_D(1))
  obtain g1 g2 t where k: "k = (g1, g2, t)"
    by (cases k)
  have enc: "kx_Encode3 x (g1, g2, t) = Inr b" and ref: "grantee_ref x (g1, g2, t) = Inr r"
    using assms(3,4) by (simp_all add: k)
  show ?thesis
  proof (cases "kp_Delete pair")
    case True
    then show ?thesis
      by (auto simp: SafeAuthzHandlerUpdate_def parse k enc ref im_Has_def im_Remove_def Let_def kv_has_def fun_eq_iff)
  next
    case False
    then show ?thesis
      using assms(5)
      by (auto simp: SafeAuthzHandlerUpdate_def parse k enc ref AuthzHandler_SetGrant_def im_Set_def Let_def fun_eq_iff)
  qed
qed

lemma SafeFeeGrant_entry:
  assumes "kx_ParseAllowanceKey x (kp_Key pair) = Inr k" and "5 \<le> length (kp_Key pair)"
    and "kx_Encode2 x k = Inr b" and "allowance_ref x k = Inr r"
    and "kp_Delete pair \<or> kx_Unmarshal_allowance x (kp_Value pair) = Inr g"
  shows "\<exists>m'. SafeFeeGrantHandlerUpdate x pair m = Inr m'
    \<and> kv_get (im_main m') = (kv_get (im_main m))(b := if kp_Delete pair then None else Some g)"
proof -
  obtain g1 g2 where k: "k = (g1, g2)"
    by (cases k)
  have enc: "kx_Encode2 x (g1, g2) = Inr b" and ref: "allowance_ref x (g1, g2) = Inr r"
    using assms(3,4) by (simp_all add: k)
  show ?thesis
  proof (cases "kp_Delete pair")
    case True
    then show ?thesis
      using assms(2)
      by (auto simp: SafeFeeGrantHandlerUpdate_def assms(1) k enc ref im_Has_def im_Remove_def Let_def kv_has_def fun_eq_iff)
  next
    case False
    then show ?thesis
      using assms(2,5)
      by (auto simp: SafeFeeGrantHandlerUpdate_def assms(1) k enc ref FeeGrantHandler_SetGrant_def im_Set_def Let_def fun_eq_iff)
  qed
qed

text \<open>The entries of one collection after a change of the chain's store.\<close>

lemma entry_follows:
  assumes "faithful enc" and "enc k = Inr b" and "inj_on key {k. P k \<and> (\<exists>b. enc k = Inr b)}" and "P k"
    and "\<forall>k b. enc k = Inr b \<and> P k \<longrightarrow> es b = stored um (kv_get s (key k))"
    and "del \<or> um v = Inr g"
    and "enc k' = Inr b'" and "P k'"
  shows "(es(b := if del then None else Some g)) b'
    = stored um (kv_get (if del then kv_del (key k) s else kv_set (key k) v s) (key k'))"
proof (cases "k' = k")
  case True
  then show ?thesis
    using assms(2,6,7) by (auto simp: stored_def)
next
  case False
  then have "b' \<noteq> b"
    using faithfulD [OF assms(1), of k' b' k] assms(2,7) by auto
  moreover have "key k' \<noteq> key k"
    using False inj_onD [OF assms(3), of k' k] assms(2,4,7,8) by auto
  ultimately show ?thesis
    using assms(5,7,8) by simp
qed

lemma allowance_key_inj:
  "allowance_key_laws x akey \<Longrightarrow> inj_on akey {k. proper k \<and> (\<exists>b. kx_Encode2 x k = Inr b)}"
proof (rule inj_onI)
  fix k k'
  assume laws: "allowance_key_laws x akey" and same: "akey k = akey k'"
    and "k \<in> {k. proper k \<and> (\<exists>b. kx_Encode2 x k = Inr b)}" "k' \<in> {k. proper k \<and> (\<exists>b. kx_Encode2 x k = Inr b)}"
  then obtain b b' where "proper k" "kx_Encode2 x k = Inr b" "proper k'" "kx_Encode2 x k' = Inr b'"
    by blast
  then show "k = k'"
    using allowance_key_lawsD(3) [OF laws] same by (metis sum.inject(2))
qed

lemma grant_key_inj:
  "key_laws x \<Longrightarrow> inj_on (\<lambda>k. GrantKey @ projr (kx_Encode3 x k)) {k. True \<and> (\<exists>b. kx_Encode3 x k = Inr b)}"
  using faithful_keys(1) by (force simp: inj_on_def dest: faithfulD)

lemma mirrors_authz:
  assumes "key_laws x" and "mirrors x akey c ss" and "chain_change x akey pair"
    and "kp_StoreKey pair = ''authz''" and "HasPrefix (kp_Key pair) GrantKey"
  shows "\<exists>m'. SafeAuthzHandlerUpdate x pair (ss_authz ss) = Inr m'
    \<and> mirrors x akey (commit_change pair c) (ss\<lparr> ss_authz := m' \<rparr>)"
proof -
  obtain k b r where key: "kp_Key pair = GrantKey @ b" and enc: "kx_Encode3 x k = Inr b"
    and ref: "grantee_ref x k = Inr r"
    using assms(3-5) unfolding chain_change_def by blast
  obtain g where val: "kp_Delete pair \<or> kx_Unmarshal_grant x (kp_Value pair) = Inr g"
    using assms(3-5) unfolding chain_change_def by blast
  obtain m' where run: "SafeAuthzHandlerUpdate x pair (ss_authz ss) = Inr m'"
    and get: "kv_get (im_main m') = (kv_get (im_main (ss_authz ss)))(b := if kp_Delete pair then None else Some g)"
    using SafeAuthz_entry [OF assms(1) key enc ref val] by blast
  have old: "\<forall>k b. kx_Encode3 x k = Inr b \<and> True \<longrightarrow> kv_get (im_main (ss_authz ss)) b
      = stored (kx_Unmarshal_grant x) (kv_get (c ''authz'') (GrantKey @ projr (kx_Encode3 x k)))"
    using mirrorsD(1) [OF assms(2)] by (metis sum.sel(2))
  have "kv_get (im_main m') b'
      = stored (kx_Unmarshal_grant x) (kv_get (commit_change pair c ''authz'') (GrantKey @ b'))"
    if enc': "kx_Encode3 x k' = Inr b'" for k' b'
    using entry_follows [OF faithful_keys(1) [OF assms(1)] enc grant_key_inj [OF assms(1)] TrueI
        old val enc' TrueI]
    by (simp add: get enc enc' commit_change_def assms(4) key)
  then have "mirrors x akey (commit_change pair c) (ss\<lparr> ss_authz := m' \<rparr>)"
    using mirrorsD(2) [OF assms(2)] by (intro mirrorsI) (simp_all add: commit_change_def assms(4))
  then show ?thesis
    using run by blast
qed

lemma mirrors_feegrant:
  assumes "key_laws x" and "allowance_key_laws x akey" and "mirrors x akey c ss" and "chain_change x akey pair"
    and "kp_StoreKey pair = ''feegrant''" and "HasPrefix (kp_Key pair) FeeAllowanceKeyPrefix"
  shows "\<exists>m'. SafeFeeGrantHandlerUpdate x pair (ss_feegrant ss) = Inr m'
    \<and> mirrors x akey (commit_change pair c) (ss\<lparr> ss_feegrant := m' \<rparr>)"
proof -
  obtain k b r where key: "kp_Key pair = akey k" and pr: "proper k" and enc: "kx_Encode2 x k = Inr b"
    and ref: "allowance_ref x k = Inr r"
    using assms(4-6) unfolding chain_change_def by blast
  obtain g where val: "kp_Delete pair \<or> kx_Unmarshal_allowance x (kp_Value pair) = Inr g"
    using assms(4-6) unfolding chain_change_def by blast
  have parse: "kx_ParseAllowanceKey x (kp_Key pair) = Inr k" "5 \<le> length (kp_Key pair)"
    using allowance_key_lawsD [OF assms(2) enc pr] by (simp_all add: key)
  obtain m' where run: "SafeFeeGrantHandlerUpdate x pair (ss_feegrant ss) = Inr m'"
    and get: "kv_get (im_main m') = (kv_get (im_main (ss_feegrant ss)))(b := if kp_Delete pair then None else Some g)"
    using SafeFeeGrant_entry [OF parse enc ref val] by blast
  have old: "\<forall>k b. kx_Encode2 x k = Inr b \<and> proper k \<longrightarrow> kv_get (im_main (ss_feegrant ss)) b
      = stored (kx_Unmarshal_allowance x) (kv_get (c ''feegrant'') (akey k))"
    using mirrorsD(2) [OF assms(3)] by blast
  have "kv_get (im_main m') b'
      = stored (kx_Unmarshal_allowance x) (kv_get (commit_change pair c ''feegrant'') (akey k'))"
    if enc': "kx_Encode2 x k' = Inr b'" and pr': "proper k'" for k' b'
    using entry_follows [OF faithful_keys(3) [OF assms(1)] enc allowance_key_inj [OF assms(2)] pr
        old val enc' pr']
    by (simp add: get commit_change_def assms(5) key)
  then have "mirrors x akey (commit_change pair c) (ss\<lparr> ss_feegrant := m' \<rparr>)"
    using mirrorsD(1) [OF assms(3)] by (intro mirrorsI) (simp_all add: commit_change_def assms(5))
  then show ?thesis
    using run by blast
qed

lemma mirrors_other:
  assumes "mirrors x akey c ss" and "allowance_key_laws x akey"
    and "kp_StoreKey pair = ''authz'' \<Longrightarrow> \<not> HasPrefix (kp_Key pair) GrantKey"
    and "kp_StoreKey pair = ''feegrant'' \<Longrightarrow> \<not> HasPrefix (kp_Key pair) FeeAllowanceKeyPrefix"
  shows "mirrors x akey (commit_change pair c) ss"
proof -
  have "kv_get (commit_change pair c ''authz'') (GrantKey @ b) = kv_get (c ''authz'') (GrantKey @ b)" for b
  proof (cases "kp_StoreKey pair = ''authz''")
    case True
    then have "kp_Key pair \<noteq> GrantKey @ b"
      using assms(3) by (auto simp: HasPrefix_def)
    then show ?thesis
      by (simp add: commit_change_def)
  qed (simp add: commit_change_def)
  moreover have "kv_get (commit_change pair c ''feegrant'') (akey k) = kv_get (c ''feegrant'') (akey k)"
    if "kx_Encode2 x k = Inr b" "proper k" for k b
  proof (cases "kp_StoreKey pair = ''feegrant''")
    case True
    then have "kp_Key pair \<noteq> akey k"
      using assms(4) allowance_key_lawsD(1) [OF assms(2) that] by auto
    then show ?thesis
      by (simp add: commit_change_def)
  qed (simp add: commit_change_def)
  ultimately show ?thesis
    using mirrorsD [OF assms(1)] by (intro mirrorsI) simp_all
qed

text \<open>The simulation: a well-formed change keeps the index equal to the chain's stores.\<close>

definition faithful_copy ::
  "('g, 'f, 'auth, 'any) index_ext \<Rightarrow> (address \<times> address \<Rightarrow> bytes) \<Rightarrow> chain_stores
     \<Rightarrow> ('g, 'f) StreamService \<Rightarrow> bool" where
  "faithful_copy x akey c ss \<longleftrightarrow> key_laws x \<and> allowance_key_laws x akey \<and> mirrors x akey c ss"

lemma listen_pair_mirrors:
  assumes "chain_change x akey pair" and "faithful_copy x akey c ss"
  shows "\<exists>ss'. listen_pair x pair ss = Inr ss' \<and> faithful_copy x akey (commit_change pair c) ss'"
proof -
  have laws: "key_laws x" "allowance_key_laws x akey" "mirrors x akey c ss"
    using assms(2) by (simp_all add: faithful_copy_def)
  consider "kp_StoreKey pair = ''authz''" "HasPrefix (kp_Key pair) GrantKey"
    | "kp_StoreKey pair = ''feegrant''" "HasPrefix (kp_Key pair) FeeAllowanceKeyPrefix"
    | "kp_StoreKey pair = ''authz'' \<Longrightarrow> \<not> HasPrefix (kp_Key pair) GrantKey"
      "kp_StoreKey pair = ''feegrant'' \<Longrightarrow> \<not> HasPrefix (kp_Key pair) FeeAllowanceKeyPrefix"
    by blast
  then show ?thesis
  proof cases
    case 1
    then show ?thesis
      using mirrors_authz [OF laws(1,3) assms(1)] laws by (auto simp: listen_pair_def faithful_copy_def)
  next
    case 2
    then show ?thesis
      using mirrors_feegrant [OF laws assms(1)] laws by (auto simp: listen_pair_def faithful_copy_def)
  next
    case 3
    then have "listen_pair x pair ss = Inr ss"
      by (auto simp: listen_pair_def)
    then show ?thesis
      using mirrors_other [OF laws(3,2) 3] laws by (simp add: faithful_copy_def)
  qed
qed

interpretation chain_commit: follower "listen_pair x" commit_change "chain_change x akey" "faithful_copy x akey" for x akey
  by unfold_locales (rule listen_pair_mirrors)

end
