(* ===== verification/Indexer_Paging.thy ===== *)
theory Indexer_Paging
  imports Indexer_Props
begin

text \<open>
  The pages of the listing by grantee.  A concrete codec in the
  layout of the collections library (length byte before an address, the message type at the end)
  satisfies the laws and serves as the example.
\<close>

section \<open>A concrete codec\<close>

definition lp :: "address \<Rightarrow> bytes" where
  "lp a = char_of (length a) # a"

definition unlp :: "bytes \<Rightarrow> (address \<times> bytes) option" where
  "unlp b = (case b of [] \<Rightarrow> None
     | c # r \<Rightarrow> if of_char c \<le> length r then Some (take (of_char c) r, drop (of_char c) r) else None)"

lemma unlp_lp [simp]: "length a \<le> 255 \<Longrightarrow> unlp (lp a @ r) = Some (a, r)"
  by (simp add: unlp_def lp_def)

lemma unlp_short: "unlp b = Some (a, r) \<Longrightarrow> length a \<le> 255"
proof -
  have "of_char c < (256 :: nat)" for c
    by (metis mod_less_divisor of_char_mod_256 zero_less_numeral)
  then show "unlp b = Some (a, r) \<Longrightarrow> length a \<le> 255"
    by (auto simp: unlp_def less_Suc_eq_le numeral_eq_Suc split: list.splits if_splits)
qed

definition short_panic :: go_error where "short_panic = GoPanic ''slice bounds out of range''"

fun ref_Encode3 :: "triple \<Rightarrow> bytes result" where
  "ref_Encode3 (a, b, m) = (if length a \<le> 255 \<and> length b \<le> 255 then Inr (lp a @ lp b @ m) else Inl short_panic)"

definition ref_Decode3 :: "bytes \<Rightarrow> triple result" where
  "ref_Decode3 s =
     (case unlp s of None \<Rightarrow> Inl (External ''decode'')
      | Some (a, r) \<Rightarrow> (case unlp r of None \<Rightarrow> Inl (External ''decode'') | Some (b, m) \<Rightarrow> Inr (a, b, m)))"

definition ref_EncodeRef :: "address \<times> triple \<Rightarrow> bytes result" where
  "ref_EncodeRef p =
     (if length (fst p) \<le> 255 then bindr (ref_Encode3 (snd p)) (\<lambda>b. Inr (lp (fst p) @ b)) else Inl short_panic)"

definition ref_DecodeRef :: "bytes \<Rightarrow> (address \<times> triple) result" where
  "ref_DecodeRef s =
     (case unlp s of None \<Rightarrow> Inl (External ''decode'')
      | Some (g, r) \<Rightarrow> bindr (ref_Decode3 r) (\<lambda>k. Inr (g, k)))"

definition ref_ParseAllowanceKey :: "bytes \<Rightarrow> (address \<times> address) result" where
  "ref_ParseAllowanceKey s =
     (case unlp (tl s) of None \<Rightarrow> Inl short_panic
      | Some (grantee, r) \<Rightarrow> (case unlp r of None \<Rightarrow> Inl short_panic | Some (granter, _) \<Rightarrow> Inr (granter, grantee)))"

definition ref_ix :: "(bytes, bytes, bytes, bytes) index_ext" where
  "ref_ix =
     \<lparr> kx_Encode3 = ref_Encode3, kx_Decode3 = ref_Decode3, kx_EncodeRef = ref_EncodeRef,
       kx_DecodeRef = ref_DecodeRef,
       kx_RefNonTerminal = (\<lambda>n p. if CHR 0x00 \<in> set (snd (snd (snd p))) then Inl (External ''delimiter'')
          else bindr (ref_EncodeRef p) (\<lambda>b. if length b < n then Inr (b @ [CHR 0x00]) else Inl short_panic)),
       kx_RefPrefix = lp,
       kx_Encode2 = (\<lambda>(a, b). if length a \<le> 255 \<and> length b \<le> 255 then Inr (lp a @ b) else Inl short_panic),
       kx_Unmarshal_grant = (\<lambda>v. if v = [] then Inl (External ''unmarshal'') else Inr v),
       kx_Unmarshal_allowance = (\<lambda>v. if v = [] then Inl (External ''unmarshal'') else Inr v),
       kx_ParseAllowanceKey = ref_ParseAllowanceKey,
       kx_StringToBytes = (\<lambda>s. if length s \<le> 255 then Inr s else Inl (External ''address'')),
       kx_BytesToString = Inr, kx_GetAuthorization = Inr, kx_NewAnyWithValue = Inr,
       kx_Expiration = (\<lambda>_. None) \<rparr>"

definition ref_akey :: "address \<times> address \<Rightarrow> bytes" where
  "ref_akey k = CHR 0x00 # lp (snd k) @ lp (fst k)"

lemma ref_ix_simps [simp]:
  "kx_Encode3 ref_ix = ref_Encode3" "kx_Decode3 ref_ix = ref_Decode3"
  "kx_EncodeRef ref_ix = ref_EncodeRef" "kx_DecodeRef ref_ix = ref_DecodeRef"
  "kx_RefPrefix ref_ix = lp" "kx_ParseAllowanceKey ref_ix = ref_ParseAllowanceKey"
  "kx_Encode2 ref_ix (a, b) = (if length a \<le> 255 \<and> length b \<le> 255 then Inr (lp a @ b) else Inl short_panic)"
  "kx_Unmarshal_grant ref_ix v = (if v = [] then Inl (External ''unmarshal'') else Inr v)"
  "kx_Unmarshal_allowance ref_ix v = (if v = [] then Inl (External ''unmarshal'') else Inr v)"
  "kx_StringToBytes ref_ix s = (if length s \<le> 255 then Inr s else Inl (External ''address''))"
  "kx_BytesToString ref_ix a = Inr a" "kx_GetAuthorization ref_ix v = Inr v"
  "kx_NewAnyWithValue ref_ix v = Inr v" "kx_Expiration ref_ix v = None"
  by (simp_all add: ref_ix_def)

lemma lp_prefix: "length a \<le> 255 \<Longrightarrow> length g \<le> 255 \<Longrightarrow> HasPrefix (lp a @ r) (lp g) \<longleftrightarrow> a = g"
proof
  assume len: "length a \<le> 255" "length g \<le> 255" and "HasPrefix (lp a @ r) (lp g)"
  then obtain t where "lp a @ r = lp g @ t"
    unfolding HasPrefix_def by (metis append_take_drop_id)
  then have "unlp (lp a @ r) = unlp (lp g @ t)"
    by simp
  then show "a = g"
    using len by simp
qed (simp add: HasPrefix_def)

lemma ref_Encode3_decodes: "ref_Encode3 k = Inr b \<Longrightarrow> ref_Decode3 b = Inr k"
  by (cases k) (auto simp: ref_Decode3_def split: if_splits)

lemma ref_EncodeRef_decodes: "ref_EncodeRef p = Inr r \<Longrightarrow> ref_DecodeRef r = Inr p"
  by (cases p) (auto simp: ref_EncodeRef_def ref_DecodeRef_def ref_Encode3_decodes split: if_splits)

lemma ref_Encode2_inject:
  assumes "kx_Encode2 ref_ix k = Inr b" and "kx_Encode2 ref_ix k' = Inr b"
  shows "k = k'"
proof -
  obtain p q p' q' where k: "k = (p, q)" "k' = (p', q')"
    by (cases k, cases k')
  then have "length p \<le> 255" "length p' \<le> 255" "lp p @ q = lp p' @ q'"
    using assms by (auto split: if_splits)
  then have "Some (p, q) = Some (p', q')"
    by (metis unlp_lp)
  then show ?thesis
    by (simp add: k)
qed

lemma ref_prefix:
  "ref_EncodeRef p = Inr r \<Longrightarrow> length g \<le> 255 \<Longrightarrow> HasPrefix r (lp g) \<longleftrightarrow> fst p = g"
  by (auto simp: ref_EncodeRef_def lp_prefix split: if_splits)

lemma ref_key_laws: "key_laws ref_ix"
  unfolding key_laws_def using ref_Encode3_decodes ref_EncodeRef_decodes ref_Encode2_inject ref_prefix
  by (simp split: if_splits)

lemma ref_calm_laws: "calm_laws ref_ix"
proof -
  have "\<not> is_panic (ref_Decode3 b)" for b
    by (simp add: ref_Decode3_def split: option.splits prod.splits)
  moreover have "\<exists>e r. ref_Encode3 k = Inr e \<and> grantee_ref ref_ix k = Inr r" if "ref_Decode3 b = Inr k" for b k
    using that by (auto simp: ref_Decode3_def grantee_ref_def ref_EncodeRef_def dest!: unlp_short
        split: option.splits prod.splits)
  moreover have "\<exists>e r. kx_Encode2 ref_ix k = Inr e \<and> allowance_ref ref_ix k = Inr r"
    if "ref_ParseAllowanceKey b = Inr k" for b k
    using that by (auto simp: ref_ParseAllowanceKey_def allowance_ref_def dest!: unlp_short
        split: option.splits prod.splits)
  ultimately show ?thesis
    unfolding calm_laws_def by (auto simp: grantee_ref_def ref_EncodeRef_def)
qed

lemma ref_nonterminal_law: "nonterminal_law ref_ix"
  by (simp add: nonterminal_law_def ref_ix_def short_panic_def)

lemma ref_allowance_key_laws: "allowance_key_laws ref_ix ref_akey"
  unfolding allowance_key_laws_def
proof (intro allI impI)
  fix k b
  assume "kx_Encode2 ref_ix k = Inr b \<and> proper k"
  moreover obtain p q where "k = (p, q)"
    by (cases k)
  moreover have "unlp (lp p) = Some (p, [])" if "length p \<le> 255" for p
    using unlp_lp [OF that, of "[]"] by simp
  moreover have "length (lp p) = Suc (length p)" for p
    by (simp add: lp_def)
  moreover have "p \<noteq> [] \<longleftrightarrow> Suc 0 \<le> length p" for p :: bytes
    by (cases p) simp_all
  ultimately show "HasPrefix (ref_akey k) FeeAllowanceKeyPrefix \<and> 5 \<le> length (ref_akey k)
      \<and> kx_ParseAllowanceKey ref_ix (ref_akey k) = Inr k"
    by (auto simp: ref_akey_def ref_ParseAllowanceKey_def FeeAllowanceKeyPrefix_def HasPrefix_def proper_def
        split: if_splits)
qed

section \<open>The collecting loops\<close>

definition ref_row ::
  "('g, 'f, 'auth, 'any) index_ext \<Rightarrow> 'g indexed_map \<Rightarrow> string \<Rightarrow> bytes \<Rightarrow> 'any GrantAuthorization result" where
  "ref_row x m grantee e = bindr (kx_DecodeRef x e) (\<lambda>(_, k). grantee_row x m grantee k)"

lemma word_room:
  fixes c limit :: u64
  assumes "c < limit"
  shows "c + 1 \<le> limit" and "unat limit - unat c = Suc (unat limit - unat (c + 1))"
proof -
  have "c \<noteq> - 1"
    using assms by (metis word_not_simps(3))
  then have "unat (c + 1) = Suc (unat c)"
    by (rule unat_succ)
  then show "c + 1 \<le> limit" and "unat limit - unat c = Suc (unat limit - unat (c + 1))"
    using assms by (simp_all add: word_le_nat_alt word_less_nat_alt)
qed

lemma collect_grants_page:
  "c \<le> limit \<Longrightarrow>
     collect_grants x m a limit c t acc es =
       bindr (map_each (ref_row x m a) (take (unat limit - unat c) es)) (\<lambda>rows.
       Inr (acc @ rows, t + of_nat (length rows), drop (unat limit - unat c) es))"
proof (induction es arbitrary: c t acc)
  case (Cons e es)
  show ?case
  proof (cases "c < limit")
    case True
    show ?thesis
    proof (cases "ref_row x m a e")
      case (Inl err)
      then show ?thesis
        using True word_room(2) [OF True] by (auto simp: ref_row_def bindr_Inl_iff)
    next
      case (Inr row)
      then obtain p where "kx_DecodeRef x e = Inr p" "grantee_row x m a (snd p) = Inr row"
        by (auto simp: ref_row_def)
      then show ?thesis
        using True Inr word_room [OF True] Cons.IH [of "c + 1"]
        by (cases "map_each (ref_row x m a) (take (unat limit - unat (c + 1)) es)") (simp_all add: case_prod_beta)
    qed
  next
    case False
    then show ?thesis
      using Cons.prems by simp
  qed
qed simp

text \<open>The raw loop passes over the references of other grantees.\<close>

definition ref_fits :: "('g, 'f, 'auth, 'any) index_ext \<Rightarrow> address \<Rightarrow> bytes \<Rightarrow> bool" where
  "ref_fits x g e \<longleftrightarrow> (\<exists>p. kx_DecodeRef x e = Inr p \<and> (HasPrefix e (kx_RefPrefix x g) \<longleftrightarrow> fst p = g))"

fun after_matches :: "('a \<Rightarrow> bool) \<Rightarrow> nat \<Rightarrow> 'a list \<Rightarrow> 'a list" where
  "after_matches P n [] = []"
| "after_matches P n (e # es) =
     (if n = 0 then e # es else if P e then after_matches P (n - 1) es else after_matches P n es)"

lemma collect_raw_page:
  assumes "list_all (ref_fits x g) es" and "c \<le> limit" and "P = (\<lambda>e. HasPrefix e (kx_RefPrefix x g))"
  shows "collect_raw x m a g limit c t acc es =
     bindr (map_each (ref_row x m a) (take (unat limit - unat c) (filter P es))) (\<lambda>rows.
     Inr (acc @ rows, t + of_nat (length rows), after_matches P (unat limit - unat c) es))"
  using assms(1,2)
proof (induction es arbitrary: c t acc)
  case (Cons e es)
  obtain p where dec: "kx_DecodeRef x e = Inr p" and fit: "P e \<longleftrightarrow> fst p = g"
    using Cons.prems(1) by (auto simp: ref_fits_def assms(3))
  have rest: "list_all (ref_fits x g) es"
    using Cons.prems(1) by simp
  show ?case
  proof (cases "c < limit")
    case False
    then show ?thesis
      using Cons.prems by simp
  next
    case True
    show ?thesis
    proof (cases "P e")
      case no: False
      then show ?thesis
        using True Cons.IH [OF rest Cons.prems(2)] word_room(2) [OF True] dec fit by (simp add: case_prod_beta)
    next
      case yes: True
      show ?thesis
      proof (cases "grantee_row x m a (snd p)")
        case (Inl err)
        then show ?thesis
          using True yes dec fit word_room(2) [OF True] by (simp add: case_prod_beta ref_row_def)
      next
        case (Inr row)
        then have "ref_row x m a e = Inr row"
          by (simp add: ref_row_def dec case_prod_beta)
        then show ?thesis
          using True yes Inr dec fit word_room [OF True] Cons.IH [OF rest, of "c + 1"]
          by (cases "map_each (ref_row x m a) (take (unat limit - unat (c + 1)) (filter P es))")
            (simp_all add: case_prod_beta)
      qed
    qed
  qed
qed simp

section \<open>References in key order\<close>

lemma zero_byte_least: "CHR 0x00 \<le> (c :: char)"
  by (simp add: less_eq_char_def)

lemma less_append_byte: "(s :: bytes) < s @ [c]"
  by (induction s) simp_all

lemma append_zero_le: "(s :: bytes) < t \<Longrightarrow> s @ [CHR 0x00] \<le> t"
proof (induction s arbitrary: t)
  case Nil
  then obtain c l where "t = c # l"
    by (cases t) simp_all
  then show ?case
    using zero_byte_least [of c] by (cases l) (auto simp: le_less)
next
  case (Cons c s)
  then show ?case
    by (cases t) auto
qed

lemma filter_greater:
  fixes L :: "bytes list"
  shows "sorted_wrt (<) L \<Longrightarrow> i < length L \<Longrightarrow> filter (\<lambda>k. L ! i < k) L = drop (Suc i) L"
proof (induction L arbitrary: i)
  case (Cons a L)
  show ?case
  proof (cases i)
    case 0
    then show ?thesis
      using Cons.prems by (simp add: filter_id_conv)
  next
    case (Suc j)
    then have "a < L ! j"
      using Cons.prems by simp
    then have "\<not> L ! j < a"
      by (simp add: not_less less_imp_le)
    then show ?thesis
      using Suc Cons.IH [of j] Cons.prems by simp
  qed
qed simp

lemma filter_after_entry:
  fixes L :: "bytes list"
  assumes "sorted_wrt (<) L" and "i < length L"
  shows "filter (\<lambda>k. L ! i @ [CHR 0x00] \<le> k) L = drop (Suc i) L"
proof -
  have "(\<lambda>k. L ! i @ [CHR 0x00] \<le> k) = (\<lambda>k. L ! i < k)"
    using append_zero_le less_append_byte [of "L ! i" "CHR 0x00"] by (auto simp: fun_eq_iff)
  then show ?thesis
    using filter_greater [OF assms] by simp
qed

section \<open>The grants of a grantee\<close>

definition granted :: "('g, 'f, 'auth, 'any) index_ext \<Rightarrow> 'g indexed_map \<Rightarrow> triple \<Rightarrow> bool" where
  "granted x m k \<longleftrightarrow> (\<exists>b. kx_Encode3 x k = Inr b \<and> kv_has (im_main m) b)"

text \<open>The primary keys behind the references of a grantee, in the order the iterator visits them.\<close>

definition grantee_keys :: "('g, 'f, 'auth, 'any) index_ext \<Rightarrow> 'g indexed_map \<Rightarrow> address \<Rightarrow> triple list" where
  "grantee_keys x m g = map (\<lambda>e. snd (projr (kx_DecodeRef x e))) (grantee_refs x m g)"

lemma kv_has_iff: "kv_has s k \<longleftrightarrow> k \<in> fst ` set s"
  by (simp add: kv_has_def kv_get_def map_of_eq_None_iff)

lemma map_each_map: "map_each f (map h es) = map_each (\<lambda>e. f (h e)) es"
  by (induction es) simp_all

lemma map_each_cong: "(\<And>e. e \<in> set es \<Longrightarrow> f e = h e) \<Longrightarrow> map_each f es = map_each h es"
  by (induction es) simp_all

text \<open>A reference of the index decodes to a stored grant.\<close>

lemma ref_entry:
  assumes "key_laws x" and "refs_ok (kx_Encode3 x) (grantee_ref x) m" and "e \<in> fst ` set (im_refs m)"
  shows "\<exists>k. kx_EncodeRef x (fst (snd k), k) = Inr e \<and> kx_DecodeRef x e = Inr (fst (snd k), k) \<and> granted x m k"
proof -
  have "kv_has (im_refs m) e"
    using assms(3) by (simp add: kv_has_iff)
  then obtain k b where k: "kx_Encode3 x k = Inr b" "kv_has (im_main m) b" "grantee_ref x k = Inr e"
    using assms(2) unfolding refs_ok_def by blast
  then have "kx_EncodeRef x (fst (snd k), k) = Inr e"
    by (simp add: grantee_ref_def)
  then show ?thesis
    using key_laws_D(2) [OF assms(1)] k unfolding granted_def by blast
qed

lemma refs_fit:
  fixes x :: "('g, 'f, 'auth, 'any) index_ext" and m :: "'g indexed_map"
  assumes "key_laws x" and "refs_ok (kx_Encode3 x) (grantee_ref x) m" and "length g \<le> 255"
  shows "list_all (ref_fits x g) (map fst (im_refs m))"
  unfolding list_all_iff
proof
  fix e
  assume "e \<in> set (map fst (im_refs m))"
  then obtain k where "kx_EncodeRef x (fst (snd k), k) = Inr e" "kx_DecodeRef x e = Inr (fst (snd k), k)"
    using ref_entry [OF assms(1,2), of e] by auto
  then show "ref_fits x g e"
    using key_laws_D(4) [OF assms(1) _ assms(3)] by (auto simp: ref_fits_def)
qed

lemma grantee_ref_entry:
  assumes "key_laws x" and "refs_ok (kx_Encode3 x) (grantee_ref x) m" and "length g \<le> 255"
    and "e \<in> set (grantee_refs x m g)"
  shows "\<exists>k. kx_EncodeRef x (g, k) = Inr e \<and> kx_DecodeRef x e = Inr (g, k) \<and> fst (snd k) = g \<and> granted x m k"
proof -
  have e: "e \<in> fst ` set (im_refs m)" and pre: "HasPrefix e (kx_RefPrefix x g)"
    using assms(4) by (auto simp: grantee_refs_def)
  obtain k where k: "kx_EncodeRef x (fst (snd k), k) = Inr e" "kx_DecodeRef x e = Inr (fst (snd k), k)" "granted x m k"
    using ref_entry [OF assms(1,2) e] by blast
  have "fst (snd k) = g"
    using key_laws_D(4) [OF assms(1) k(1) assms(3)] pre by simp
  then show ?thesis
    using k by (intro exI [of _ k]) simp
qed

lemma grantee_refs_sorted:
  assumes "refs_ok (kx_Encode3 x) (grantee_ref x) m"
  shows "sorted_wrt (<) (grantee_refs x m g)"
  using assms by (simp add: refs_ok_def kv_wf_def grantee_refs_def sorted_wrt_filter)

lemma grantee_keys_set:
  assumes "key_laws x" and "refs_ok (kx_Encode3 x) (grantee_ref x) m" and "length g \<le> 255"
  shows "set (grantee_keys x m g) = {k. granted x m k \<and> fst (snd k) = g}"
proof
  show "set (grantee_keys x m g) \<subseteq> {k. granted x m k \<and> fst (snd k) = g}"
    using grantee_ref_entry [OF assms] by (fastforce simp: grantee_keys_def)
  show "{k. granted x m k \<and> fst (snd k) = g} \<subseteq> set (grantee_keys x m g)"
  proof
    fix k
    assume "k \<in> {k. granted x m k \<and> fst (snd k) = g}"
    then obtain b where k: "kx_Encode3 x k = Inr b" "kv_has (im_main m) b" "fst (snd k) = g"
      by (auto simp: granted_def)
    obtain k' r where "kx_Encode3 x k' = Inr b" "grantee_ref x k' = Inr r"
      using assms(2) k(2) unfolding refs_ok_def by blast
    then have r: "grantee_ref x k = Inr r"
      using faithfulD [OF faithful_keys(1) [OF assms(1)] k(1)] by blast
    then have "kv_has (im_refs m) r"
      using assms(2) k unfolding refs_ok_def by blast
    moreover have "kx_EncodeRef x (g, k) = Inr r"
      using r k(3) by (simp add: grantee_ref_def)
    ultimately have "r \<in> set (grantee_refs x m g)" "kx_DecodeRef x r = Inr (g, k)"
      using key_laws_D(2,4) [OF assms(1)] assms(3) by (auto simp: grantee_refs_def kv_has_iff)
    then show "k \<in> set (grantee_keys x m g)"
      by (force simp: grantee_keys_def)
  qed
qed

lemma grantee_keys_distinct:
  assumes "key_laws x" and "refs_ok (kx_Encode3 x) (grantee_ref x) m" and "length g \<le> 255"
  shows "distinct (grantee_keys x m g)"
proof -
  have "inj_on (\<lambda>e. snd (projr (kx_DecodeRef x e))) (set (grantee_refs x m g))"
  proof (rule inj_onI)
    fix e e'
    assume "e \<in> set (grantee_refs x m g)" "e' \<in> set (grantee_refs x m g)"
      and same: "snd (projr (kx_DecodeRef x e)) = snd (projr (kx_DecodeRef x e'))"
    then obtain k k' where "kx_EncodeRef x (g, k) = Inr e" "kx_DecodeRef x e = Inr (g, k)"
      "kx_EncodeRef x (g, k') = Inr e'" "kx_DecodeRef x e' = Inr (g, k')"
      using grantee_ref_entry [OF assms] by blast
    then show "e = e'"
      using same by simp
  qed
  moreover have "distinct (grantee_refs x m g)"
    using grantee_refs_sorted [OF assms(2), of g] by (simp add: strict_sorted_iff)
  ultimately show ?thesis
    by (simp add: grantee_keys_def distinct_map)
qed

lemma rows_of_refs:
  assumes "key_laws x" and "refs_ok (kx_Encode3 x) (grantee_ref x) m" and "length g \<le> 255"
    and "set es \<subseteq> set (grantee_refs x m g)"
  shows "map_each (ref_row x m a) es = map_each (grantee_row x m a) (map (\<lambda>e. snd (projr (kx_DecodeRef x e))) es)"
  unfolding map_each_map
proof (rule map_each_cong)
  fix e
  assume "e \<in> set es"
  then obtain k where "kx_DecodeRef x e = Inr (g, k)"
    using grantee_ref_entry [OF assms(1-3)] assms(4) by blast
  then show "ref_row x m a e = grantee_row x m a (snd (projr (kx_DecodeRef x e)))"
    by (simp add: ref_row_def)
qed

section \<open>Pages\<close>

definition page_key :: "PageRequest option \<Rightarrow> bytes" where
  "page_key pg = (case pg of None \<Rightarrow> [] | Some p \<Rightarrow> pq_Key p)"

definition page_offset :: "PageRequest option \<Rightarrow> u64" where
  "page_offset pg = (case pg of None \<Rightarrow> 0 | Some p \<Rightarrow> pq_Offset p)"

lemma skip_start_offset:
  "page_key pg = [] \<Longrightarrow> skip_start x pg es = Inr (drop (unat (page_offset pg)) es)"
  by (auto simp: skip_start_def page_key_def page_offset_def word_gt_0 split: option.splits)

lemma next_key_refs:
  assumes "key_laws x" and "refs_ok (kx_Encode3 x) (grantee_ref x) m" and "length g \<le> 255"
  shows "next_key x (drop n (grantee_refs x m g)) =
    (if n < length (grantee_keys x m g) then kx_RefNonTerminal x 128 (g, grantee_keys x m g ! n) else Inr [])"
proof (cases "n < length (grantee_refs x m g)")
  case True
  then have "grantee_refs x m g ! n \<in> set (grantee_refs x m g)"
    by simp
  then obtain k where "kx_DecodeRef x (grantee_refs x m g ! n) = Inr (g, k)"
    using grantee_ref_entry [OF assms] by blast
  then show ?thesis
    using True by (simp add: next_key_def grantee_keys_def flip: Cons_nth_drop_Suc)
qed (simp add: next_key_def grantee_keys_def)

lemma grantee_keys_part:
  "map (\<lambda>e. snd (projr (kx_DecodeRef x e))) (take n (drop i (grantee_refs x m g))) = take n (drop i (grantee_keys x m g))"
  by (simp add: grantee_keys_def take_map drop_map)

lemma standard_page:
  assumes "key_laws x" and "refs_ok (kx_Encode3 x) (grantee_ref x) m"
    and "kx_StringToBytes x (pa_Address req) = Inr g" and "page_key (pa_Pagination req) = []"
    and "off = unat (page_offset (pa_Pagination req))" and "n = unat (page_limit (pa_Pagination req))"
    and "ks = grantee_keys x m g"
  shows "GranteeGrants x m req =
    bindr (map_each (grantee_row x m (pa_Address req)) (take n (drop off ks))) (\<lambda>rows.
    bindr (if off + n < length ks then kx_RefNonTerminal x 128 (g, ks ! (off + n)) else Inr []) (\<lambda>nextKey.
    Inr (rows, \<lparr> ps_NextKey = nextKey,
      ps_Total = (if page_countTotal (pa_Pagination req) then of_nat (length ks - off) else 0) \<rparr>)))"
proof -
  let ?R = "grantee_refs x m g"
  have len: "length g \<le> 255"
    by (rule key_laws_D(5) [OF assms(1,3)])
  have rows: "map_each (ref_row x m (pa_Address req)) (take n (drop off ?R))
      = map_each (grantee_row x m (pa_Address req)) (take n (drop off ks))"
    using rows_of_refs [OF assms(1,2) len, of "take n (drop off ?R)"]
    by (simp add: grantee_keys_part assms(7) subset_trans [OF set_take_subset set_drop_subset])
  have run: "GranteeGrants x m req =
      bindr (collect_grants x m (pa_Address req) (page_limit (pa_Pagination req)) 0 0 [] (drop off ?R)) (\<lambda>(grants, tot, iter).
      bindr (next_key x iter) (\<lambda>nextKey.
      Inr (grants, \<lparr> ps_NextKey = nextKey,
        ps_Total = (if page_countTotal (pa_Pagination req) then tot + of_nat (length iter) else 0) \<rparr>)))"
    using assms(4) skip_start_offset [OF assms(4), of x ?R]
    by (simp add: GranteeGrants_def assms(3,5) Let_def flip: page_key_def)
  have same: "length ks = length ?R"
    by (simp add: assms(7) grantee_keys_def)
  have next_: "next_key x (drop n (drop off ?R))
      = (if off + n < length ks then kx_RefNonTerminal x 128 (g, ks ! (off + n)) else Inr [])"
    using next_key_refs [OF assms(1,2) len, of "off + n"] by (simp add: assms(7) add.commute)
  have loop: "collect_grants x m (pa_Address req) (page_limit (pa_Pagination req)) 0 0 [] (drop off ?R) =
      bindr (map_each (grantee_row x m (pa_Address req)) (take n (drop off ks))) (\<lambda>rows.
      Inr (rows, of_nat (length rows), drop n (drop off ?R)))"
    using rows by (simp add: collect_grants_page assms(6))
  show ?thesis
  proof (cases "map_each (grantee_row x m (pa_Address req)) (take n (drop off ks))")
    case (Inr rows)
    then have "length rows + length (drop n (drop off ?R)) = length ks - off"
      using map_each_length [OF Inr] same by simp
    then have "of_nat (length rows) + of_nat (length (drop n (drop off ?R))) = (of_nat (length ks - off) :: u64)"
      by (metis of_nat_add)
    then show ?thesis
      unfolding run loop Inr bindr.simps prod.case next_ by (simp only: Inr bindr.simps)
  qed (simp add: run loop)
qed

lemma raw_page:
  assumes "key_laws x" and "refs_ok (kx_Encode3 x) (grantee_ref x) m"
    and "kx_StringToBytes x (pa_Address req) = Inr g"
    and "ks = grantee_keys x m g" and "i < length ks"
    and "page_key (pa_Pagination req) = grantee_refs x m g ! i @ [CHR 0x00]"
    and "n = unat (page_limit (pa_Pagination req))"
    and "GranteeGrants x m req = Inr (rows, pg)"
  shows "map_each (grantee_row x m (pa_Address req)) (take n (drop (Suc i) ks)) = Inr rows"
proof -
  let ?R = "grantee_refs x m g" and ?P = "\<lambda>e. HasPrefix e (kx_RefPrefix x g)"
  let ?es = "MultiIterateRaw m (?R ! i @ [CHR 0x00])"
  have len: "length g \<le> 255"
    by (rule key_laws_D(5) [OF assms(1,3)])
  have fit: "list_all (ref_fits x g) ?es"
    using refs_fit [OF assms(1,2) len] by (auto simp: MultiIterateRaw_def list_all_iff)
  have "filter ?P ?es = filter (\<lambda>k. ?R ! i @ [CHR 0x00] \<le> k) ?R"
    by (simp add: MultiIterateRaw_def grantee_refs_def conj_commute)
  also have "\<dots> = drop (Suc i) ?R"
    using assms(4,5) grantee_refs_sorted [OF assms(2)]
    by (intro filter_after_entry) (simp_all add: grantee_keys_def)
  finally have found: "filter ?P ?es = drop (Suc i) ?R" .
  have "GranteeGrants x m req = granteeGrantsWithRawIteration x m req g (?R ! i @ [CHR 0x00])"
    using assms(6) by (simp add: GranteeGrants_def assms(3) Let_def flip: page_key_def)
  then have "granteeGrantsWithRawIteration x m req g (?R ! i @ [CHR 0x00]) = Inr (rows, pg)"
    using assms(8) by simp
  then have "map_each (ref_row x m (pa_Address req)) (take n (drop (Suc i) ?R)) = Inr rows"
    using collect_raw_page [OF fit, of 0 "page_limit (pa_Pagination req)" ?P]
    by (auto simp: granteeGrantsWithRawIteration_def Let_def found assms(7))
  then show ?thesis
    using rows_of_refs [OF assms(1,2) len, of "take n (drop (Suc i) ?R)"]
    by (simp add: grantee_keys_part assms(4) subset_trans [OF set_take_subset set_drop_subset])
qed

end
