(* ===== verification/Indexer_Claims.thy ===== *)
theory Indexer_Claims
  imports Indexer_Paging
begin

text \<open>The claims about the indexer, with examples over the concrete codec.\<close>

section \<open>Commits\<close>

definition empty_service :: "('g, 'f) StreamService" where
  "empty_service = \<lparr> ss_authz = \<lparr> im_main = [], im_refs = [] \<rparr>, ss_feegrant = \<lparr> im_main = [], im_refs = [] \<rparr> \<rparr>"

lemma empty_service_inv: "index_inv x empty_service"
  by (simp add: index_inv_def empty_service_def refs_ok_empty)

definition grant_change :: "address \<Rightarrow> address \<Rightarrow> string \<Rightarrow> bytes \<Rightarrow> StoreKVPair" where
  "grant_change a g t v =
     \<lparr> kp_StoreKey = ''authz'', kp_Delete = False, kp_Key = GrantKey @ lp a @ lp g @ t, kp_Value = v \<rparr>"

definition allowance_change :: "address \<Rightarrow> address \<Rightarrow> bytes \<Rightarrow> StoreKVPair" where
  "allowance_change a g v =
     \<lparr> kp_StoreKey = ''feegrant'', kp_Delete = False, kp_Key = ref_akey (a, g), kp_Value = v \<rparr>"

text \<open>The indexer never stops the node: whatever change set it is given, malformed keys and values
  included, the listener returns without an error or a panic, and afterwards the entries and the
  references of both collections are in order and the grantee index refers exactly to the
  entries.  The laws say that decoding reports errors instead of panicking and that what was
  decoded can be encoded.
\<close>

theorem ListenCommit_total:
  assumes "key_laws x" and "calm_laws x" and "index_inv x ss"
  shows "\<exists>ss'. ListenCommit x changes ss = Inr ss' \<and> index_inv x ss'"
proof -
  have "sound_index x () ss"
    using assms by (simp add: sound_index_def)
  then show ?thesis
    using any_commit.follow_run [of changes x "()" ss] by (auto simp: ListenCommit_def sound_index_def)
qed

theorem ListenCommit_total_witness:
  "\<exists>ss'. ListenCommit ref_ix
     [\<lparr> kp_StoreKey = ''authz'', kp_Delete = False, kp_Key = GrantKey @ ''z'', kp_Value = ''v'' \<rparr>,
      \<lparr> kp_StoreKey = ''feegrant'', kp_Delete = True, kp_Key = FeeAllowanceKeyPrefix @ ''zzzzz'', kp_Value = [] \<rparr>]
     empty_service = Inr ss' \<and> index_inv ref_ix ss'"
  by (rule ListenCommit_total [OF ref_key_laws ref_calm_laws empty_service_inv])

text \<open>C36: The index is a faithful copy of the chain's stores: if it was before a commit and the change
  set consists of well-formed changes of the authz and feegrant stores (and any changes of other
  stores and keys), then the listener succeeds and afterwards every grant and every allowance
  reads as what the chain's store holds after the same changes, and as absent where the chain has
  none.
\<close>

theorem ListenCommit_mirrors:
  assumes "key_laws x" and "allowance_key_laws x akey" and "mirrors x akey c ss"
    and "list_all (chain_change x akey) changes" and "c' = fold commit_change changes c"
    and "kx_Encode3 x (a, g, t) = Inr b"
    and "kx_StringToBytes x (al_Granter req) = Inr p" and "kx_StringToBytes x (al_Grantee req) = Inr q"
    and "kx_Encode2 x (p, q) = Inr e" and "proper (p, q)"
  shows "\<exists>ss'. ListenCommit x changes ss = Inr ss' \<and> mirrors x akey c' ss'
    \<and> AuthzHandler_GetGrant x a g t (ss_authz ss')
        = (case stored (kx_Unmarshal_grant x) (kv_get (c' ''authz'') (GrantKey @ b)) of
             None \<Rightarrow> Inl ErrNotFound | Some grant \<Rightarrow> Inr grant)
    \<and> Allowance x (ss_feegrant ss') req
        = Inr (stored (kx_Unmarshal_allowance x) (kv_get (c' ''feegrant'') (akey (p, q))))"
proof -
  have "faithful_copy x akey c ss"
    using assms(1-3) by (simp add: faithful_copy_def)
  then obtain ss' where run: "ListenCommit x changes ss = Inr ss'" and copy: "mirrors x akey c' ss'"
    using chain_commit.follow_run [of changes x akey c ss] assms(4,5)
    by (auto simp: ListenCommit_def faithful_copy_def list_all_iff)
  have "AuthzHandler_GetGrant x a g t (ss_authz ss')
      = (case stored (kx_Unmarshal_grant x) (kv_get (c' ''authz'') (GrantKey @ b)) of
           None \<Rightarrow> Inl ErrNotFound | Some grant \<Rightarrow> Inr grant)"
    by (simp add: AuthzHandler_GetGrant_def im_Get_def assms(6) mirrorsD(1) [OF copy assms(6)])
  moreover have "Allowance x (ss_feegrant ss') req
      = Inr (stored (kx_Unmarshal_allowance x) (kv_get (c' ''feegrant'') (akey (p, q))))"
    by (simp add: Allowance_def im_Get_def assms(7-9) mirrorsD(2) [OF copy assms(9,10)] split: option.split)
  ultimately show ?thesis
    using run copy by blast
qed

lemma demo_mirror: "mirrors ref_ix ref_akey (\<lambda>_. []) empty_service"
  by (intro mirrorsI) (simp_all add: empty_service_def stored_def)

lemma grant_change_fits:
  assumes "length a \<le> 255" and "length g \<le> 255" and "v \<noteq> []"
  shows "chain_change ref_ix ref_akey (grant_change a g t v)"
  unfolding chain_change_def
  using assms
  by (intro conjI impI exI [of _ "(a, g, t)"] exI [of _ "lp a @ lp g @ t"] exI [of _ "lp g @ lp a @ lp g @ t"] exI [of _ v])
    (auto simp: grant_change_def grantee_ref_def ref_EncodeRef_def)

lemma allowance_change_fits:
  assumes "length a \<le> 255" and "length g \<le> 255" and "a \<noteq> []" and "g \<noteq> []" and "v \<noteq> []"
  shows "chain_change ref_ix ref_akey (allowance_change a g v)"
  unfolding chain_change_def
  using assms
  by (intro conjI impI exI [of _ "(a, g)"] exI [of _ "lp a @ g"] exI [of _ "lp g @ a"] exI [of _ v])
    (auto simp: allowance_change_def allowance_ref_def proper_def)

theorem ListenCommit_mirrors_witness:
  "\<exists>ss'. ListenCommit ref_ix [grant_change ''a'' ''e'' ''/m'' ''v'', allowance_change ''a'' ''e'' ''w''] empty_service = Inr ss'
    \<and> AuthzHandler_GetGrant ref_ix ''a'' ''e'' ''/m'' (ss_authz ss') = Inr ''v''
    \<and> Allowance ref_ix (ss_feegrant ss') \<lparr> al_Granter = ''a'', al_Grantee = ''e'' \<rparr> = Inr (Some ''w'')"
proof -
  let ?cs = "[grant_change ''a'' ''e'' ''/m'' ''v'', allowance_change ''a'' ''e'' ''w'']"
  let ?c = "fold commit_change ?cs (\<lambda>_. [])"
  have az: "kv_get (?c ''authz'') (GrantKey @ lp ''a'' @ lp ''e'' @ ''/m'') = Some ''v''"
    and fg: "kv_get (?c ''feegrant'') (ref_akey (''a'', ''e'')) = Some ''w''"
    by (simp_all add: commit_change_def grant_change_def allowance_change_def kv_get_Cons)
  have fits: "list_all (chain_change ref_ix ref_akey) ?cs"
    using grant_change_fits [of "''a''" "''e''" "''v''" "''/m''"] allowance_change_fits [of "''a''" "''e''" "''w''"] by simp
  show ?thesis
    using ListenCommit_mirrors
      [OF ref_key_laws ref_allowance_key_laws demo_mirror fits refl,
        of "''a''" "''e''" "''/m''" "lp ''a'' @ lp ''e'' @ ''/m''" "\<lparr> al_Granter = ''a'', al_Grantee = ''e'' \<rparr>"
           "''a''" "''e''" "lp ''a'' @ ''e''"] az fg
    by (auto simp: proper_def stored_def)
qed

lemma log_error_bindr:
  "log_error m (bindr r f) =
     (case r of Inl e \<Rightarrow> (case e of GoPanic s \<Rightarrow> Inl (GoPanic s) | _ \<Rightarrow> Inr m) | Inr y \<Rightarrow> log_error m (f y))"
  by (simp add: log_error_def split: sum.split go_error.split)

text \<open>The safe updates do what the plain handlers do and turn their errors into no change: for
  authz in every case; for feegrant whenever the key is at least five bytes long and can be
  parsed, and otherwise the collection stays as it is, where the plain handler would panic.
\<close>

theorem safe_updates_exact:
  "SafeAuthzHandlerUpdate x pair m = log_error m (AuthzHandler_HandleUpdate x pair m)
   \<and> SafeFeeGrantHandlerUpdate x pair f =
       (case kx_ParseAllowanceKey x (kp_Key pair) of
          Inl _ \<Rightarrow> Inr f
        | Inr _ \<Rightarrow> if length (kp_Key pair) < 5 then Inr f
                   else log_error f (FeeGrantHandler_HandleUpdate x pair f))"
proof
  show "SafeAuthzHandlerUpdate x pair m = log_error m (AuthzHandler_HandleUpdate x pair m)"
  proof (cases "parseGrantStoreKey x (kp_Key pair)")
    case (Inl e)
    then obtain s where "e = GoPanic s"
      by (auto simp: parseGrantStoreKey_def go_slice_def split: if_splits sum.splits go_error.splits)
    then show ?thesis
      using Inl by (simp add: SafeAuthzHandlerUpdate_def AuthzHandler_HandleUpdate_def log_error_def)
  next
    case (Inr k)
    then show ?thesis
      by (cases k) (simp add: SafeAuthzHandlerUpdate_def AuthzHandler_HandleUpdate_def log_error_bindr Let_def
          if_distrib [of "log_error m"] split: sum.split)
  qed
  show "SafeFeeGrantHandlerUpdate x pair f =
       (case kx_ParseAllowanceKey x (kp_Key pair) of
          Inl _ \<Rightarrow> Inr f
        | Inr _ \<Rightarrow> if length (kp_Key pair) < 5 then Inr f
                   else log_error f (FeeGrantHandler_HandleUpdate x pair f))"
  proof (cases "kx_ParseAllowanceKey x (kp_Key pair)")
    case (Inr k)
    then show ?thesis
      by (cases k) (simp add: SafeFeeGrantHandlerUpdate_def FeeGrantHandler_HandleUpdate_def log_error_bindr Let_def
          if_distrib [of "log_error f"] split: sum.split)
  qed (simp add: SafeFeeGrantHandlerUpdate_def)
qed

section \<open>Listings\<close>

text \<open>C37: A listing by grantee without a start key answers from the grants of that grantee, each once
  and none of another grantee: past the offset it takes up to the limit, in key order; the next key
  is the encoding of the first grant that is left, and empty when none is left; the total, when
  asked for, counts the grants past the offset.
\<close>

theorem GranteeGrants_page:
  assumes "key_laws x" and "refs_ok (kx_Encode3 x) (grantee_ref x) m"
    and "kx_StringToBytes x (pa_Address req) = Inr g" and "page_key (pa_Pagination req) = []"
    and "off = unat (page_offset (pa_Pagination req))" and "n = unat (page_limit (pa_Pagination req))"
    and "ks = grantee_keys x m g"
  shows "distinct ks \<and> set ks = {k. granted x m k \<and> fst (snd k) = g}
    \<and> GranteeGrants x m req =
        bindr (map_each (grantee_row x m (pa_Address req)) (take n (drop off ks))) (\<lambda>rows.
        bindr (if off + n < length ks then kx_RefNonTerminal x 128 (g, ks ! (off + n)) else Inr []) (\<lambda>nextKey.
        Inr (rows, \<lparr> ps_NextKey = nextKey,
          ps_Total = (if page_countTotal (pa_Pagination req) then of_nat (length ks - off) else 0) \<rparr>)))"
proof -
  have len: "length g \<le> 255"
    by (rule key_laws_D(5) [OF assms(1,3)])
  show ?thesis
    using grantee_keys_distinct [OF assms(1,2) len] grantee_keys_set [OF assms(1,2) len]
      standard_page [OF assms] by (simp add: assms(7))
qed

text \<open>Two grants to the same grantee.\<close>

definition demo_grants :: "bytes indexed_map" where
  "demo_grants =
     \<lparr> im_main = [(lp ''a'' @ lp ''e'' @ ''/m'', ''v''), (lp ''b'' @ lp ''e'' @ ''/m'', ''w'')],
       im_refs = [(lp ''e'' @ lp ''a'' @ lp ''e'' @ ''/m'', ()), (lp ''e'' @ lp ''b'' @ lp ''e'' @ ''/m'', ())] \<rparr>"

lemma demo_grants_refs: "refs_ok (kx_Encode3 ref_ix) (grantee_ref ref_ix) demo_grants"
proof -
  let ?e = "\<lparr> im_main = [], im_refs = [] \<rparr> :: bytes indexed_map"
  let ?k = "\<lambda>a. (a, ''e'', ''/m'') :: triple"
  have inj: "faithful (kx_Encode3 ref_ix)"
    by (rule faithful_keys(1) [OF ref_key_laws])
  have enc: "kx_Encode3 ref_ix (?k a) = Inr (lp a @ lp ''e'' @ ''/m'')"
    and ref: "grantee_ref ref_ix (?k a) = Inr (lp ''e'' @ lp a @ lp ''e'' @ ''/m'')" if "length a = 1" for a
    using that by (simp_all add: grantee_ref_def ref_EncodeRef_def)
  obtain m1 where m1: "im_Set (kx_Encode3 ref_ix (?k ''a'')) (grantee_ref ref_ix (?k ''a'')) ''v'' ?e = Inr m1"
    and ok1: "refs_ok (kx_Encode3 ref_ix) (grantee_ref ref_ix) m1"
    using im_Set_refs [of "kx_Encode3 ref_ix" "grantee_ref ref_ix" ?e "?k ''a''", OF refs_ok_empty enc ref inj] by auto
  obtain m2 where m2: "im_Set (kx_Encode3 ref_ix (?k ''b'')) (grantee_ref ref_ix (?k ''b'')) ''w'' m1 = Inr m2"
    and ok2: "refs_ok (kx_Encode3 ref_ix) (grantee_ref ref_ix) m2"
    using im_Set_refs [of "kx_Encode3 ref_ix" "grantee_ref ref_ix" m1 "?k ''b''", OF ok1 enc ref inj] by auto
  have "m2 = demo_grants"
    using m1 m2 by (auto simp: enc ref im_Set_def demo_grants_def lp_def less_char_def)
  then show ?thesis
    using ok2 by simp
qed

definition demo_request :: "bytes \<Rightarrow> QueryPartyRequest" where
  "demo_request key =
     \<lparr> pa_Address = ''e'',
       pa_Pagination = Some \<lparr> pq_Key = key, pq_Offset = 0, pq_Limit = 1, pq_CountTotal = True \<rparr> \<rparr>"

lemma demo_request_simps [simp]:
  "pa_Address (demo_request key) = ''e''" "page_key (pa_Pagination (demo_request key)) = key"
  "page_offset (pa_Pagination (demo_request key)) = 0" "page_limit (pa_Pagination (demo_request key)) = 1"
  "page_countTotal (pa_Pagination (demo_request key))"
  by (simp_all add: demo_request_def page_key_def page_offset_def page_limit_def page_countTotal_def)

lemma demo_grant_keys: "grantee_keys ref_ix demo_grants ''e'' = [(''a'', ''e'', ''/m''), (''b'', ''e'', ''/m'')]"
  by code_simp

lemma demo_rows:
  "grantee_row ref_ix demo_grants ''e'' (''a'', ''e'', ''/m'')
     = Inr \<lparr> ga_Granter = ''a'', ga_Grantee = ''e'', ga_Authorization = ''v'', ga_Expiration = None \<rparr>"
  by code_simp

lemma demo_next:
  "kx_RefNonTerminal ref_ix 128 (''e'', ''b'', ''e'', ''/m'') = Inr (lp ''e'' @ lp ''b'' @ lp ''e'' @ ''/m'' @ [CHR 0x00])"
  by code_simp

theorem GranteeGrants_page_witness:
  "GranteeGrants ref_ix demo_grants (demo_request []) =
     Inr ([\<lparr> ga_Granter = ''a'', ga_Grantee = ''e'', ga_Authorization = ''v'', ga_Expiration = None \<rparr>],
          \<lparr> ps_NextKey = lp ''e'' @ lp ''b'' @ lp ''e'' @ ''/m'' @ [CHR 0x00], ps_Total = 2 \<rparr>)"
  using GranteeGrants_page
    [OF ref_key_laws demo_grants_refs, of "demo_request []" "''e''" 0 1 "grantee_keys ref_ix demo_grants ''e''"]
  by (simp add: demo_grant_keys demo_rows demo_next)

text \<open>C38: Following the next key loses a grant at every page boundary.  The next key is written with the
  zero byte that ends a string inside a longer key, while the index stores the key without it, so
  that the page after it starts behind the grant the next key names: a page of \<open>n\<close> grants holds
  the first \<open>n\<close>, the page its next key leads to starts with the grant after the next one, and the
  grant number \<open>n\<close> is on neither.
\<close>

theorem GranteeGrants_skips_boundary:
  assumes "key_laws x" and "nonterminal_law x" and "refs_ok (kx_Encode3 x) (grantee_ref x) m"
    and "kx_StringToBytes x s = Inr g" and "ks = grantee_keys x m g"
    and "list_all (\<lambda>k. CHR 0x00 \<notin> set (snd (snd k))) ks"
    and "GranteeGrants x m \<lparr> pa_Address = s,
           pa_Pagination = Some \<lparr> pq_Key = [], pq_Offset = 0, pq_Limit = l, pq_CountTotal = t \<rparr> \<rparr> = Inr (rows, pg)"
    and "ps_NextKey pg \<noteq> []" and "l > 0"
    and "GranteeGrants x m \<lparr> pa_Address = s,
           pa_Pagination = Some \<lparr> pq_Key = ps_NextKey pg, pq_Offset = 0, pq_Limit = l', pq_CountTotal = t' \<rparr> \<rparr>
         = Inr (rows', pg')" and "l' > 0"
  shows "unat l < length ks \<and> granted x m (ks ! unat l) \<and> fst (snd (ks ! unat l)) = g
    \<and> map_each (grantee_row x m s) (take (unat l) ks) = Inr rows
    \<and> map_each (grantee_row x m s) (take (unat l') (drop (Suc (unat l)) ks)) = Inr rows'"
proof -
  let ?pg = "\<lambda>k l t. Some \<lparr> pq_Key = k, pq_Offset = 0, pq_Limit = l, pq_CountTotal = t \<rparr>"
  have len: "length g \<le> 255"
    by (rule key_laws_D(5) [OF assms(1,4)])
  have page: "page_key (?pg k l t) = k" "page_offset (?pg k l t) = 0" "l > 0 \<Longrightarrow> page_limit (?pg k l t) = l" for k l t
    by (simp_all add: page_key_def page_offset_def page_limit_def)
  have first: "map_each (grantee_row x m s) (take (unat l) ks) = Inr rows"
    and nk: "(if unat l < length ks then kx_RefNonTerminal x 128 (g, ks ! unat l) else Inr []) = Inr (ps_NextKey pg)"
    using assms(7) standard_page [OF assms(1,3) _ _ refl refl assms(5),
        of "\<lparr> pa_Address = s, pa_Pagination = ?pg [] l t \<rparr>"] assms(4,9)
    by (auto simp: page split: if_splits)
  have room: "unat l < length ks" and nk: "kx_RefNonTerminal x 128 (g, ks ! unat l) = Inr (ps_NextKey pg)"
    using nk assms(8) by (simp_all split: if_splits)
  have mem: "grantee_refs x m g ! unat l \<in> set (grantee_refs x m g)"
    using room by (simp add: assms(5) grantee_keys_def)
  obtain k where k: "kx_EncodeRef x (g, k) = Inr (grantee_refs x m g ! unat l)"
      "kx_DecodeRef x (grantee_refs x m g ! unat l) = Inr (g, k)" "fst (snd k) = g" "granted x m k"
    using grantee_ref_entry [OF assms(1,3) len mem] by blast
  have at: "ks ! unat l = k"
    using room k(2) by (simp add: assms(5) grantee_keys_def)
  have "CHR 0x00 \<notin> set (snd (snd k))"
    using assms(6) room at by (auto simp: list_all_length)
  then have "ps_NextKey pg = grantee_refs x m g ! unat l @ [CHR 0x00]"
    using assms(2) k(1) nk at unfolding nonterminal_law_def
    by (metis is_panic_Inr snd_conv sum.inject(2))
  then have "map_each (grantee_row x m s) (take (unat l') (drop (Suc (unat l)) ks)) = Inr rows'"
    using raw_page [OF assms(1,3) _ assms(5) room _ refl assms(10)] assms(4,11) by (simp add: page)
  then show ?thesis
    using first room k(3,4) at by simp
qed

lemma demo_second_page:
  "GranteeGrants ref_ix demo_grants (demo_request (lp ''e'' @ lp ''b'' @ lp ''e'' @ ''/m'' @ [CHR 0x00]))
     = Inr ([], \<lparr> ps_NextKey = [], ps_Total = 0 \<rparr>)"
  by code_simp

theorem GranteeGrants_skips_boundary_witness:
  "granted ref_ix demo_grants (''b'', ''e'', ''/m'')
   \<and> GranteeGrants ref_ix demo_grants (demo_request (lp ''e'' @ lp ''b'' @ lp ''e'' @ ''/m'' @ [CHR 0x00]))
     = Inr ([], \<lparr> ps_NextKey = [], ps_Total = 0 \<rparr>)"
proof -
  have first: "GranteeGrants ref_ix demo_grants (demo_request []) =
     Inr ([\<lparr> ga_Granter = ''a'', ga_Grantee = ''e'', ga_Authorization = ''v'', ga_Expiration = None \<rparr>],
          \<lparr> ps_NextKey = lp ''e'' @ lp ''b'' @ lp ''e'' @ ''/m'' @ [CHR 0x00], ps_Total = 2 \<rparr>)"
    by code_simp
  have "list_all (\<lambda>k. CHR 0x00 \<notin> set (snd (snd k))) (grantee_keys ref_ix demo_grants ''e'')"
    by (simp add: demo_grant_keys)
  then have "granted ref_ix demo_grants (grantee_keys ref_ix demo_grants ''e'' ! unat (1 :: u64))"
    using GranteeGrants_skips_boundary
      [OF ref_key_laws ref_nonterminal_law demo_grants_refs, of "''e''" "''e''" "grantee_keys ref_ix demo_grants ''e''" 1 True
        "[\<lparr> ga_Granter = ''a'', ga_Grantee = ''e'', ga_Authorization = ''v'', ga_Expiration = None \<rparr>]"
        "\<lparr> ps_NextKey = lp ''e'' @ lp ''b'' @ lp ''e'' @ ''/m'' @ [CHR 0x00], ps_Total = 2 \<rparr>" 1 True
        "[]" "\<lparr> ps_NextKey = [], ps_Total = 0 \<rparr>"] first demo_second_page
    by (simp add: demo_request_def)
  then show ?thesis
    using demo_second_page by (simp add: demo_grant_keys)
qed

section \<open>Where the code departs from its description\<close>

text \<open>
  The message type of a \<open>Grants\<close> request is never read, and a request that names only a grantee
  lists the grants of everyone.
\<close>

lemma Grants_ignores_message_type: "Grants x paginate m (req\<lparr> gr_MsgTypeUrl := u \<rparr>) = Grants x paginate m req"
  by (simp add: Grants_def cong: if_cong)

lemma Grants_by_grantee_unfiltered:
  assumes "gr_Granter req = ''''" and "kx_StringToBytes x (gr_Grantee req) = Inr g"
  shows "Grants x paginate m req = paginate m (gr_Pagination req) (\<lambda>_ grant. Inr grant) None"
  using assms by (simp add: Grants_def optional_address_def)

text \<open>A grant under a key that does not decode is stored under the empty addresses and type.\<close>

lemma undecodable_grant_indexed:
  assumes "kx_Decode3 x key = Inl (External e)" and "kx_Unmarshal_grant x v = Inr g"
    and "kx_Encode3 x ([], [], []) = Inr b" and "grantee_ref x ([], [], []) = Inr r"
    and "SafeAuthzHandlerUpdate x
      \<lparr> kp_StoreKey = ''authz'', kp_Delete = False, kp_Key = GrantKey @ key, kp_Value = v \<rparr> m = Inr m'"
  shows "AuthzHandler_GetGrant x [] [] [] m' = Inr g"
  using assms(5)
  by (auto simp: SafeAuthzHandlerUpdate_def parseGrantStoreKey_def GrantKey_def assms(1-4)
      AuthzHandler_SetGrant_def AuthzHandler_GetGrant_def im_Set_def im_Get_def Let_def)

text \<open>A next key of 128 bytes or more does not fit its buffer.\<close>

lemma long_next_key_panics:
  assumes "key_laws x" and "nonterminal_law x" and "kx_EncodeRef x p = Inr r"
    and "CHR 0x00 \<notin> set (snd (snd (snd p)))" and "128 \<le> length r"
  shows "is_panic (next_key x (r # es))"
proof -
  have "is_panic (kx_RefNonTerminal x 128 p)"
    using assms(2-5) unfolding nonterminal_law_def by (metis linorder_not_less)
  then show ?thesis
    by (simp add: next_key_def key_laws_D(2) [OF assms(1,3)])
qed

text \<open>
  The \<open>re-index\<close> command writes the grants it visits and removes nothing: an entry that is not among
  them, such as a grant revoked while the indexer was off, stays.
\<close>

lemma ReIndex_keeps_stale:
  assumes "faithful (kx_Encode3 x)" and "kx_Encode3 x k = Inr b"
    and "list_all (\<lambda>(a, g, grant). \<forall>auth. kx_GetAuthorization x grant = Inr auth \<longrightarrow> (a, g, mt auth) \<noteq> k) gs"
    and "ReIndex_authz x mt gs m = Inr m'"
  shows "kv_get (im_main m') b = kv_get (im_main m) b"
  using assms(3,4)
proof (induction gs arbitrary: m)
  case (Cons e gs)
  obtain a g grant where e: "e = (a, g, grant)"
    by (cases e)
  have rest: "list_all (\<lambda>(a, g, grant). \<forall>auth. kx_GetAuthorization x grant = Inr auth \<longrightarrow> (a, g, mt auth) \<noteq> k) gs"
    using Cons.prems(1) by simp
  show ?case
  proof (cases "bindr (kx_GetAuthorization x grant) (\<lambda>auth. AuthzHandler_SetGrant x a g (mt auth) grant m)")
    case (Inl err)
    then show ?thesis
      using Cons.prems(2) by (cases err) (simp_all add: e)
  next
    case (Inr m1)
    then obtain auth b' r where auth: "kx_GetAuthorization x grant = Inr auth"
      and enc: "kx_Encode3 x (a, g, mt auth) = Inr b'"
      and m1: "m1 = m\<lparr> im_main := kv_set b' grant (im_main m), im_refs := kv_set r () (im_refs m) \<rparr>"
      by (auto simp: AuthzHandler_SetGrant_def im_Set_def Let_def)
    have "(a, g, mt auth) \<noteq> k"
      using Cons.prems(1) auth by (simp add: e)
    then have "b' \<noteq> b"
      using faithfulD [OF assms(1) enc] assms(2) by blast
    then have "kv_get (im_main m1) b = kv_get (im_main m) b"
      by (simp add: m1)
    moreover have "ReIndex_authz x mt gs m1 = Inr m'"
      using Cons.prems(2) Inr by (simp add: e)
    ultimately show ?thesis
      using Cons.IH [OF rest] by simp
  qed
qed simp

end
