(* ===== verification/Ante.thy ===== *)
theory Ante
  imports Globalfee_Props
begin

text \<open>
  The transaction checks of the application (\<open>app/ante.go\<close>): the options that must be there, the
  decorators in their order, and the chain they form.  The fee decorator of \<open>x/globalfee\<close> is the
  modelled one; the decorators of the SDK, of wasmd, of ibc-go and of the abstract-account module
  are an argument, and so is what the staking keeper answers when asked for the bond denomination.
\<close>

section \<open>Options and decorators\<close>

text \<open>An option is present (not nil) or not; the parameter subspace is known by its name.\<close>

record HandlerOptions =
  ho_AccountKeeper :: bool
  ho_BankKeeper :: bool
  ho_StakingKeeper :: bool
  ho_SignModeHandler :: bool
  ho_NodeConfig :: bool
  ho_GlobalFeeSubspace :: string
  ho_GlobalFeeKeyTable :: bool
  ho_TXCounterStoreService :: bool
  ho_CircuitKeeper :: bool

datatype decorator =
    SetUpContextDecorator | LimitSimulationGasDecorator | CountTXDecorator | CircuitBreakerDecorator
  | ExtensionOptionsDecorator | FeeDecorator | ValidateBasicDecorator | TxTimeoutHeightDecorator
  | ValidateMemoDecorator | ConsumeGasForTxSizeDecorator | DeductFeeDecorator | SetPubKeyDecorator
  | ValidateSigCountDecorator | SigGasConsumeDecorator | BeforeTxDecorator | IncrementSequenceDecorator
  | RedundantRelayDecorator

definition ErrLogic :: go_error where "ErrLogic = SdkErr ''ErrLogic''"

text \<open>\<open>NewFeeDecorator\<close> panics when the subspace has no key table.\<close>

definition NewFeeDecorator :: "HandlerOptions \<Rightarrow> decorator result" where
  "NewFeeDecorator options =
     (if \<not> ho_GlobalFeeKeyTable options then Inl (GoPanic ''global fee paramspace was not set up via module'')
      else Inr FeeDecorator)"

definition NewAnteHandler :: "HandlerOptions \<Rightarrow> decorator list result" where
  "NewAnteHandler options =
     bindr (ensure (ho_AccountKeeper options) ErrLogic) (\<lambda>_.
     bindr (ensure (ho_BankKeeper options) ErrLogic) (\<lambda>_.
     bindr (ensure (ho_StakingKeeper options) ErrLogic) (\<lambda>_.
     bindr (ensure (ho_SignModeHandler options) ErrLogic) (\<lambda>_.
     bindr (ensure (ho_NodeConfig options) ErrLogic) (\<lambda>_.
     bindr (ensure (ho_GlobalFeeSubspace options \<noteq> '''') (SdkErr ''ErrNotFound'')) (\<lambda>_.
     bindr (ensure (ho_TXCounterStoreService options) ErrLogic) (\<lambda>_.
     bindr (ensure (ho_CircuitKeeper options) ErrLogic) (\<lambda>_.
     bindr (NewFeeDecorator options) (\<lambda>feeDecorator.
     Inr [SetUpContextDecorator, LimitSimulationGasDecorator, CountTXDecorator, CircuitBreakerDecorator,
          ExtensionOptionsDecorator, feeDecorator, ValidateBasicDecorator, TxTimeoutHeightDecorator,
          ValidateMemoDecorator, ConsumeGasForTxSizeDecorator, DeductFeeDecorator, SetPubKeyDecorator,
          ValidateSigCountDecorator, SigGasConsumeDecorator, BeforeTxDecorator,
          IncrementSequenceDecorator, RedundantRelayDecorator])))))))))"

datatype post_decorator = AfterTxDecorator

definition NewPostHandler :: "bool \<Rightarrow> post_decorator list result" where
  "NewPostHandler accountKeeper = bindr (ensure accountKeeper ErrLogic) (\<lambda>_. Inr [AfterTxDecorator])"

section \<open>The chain\<close>

type_synonym 'm handler = "fee_ctx \<Rightarrow> 'm any_tx \<Rightarrow> bool \<Rightarrow> fee_ctx result"
type_synonym 'm decorators = "decorator \<Rightarrow> fee_ctx \<Rightarrow> 'm any_tx \<Rightarrow> bool \<Rightarrow> 'm handler \<Rightarrow> fee_ctx result"

text \<open>
  The decorators of the application, over those of other modules.  The closure given to the fee
  decorator panics when the staking keeper does not answer.
\<close>

definition app_decorators :: "'m fee_ext \<Rightarrow> string result \<Rightarrow> fee_state \<Rightarrow> 'm decorators \<Rightarrow> 'm decorators" where
  "app_decorators x bondDenom st other d =
     (if d = FeeDecorator then AnteHandle x (must bondDenom) st else other d)"

text \<open>\<open>sdk.ChainAnteDecorators\<close>: each decorator is handed the rest of the chain; the last returns.\<close>

fun ChainAnteDecorators :: "'m decorators \<Rightarrow> decorator list \<Rightarrow> 'm handler" where
  "ChainAnteDecorators run [] ctx tx simulate = Inr ctx"
| "ChainAnteDecorators run (d # ds) ctx tx simulate = run d ctx tx simulate (ChainAnteDecorators run ds)"

section \<open>What the chain enforces\<close>

text \<open>
  A decorator of another module lets a transaction pass only by handing it on, in the same mode
  and under the same minimum gas prices.
\<close>

definition hands_on :: "'m decorators \<Rightarrow> decorator \<Rightarrow> bool" where
  "hands_on run d \<longleftrightarrow>
     (\<forall>ctx tx simulate next r. run d ctx tx simulate next = Inr r \<longrightarrow>
        (\<exists>ctx'. next ctx' tx simulate = Inr r
           \<and> MinGasPrices ctx' = MinGasPrices ctx \<and> IsCheckTx ctx' = IsCheckTx ctx))"

lemma chain_reaches:
  assumes "list_all (hands_on run) pre"
    and "ChainAnteDecorators run (pre @ d # post) ctx tx simulate = Inr r"
  shows "\<exists>ctx'. run d ctx' tx simulate (ChainAnteDecorators run post) = Inr r
    \<and> MinGasPrices ctx' = MinGasPrices ctx \<and> IsCheckTx ctx' = IsCheckTx ctx"
  using assms
proof (induction pre arbitrary: ctx)
  case (Cons p pre)
  obtain ctx1 where step: "ChainAnteDecorators run (pre @ d # post) ctx1 tx simulate = Inr r"
    "MinGasPrices ctx1 = MinGasPrices ctx" "IsCheckTx ctx1 = IsCheckTx ctx"
    using Cons.prems by (force simp: hands_on_def)
  have rest: "list_all (hands_on run) pre"
    using Cons.prems(1) by simp
  show ?case
    using Cons.IH [OF rest step(1)] step(2,3) by simp
qed auto

lemma NewAnteHandler_order:
  assumes "NewAnteHandler options = Inr ds"
  shows "ds = [SetUpContextDecorator, LimitSimulationGasDecorator, CountTXDecorator, CircuitBreakerDecorator,
         ExtensionOptionsDecorator] @ FeeDecorator #
       ([ValidateBasicDecorator, TxTimeoutHeightDecorator, ValidateMemoDecorator,
         ConsumeGasForTxSizeDecorator] @ DeductFeeDecorator #
       [SetPubKeyDecorator, ValidateSigCountDecorator, SigGasConsumeDecorator, BeforeTxDecorator,
        IncrementSequenceDecorator, RedundantRelayDecorator])"
  using assms by (auto simp: NewAnteHandler_def NewFeeDecorator_def split: if_splits)

text \<open>C39: A transaction that the application's checks let through, outside of simulation and not made
  of bypass messages only, was charged by the SDK's fee deduction, after the global fee check and
  before the signature check, under exactly these minimum gas prices: in \<open>DeliverTx\<close> the global
  ones, in \<open>CheckTx\<close> for every denomination the larger of the global and the node's own.  The
  decorators of other modules are assumed to pass a transaction only by handing it on with the
  prices they were given.
\<close>

theorem ante_enforces_global_fee:
  assumes "fee_laws x" and "InitGenesis_fee x p st0 = Inr st" and "bond \<noteq> []" and "ValidateDenom x bond = Inr ()"
    and "price_list x (MinGasPrices ctx)" and "\<not> ContainsOnlyBypassMinFeeMsgs x st (GetMsgs tx)"
    and "NewAnteHandler options = Inr ds"
    and "run = app_decorators x (Inr bond) st other" and "\<And>d. d \<noteq> FeeDecorator \<Longrightarrow> hands_on other d"
    and "ChainAnteDecorators run ds ctx (FeeTx tx) False = Inr r"
  shows "\<exists>ctx' pre post. ds = pre @ DeductFeeDecorator # post
    \<and> FeeDecorator \<in> set pre \<and> BeforeTxDecorator \<in> set post
    \<and> other DeductFeeDecorator ctx' (FeeTx tx) False (ChainAnteDecorators run post) = Inr r
    \<and> (\<forall>d. amount_of (MinGasPrices ctx') d =
         (if IsCheckTx ctx then max (amount_of (MinGasPrices ctx) d) (amount_of (MinimumGasPrices p) d)
          else amount_of (MinimumGasPrices p) d))"
proof -
  have on: "list_all (hands_on run) pre" if "FeeDecorator \<notin> set pre" for pre
    using that assms(9) by (fastforce simp: list_all_iff assms(8) hands_on_def app_decorators_def)
  obtain post where ds: "ds = [SetUpContextDecorator, LimitSimulationGasDecorator, CountTXDecorator,
        CircuitBreakerDecorator, ExtensionOptionsDecorator] @ FeeDecorator #
      ([ValidateBasicDecorator, TxTimeoutHeightDecorator, ValidateMemoDecorator,
        ConsumeGasForTxSizeDecorator] @ DeductFeeDecorator # post)" and sig: "BeforeTxDecorator \<in> set post"
    using NewAnteHandler_order [OF assms(7)] by simp
  let ?rest = "[ValidateBasicDecorator, TxTimeoutHeightDecorator, ValidateMemoDecorator,
      ConsumeGasForTxSizeDecorator] @ DeductFeeDecorator # post"
  obtain ctx1 where fee: "AnteHandle x (Inr bond) st ctx1 (FeeTx tx) False (ChainAnteDecorators run ?rest) = Inr r"
    and same: "MinGasPrices ctx1 = MinGasPrices ctx" "IsCheckTx ctx1 = IsCheckTx ctx"
    using chain_reaches [OF on assms(10) [unfolded ds]] by (auto simp: assms(8) app_decorators_def)
  have local: "price_list x (MinGasPrices ctx1)"
    using assms(5) same by simp
  obtain req where req: "GetTxFeeRequired x (Inr bond) st ctx1 = Inr req"
    and amounts: "\<And>d. amount_of req d =
         (if IsCheckTx ctx1 then max (amount_of (MinGasPrices ctx1) d) (amount_of (MinimumGasPrices p) d)
          else amount_of (MinimumGasPrices p) d)"
    using required_prices [OF assms(1-4) local] by blast
  have "ChainAnteDecorators run ?rest (ctx1\<lparr>MinGasPrices := req\<rparr>) (FeeTx tx) False = Inr r"
    using fee assms(6) req by (simp add: AnteHandle_def del: ChainAnteDecorators.simps append_Cons append_Nil)
  from chain_reaches [OF on this]
  obtain ctx2 where "other DeductFeeDecorator ctx2 (FeeTx tx) False (ChainAnteDecorators run post) = Inr r"
    "MinGasPrices ctx2 = req"
    by (auto simp: assms(8) app_decorators_def)
  then show ?thesis
    using amounts same sig
    by (intro exI [of _ ctx2] exI [of _ "[SetUpContextDecorator, LimitSimulationGasDecorator, CountTXDecorator,
        CircuitBreakerDecorator, ExtensionOptionsDecorator, FeeDecorator, ValidateBasicDecorator,
        TxTimeoutHeightDecorator, ValidateMemoDecorator, ConsumeGasForTxSizeDecorator]"] exI [of _ post])
      (simp add: ds)
qed

definition demo_options :: HandlerOptions where
  "demo_options =
     \<lparr> ho_AccountKeeper = True, ho_BankKeeper = True, ho_StakingKeeper = True, ho_SignModeHandler = True,
       ho_NodeConfig = True, ho_GlobalFeeSubspace = ''globalfee'', ho_GlobalFeeKeyTable = True,
       ho_TXCounterStoreService = True, ho_CircuitKeeper = True \<rparr>"

text \<open>Decorators that only hand on.\<close>

definition demo_other :: "string decorators" where
  "demo_other d ctx tx simulate next = next ctx tx simulate"

theorem ante_enforces_global_fee_witness:
  "\<exists>ctx' pre post ds r. NewAnteHandler demo_options = Inr ds \<and> ds = pre @ DeductFeeDecorator # post
     \<and> FeeDecorator \<in> set pre
     \<and> demo_other DeductFeeDecorator ctx' (FeeTx \<lparr>GetMsgs = [''send''], GetGas = 10, GetFee = []\<rparr>) False
         (ChainAnteDecorators (app_decorators ref_fee (Inr ''ux'') demo_fee_state demo_other) post) = Inr r
     \<and> amount_of (MinGasPrices ctx') ''ux'' = 7"
proof -
  let ?tx = "\<lparr>GetMsgs = [''send''], GetGas = 10, GetFee = []\<rparr>"
  let ?ctx = "\<lparr>MinGasPrices = [(''ux'', 7)], IsCheckTx = True\<rparr>"
  have bypass: "\<not> ContainsOnlyBypassMinFeeMsgs ref_fee demo_fee_state (GetMsgs ?tx)"
    by (simp add: ContainsOnlyBypassMinFeeMsgs_def GetBypassMsgTypes_def demo_fee_state_def ref_fee_def)
  have prices: "price_list ref_fee (MinGasPrices ?ctx)" "ValidateDenom ref_fee ''ux'' = Inr ()"
    by (simp_all add: price_list_def ref_fee_def)
  have on: "hands_on demo_other d" for d
    by (auto simp: hands_on_def demo_other_def)
  obtain req where req: "GetTxFeeRequired ref_fee (Inr ''ux'') demo_fee_state ?ctx = Inr req"
    using required_prices [OF ref_fee_laws demo_fee_init _ prices(2,1)] by auto
  obtain ds where ds: "NewAnteHandler demo_options = Inr ds"
    by (simp add: NewAnteHandler_def NewFeeDecorator_def demo_options_def)
  have "ChainAnteDecorators (app_decorators ref_fee (Inr ''ux'') demo_fee_state demo_other) ds ?ctx (FeeTx ?tx) False
      = Inr (?ctx\<lparr>MinGasPrices := req\<rparr>)"
    unfolding NewAnteHandler_order [OF ds]
    using bypass req by (simp add: app_decorators_def demo_other_def AnteHandle_def)
  from ante_enforces_global_fee [OF ref_fee_laws demo_fee_init _ prices(2,1) bypass ds refl on this]
  obtain ctx' pre post where "ds = pre @ DeductFeeDecorator # post" "FeeDecorator \<in> set pre"
    "demo_other DeductFeeDecorator ctx' (FeeTx ?tx) False
       (ChainAnteDecorators (app_decorators ref_fee (Inr ''ux'') demo_fee_state demo_other) post) = Inr (?ctx\<lparr>MinGasPrices := req\<rparr>)"
    "\<forall>d. amount_of (MinGasPrices ctx') d = max (amount_of [(''ux'', 7)] d) (amount_of (MinimumGasPrices demo_fee_params) d)"
    by auto
  moreover have "max (amount_of [(''ux'', 7)] ''ux'') (amount_of (MinimumGasPrices demo_fee_params) ''ux'') = 7"
    by (simp add: demo_fee_params_def)
  ultimately show ?thesis
    using ds by metis
qed

end
