(* ===== verification/App_Export.thy ===== *)
theory App_Export
  imports Sdk
begin

text \<open>
  Export for a restart at height zero (\<open>app/export.go\<close>).  The staking and slashing records the
  export rewrites are part of the state; the distribution module, the crisis invariants and the
  validator set update are arguments (\<open>export_ext\<close>).  \<open>log.Fatal\<close> ends the process and is
  written as a panic.  The store iterators and setters of the SDK do not fail here.
\<close>

section \<open>State\<close>

record validator =
  va_UnbondingHeight :: int
  va_Jailed :: bool
  va_Operator :: string
  va_Tokens :: int

record delegation =
  de_DelegatorAddress :: string
  de_ValidatorAddress :: string
  de_Shares :: int

record unbonding_entry =
  ue_CreationHeight :: int
  ue_Balance :: int

record signing_info =
  si_StartHeight :: int
  si_MissedBlocks :: int

record 'd export_state =
  xs_validators :: "(address, validator) kv"
  xs_delegations :: "delegation list"
  xs_redelegations :: "(bytes, unbonding_entry list) kv"
  xs_unbondings :: "(bytes, unbonding_entry list) kv"
  xs_signing :: "(address, signing_info) kv"
  xs_distr :: 'd

text \<open>The hooks of the distribution module read the block height.\<close>

record 'd export_ext =
  ex_ValAddressFromBech32 :: "string \<Rightarrow> address result"
  ex_AccAddressFromBech32 :: "string \<Rightarrow> address result"
  ex_ValString :: "address \<Rightarrow> string"
  ex_StringToBytes :: "string \<Rightarrow> address result"
  ex_AssertInvariants :: "'d export_state \<Rightarrow> unit result"
  ex_WithdrawValidatorCommission :: "address \<Rightarrow> 'd \<Rightarrow> 'd"
  ex_WithdrawDelegationRewards :: "address \<Rightarrow> address \<Rightarrow> 'd \<Rightarrow> 'd result"
  ex_DeleteAllValidatorSlashEvents :: "'d \<Rightarrow> 'd"
  ex_DeleteAllValidatorHistoricalRewards :: "'d \<Rightarrow> 'd"
  ex_OutstandingRewards :: "address \<Rightarrow> 'd \<Rightarrow> coins result"
  ex_AddCommunityPool :: "coins \<Rightarrow> 'd \<Rightarrow> 'd result"
  ex_AfterValidatorCreated :: "int \<Rightarrow> address \<Rightarrow> 'd \<Rightarrow> 'd result"
  ex_BeforeDelegationCreated :: "int \<Rightarrow> address \<Rightarrow> address \<Rightarrow> 'd \<Rightarrow> 'd result"
  ex_AfterDelegationModified :: "int \<Rightarrow> address \<Rightarrow> address \<Rightarrow> 'd \<Rightarrow> 'd result"
  ex_ApplyValidatorSetUpdates :: "'d export_state \<Rightarrow> 'd export_state result"

section \<open>The steps of \<open>prepForZeroHeightGenesis\<close>\<close>

text \<open>The allowed addresses, each checked.\<close>

definition allowed_addrs :: "'d export_ext \<Rightarrow> string list \<Rightarrow> string list result" where
  "allowed_addrs x addrs =
     bindr (for_each addrs (\<lambda>a. bindr (must (ex_ValAddressFromBech32 x a)) (\<lambda>_. Inr ()))) (\<lambda>_. Inr addrs)"

definition withdraw_commissions :: "'d export_ext \<Rightarrow> 'd export_state \<Rightarrow> 'd export_state result" where
  "withdraw_commissions x st =
     bindr (fold_each (\<lambda>(_, val) d.
        bindr (must (ex_StringToBytes x (va_Operator val))) (\<lambda>valBz.
        Inr (ex_WithdrawValidatorCommission x valBz d))) (xs_validators st) (xs_distr st)) (\<lambda>d.
     Inr (st\<lparr> xs_distr := d \<rparr>))"

definition withdraw_rewards :: "'d export_ext \<Rightarrow> 'd export_state \<Rightarrow> 'd export_state result" where
  "withdraw_rewards x st =
     bindr (fold_each (\<lambda>del d.
        bindr (must (ex_ValAddressFromBech32 x (de_ValidatorAddress del))) (\<lambda>valAddr.
        bindr (must (ex_AccAddressFromBech32 x (de_DelegatorAddress del))) (\<lambda>delAddr.
        must (ex_WithdrawDelegationRewards x delAddr valAddr d)))) (xs_delegations st) (xs_distr st)) (\<lambda>d.
     Inr (st\<lparr> xs_distr := d \<rparr>))"

definition clear_distribution :: "'d export_ext \<Rightarrow> 'd export_state \<Rightarrow> 'd export_state" where
  "clear_distribution x st =
     st\<lparr> xs_distr := ex_DeleteAllValidatorHistoricalRewards x (ex_DeleteAllValidatorSlashEvents x (xs_distr st)) \<rparr>"

text \<open>Leftover rewards go to the community pool, and the records start afresh at height zero.\<close>

definition reinit_validators :: "'d export_ext \<Rightarrow> 'd export_state \<Rightarrow> 'd export_state result" where
  "reinit_validators x st =
     bindr (fold_each (\<lambda>(_, val) d.
        bindr (must (ex_StringToBytes x (va_Operator val))) (\<lambda>valBz.
        bindr (must (ex_OutstandingRewards x valBz d)) (\<lambda>scraps.
        bindr (must (ex_AddCommunityPool x scraps d)) (\<lambda>d.
        must (ex_AfterValidatorCreated x 0 valBz d))))) (xs_validators st) (xs_distr st)) (\<lambda>d.
     Inr (st\<lparr> xs_distr := d \<rparr>))"

definition reinit_delegations :: "'d export_ext \<Rightarrow> 'd export_state \<Rightarrow> 'd export_state result" where
  "reinit_delegations x st =
     bindr (fold_each (\<lambda>del d.
        bindr (must (ex_ValAddressFromBech32 x (de_ValidatorAddress del))) (\<lambda>valAddr.
        bindr (must (ex_AccAddressFromBech32 x (de_DelegatorAddress del))) (\<lambda>delAddr.
        bindr (must (ex_BeforeDelegationCreated x 0 delAddr valAddr d)) (\<lambda>d.
        must (ex_AfterDelegationModified x 0 delAddr valAddr d))))) (xs_delegations st) (xs_distr st)) (\<lambda>d.
     Inr (st\<lparr> xs_distr := d \<rparr>))"

definition reset_entries :: "(bytes, unbonding_entry list) kv \<Rightarrow> (bytes, unbonding_entry list) kv" where
  "reset_entries s = map (\<lambda>(k, es). (k, map (\<lambda>e. e\<lparr> ue_CreationHeight := 0 \<rparr>) es)) s"

text \<open>One validator record; \<open>applyAllowedAddrs\<close> holds when a list of addresses was given.\<close>

definition reset_validator ::
  "'d export_ext \<Rightarrow> string list \<Rightarrow> address \<Rightarrow> validator \<Rightarrow> validator" where
  "reset_validator x allowed addr val =
     (let val = val\<lparr> va_UnbondingHeight := 0 \<rparr> in
      if length allowed > 0 \<and> ex_ValString x addr \<notin> set allowed then val\<lparr> va_Jailed := True \<rparr> else val)"

definition reset_staking :: "'d export_ext \<Rightarrow> string list \<Rightarrow> 'd export_state \<Rightarrow> 'd export_state" where
  "reset_staking x allowed st =
     st\<lparr> xs_redelegations := reset_entries (xs_redelegations st),
         xs_unbondings := reset_entries (xs_unbondings st),
         xs_validators := map (\<lambda>(addr, val). (addr, reset_validator x allowed addr val)) (xs_validators st) \<rparr>"

definition reset_signing :: "'d export_state \<Rightarrow> 'd export_state" where
  "reset_signing st =
     st\<lparr> xs_signing := map (\<lambda>(addr, info). (addr, info\<lparr> si_StartHeight := 0 \<rparr>)) (xs_signing st) \<rparr>"

definition prepForZeroHeightGenesis ::
  "'d export_ext \<Rightarrow> string list \<Rightarrow> 'd export_state \<Rightarrow> 'd export_state result" where
  "prepForZeroHeightGenesis x jailAllowedAddrs st =
     bindr (allowed_addrs x jailAllowedAddrs) (\<lambda>allowed.
     bindr (ex_AssertInvariants x st) (\<lambda>_.
     bindr (withdraw_commissions x st) (\<lambda>st.
     bindr (withdraw_rewards x st) (\<lambda>st.
     bindr (reinit_validators x (clear_distribution x st)) (\<lambda>st.
     bindr (reinit_delegations x st) (\<lambda>st.
     bindr (must (ex_ApplyValidatorSetUpdates x (reset_staking x allowed st))) (\<lambda>st.
     Inr (reset_signing st))))))))"

text \<open>
  The exported height and the state the export is taken from.  \<open>exportGenesis\<close> stands for the module
  manager's export, its JSON encoding and the list of validators.
\<close>

definition export_height :: "int \<Rightarrow> bool \<Rightarrow> int" where
  "export_height lastBlockHeight forZeroHeight = (if forZeroHeight then 0 else lastBlockHeight + 1)"

definition ExportAppStateAndValidators ::
  "'d export_ext \<Rightarrow> ('d export_state \<Rightarrow> 'g result) \<Rightarrow> bool \<Rightarrow> string list \<Rightarrow> int \<Rightarrow> 'd export_state
     \<Rightarrow> ('g \<times> int) result" where
  "ExportAppStateAndValidators x exportGenesis forZeroHeight jailAllowedAddrs lastBlockHeight st =
     bindr (if forZeroHeight then prepForZeroHeightGenesis x jailAllowedAddrs st else Inr st) (\<lambda>st.
     bindr (exportGenesis st) (\<lambda>appState.
     Inr (appState, export_height lastBlockHeight forZeroHeight)))"

section \<open>What the export keeps and what it resets\<close>

text \<open>The distribution steps leave the staking and slashing records alone.\<close>

definition same_records :: "'d export_state \<Rightarrow> 'd export_state \<Rightarrow> bool" where
  "same_records s t \<longleftrightarrow> (\<exists>d. t = s\<lparr> xs_distr := d \<rparr>)"

lemma same_records_steps:
  "withdraw_commissions x st = Inr t \<Longrightarrow> same_records st t"
  "withdraw_rewards x st = Inr t \<Longrightarrow> same_records st t"
  "reinit_validators x st = Inr t \<Longrightarrow> same_records st t"
  "reinit_delegations x st = Inr t \<Longrightarrow> same_records st t"
  "same_records st (clear_distribution x st)"
  by (auto simp: same_records_def withdraw_commissions_def withdraw_rewards_def reinit_validators_def
      reinit_delegations_def clear_distribution_def)

lemma same_records_trans: "same_records s t \<Longrightarrow> same_records t u \<Longrightarrow> same_records s u"
  by (auto simp: same_records_def)

lemma kv_get_map_values: "kv_get (map (\<lambda>(k, v). (k, f k v)) s) k = map_option (f k) (kv_get s k)"
  by (induction s) (auto simp: kv_get_def)

text \<open>C40: An export for height zero that returns went on from records in which every redelegation and
  unbonding entry has creation height zero and is otherwise unchanged, and every validator has
  unbonding height zero and is jailed exactly if it was before or an address list was given that
  does not name it; the delegations are untouched.  After the validator set update it resets the
  start height of every signing info and nothing else, and the exported height is zero.
\<close>

theorem zero_height_export_resets:
  assumes "ExportAppStateAndValidators x exportGenesis True allowed h st = Inr (appState, height)"
  shows "\<exists>mid upd. height = 0 \<and> ex_ApplyValidatorSetUpdates x mid = Inr upd
    \<and> exportGenesis (reset_signing upd) = Inr appState
    \<and> (\<forall>k. kv_get (xs_redelegations mid) k = map_option (map (\<lambda>e. e\<lparr> ue_CreationHeight := 0 \<rparr>)) (kv_get (xs_redelegations st) k)
         \<and> kv_get (xs_unbondings mid) k = map_option (map (\<lambda>e. e\<lparr> ue_CreationHeight := 0 \<rparr>)) (kv_get (xs_unbondings st) k)
         \<and> kv_get (xs_validators mid) k =
             map_option (\<lambda>v. v\<lparr> va_UnbondingHeight := 0,
               va_Jailed := (va_Jailed v \<or> allowed \<noteq> [] \<and> ex_ValString x k \<notin> set allowed) \<rparr>) (kv_get (xs_validators st) k)
         \<and> kv_get (xs_signing (reset_signing upd)) k = map_option (\<lambda>i. i\<lparr> si_StartHeight := 0 \<rparr>) (kv_get (xs_signing upd) k))
    \<and> xs_delegations mid = xs_delegations st \<and> xs_signing mid = xs_signing st
    \<and> xs_validators (reset_signing upd) = xs_validators upd"
proof -
  obtain st' where prep: "prepForZeroHeightGenesis x allowed st = Inr st'"
    and out: "exportGenesis st' = Inr appState" "height = 0"
    using assms by (auto simp: ExportAppStateAndValidators_def export_height_def)
  obtain s1 s2 s3 t upd where steps: "withdraw_commissions x st = Inr s1" "withdraw_rewards x s1 = Inr s2"
      "reinit_validators x (clear_distribution x s2) = Inr s3" "reinit_delegations x s3 = Inr t"
    and update: "ex_ApplyValidatorSetUpdates x (reset_staking x allowed t) = Inr upd" and st': "st' = reset_signing upd"
    using prep by (auto simp: prepForZeroHeightGenesis_def allowed_addrs_def)
  have same: "same_records st t"
    using same_records_steps(1) [OF steps(1)] same_records_steps(2) [OF steps(2)] same_records_steps(3) [OF steps(3)]
      same_records_steps(4) [OF steps(4)] same_records_steps(5) [of s2 x]
    by (blast intro: same_records_trans)
  let ?mid = "reset_staking x allowed t"
  have "reset_validator x allowed k =
      (\<lambda>v. v\<lparr> va_UnbondingHeight := 0, va_Jailed := (va_Jailed v \<or> allowed \<noteq> [] \<and> ex_ValString x k \<notin> set allowed) \<rparr>)" for k
    by (auto simp: reset_validator_def Let_def)
  then show ?thesis
    using same update out st'
    by (intro exI [of _ ?mid] exI [of _ upd])
      (auto simp: reset_staking_def reset_entries_def reset_signing_def same_records_def kv_get_map_values)
qed

definition demo_ex :: "unit export_ext" where
  "demo_ex =
     \<lparr> ex_ValAddressFromBech32 = Inr, ex_AccAddressFromBech32 = Inr, ex_ValString = id, ex_StringToBytes = Inr,
       ex_AssertInvariants = (\<lambda>_. Inr ()), ex_WithdrawValidatorCommission = (\<lambda>_ d. d),
       ex_WithdrawDelegationRewards = (\<lambda>_ _ d. Inr d), ex_DeleteAllValidatorSlashEvents = id,
       ex_DeleteAllValidatorHistoricalRewards = id, ex_OutstandingRewards = (\<lambda>_ _. Inr []),
       ex_AddCommunityPool = (\<lambda>_ d. Inr d), ex_AfterValidatorCreated = (\<lambda>_ _ d. Inr d),
       ex_BeforeDelegationCreated = (\<lambda>_ _ _ d. Inr d), ex_AfterDelegationModified = (\<lambda>_ _ _ d. Inr d),
       ex_ApplyValidatorSetUpdates = Inr \<rparr>"

definition demo_export :: "unit export_state" where
  "demo_export =
     \<lparr> xs_validators = [(''v'', \<lparr> va_UnbondingHeight = 7, va_Jailed = False, va_Operator = ''v'', va_Tokens = 3 \<rparr>)],
       xs_delegations = [], xs_redelegations = [], xs_unbondings = [],
       xs_signing = [(''v'', \<lparr> si_StartHeight = 9, si_MissedBlocks = 1 \<rparr>)], xs_distr = () \<rparr>"

theorem zero_height_export_resets_witness:
  "\<exists>mid. kv_get (xs_validators mid) ''v''
     = Some \<lparr> va_UnbondingHeight = 0, va_Jailed = True, va_Operator = ''v'', va_Tokens = 3 \<rparr>
   \<and> ex_ApplyValidatorSetUpdates demo_ex mid = Inr mid"
proof -
  have run: "ExportAppStateAndValidators demo_ex (\<lambda>st. Inr (xs_signing st)) True [''w''] 20 demo_export
      = Inr ([(''v'', \<lparr> si_StartHeight = 0, si_MissedBlocks = 1 \<rparr>)], 0)"
    by code_simp
  obtain mid upd where "ex_ApplyValidatorSetUpdates demo_ex mid = Inr upd"
    and "kv_get (xs_validators mid) ''v'' =
      map_option (\<lambda>v. v\<lparr> va_UnbondingHeight := 0,
        va_Jailed := (va_Jailed v \<or> [''w''] \<noteq> [] \<and> ex_ValString demo_ex ''v'' \<notin> set [''w'']) \<rparr>)
        (kv_get (xs_validators demo_export) ''v'')"
    using zero_height_export_resets [OF run] by blast
  then show ?thesis
    by (intro exI [of _ mid]) (simp add: demo_ex_def demo_export_def kv_get_Cons)
qed

end
