(* ===== verification/Feeabs.thy ===== *)
theory Feeabs
  imports Sdk
begin

text \<open>
  What is left of \<open>x/feeabs\<close>: the types of a module that the application no longer wires.  Epochs,
  parameters, genesis, the store keys, messages and proposals; the address codec
  and the governance module's own proposal check are arguments.  Durations are nanoseconds, times
  nanoseconds since the zero time.
\<close>

section \<open>Epochs, parameters and genesis\<close>

record EpochInfo =
  ep_Identifier :: string
  ep_StartTime :: int
  ep_Duration :: int
  ep_CurrentEpoch :: int
  ep_CurrentEpochStartTime :: int
  ep_EpochCountingStarted :: bool
  ep_CurrentEpochStartHeight :: int

definition minute :: int where "minute = 60 * 1000000000"

definition DefaultSwapPeriod :: int where "DefaultSwapPeriod = minute * 2"
definition DefaultQueryPeriod :: int where "DefaultQueryPeriod = minute * 1"
definition DefaultSwapEpochIdentifier :: string where "DefaultSwapEpochIdentifier = ''swap''"
definition DefaultQueryEpochIdentifier :: string where "DefaultQueryEpochIdentifier = ''query''"

definition Validate_EpochInfo :: "EpochInfo \<Rightarrow> unit result" where
  "Validate_EpochInfo epoch =
     bindr (ensure (\<not> ep_Identifier epoch = '''') (Plain ''epoch identifier should NOT be empty'')) (\<lambda>_.
     bindr (ensure (\<not> ep_Duration epoch = 0) (Plain ''epoch duration should NOT be 0'')) (\<lambda>_.
     bindr (ensure (\<not> ep_CurrentEpoch epoch < 0) (Plain ''epoch CurrentEpoch must be non-negative'')) (\<lambda>_.
     ensure (\<not> ep_CurrentEpochStartHeight epoch < 0) (Plain ''epoch CurrentEpoch must be non-negative''))))"

definition NewGenesisEpochInfo :: "string \<Rightarrow> int \<Rightarrow> EpochInfo" where
  "NewGenesisEpochInfo identifier duration =
     \<lparr> ep_Identifier = identifier, ep_StartTime = 0, ep_Duration = duration, ep_CurrentEpoch = 0,
       ep_CurrentEpochStartTime = 0, ep_EpochCountingStarted = False, ep_CurrentEpochStartHeight = 0 \<rparr>"

record feeabs_params =
  fp_OsmosisQueryTwapPath :: string
  fp_NativeIbcedInOsmosis :: string
  fp_ChainName :: string
  fp_IbcTransferChannel :: string
  fp_IbcQueryIcqChannel :: string
  fp_OsmosisCrosschainSwapAddress :: string

text \<open>A value given to the parameter check is a string or something else.\<close>

datatype param_value = ParamString string | ParamOther

fun validateString :: "param_value \<Rightarrow> unit result" where
  "validateString (ParamString _) = Inr ()"
| "validateString ParamOther = Inl (Plain ''invalid parameter type string'')"

definition Validate_feeabs_params :: "feeabs_params \<Rightarrow> unit result" where
  "Validate_feeabs_params p =
     bindr (validateString (ParamString (fp_OsmosisQueryTwapPath p))) (\<lambda>_.
     bindr (validateString (ParamString (fp_NativeIbcedInOsmosis p))) (\<lambda>_.
     bindr (validateString (ParamString (fp_ChainName p))) (\<lambda>_.
     bindr (validateString (ParamString (fp_IbcTransferChannel p))) (\<lambda>_.
     bindr (validateString (ParamString (fp_IbcQueryIcqChannel p))) (\<lambda>_.
     validateString (ParamString (fp_OsmosisCrosschainSwapAddress p)))))))"

definition DefaultParams_feeabs :: feeabs_params where
  "DefaultParams_feeabs =
     \<lparr> fp_OsmosisQueryTwapPath = ''/osmosis.twap.v1beta1.Query/ArithmeticTwapToNow'',
       fp_NativeIbcedInOsmosis = ''ibc/C053D637CCA2A2BA030E2C5EE1B28A16F71CCB0E45E8BE52766DC1B241B77878'',
       fp_ChainName = ''feeappd-t1'', fp_IbcTransferChannel = '''', fp_IbcQueryIcqChannel = '''',
       fp_OsmosisCrosschainSwapAddress = '''' \<rparr>"

record feeabs_genesis =
  fg_Params :: feeabs_params
  fg_Epochs :: "EpochInfo list"
  fg_PortId :: string

definition DefaultGenesis_feeabs :: feeabs_genesis where
  "DefaultGenesis_feeabs =
     \<lparr> fg_Params = \<lparr> fp_OsmosisQueryTwapPath = ''/osmosis.twap.v1beta1.Query/ArithmeticTwapToNow'',
         fp_NativeIbcedInOsmosis = ''ibc/C053D637CCA2A2BA030E2C5EE1B28A16F71CCB0E45E8BE52766DC1B241B77878'',
         fp_ChainName = ''feeappd-t1'', fp_IbcTransferChannel = '''', fp_IbcQueryIcqChannel = '''',
         fp_OsmosisCrosschainSwapAddress = '''' \<rparr>,
       fg_Epochs = [NewGenesisEpochInfo DefaultQueryEpochIdentifier DefaultQueryPeriod,
                    NewGenesisEpochInfo DefaultSwapEpochIdentifier DefaultSwapPeriod],
       fg_PortId = ''feeabs'' \<rparr>"

definition Validate_feeabs_genesis :: "feeabs_genesis \<Rightarrow> unit result" where
  "Validate_feeabs_genesis gs =
     bindr (wrap_as (Plain ''invalid params'') (Validate_feeabs_params (fg_Params gs))) (\<lambda>_.
     for_each (fg_Epochs gs) Validate_EpochInfo)"

section \<open>Store keys, messages and proposals\<close>

definition KeyHostChainConfigByFeeAbs :: bytes where "KeyHostChainConfigByFeeAbs = [CHR 0x03]"
definition KeyHostChainConfigByOsmosis :: bytes where "KeyHostChainConfigByOsmosis = [CHR 0x04]"
definition OsmosisTwapExchangeRate :: bytes where "OsmosisTwapExchangeRate = [CHR 0x01]"

definition GetKeyHostZoneConfigByFeeabsIBCDenom :: "string \<Rightarrow> bytes" where
  "GetKeyHostZoneConfigByFeeabsIBCDenom d = KeyHostChainConfigByFeeAbs @ d"

definition GetKeyHostZoneConfigByOsmosisIBCDenom :: "string \<Rightarrow> bytes" where
  "GetKeyHostZoneConfigByOsmosisIBCDenom d = KeyHostChainConfigByOsmosis @ d"

definition GetKeyTwapExchangeRate :: "string \<Rightarrow> bytes" where
  "GetKeyTwapExchangeRate d = OsmosisTwapExchangeRate @ d"

datatype feeabs_msg =
    MsgSendQueryIbcDenomTWAP string
  | MsgSwapCrossChain string string
  | MsgFundFeeAbsModuleAccount string coins

fun msg_Sender :: "feeabs_msg \<Rightarrow> string" where
  "msg_Sender (MsgSendQueryIbcDenomTWAP s) = s"
| "msg_Sender (MsgSwapCrossChain s _) = s"
| "msg_Sender (MsgFundFeeAbsModuleAccount s _) = s"

definition ValidateBasic_feeabs_msg :: "(string \<Rightarrow> address result) \<Rightarrow> feeabs_msg \<Rightarrow> unit result" where
  "ValidateBasic_feeabs_msg fromBech32 m = bindr (fromBech32 (msg_Sender m)) (\<lambda>_. Inr ())"

definition GetSigners_feeabs :: "(string \<Rightarrow> address result) \<Rightarrow> feeabs_msg \<Rightarrow> address list result" where
  "GetSigners_feeabs fromBech32 m = bindr (must (fromBech32 (msg_Sender m))) (\<lambda>a. Inr [a])"

text \<open>The three proposals; a host zone configuration is opaque.\<close>

datatype 'h feeabs_proposal =
    AddHostZoneProposal string string 'h
  | DeleteHostZoneProposal string string string
  | SetHostZoneProposal string string 'h

fun GetTitle :: "'h feeabs_proposal \<Rightarrow> string" where
  "GetTitle (AddHostZoneProposal t _ _) = t"
| "GetTitle (DeleteHostZoneProposal t _ _) = t"
| "GetTitle (SetHostZoneProposal t _ _) = t"

fun GetDescription :: "'h feeabs_proposal \<Rightarrow> string" where
  "GetDescription (AddHostZoneProposal _ d _) = d"
| "GetDescription (DeleteHostZoneProposal _ d _) = d"
| "GetDescription (SetHostZoneProposal _ d _) = d"

fun ProposalType :: "'h feeabs_proposal \<Rightarrow> string" where
  "ProposalType (AddHostZoneProposal _ _ _) = ''AddHostZone''"
| "ProposalType (DeleteHostZoneProposal _ _ _) = ''DeleteHostZone''"
| "ProposalType (SetHostZoneProposal _ _ _) = ''SetHostZone''"

definition ProposalRoute :: "'h feeabs_proposal \<Rightarrow> string" where
  "ProposalRoute p = ''feeabs''"

text \<open>\<open>validateAbstract\<close> is the governance module's check of title and description.\<close>

definition ValidateBasic_proposal :: "(string \<Rightarrow> string \<Rightarrow> unit result) \<Rightarrow> 'h feeabs_proposal \<Rightarrow> unit result" where
  "ValidateBasic_proposal validateAbstract p = validateAbstract (GetTitle p) (GetDescription p)"

section \<open>Facts\<close>

lemma Validate_EpochInfo_iff:
  "Validate_EpochInfo e = Inr () \<longleftrightarrow>
     ep_Identifier e \<noteq> '''' \<and> ep_Duration e \<noteq> 0 \<and> 0 \<le> ep_CurrentEpoch e \<and> 0 \<le> ep_CurrentEpochStartHeight e"
  by (auto simp: Validate_EpochInfo_def)

text \<open>Parameters of the declared type always pass, so that a genesis is judged by its epochs alone.\<close>

lemma Validate_feeabs_genesis_iff:
  "Validate_feeabs_genesis gs = Inr () \<longleftrightarrow> list_all (\<lambda>e. Validate_EpochInfo e = Inr ()) (fg_Epochs gs)"
  by (simp add: Validate_feeabs_genesis_def Validate_feeabs_params_def list_all_iff)

lemma DefaultGenesis_feeabs_valid: "Validate_feeabs_genesis DefaultGenesis_feeabs = Inr ()"
  by (simp add: Validate_feeabs_genesis_iff Validate_EpochInfo_iff DefaultGenesis_feeabs_def NewGenesisEpochInfo_def
      DefaultQueryEpochIdentifier_def DefaultSwapEpochIdentifier_def DefaultQueryPeriod_def DefaultSwapPeriod_def minute_def)

lemma feeabs_keys_apart:
  "GetKeyHostZoneConfigByFeeabsIBCDenom d \<noteq> GetKeyHostZoneConfigByOsmosisIBCDenom e"
  "GetKeyHostZoneConfigByFeeabsIBCDenom d \<noteq> GetKeyTwapExchangeRate e"
  "GetKeyHostZoneConfigByOsmosisIBCDenom d \<noteq> GetKeyTwapExchangeRate e"
  "GetKeyTwapExchangeRate d = GetKeyTwapExchangeRate e \<longleftrightarrow> d = e"
  by (simp_all add: GetKeyHostZoneConfigByFeeabsIBCDenom_def GetKeyHostZoneConfigByOsmosisIBCDenom_def
      GetKeyTwapExchangeRate_def KeyHostChainConfigByFeeAbs_def KeyHostChainConfigByOsmosis_def OsmosisTwapExchangeRate_def)

text \<open>A message that passes its stateless check has exactly one signer, and reading it cannot panic.\<close>

lemma feeabs_signer:
  "ValidateBasic_feeabs_msg fromBech32 m = Inr () \<Longrightarrow> \<exists>a. GetSigners_feeabs fromBech32 m = Inr [a]"
  by (auto simp: ValidateBasic_feeabs_msg_def GetSigners_feeabs_def)

end
