(* ===== verification/Spec2Isabelle.thy ===== *)
theory Spec2Isabelle
  imports Zk_Props Zk_Default Xion_Props Mint Feegrant_Props Dkim_Subject Dkim_Auth Dkim_Paging Jwk_Props
    Globalfee_Props Wasm_Binding Indexer_Claims Ante App_Export Feeabs
begin

text \<open>
  A verification library for xion, a chain built on the Cosmos SDK (Go sources under \<open>src/\<close>).

  \<^bold>\<open>The program.\<close>  The chain adds these parts to the SDK.  \<open>x/zk\<close> stores verification keys and checks
  proofs.  \<open>x/dkim\<close> stores mail signing keys and authenticates mails through a proof of \<open>x/zk\<close>.
  \<open>x/jwk\<close> stores audiences and checks tokens.  \<open>x/xion\<close> has transfers with a platform fee, fee
  allowances, the mint function and the WebAuthn queries.  \<open>x/mint/types\<close> has the inflation schedule.
  \<open>x/globalfee\<close> sets minimum gas prices in the ante chain of \<open>app/ante.go\<close>.  \<open>wasmbindings\<close> gives
  contracts a list of queries, among them those of the modules above.  \<open>indexer\<close> copies grants and
  allowances out of every commit.  \<open>app/export.go\<close> prepares a restart at height zero.  \<open>x/feeabs\<close>
  holds the types of a module that is no longer wired.

  \<^bold>\<open>How it is modelled.\<close>  A keeper's state is a record of key-value stores, iterated in key order;
  an operation returns the new state or an error, \<open>go_error + 'a\<close>, and a Go panic is the error
  \<open>GoPanic\<close>, which only \<open>recover_as\<close> turns into another one.  Go's index and slice expressions are
  \<open>go_index\<close> and \<open>go_slice\<close>, which panic out of range; \<open>uint64\<close> and \<open>uint32\<close> values are words.
  Code of other repositories is a record of functions (names in \<open>_ext\<close>) passed to the definitions
  that call it; what a property needs of it is a named hypothesis (names in \<open>_laws\<close>), and its
  witness gives functions that satisfy it.  Log lines and events are left out.

  \<^bold>\<open>Theories.\<close>
  \<^item> \<open>Prelude\<close>: results, Go expressions, stores, and the interfaces \<open>kv_store\<close>, \<open>indexed_store\<close>,
    \<open>invariant_machine\<close>, \<open>gated_machine\<close> and \<open>counter_machine\<close>, which the components interpret.
    \<open>Go_Std\<close>, \<open>Go_Enc\<close>: the parts of Go's library in use.  \<open>Sdk\<close>: coins and the bank.
  \<^item> \<open>Zk_Types\<close>, \<open>Zk_Keeper\<close>, \<open>Zk_Query\<close>, \<open>Zk_Default\<close> model \<open>x/zk\<close>.  \<open>Zk_Props\<close> shows the store
    invariant over all messages, that only its authority changes a key, that an id is not reused,
    what an accepted proof guarantees, and which exports can be imported and what that restores.
  \<^item> \<open>Xion_Platform\<close> models the transfers of \<open>x/xion\<close>; \<open>Xion_Props\<close> shows where every unit goes and
    who configures the platform.  \<open>Feegrant\<close> and \<open>Feegrant_Props\<close>: the fee allowances, what they pay
    for, which of them is charged, and how deep they nest.  \<open>Mint\<close>: the mint function, with what the
    fee collector holds after it, and the inflation schedule.
  \<^item> \<open>Webauthn\<close> models \<open>types/webauthn.go\<close> and \<open>keeper/grpc_query.go\<close> of \<open>x/xion\<close> and shows exactly
    when a query succeeds, that none panics, and that the attestation statement matters only
    through its certificates.  \<open>Wasm_Binding\<close> models \<open>wasmbindings\<close> and shows that contracts reach
    the listed paths only, and what the registration query gives them.
  \<^item> \<open>Dkim_Types\<close>, \<open>Dkim_Subject\<close>, \<open>Dkim_Keeper\<close>, \<open>Dkim_Query\<close> model \<open>x/dkim\<close>.  \<open>Dkim_Hash\<close> has what
    Poseidon hashes, \<open>Dkim_Props\<close> the invariant from the application's genesis on, rights and
    revocation, \<open>Dkim_Paging\<close> the listing and its refinement of a plain slice, \<open>Dkim_Auth\<close> what an
    answer of \<open>Authenticate\<close> rests on and when it cannot panic.
  \<^item> \<open>Jwk\<close>, \<open>Jwk_Keeper\<close> model \<open>x/jwk\<close>; \<open>Jwk_Props\<close> shows validity of what is stored, rights, how
    claims follow audiences, and what an answer of \<open>ValidateJWT\<close> rests on.
  \<^item> \<open>Globalfee\<close> and \<open>Globalfee_Props\<close>: the parameters and the fee decorator, with the exact prices it
    demands.  \<open>Ante\<close>: the ante chain, and that fees are deducted under these prices.
  \<^item> \<open>Indexer\<close>, \<open>Indexer_Query\<close> model \<open>indexer\<close>; \<open>Indexer_Props\<close> has the interface \<open>follower\<close> with its
    two interpretations (the index stays sound on any change set; it mirrors the chain on
    well-formed ones), \<open>Indexer_Paging\<close> and \<open>Indexer_Claims\<close> the listing by grantee.
  \<^item> \<open>App_Export\<close>: the export at height zero.  \<open>Feeabs\<close>: the types of \<open>x/feeabs\<close>.

  \<^bold>\<open>Loops.\<close>  Most loops run over a list and are structural.  The marker loop of
  \<open>subject_validation.go\<close> has no bound and is the partial function \<open>strip_loop\<close>; that it returns is
  part of \<open>ValidateForcedSubject_exact\<close>.  The nested allowances, the binary search of
  \<open>fee_utils.go\<close> and the trimming functions have termination proofs.  A client that follows next
  keys (\<open>Dkim_Paging\<close>) is given as many rounds as there are stored keys, and is shown to finish.

  \<^bold>\<open>Provisos.\<close>  Some properties hold under conditions the code does not enforce.  The application's
  genesis function of \<open>x/dkim\<close> checks nothing, so the invariant there asks for a genesis state with
  valid parameters and keys that carry their own hashes.  \<open>DkimPubKeys\<close> encodes store keys into a
  buffer of 1024 bytes; the codec gets that size, the listing properties ask that the stored keys
  fit, and \<open>long_key_panics\<close> shows what happens otherwise.  The import of \<open>x/zk\<close> accepts exactly the
  keys that pass the circom check under the current size limit, whatever was stored before.

  \<^bold>\<open>Not modelled.\<close>  Generated protobuf code and gateways (\<open>src/api\<close>, \<open>*.pb.go\<close>), except the structs the
  models use.  Command lines and \<open>cmd/xiond\<close>: flags, files and printing; of the re-index command the
  two callbacks are modelled.  \<open>app/app.go\<close>, upgrades, encoding and each module's registration: they
  only construct and connect SDK objects.  The wrappers around the wasm keeper, whose own checks are
  empty.  Opening the indexer's database and its no-op stand-in.  The memo builder and the packet
  serializers of \<open>x/feeabs\<close>, which only call encoders.  Failures of the node's own storage.  The
  cryptography itself.
\<close>

end
